(* ===== verification/GoPrelude.thy ===== *)
theory GoPrelude
  imports Main "HOL-Library.Char_ord" "HOL-Library.List_Lexorder" "HOL-Library.Sublist"
    "HOL-Library.AList"
begin

text \<open>
  The prelude of the development: the part of Go's package \<open>strings\<close>, of the built-in
  maps and of \<open>sort\<close> that the gateway uses, and the lemmas every component shares.

  A Go string is a byte sequence, here a \<^typ>\<open>string\<close> (a list of 8-bit characters).
  \<open>strings.TrimSpace\<close> removes every Unicode white-space rune, which is modelled on the
  UTF-8 bytes of those runes (\<open>space_runes\<close>). \<open>strings.ToLower\<close> and \<open>ToUpper\<close> are
  modelled on ASCII letters; bytes from 128 up are left as they are, so the case
  mapping of non-ASCII letters is outside the model.

  A Go map with values of type \<open>'v\<close> is an association list with distinct keys: lookup
  is \<^const>\<open>map_of\<close>, assignment is \<open>map_set\<close>, \<open>delete\<close> is \<open>map_del\<close>, and the
  order of the list is the iteration order that the runtime happens to choose. A theorem
  about every list is a theorem about every iteration order.
\<close>

named_theorems go_string "facts about the string operations of the prelude"
named_theorems go_map "facts about lookup and update in Go maps"

section \<open>White space\<close>

definition space_runes :: "string list" where
  "space_runes =
    [[CHR '' ''], [CHR 0x09], [CHR 0x0A], [CHR 0x0B], [CHR 0x0C], [CHR 0x0D],
     [CHR 0xC2, CHR 0x85], [CHR 0xC2, CHR 0xA0],
     [CHR 0xE1, CHR 0x9A, CHR 0x80],
     [CHR 0xE2, CHR 0x80, CHR 0x80], [CHR 0xE2, CHR 0x80, CHR 0x81],
     [CHR 0xE2, CHR 0x80, CHR 0x82], [CHR 0xE2, CHR 0x80, CHR 0x83],
     [CHR 0xE2, CHR 0x80, CHR 0x84], [CHR 0xE2, CHR 0x80, CHR 0x85],
     [CHR 0xE2, CHR 0x80, CHR 0x86], [CHR 0xE2, CHR 0x80, CHR 0x87],
     [CHR 0xE2, CHR 0x80, CHR 0x88], [CHR 0xE2, CHR 0x80, CHR 0x89],
     [CHR 0xE2, CHR 0x80, CHR 0x8A],
     [CHR 0xE2, CHR 0x80, CHR 0xA8], [CHR 0xE2, CHR 0x80, CHR 0xA9],
     [CHR 0xE2, CHR 0x80, CHR 0xAF],
     [CHR 0xE2, CHR 0x81, CHR 0x9F],
     [CHR 0xE3, CHR 0x80, CHR 0x80]]"

fun rune_at :: "string list \<Rightarrow> string \<Rightarrow> nat" where
  "rune_at [] s = 0"
| "rune_at (w # ws) s = (if w \<noteq> [] \<and> prefix w s then length w else rune_at ws s)"

fun strip :: "string list \<Rightarrow> string \<Rightarrow> string" where
  "strip ws [] = []"
| "strip ws (c # s) =
     (case rune_at ws (c # s) of 0 \<Rightarrow> c # s | Suc n \<Rightarrow> strip ws (drop n s))"

definition trim_left :: "string \<Rightarrow> string" where
  "trim_left s = strip space_runes s"

definition trim_right :: "string \<Rightarrow> string" where
  "trim_right s = rev (strip (map rev space_runes) (rev s))"

definition TrimSpace :: "string \<Rightarrow> string" where
  "TrimSpace s = trim_right (trim_left s)"

lemma rune_at_0_iff: "rune_at ws s = 0 \<longleftrightarrow> (\<forall>w \<in> set ws. w \<noteq> [] \<longrightarrow> \<not> prefix w s)"
  by (induction ws) auto

lemma rune_at_Nil [simp]: "rune_at ws [] = 0"
  by (simp add: rune_at_0_iff)

lemma strip_stop: "rune_at ws s = 0 \<Longrightarrow> strip ws s = s"
  by (cases s) simp_all

lemma rune_at_strip: "rune_at ws (strip ws s) = 0"
  by (induction ws s rule: strip.induct) (auto split: nat.split)

lemma strip_idem [simp, go_string]: "strip ws (strip ws s) = strip ws s"
  by (simp add: strip_stop rune_at_strip)

lemma strip_suffix: "suffix (strip ws s) s"
  by (induction ws s rule: strip.induct)
     (auto split: nat.split intro: suffix_ConsI suffix_order.trans [OF _ suffix_drop])

lemma rune_at_prefix: "rune_at ws s = 0 \<Longrightarrow> prefix t s \<Longrightarrow> rune_at ws t = 0"
  by (auto simp: rune_at_0_iff dest: prefix_order.trans)

lemma trim_right_prefix: "prefix (trim_right s) s"
  using strip_suffix[of "map rev space_runes" "rev s"]
  by (simp add: trim_right_def suffix_to_prefix)

lemma TrimSpace_Nil [simp, go_string]: "TrimSpace [] = []"
  by (simp add: TrimSpace_def trim_left_def trim_right_def)

lemma TrimSpace_idem [simp, go_string]: "TrimSpace (TrimSpace s) = TrimSpace s"
proof -
  have "rune_at space_runes (trim_left s) = 0"
    by (simp add: trim_left_def rune_at_strip)
  then have "rune_at space_runes (trim_right (trim_left s)) = 0"
    using trim_right_prefix by (rule rune_at_prefix)
  then have "trim_left (trim_right (trim_left s)) = trim_right (trim_left s)"
    by (simp add: trim_left_def strip_stop)
  then show ?thesis
    by (simp add: TrimSpace_def trim_right_def)
qed

section \<open>Case mapping\<close>

definition upper_char :: "char \<Rightarrow> char" where
  "upper_char c = (let n = of_char c :: nat in
     if 97 \<le> n \<and> n \<le> 122 then char_of (n - 32) else c)"

definition lower_char :: "char \<Rightarrow> char" where
  "lower_char c = (let n = of_char c :: nat in
     if 65 \<le> n \<and> n \<le> 90 then char_of (n + 32) else c)"

definition ToUpper :: "string \<Rightarrow> string" where
  "ToUpper s = map upper_char s"

definition ToLower :: "string \<Rightarrow> string" where
  "ToLower s = map lower_char s"

definition EqualFold :: "string \<Rightarrow> string \<Rightarrow> bool" where
  "EqualFold s t \<longleftrightarrow> ToLower s = ToLower t"

lemma of_upper_char:
  "(of_char (upper_char c) :: nat) =
     (let n = of_char c in if 97 \<le> n \<and> n \<le> 122 then n - 32 else n)"
  by (auto simp: upper_char_def Let_def)

lemma of_lower_char:
  "(of_char (lower_char c) :: nat) =
     (let n = of_char c in if 65 \<le> n \<and> n \<le> 90 then n + 32 else n)"
  by (auto simp: lower_char_def Let_def)

lemma upper_char_idem [simp]: "upper_char (upper_char c) = upper_char c"
  using of_upper_char[of c] by (auto simp: upper_char_def Let_def split: if_splits)

lemma lower_char_idem [simp]: "lower_char (lower_char c) = lower_char c"
  using of_lower_char[of c] by (auto simp: lower_char_def Let_def split: if_splits)

lemma ToUpper_idem [simp, go_string]: "ToUpper (ToUpper s) = ToUpper s"
  by (simp add: ToUpper_def)

lemma ToLower_idem [simp, go_string]: "ToLower (ToLower s) = ToLower s"
  by (simp add: ToLower_def)

lemma case_map_Nil [simp, go_string]: "ToUpper [] = []" "ToLower [] = []"
  by (simp_all add: ToUpper_def ToLower_def)

lemma ToUpper_Nil_iff [simp, go_string]: "ToUpper s = [] \<longleftrightarrow> s = []"
  by (simp add: ToUpper_def)

lemma ToLower_Nil_iff [simp, go_string]: "ToLower s = [] \<longleftrightarrow> s = []"
  by (simp add: ToLower_def)

text \<open>
  No byte of a white-space rune is an ASCII letter, so the case mappings neither create
  nor destroy white space and commute with \<open>TrimSpace\<close>.
\<close>

definition caseless :: "char \<Rightarrow> bool" where
  "caseless c \<longleftrightarrow> (let n = of_char c :: nat in n < 65 \<or> 90 < n) \<and>
     (let n = of_char c :: nat in n < 97 \<or> 122 < n)"

lemma upper_char_eq_iff: "caseless d \<Longrightarrow> upper_char c = d \<longleftrightarrow> c = d"
proof
  assume d: "caseless d" and eq: "upper_char c = d"
  from of_upper_char[of c] d show "c = d"
    unfolding eq caseless_def by (auto simp: Let_def eq [symmetric] upper_char_def split: if_splits)
qed (auto simp: upper_char_def caseless_def Let_def)

lemma lower_char_eq_iff: "caseless d \<Longrightarrow> lower_char c = d \<longleftrightarrow> c = d"
proof
  assume d: "caseless d" and eq: "lower_char c = d"
  from of_lower_char[of c] d show "c = d"
    unfolding eq caseless_def by (auto simp: Let_def eq [symmetric] lower_char_def split: if_splits)
qed (auto simp: lower_char_def caseless_def Let_def)

lemma prefix_map_fixed:
  assumes "\<And>c d. d \<in> set w \<Longrightarrow> f c = d \<longleftrightarrow> c = d"
  shows "prefix w (map f s) \<longleftrightarrow> prefix w s"
  using assms
proof (induction w arbitrary: s)
  case (Cons d w)
  then show ?case by (cases s) (auto, metis+)
qed simp

lemma rune_at_map:
  assumes "\<And>c d. d \<in> \<Union> (set ` set ws) \<Longrightarrow> f c = d \<longleftrightarrow> c = d"
  shows "rune_at ws (map f s) = rune_at ws s"
  using assms
proof (induction ws)
  case (Cons w ws)
  have "prefix w (map f s) \<longleftrightarrow> prefix w s"
    by (rule prefix_map_fixed) (auto simp: Cons.prems)
  with Cons show ?case by auto
qed simp

lemma strip_map:
  assumes "\<And>c d. d \<in> \<Union> (set ` set ws) \<Longrightarrow> f c = d \<longleftrightarrow> c = d"
  shows "strip ws (map f s) = map f (strip ws s)"
  using assms
proof (induction ws s rule: strip.induct)
  case (2 ws c s)
  have "rune_at ws (map f (c # s)) = rune_at ws (c # s)"
    by (rule rune_at_map) (rule "2.prems")
  with "2.IH" [OF _ "2.prems"] show ?case
    by (auto simp del: rune_at.simps split: nat.split simp flip: drop_map)
qed simp

lemma caseless_space_runes: "\<forall>c \<in> \<Union> (set ` set space_runes). caseless c"
  by (simp add: space_runes_def caseless_def)

lemma TrimSpace_map:
  assumes "\<And>c d. caseless d \<Longrightarrow> f c = d \<longleftrightarrow> c = d"
  shows "TrimSpace (map f s) = map f (TrimSpace s)"
proof -
  have l: "strip space_runes (map f t) = map f (strip space_runes t)" for t
    by (rule strip_map) (use assms caseless_space_runes in blast)
  have "d \<in> \<Union> (set ` set (map rev space_runes)) \<Longrightarrow> caseless d" for d
    using caseless_space_runes by auto
  then have r: "strip (map rev space_runes) (map f t) = map f (strip (map rev space_runes) t)" for t
    by (intro strip_map assms)
  show ?thesis
    by (simp add: TrimSpace_def trim_left_def trim_right_def l r rev_map)
qed

lemma TrimSpace_ToUpper [simp, go_string]: "TrimSpace (ToUpper s) = ToUpper (TrimSpace s)"
  unfolding ToUpper_def by (rule TrimSpace_map) (rule upper_char_eq_iff)

lemma TrimSpace_ToLower [simp, go_string]: "TrimSpace (ToLower s) = ToLower (TrimSpace s)"
  unfolding ToLower_def by (rule TrimSpace_map) (rule lower_char_eq_iff)

section \<open>Prefixes, suffixes, cutting and joining\<close>

definition HasPrefix :: "string \<Rightarrow> string \<Rightarrow> bool" where
  "HasPrefix s p \<longleftrightarrow> prefix p s"

definition HasSuffix :: "string \<Rightarrow> string \<Rightarrow> bool" where
  "HasSuffix s p \<longleftrightarrow> suffix p s"

definition TrimPrefix :: "string \<Rightarrow> string \<Rightarrow> string" where
  "TrimPrefix s p = (if prefix p s then drop (length p) s else s)"

definition TrimSuffix :: "string \<Rightarrow> string \<Rightarrow> string" where
  "TrimSuffix s p = (if suffix p s then take (length s - length p) s else s)"

definition TrimRight :: "string \<Rightarrow> string \<Rightarrow> string" where
  "TrimRight s cutset = rev (dropWhile (\<lambda>c. c \<in> set cutset) (rev s))"

definition Trim :: "string \<Rightarrow> string \<Rightarrow> string" where
  "Trim s cutset = TrimRight (dropWhile (\<lambda>c. c \<in> set cutset) s) cutset"

text \<open>\<open>strings.Index\<close>: the offset of the first occurrence, None for Go's -1.\<close>

fun Index :: "string \<Rightarrow> string \<Rightarrow> nat option" where
  "Index [] sub = (if sub = [] then Some 0 else None)"
| "Index (c # s) sub = (if prefix sub (c # s) then Some 0 else map_option Suc (Index s sub))"

definition Contains :: "string \<Rightarrow> string \<Rightarrow> bool" where
  "Contains s sub \<longleftrightarrow> Index s sub \<noteq> None"

definition LastIndexChar :: "string \<Rightarrow> char \<Rightarrow> nat option" where
  "LastIndexChar s c =
     (if c \<in> set s then Some (length s - 1 - length (takeWhile (\<lambda>d. d \<noteq> c) (rev s))) else None)"

text \<open>\<open>strings.Cut\<close> at a one-byte separator: before, after, found.\<close>

definition Cut :: "string \<Rightarrow> char \<Rightarrow> string \<times> string \<times> bool" where
  "Cut s c = (takeWhile (\<lambda>d. d \<noteq> c) s, drop 1 (dropWhile (\<lambda>d. d \<noteq> c) s), c \<in> set s)"

text \<open>\<open>strings.Split\<close> at a one-byte separator; never empty.\<close>

fun Split :: "string \<Rightarrow> char \<Rightarrow> string list" where
  "Split [] c = [[]]"
| "Split (d # s) c = (if d = c then [] # Split s c
     else (case Split s c of [] \<Rightarrow> [[d]] | p # ps \<Rightarrow> (d # p) # ps))"

text \<open>\<open>strings.FieldsFunc\<close>: the maximal runs of bytes that are not separators.\<close>

fun fields_acc :: "(char \<Rightarrow> bool) \<Rightarrow> string \<Rightarrow> string \<Rightarrow> string list" where
  "fields_acc p acc [] = (if acc = [] then [] else [rev acc])"
| "fields_acc p acc (c # s) =
     (if p c then (if acc = [] then fields_acc p [] s else rev acc # fields_acc p [] s)
      else fields_acc p (c # acc) s)"

definition FieldsFunc :: "string \<Rightarrow> (char \<Rightarrow> bool) \<Rightarrow> string list" where
  "FieldsFunc s p = fields_acc p [] s"

text \<open>\<open>strings.Fields\<close>: the maximal runs without white space.\<close>

fun words_acc :: "string \<Rightarrow> string \<Rightarrow> string list" where
  "words_acc acc [] = (if acc = [] then [] else [rev acc])"
| "words_acc acc (c # s) =
     (case rune_at space_runes (c # s) of
        0 \<Rightarrow> words_acc (c # acc) s
      | Suc n \<Rightarrow> if acc = [] then words_acc [] (drop n s) else rev acc # words_acc [] (drop n s))"

definition Fields :: "string \<Rightarrow> string list" where
  "Fields s = words_acc [] s"

fun Join :: "string list \<Rightarrow> string \<Rightarrow> string" where
  "Join [] sep = []"
| "Join [s] sep = s"
| "Join (s # t # ts) sep = s @ sep @ Join (t # ts) sep"

text \<open>\<open>strings.ReplaceAll\<close> for a non-empty pattern, leftmost matches first.\<close>

fun ReplaceAll :: "string \<Rightarrow> string \<Rightarrow> string \<Rightarrow> string" where
  "ReplaceAll [] old new = []"
| "ReplaceAll (c # t) old new =
     (if old \<noteq> [] \<and> prefix old (c # t) then new @ ReplaceAll (drop (length old - 1) t) old new
      else c # ReplaceAll t old new)"

lemma Split_not_Nil [simp]: "Split s c \<noteq> []"
  by (induction s) (auto split: list.splits)

lemma Split_no_sep: "c \<notin> set s \<Longrightarrow> Split s c = [s]"
  by (induction s) auto

lemma Split_append_sep: "c \<notin> set s \<Longrightarrow> Split (s @ c # t) c = s # Split t c"
  by (induction s) auto

lemma Split_Join: "ws \<noteq> [] \<Longrightarrow> \<forall>w \<in> set ws. c \<notin> set w \<Longrightarrow> Split (Join ws [c]) c = ws"
  by (induction ws "[c]" rule: Join.induct) (auto simp: Split_no_sep Split_append_sep)

lemma fields_acc_clean:
  "\<forall>c \<in> set acc. \<not> p c \<Longrightarrow> \<forall>w \<in> set (fields_acc p acc s). w \<noteq> [] \<and> (\<forall>c \<in> set w. \<not> p c)"
proof (induction s arbitrary: acc)
  case (Cons c s)
  show ?case
  proof (cases "p c")
    case True
    with Cons.IH [of "[]"] Cons.prems show ?thesis by simp
  next
    case False
    with Cons.IH [of "c # acc"] Cons.prems show ?thesis by simp
  qed
qed simp

lemma FieldsFunc_clean: "w \<in> set (FieldsFunc s p) \<Longrightarrow> w \<noteq> [] \<and> (\<forall>c \<in> set w. \<not> p c)"
  unfolding FieldsFunc_def using fields_acc_clean [of "[]" p s] by simp

section \<open>Lists without duplicates\<close>

text \<open>
  The loop that recurs all over the code (\<open>uniqueStrings\<close>, \<open>dedupeStrings\<close>,
  \<open>splitList\<close>, \<open>extractScopes\<close>): trim each item, skip the empty ones and the ones
  seen before, keep the order of first occurrence.
\<close>

fun trim_unique :: "string set \<Rightarrow> string list \<Rightarrow> string list" where
  "trim_unique seen [] = []"
| "trim_unique seen (v # vs) =
     (let item = TrimSpace v in
      if item = [] then trim_unique seen vs
      else if item \<in> seen then trim_unique seen vs
      else item # trim_unique (insert item seen) vs)"

lemma set_trim_unique: "set (trim_unique seen vs) = (TrimSpace ` set vs) - insert [] seen"
  by (induction seen vs rule: trim_unique.induct) (auto simp: Let_def)

lemma distinct_trim_unique: "distinct (trim_unique seen vs)"
  by (induction seen vs rule: trim_unique.induct) (auto simp: Let_def set_trim_unique)

lemma trim_unique_trimmed: "v \<in> set (trim_unique seen vs) \<Longrightarrow> TrimSpace v = v \<and> v \<noteq> []"
  by (auto simp: set_trim_unique)

lemma trim_unique_fixed:
  assumes "distinct vs" and "\<forall>v \<in> set vs. TrimSpace v = v \<and> v \<noteq> [] \<and> v \<notin> seen"
  shows "trim_unique seen vs = vs"
  using assms
proof (induction vs arbitrary: seen)
  case (Cons v vs)
  have "trim_unique (insert v seen) vs = vs"
    by (rule Cons.IH) (use Cons.prems in auto)
  with Cons.prems show ?case by (simp add: Let_def)
qed simp

lemma trim_unique_idem: "trim_unique {} (trim_unique seen vs) = trim_unique seen vs"
  by (rule trim_unique_fixed) (auto simp: distinct_trim_unique dest: trim_unique_trimmed)

lemma trim_unique_Nil_iff: "trim_unique {} vs = [] \<longleftrightarrow> (\<forall>v \<in> set vs. TrimSpace v = [])"
  using set_trim_unique[of "{}" vs] by (auto simp del: set_empty simp: set_empty [symmetric])

section \<open>Formatting numbers and quoting\<close>

definition digit_char :: "nat \<Rightarrow> char" where
  "digit_char d = char_of (48 + d)"

fun dec_digits :: "nat \<Rightarrow> string" where
  "dec_digits n = (if n < 10 then [digit_char n] else dec_digits (n div 10) @ [digit_char (n mod 10)])"

declare dec_digits.simps [simp del]

definition Itoa :: "int \<Rightarrow> string" where
  "Itoa i = (if i < 0 then CHR ''-'' # dec_digits (nat (- i)) else dec_digits (nat i))"

definition hex_char :: "nat \<Rightarrow> char" where
  "hex_char d = (if d < 10 then char_of (48 + d) else char_of (87 + d))"

text \<open>\<open>fmt\<close>'s verb q (\<open>strconv.Quote\<close>); bytes from 128 up are taken as printable.\<close>

definition quote_char :: "char \<Rightarrow> string" where
  "quote_char c = (let n = of_char c :: nat in
     if n = 34 \<or> n = 92 then [CHR 0x5C, c]
     else if n = 7 then [CHR 0x5C, CHR ''a''] else if n = 8 then [CHR 0x5C, CHR ''b'']
     else if n = 12 then [CHR 0x5C, CHR ''f''] else if n = 10 then [CHR 0x5C, CHR ''n'']
     else if n = 13 then [CHR 0x5C, CHR ''r''] else if n = 9 then [CHR 0x5C, CHR ''t'']
     else if n = 11 then [CHR 0x5C, CHR ''v'']
     else if n < 32 \<or> n = 127 then [CHR 0x5C, CHR ''x'', hex_char (n div 16), hex_char (n mod 16)]
     else [c])"

definition quote :: "string \<Rightarrow> string" where
  "quote s = [CHR 0x22] @ concat (map quote_char s) @ [CHR 0x22]"

section \<open>Guards\<close>

lemma if_Some_None_iff [simp]: "(if c then Some x else y) = None \<longleftrightarrow> \<not> c \<and> y = None"
  by simp

section \<open>Go maps\<close>

abbreviation map_set :: "'k \<Rightarrow> 'v \<Rightarrow> ('k \<times> 'v) list \<Rightarrow> ('k \<times> 'v) list" where
  "map_set \<equiv> AList.update"

abbreviation map_del :: "'k \<Rightarrow> ('k \<times> 'v) list \<Rightarrow> ('k \<times> 'v) list" where
  "map_del \<equiv> AList.delete"

abbreviation map_keys :: "('k \<times> 'v) list \<Rightarrow> 'k list" where
  "map_keys m \<equiv> map fst m"

abbreviation map_ok :: "('k \<times> 'v) list \<Rightarrow> bool" where
  "map_ok m \<equiv> distinct (map fst m)"

lemma map_of_set [simp, go_map]: "map_of (map_set k v m) = (map_of m)(k \<mapsto> v)"
  by (rule update_conv')

lemma map_of_del [simp, go_map]: "map_of (map_del k m) = (map_of m)(k := None)"
  by (rule delete_conv')

lemma map_ok_set [simp, go_map]: "map_ok m \<Longrightarrow> map_ok (map_set k v m)"
  by (rule distinct_update)

lemma map_ok_del [simp, go_map]: "map_ok m \<Longrightarrow> map_ok (map_del k m)"
  by (rule distinct_delete)

lemma map_ok_filter [simp, go_map]: "map_ok m \<Longrightarrow> map_ok (filter P m)"
  by (rule distinct_map_filter)

lemma map_of_filter_key:
  "map_ok m \<Longrightarrow> map_of (filter P m) k = (case map_of m k of None \<Rightarrow> None
     | Some v \<Rightarrow> if P (k, v) then Some v else None)"
  by (induction m) (auto simp: map_of_eq_None_iff split: option.splits)

text \<open>An error or a result: Go's pair of a value and an \<open>error\<close>.\<close>

type_synonym ('e, 'a) result = "'e + 'a"

abbreviation Err :: "'e \<Rightarrow> ('e, 'a) result" where
  "Err \<equiv> Inl"

abbreviation Ok :: "'a \<Rightarrow> ('e, 'a) result" where
  "Ok \<equiv> Inr"

end
