(* ===== verification/GoTime.thy ===== *)
theory GoTime
  imports GoPrelude
begin

text \<open>
  Instants and durations of Go's package \<open>time\<close>. A \<open>time.Time\<close> is the number of
  nanoseconds since the zero time; \<open>IsZero\<close> is the zero time itself. \<open>Before\<close> and
  \<open>After\<close> are the strict order, so the type is an instance of \<open>linorder\<close>. A
  \<open>time.Duration\<close> is an \<open>int64\<close> count of nanoseconds; \<open>wrap64\<close> writes out the
  wrap-around of its arithmetic where the code can reach it.
\<close>

datatype time = Time (nanos: int)

type_synonym duration = int

instantiation time :: linorder
begin

definition less_eq_time :: "time \<Rightarrow> time \<Rightarrow> bool" where
  "less_eq_time t u \<longleftrightarrow> nanos t \<le> nanos u"

definition less_time :: "time \<Rightarrow> time \<Rightarrow> bool" where
  "less_time t u \<longleftrightarrow> nanos t < nanos u"

instance
  by standard (auto simp: less_eq_time_def less_time_def intro: time.expand)

end

definition IsZero :: "time \<Rightarrow> bool" where
  "IsZero t \<longleftrightarrow> nanos t = 0"

definition Before :: "time \<Rightarrow> time \<Rightarrow> bool" where
  "Before t u \<longleftrightarrow> t < u"

definition After :: "time \<Rightarrow> time \<Rightarrow> bool" where
  "After t u \<longleftrightarrow> u < t"

definition AddTime :: "time \<Rightarrow> duration \<Rightarrow> time" where
  "AddTime t d = Time (nanos t + d)"

definition SubTime :: "time \<Rightarrow> time \<Rightarrow> duration" where
  "SubTime t u = nanos t - nanos u"

definition Second :: duration where "Second = 1000000000"
definition Minute :: duration where "Minute = 60 * Second"

definition wrap64 :: "int \<Rightarrow> int" where
  "wrap64 n = (n + 2 ^ 63) mod 2 ^ 64 - 2 ^ 63"

text \<open>\<open>time.Unix(s, 0)\<close>: seconds since 1970, moved to the zero time in 64-bit arithmetic.\<close>

definition UnixTime :: "int \<Rightarrow> time" where
  "UnixTime s = Time (wrap64 (62135596800 + s) * Second)"

lemma nanos_AddTime [simp]: "nanos (AddTime t d) = nanos t + d"
  by (simp add: AddTime_def)

lemma AddTime_less [simp]: "t < AddTime t d \<longleftrightarrow> 0 < d"
  by (simp add: less_time_def)

lemma not_Before [simp]: "\<not> Before t u \<longleftrightarrow> u \<le> t"
  by (auto simp: Before_def)

lemma not_After [simp]: "\<not> After t u \<longleftrightarrow> t \<le> u"
  by (auto simp: After_def)

lemma wrap64_range: "- (2 ^ 63) \<le> wrap64 n \<and> wrap64 n < 2 ^ 63"
  unfolding wrap64_def
  using pos_mod_bound [of "2 ^ 64" "n + 2 ^ 63"] pos_mod_sign [of "2 ^ 64" "n + 2 ^ 63"] by simp

lemma wrap64_id: "- (2 ^ 63) \<le> n \<Longrightarrow> n < 2 ^ 63 \<Longrightarrow> wrap64 n = n"
  by (simp add: wrap64_def)

end
