(* ===== verification/GoAny.thy ===== *)
theory GoAny
  imports GoPrelude
begin

text \<open>
  The dynamically typed values (\<open>any\<close>) that flow through the gateway: decoded JSON, the
  resolved schemas and tool results.

  A \<open>float64\<close> is named by its shortest decimal representation: \<open>F64 m e\<close> is the float
  whose shortest decimal form is \<open>m * 10^e\<close>, in canonical form (\<open>m\<close> is not divisible by
  ten, and zero is \<open>F64 0 0\<close>). That is the form \<open>strconv\<close> prints, so printing and
  integrality tests are exact. Negative zero, infinities and NaN have no name; the JSON
  decoder produces none of the last two. \<open>AInt\<close> stands for Go's signed integers,
  \<open>AUint\<close> for \<open>uint64\<close>, \<open>ANumber\<close> for \<open>json.Number\<close>.
\<close>

datatype f64 = F64 (mant: int) (dexp: int)

datatype any =
    ANil
  | ABool bool
  | AFloat f64
  | AInt int
  | AUint nat
  | ANumber string
  | AStr string
  | AStrs "string list"
  | ABytes string
  | AList "any list"
  | AMap "(string \<times> any) list"
  | AStrMap "(string \<times> string) list"

section \<open>Floats by their shortest decimal form\<close>

fun strip_zeros :: "nat \<Rightarrow> int \<Rightarrow> int \<Rightarrow> f64" where
  "strip_zeros 0 m e = F64 m e"
| "strip_zeros (Suc n) m e = (if m mod 10 = 0 then strip_zeros n (m div 10) (e + 1) else F64 m e)"

text \<open>
  The canonical name of \<open>m * 10^e\<close>. Each round divides the mantissa by ten, so one round
  per decimal digit is enough.
\<close>

definition canon :: "int \<Rightarrow> int \<Rightarrow> f64" where
  "canon m e = (if m = 0 then F64 0 0 else strip_zeros (length (dec_digits (nat \<bar>m\<bar>))) m e)"

definition f64_ok :: "f64 \<Rightarrow> bool" where
  "f64_ok f \<longleftrightarrow> (if mant f = 0 then dexp f = 0 else mant f mod 10 \<noteq> 0)"

definition f64_of_int :: "int \<Rightarrow> f64" where
  "f64_of_int n = canon n 0"

text \<open>Truncation towards zero, floor, ceiling and \<open>math.Round\<close> (half away from zero).\<close>

definition f64_trunc :: "f64 \<Rightarrow> int" where
  "f64_trunc f = (if 0 \<le> dexp f then mant f * 10 ^ nat (dexp f)
     else sgn (mant f) * (\<bar>mant f\<bar> div 10 ^ nat (- dexp f)))"

definition f64_floor :: "f64 \<Rightarrow> int" where
  "f64_floor f = (if 0 \<le> dexp f then mant f * 10 ^ nat (dexp f)
     else mant f div 10 ^ nat (- dexp f))"

definition f64_ceil :: "f64 \<Rightarrow> int" where
  "f64_ceil f = (if 0 \<le> dexp f then mant f * 10 ^ nat (dexp f)
     else - ((- mant f) div 10 ^ nat (- dexp f)))"

definition f64_round :: "f64 \<Rightarrow> int" where
  "f64_round f = (if 0 \<le> dexp f then mant f * 10 ^ nat (dexp f)
     else sgn (mant f) * ((2 * \<bar>mant f\<bar> + 10 ^ nat (- dexp f)) div (2 * 10 ^ nat (- dexp f))))"

text \<open>
  The conversion \<open>int64(v)\<close>: truncation when the result fits, and the most negative
  \<open>int64\<close> otherwise (what amd64 computes; the language leaves it open).
\<close>

definition to_int64 :: "int \<Rightarrow> int" where
  "to_int64 n = (if - (2 ^ 63) \<le> n \<and> n < 2 ^ 63 then n else - (2 ^ 63))"

definition f64_integral :: "f64 \<Rightarrow> bool" where
  "f64_integral f \<longleftrightarrow> f = f64_of_int (to_int64 (f64_trunc f))"

section \<open>Printing numbers\<close>

definition zeros :: "nat \<Rightarrow> string" where
  "zeros n = replicate n (CHR ''0'')"

definition sign_prefix :: "int \<Rightarrow> string" where
  "sign_prefix m = (if m < 0 then ''-'' else [])"

text \<open>\<open>strconv.FormatFloat\<close> with format f and shortest precision.\<close>

definition format_f :: "f64 \<Rightarrow> string" where
  "format_f f =
     (let ds = dec_digits (nat \<bar>mant f\<bar>); n = length ds; k = nat (- dexp f) in
      sign_prefix (mant f) @
      (if 0 \<le> dexp f then ds @ zeros (nat (dexp f))
       else if k < n then take (n - k) ds @ ''.'' @ drop (n - k) ds
       else ''0.'' @ zeros (k - n) @ ds))"

definition exp_digits :: "int \<Rightarrow> string" where
  "exp_digits x = (if x < 0 then ''-'' else ''+'') @
     (let ds = dec_digits (nat \<bar>x\<bar>) in if length ds < 2 then CHR ''0'' # ds else ds)"

text \<open>
  \<open>fmt\<close>'s verb v on a float: format g with shortest precision, that is the exponent form
  when the decimal exponent is below -4 or at least 6 (one million prints as 1e+06). The
  JSON encoder has the thresholds -6 and 21 instead and drops the exponent's padding zero
  when it is negative.
\<close>

definition mant_exp :: "f64 \<Rightarrow> string" where
  "mant_exp f = (let ds = dec_digits (nat \<bar>mant f\<bar>) in
     sign_prefix (mant f) @ take 1 ds @ (if length ds = 1 then [] else CHR ''.'' # drop 1 ds) @ ''e'')"

definition sci_exp :: "f64 \<Rightarrow> int" where
  "sci_exp f = int (length (dec_digits (nat \<bar>mant f\<bar>))) - 1 + dexp f"

definition format_v :: "f64 \<Rightarrow> string" where
  "format_v f = (if mant f \<noteq> 0 \<and> (sci_exp f < -4 \<or> 6 \<le> sci_exp f)
     then mant_exp f @ exp_digits (sci_exp f) else format_f f)"

definition format_json :: "f64 \<Rightarrow> string" where
  "format_json f = (if mant f \<noteq> 0 \<and> (sci_exp f < -6 \<or> 21 \<le> sci_exp f)
     then mant_exp f @ (if sci_exp f < 0 then CHR ''-'' # dec_digits (nat \<bar>sci_exp f\<bar>)
                        else exp_digits (sci_exp f))
     else format_f f)"

section \<open>Parsing integers\<close>

text \<open>\<open>strconv.ParseInt\<close> in base 10 for 64 bits; None for a syntax or a range error.\<close>

definition dec_value :: "string \<Rightarrow> int" where
  "dec_value s = foldl (\<lambda>v c. v * 10 + (int (of_char c) - 48)) 0 s"

definition dec_digit :: "char \<Rightarrow> bool" where
  "dec_digit c \<longleftrightarrow> (let n = of_char c :: nat in 48 \<le> n \<and> n \<le> 57)"

definition ParseInt :: "string \<Rightarrow> int option" where
  "ParseInt s =
     (let neg = prefix ''-'' s; ds = (if prefix ''-'' s \<or> prefix ''+'' s then drop 1 s else s) in
      if ds = [] \<or> \<not> list_all dec_digit ds then None
      else (let n = (if neg then - dec_value ds else dec_value ds) in
        if - (2 ^ 63) \<le> n \<and> n < 2 ^ 63 then Some n else None))"

section \<open>The verb v on any value\<close>

definition format_bool :: "bool \<Rightarrow> string" where
  "format_bool b = (if b then ''true'' else ''false'')"

text \<open>Maps print with their keys sorted, lists with single spaces, the nil interface as below.\<close>

definition fmt_entries :: "(string \<times> string) list \<Rightarrow> string" where
  "fmt_entries kvs = ''map['' @ Join (map (\<lambda>(k, v). k @ '':'' @ v) (sort_key fst kvs)) '' '' @ '']''"

definition fmt_items :: "string list \<Rightarrow> string" where
  "fmt_items vs = ''['' @ Join vs '' '' @ '']''"

fun fmt_v :: "any \<Rightarrow> string" where
  "fmt_v ANil = ''<nil>''"
| "fmt_v (ABool b) = format_bool b"
| "fmt_v (AFloat f) = format_v f"
| "fmt_v (AInt i) = Itoa i"
| "fmt_v (AUint n) = Itoa (int n)"
| "fmt_v (ANumber s) = s"
| "fmt_v (AStr s) = s"
| "fmt_v (AStrs ss) = fmt_items ss"
| "fmt_v (ABytes s) = fmt_items (map (\<lambda>c. Itoa (of_char c)) s)"
| "fmt_v (AList vs) = fmt_items (map fmt_v vs)"
| "fmt_v (AMap kvs) = fmt_entries (map (\<lambda>(k, v). (k, fmt_v v)) kvs)"
| "fmt_v (AStrMap kvs) = fmt_entries kvs"

section \<open>Copies\<close>

text \<open>
  \<open>cloneAny\<close> copies maps and lists level by level. Go shares them by reference; values of
  the model have no identity, so the copy is equal to the original, and what a caller does
  to its copy cannot reach the stored one.
\<close>

fun cloneAny :: "any \<Rightarrow> any" where
  "cloneAny (AMap kvs) = AMap (map (\<lambda>(k, v). (k, cloneAny v)) kvs)"
| "cloneAny (AList vs) = AList (map cloneAny vs)"
| "cloneAny v = v"

lemma cloneAny_id [simp]: "cloneAny v = v"
proof (induction v)
  case (AMap kvs)
  then have "map (\<lambda>(k, v). (k, cloneAny v)) kvs = map id kvs"
    by (intro map_cong) auto
  then show ?case by simp
next
  case (AList vs)
  then show ?case by (simp add: map_idI)
qed simp_all

end
