(* ===== verification/Policy.thy ===== *)
theory Policy
  imports GoPrelude
begin

text \<open>
  The execution policy, \<open>internal/policy/policy.go\<close> and \<open>contract.go\<close>. An evaluator is
  built from a configuration whose lists are normalised into sets (Go's nil set and the
  empty set behave alike: only membership and size are read). \<open>Evaluate\<close> applies its six
  rules in the order of the source.
\<close>

record Decision =
  Allow :: bool
  Reason :: string
  RequireConfirmation :: bool
  Code :: string

definition ModePlanOnly :: string where "ModePlanOnly = ''plan_only''"
definition ModeExecuteReadonly :: string where "ModeExecuteReadonly = ''execute_readonly''"
definition ModeExecuteWrite :: string where "ModeExecuteWrite = ''execute_write''"
definition ModeSandbox :: string where "ModeSandbox = ''sandbox''"

lemmas mode_defs = ModePlanOnly_def ModeExecuteReadonly_def ModeExecuteWrite_def ModeSandbox_def

record PolicyConfig =
  cfgMode :: string
  cfgAllowedMethods :: "string list"
  cfgDeniedMethods :: "string list"
  cfgAllowedOperationIDs :: "string list"
  cfgDeniedOperationIDs :: "string list"
  cfgRequireConfirmationForWrite :: bool

record DefaultEvaluator =
  mode :: string
  allowedMethods :: "string set"
  deniedMethods :: "string set"
  allowedOperationIDs :: "string set"
  deniedOperationIDs :: "string set"
  requireConfirmationForWrite :: bool

fun toUpperSet :: "string list \<Rightarrow> string set" where
  "toUpperSet [] = {}"
| "toUpperSet (value # values) =
     (let item = ToUpper (TrimSpace value) in
      if item \<noteq> [] then insert item (toUpperSet values) else toUpperSet values)"

fun toExactSet :: "string list \<Rightarrow> string set" where
  "toExactSet [] = {}"
| "toExactSet (value # values) =
     (let item = TrimSpace value in
      if item \<noteq> [] then insert item (toExactSet values) else toExactSet values)"

definition NewEvaluator :: "PolicyConfig \<Rightarrow> DefaultEvaluator" where
  "NewEvaluator cfg =
     (let m = ToLower (TrimSpace (cfgMode cfg));
          m = (if m = [] then ModePlanOnly else m)
      in \<lparr>mode = m,
          allowedMethods = toUpperSet (cfgAllowedMethods cfg),
          deniedMethods = toUpperSet (cfgDeniedMethods cfg),
          allowedOperationIDs = toExactSet (cfgAllowedOperationIDs cfg),
          deniedOperationIDs = toExactSet (cfgDeniedOperationIDs cfg),
          requireConfirmationForWrite = cfgRequireConfirmationForWrite cfg\<rparr>)"

definition isReadonlyMethod :: "string \<Rightarrow> bool" where
  "isReadonlyMethod method \<longleftrightarrow>
     ToUpper (TrimSpace method) \<in> {''GET'', ''HEAD'', ''OPTIONS''}"

definition isWriteMethod :: "string \<Rightarrow> bool" where
  "isWriteMethod method \<longleftrightarrow>
     ToUpper (TrimSpace method) \<in> {''POST'', ''PUT'', ''PATCH'', ''DELETE''}"

definition allow :: Decision where
  "allow = \<lparr>Allow = True, Reason = [], RequireConfirmation = False, Code = []\<rparr>"

definition deny :: "string \<Rightarrow> string \<Rightarrow> Decision" where
  "deny code reason =
     \<lparr>Allow = False, Reason = reason, RequireConfirmation = False, Code = code\<rparr>"

definition modeDecision :: "DefaultEvaluator \<Rightarrow> string \<Rightarrow> Decision option" where
  "modeDecision e method =
     (if mode e = ModePlanOnly then Some (deny ''plan_only'' ''execution is disabled in PLAN_ONLY mode'')
      else if mode e = ModeExecuteReadonly then
        (if \<not> isReadonlyMethod method
         then Some (deny ''policy_denied''
                (''HTTP method '' @ quote method @ '' is not allowed in EXECUTE_READONLY mode''))
         else Some allow)
      else if mode e = ModeExecuteWrite \<or> mode e = ModeSandbox then None
      else Some (deny ''plan_only'' (''unsupported MCP_API_MODE '' @ quote (mode e))))"

definition listsDecision :: "DefaultEvaluator \<Rightarrow> string \<Rightarrow> string \<Rightarrow> Decision option" where
  "listsDecision e opID method =
     (if opID \<noteq> [] \<and> opID \<in> deniedOperationIDs e then
        Some (deny ''policy_denied'' (''operationId '' @ quote opID @ '' is explicitly denied''))
      else if method \<noteq> [] \<and> method \<in> deniedMethods e then
        Some (deny ''policy_denied'' (''HTTP method '' @ quote method @ '' is explicitly denied''))
      else if allowedOperationIDs e \<noteq> {} \<and> opID = [] then
        Some (deny ''policy_denied'' ''operationId is required when ALLOWED_OPERATION_IDS is configured'')
      else if allowedOperationIDs e \<noteq> {} \<and> opID \<notin> allowedOperationIDs e then
        Some (deny ''policy_denied'' (''operationId '' @ quote opID @ '' is not in allowlist''))
      else if allowedMethods e \<noteq> {} \<and> method = [] then
        Some (deny ''policy_denied'' ''HTTP method is required when ALLOWED_METHODS is configured'')
      else if allowedMethods e \<noteq> {} \<and> method \<notin> allowedMethods e then
        Some (deny ''policy_denied'' (''HTTP method '' @ quote method @ '' is not in allowlist''))
      else None)"

definition confirmDecision :: "string \<Rightarrow> Decision" where
  "confirmDecision method =
     \<lparr>Allow = False, Reason = ''method '' @ quote method @ '' requires explicit user confirmation'',
      RequireConfirmation = True, Code = ''confirmation_required''\<rparr>"

definition Evaluate :: "DefaultEvaluator \<Rightarrow> string \<Rightarrow> string \<Rightarrow> string \<Rightarrow> (string, Decision) result" where
  "Evaluate e rawOpID rawMethod targetURL =
     (let opID = TrimSpace rawOpID; method = ToUpper (TrimSpace rawMethod) in
      case listsDecision e opID method of
        Some d \<Rightarrow> Ok d
      | None \<Rightarrow>
         (case modeDecision e method of
            Some d \<Rightarrow> Ok d
          | None \<Rightarrow>
              if requireConfirmationForWrite e \<and> isWriteMethod method
              then Ok (confirmDecision method) else Ok allow))"

section \<open>The sets hold normalised, non-empty items\<close>

lemma toUpperSet_eq: "toUpperSet vs = (\<lambda>v. ToUpper (TrimSpace v)) ` set vs - {[]}"
  by (induction vs) (auto simp: Let_def)

lemma toExactSet_eq: "toExactSet vs = TrimSpace ` set vs - {[]}"
  by (induction vs) (auto simp: Let_def)

definition evaluator_ok :: "DefaultEvaluator \<Rightarrow> bool" where
  "evaluator_ok e \<longleftrightarrow> [] \<notin> allowedMethods e \<and> [] \<notin> deniedMethods e
     \<and> [] \<notin> allowedOperationIDs e \<and> [] \<notin> deniedOperationIDs e"

lemma evaluator_ok_NewEvaluator [simp]: "evaluator_ok (NewEvaluator cfg)"
  by (simp add: evaluator_ok_def NewEvaluator_def Let_def toUpperSet_eq toExactSet_eq)

section \<open>The interface the execute tool relies on\<close>

text \<open>
  \<open>policy.Evaluator\<close>: the client distinguishes an error, an allowed call, a call that
  needs a confirmation and a denied one. The laws say that the last three exclude each
  other and that every refusal carries a code.
\<close>

locale policy_evaluator =
  fixes evaluate :: "string \<Rightarrow> string \<Rightarrow> string \<Rightarrow> (string, Decision) result"
  assumes confirmation_not_allowed:
      "evaluate op m u = Ok d \<Longrightarrow> RequireConfirmation d \<Longrightarrow> \<not> Allow d"
    and confirmation_code:
      "evaluate op m u = Ok d \<Longrightarrow> \<not> Allow d \<Longrightarrow>
         RequireConfirmation d \<longleftrightarrow> TrimSpace (Code d) = ''confirmation_required''"
    and refusal_has_code:
      "evaluate op m u = Ok d \<Longrightarrow> \<not> Allow d \<Longrightarrow> TrimSpace (Code d) \<noteq> []"
begin

lemma outcome_cases [consumes 1, case_names allowed confirm refused]:
  assumes "evaluate op m u = Ok d"
  obtains "Allow d" "\<not> RequireConfirmation d"
  | "\<not> Allow d" "RequireConfirmation d" "TrimSpace (Code d) = ''confirmation_required''"
  | "\<not> Allow d" "\<not> RequireConfirmation d" "TrimSpace (Code d) \<noteq> ''confirmation_required''"
      "TrimSpace (Code d) \<noteq> []"
  using assms confirmation_not_allowed confirmation_code refusal_has_code by blast

lemma confirmation_branch:
  assumes "evaluate op m u = Ok d" and "\<not> Allow d"
  shows "RequireConfirmation d \<or> TrimSpace (Code d) = ''confirmation_required'' \<longleftrightarrow> RequireConfirmation d"
  using assms confirmation_code by blast

end

text \<open>Every decision \<open>Evaluate\<close> builds is of one of three shapes.\<close>

definition decision_ok :: "Decision \<Rightarrow> bool" where
  "decision_ok d \<longleftrightarrow> d = allow \<or> (\<exists>m. d = confirmDecision m)
     \<or> (\<exists>r. d = deny ''policy_denied'' r) \<or> (\<exists>r. d = deny ''plan_only'' r)"

lemma decision_okI [intro, simp]:
  "decision_ok allow" "decision_ok (confirmDecision m)"
  "decision_ok (deny ''policy_denied'' r)" "decision_ok (deny ''plan_only'' r)"
  unfolding decision_ok_def by blast+

lemma listsDecision_denies: "listsDecision e i m = Some d \<Longrightarrow> \<exists>r. d = deny ''policy_denied'' r"
  unfolding listsDecision_def by (simp split: if_split_asm) blast+

lemma modeDecision_ok: "modeDecision e m = Some d \<Longrightarrow> decision_ok d"
  unfolding modeDecision_def by (auto split: if_split_asm)

lemma Evaluate_total: "\<exists>d. Evaluate e op m u = Ok d \<and> decision_ok d"
  unfolding Evaluate_def Let_def
  by (auto split: option.split dest: modeDecision_ok listsDecision_denies)

lemma Evaluate_decision_ok: "Evaluate e op m u = Ok d \<Longrightarrow> decision_ok d"
  using Evaluate_total [of e op m u] by auto

lemma code_literals [simp]:
  "TrimSpace ''policy_denied'' = ''policy_denied''" "TrimSpace ''plan_only'' = ''plan_only''"
  "TrimSpace ''confirmation_required'' = ''confirmation_required''"
  by code_simp+

lemma decision_ok_codes:
  assumes "decision_ok d" and "\<not> Allow d"
  shows "RequireConfirmation d \<longleftrightarrow> TrimSpace (Code d) = ''confirmation_required''"
    and "TrimSpace (Code d) \<noteq> []"
  using assms by (auto simp: decision_ok_def allow_def deny_def confirmDecision_def)

interpretation pol: policy_evaluator "Evaluate e" for e
proof unfold_locales
  show "RequireConfirmation d \<Longrightarrow> \<not> Allow d" if "Evaluate e op m u = Ok d" for op m u d
    using Evaluate_decision_ok [OF that]
    by (auto simp: decision_ok_def allow_def deny_def confirmDecision_def)
qed (use Evaluate_decision_ok decision_ok_codes in blast)+

section \<open>What the policy permits\<close>

text \<open>
  The declarative reading of a configuration: the lists as sets of trimmed, non-empty
  items, the lists' verdict on an identifier and a verb, and the verbs a mode grants.
\<close>

definition ids :: "string list \<Rightarrow> string set" where
  "ids xs = {i. i \<noteq> [] \<and> (\<exists>x \<in> set xs. i = TrimSpace x)}"

definition verbs :: "string list \<Rightarrow> string set" where
  "verbs xs = {v. v \<noteq> [] \<and> (\<exists>x \<in> set xs. v = ToUpper (TrimSpace x))}"

definition lists_pass :: "PolicyConfig \<Rightarrow> string \<Rightarrow> string \<Rightarrow> bool" where
  "lists_pass cfg op m \<longleftrightarrow>
     TrimSpace op \<notin> ids (cfgDeniedOperationIDs cfg)
   \<and> ToUpper (TrimSpace m) \<notin> verbs (cfgDeniedMethods cfg)
   \<and> (ids (cfgAllowedOperationIDs cfg) = {} \<or> TrimSpace op \<in> ids (cfgAllowedOperationIDs cfg))
   \<and> (verbs (cfgAllowedMethods cfg) = {} \<or> ToUpper (TrimSpace m) \<in> verbs (cfgAllowedMethods cfg))"

definition reading_mode :: "PolicyConfig \<Rightarrow> bool" where
  "reading_mode cfg \<longleftrightarrow> ToLower (TrimSpace (cfgMode cfg)) = ''execute_readonly''"

definition writing_mode :: "PolicyConfig \<Rightarrow> bool" where
  "writing_mode cfg \<longleftrightarrow> ToLower (TrimSpace (cfgMode cfg)) \<in> {''execute_write'', ''sandbox''}"

lemma toUpperSet_verbs: "toUpperSet xs = verbs xs"
  by (auto simp: toUpperSet_eq verbs_def)

lemma toExactSet_ids: "toExactSet xs = ids xs"
  by (auto simp: toExactSet_eq ids_def)

lemma NewEvaluator_sel [simp]:
  "allowedMethods (NewEvaluator cfg) = verbs (cfgAllowedMethods cfg)"
  "deniedMethods (NewEvaluator cfg) = verbs (cfgDeniedMethods cfg)"
  "allowedOperationIDs (NewEvaluator cfg) = ids (cfgAllowedOperationIDs cfg)"
  "deniedOperationIDs (NewEvaluator cfg) = ids (cfgDeniedOperationIDs cfg)"
  "requireConfirmationForWrite (NewEvaluator cfg) = cfgRequireConfirmationForWrite cfg"
  by (simp_all add: NewEvaluator_def Let_def toUpperSet_verbs toExactSet_ids)

lemma not_Nil_in_sets [simp]: "[] \<notin> ids xs" "[] \<notin> verbs xs"
  by (auto simp: ids_def verbs_def)

lemma mode_NewEvaluator:
  "mode (NewEvaluator cfg) = ''execute_readonly'' \<longleftrightarrow> reading_mode cfg"
  "mode (NewEvaluator cfg) = ''execute_write'' \<or> mode (NewEvaluator cfg) = ''sandbox''
     \<longleftrightarrow> writing_mode cfg"
  by (auto simp: NewEvaluator_def Let_def mode_defs reading_mode_def writing_mode_def)

lemma decision_sel [simp]:
  "Allow allow" "\<not> RequireConfirmation allow" "\<not> Allow (deny c r)" "\<not> RequireConfirmation (deny c r)"
  "\<not> Allow (confirmDecision m)" "RequireConfirmation (confirmDecision m)"
  by (simp_all add: allow_def deny_def confirmDecision_def)

lemma listsDecision_None_iff:
  "listsDecision (NewEvaluator cfg) (TrimSpace op) (ToUpper (TrimSpace m)) = None \<longleftrightarrow> lists_pass cfg op m"
  unfolding listsDecision_def lists_pass_def if_Some_None_iff NewEvaluator_sel
  using not_Nil_in_sets by auto

lemma modeDecision_None_iff: "modeDecision (NewEvaluator cfg) m = None \<longleftrightarrow> writing_mode cfg"
proof -
  have "modeDecision e m = None \<longleftrightarrow> mode e = ''execute_write'' \<or> mode e = ''sandbox''" for e
    by (auto simp: modeDecision_def mode_defs)
  then show ?thesis by (simp only: mode_NewEvaluator)
qed

lemma modeDecision_Some:
  assumes "modeDecision (NewEvaluator cfg) m = Some d"
  shows "Allow d \<longleftrightarrow> reading_mode cfg \<and> isReadonlyMethod m" and "\<not> RequireConfirmation d"
proof -
  have "(Allow d \<longleftrightarrow> mode e = ''execute_readonly'' \<and> isReadonlyMethod m) \<and> \<not> RequireConfirmation d"
    if "modeDecision e m = Some d" for e
    using that unfolding modeDecision_def mode_defs by (auto split: if_split_asm)
  from this [OF assms] show "Allow d \<longleftrightarrow> reading_mode cfg \<and> isReadonlyMethod m"
    and "\<not> RequireConfirmation d"
    using mode_NewEvaluator(1) by blast+
qed

lemma isReadonlyMethod_norm [simp]: "isReadonlyMethod (ToUpper (TrimSpace m)) = isReadonlyMethod m"
  by (simp add: isReadonlyMethod_def)

lemma isWriteMethod_norm [simp]: "isWriteMethod (ToUpper (TrimSpace m)) = isWriteMethod m"
  by (simp add: isWriteMethod_def)

lemma let_through:
  assumes "Evaluate (NewEvaluator cfg) op m u = Ok d" and "Allow d \<or> RequireConfirmation d"
  shows "lists_pass cfg op m \<and> (reading_mode cfg \<and> isReadonlyMethod m \<or> writing_mode cfg)"
    and "Allow d \<longleftrightarrow> \<not> (cfgRequireConfirmationForWrite cfg \<and> isWriteMethod m)"
proof -
  let ?m = "ToUpper (TrimSpace m)"
  have lists: "listsDecision (NewEvaluator cfg) (TrimSpace op) ?m = None"
    using assms listsDecision_denies by (fastforce simp: Evaluate_def Let_def split: option.splits)
  with assms(1) consider "modeDecision (NewEvaluator cfg) ?m = Some d"
    | "modeDecision (NewEvaluator cfg) ?m = None"
      "d = (if cfgRequireConfirmationForWrite cfg \<and> isWriteMethod m then confirmDecision ?m else allow)"
    by (auto simp: Evaluate_def Let_def split: option.splits if_splits)
  then have "(reading_mode cfg \<and> isReadonlyMethod m \<or> writing_mode cfg)
    \<and> (Allow d \<longleftrightarrow> \<not> (cfgRequireConfirmationForWrite cfg \<and> isWriteMethod m))"
  proof cases
    case 1
    then show ?thesis using modeDecision_Some [OF 1] assms(2) by (auto simp: isReadonlyMethod_def isWriteMethod_def)
  next
    case 2
    then show ?thesis using modeDecision_None_iff [of cfg ?m] by auto
  qed
  then show "lists_pass cfg op m \<and> (reading_mode cfg \<and> isReadonlyMethod m \<or> writing_mode cfg)"
    "Allow d \<longleftrightarrow> \<not> (cfgRequireConfirmationForWrite cfg \<and> isWriteMethod m)"
    using listsDecision_None_iff [of cfg op m] lists by auto
qed

text \<open>
  Property C8: the chain of early returns in \<open>Evaluate\<close> decides exactly the declarative
  policy. A call is allowed outright iff the deny and allow lists pass it and either the mode
  is read-only and the verb is GET, HEAD or OPTIONS, or the mode is a writing one and no
  confirmation is due; a confirmation is asked for iff the lists pass it, the mode is a
  writing one, confirmations are required and the verb is POST, PUT, PATCH or DELETE. Any
  other mode, the empty one included, refuses every call.
\<close>

theorem policy_outcome:
  "\<exists>d. Evaluate (NewEvaluator cfg) op m u = Ok d
     \<and> (Allow d \<longleftrightarrow> lists_pass cfg op m
          \<and> (reading_mode cfg \<and> isReadonlyMethod m
             \<or> writing_mode cfg \<and> \<not> (cfgRequireConfirmationForWrite cfg \<and> isWriteMethod m)))
     \<and> (RequireConfirmation d \<longleftrightarrow> lists_pass cfg op m \<and> writing_mode cfg
          \<and> cfgRequireConfirmationForWrite cfg \<and> isWriteMethod m)"
proof (cases "lists_pass cfg op m")
  case False
  then obtain d where d: "listsDecision (NewEvaluator cfg) (TrimSpace op) (ToUpper (TrimSpace m)) = Some d"
    using listsDecision_None_iff by blast
  from listsDecision_denies [OF d] False show ?thesis
    by (auto simp: Evaluate_def Let_def d)
next
  case True
  then have "listsDecision (NewEvaluator cfg) (TrimSpace op) (ToUpper (TrimSpace m)) = None"
    using listsDecision_None_iff by blast
  moreover have "\<not> (reading_mode cfg \<and> writing_mode cfg)"
    by (auto simp: reading_mode_def writing_mode_def)
  ultimately show ?thesis
    using True modeDecision_None_iff [of cfg "ToUpper (TrimSpace m)"]
      modeDecision_Some [of cfg "ToUpper (TrimSpace m)"]
    by (auto simp: Evaluate_def Let_def split: option.split)
qed

end
