(* ===== verification/Confirmation.thy ===== *)
theory Confirmation
  imports GoTime GoAny
begin

text \<open>
  The in-memory confirmation store (\<open>internal/confirmation\<close>): a write call needs a record
  that a human approved, and a record is used once. The store is a map from identifiers to
  records; every operation runs under the store's mutex, so an operation is one step.

  A nil receiver is None. The operations read the clock twice, for the clean-up and for
  their own check, hence the two instants \<open>t1\<close> and \<open>t2\<close>; \<open>crypto/rand\<close> is the argument
  \<open>fresh\<close>, the outcome of \<open>newID\<close>.
\<close>

datatype confirm_error = ErrNotFound | ErrExpired | ErrNotApproved | ErrConsumed | ErrMismatch
  | ErrRandom string

record ConfirmRequest =
  reqOperationID :: string
  reqMethod :: string
  reqFinalURL :: string
  reqSummary :: any
  reqReason :: string

record Check =
  chkOperationID :: string
  chkMethod :: string
  chkFinalURL :: string

record Record =
  recID :: string
  recOperationID :: string
  recMethod :: string
  recFinalURL :: string
  recSummary :: any
  recReason :: string
  recApproved :: bool
  recConsumed :: bool
  recCreatedAt :: time
  recExpiresAt :: time

record MemoryStore =
  ttl :: duration
  items :: "(string \<times> Record) list"

definition defaultTTL :: duration where
  "defaultTTL = 10 * Minute"

definition NewMemoryStore :: "duration \<Rightarrow> MemoryStore" where
  "NewMemoryStore d = \<lparr>ttl = (if d \<le> 0 then defaultTTL else d), items = []\<rparr>"

definition isExpired :: "time \<Rightarrow> time \<Rightarrow> bool" where
  "isExpired now expiresAt \<longleftrightarrow> \<not> IsZero expiresAt \<and> \<not> After expiresAt now"

definition matches :: "string \<Rightarrow> string \<Rightarrow> bool" where
  "matches expected actual \<longleftrightarrow>
     TrimSpace expected = [] \<or> TrimSpace expected = TrimSpace actual"

definition cloneRecord :: "Record \<Rightarrow> Record" where
  "cloneRecord r = r\<lparr>recSummary := cloneAny (recSummary r)\<rparr>"

definition cleanupLocked :: "time \<Rightarrow> string \<Rightarrow> MemoryStore \<Rightarrow> MemoryStore" where
  "cleanupLocked now skipID s =
     s\<lparr>items := filter (\<lambda>(cid, r). cid = skipID \<or> \<not> isExpired now (recExpiresAt r)) (items s)\<rparr>"

definition newRecord :: "string \<Rightarrow> time \<Rightarrow> duration \<Rightarrow> ConfirmRequest \<Rightarrow> Record" where
  "newRecord cid now d req =
     \<lparr>recID = cid, recOperationID = TrimSpace (reqOperationID req),
      recMethod = ToUpper (TrimSpace (reqMethod req)), recFinalURL = TrimSpace (reqFinalURL req),
      recSummary = reqSummary req, recReason = TrimSpace (reqReason req),
      recApproved = False, recConsumed = False,
      recCreatedAt = now, recExpiresAt = AddTime now d\<rparr>"

type_synonym 'a op = "(confirm_error, 'a) result \<times> MemoryStore option"

definition Request :: "time \<Rightarrow> time \<Rightarrow> (string, string) result \<Rightarrow> ConfirmRequest \<Rightarrow> MemoryStore option \<Rightarrow> Record op"
where
  "Request t1 t2 fresh req store = (case store of
     None \<Rightarrow> (Err ErrNotFound, None)
   | Some s \<Rightarrow>
      (let s = cleanupLocked t1 [] s in
       case fresh of
         Err e \<Rightarrow> (Err (ErrRandom e), Some s)
       | Ok cid \<Rightarrow>
          (let r = newRecord cid t2 (ttl s) req in
           (Ok (cloneRecord r), Some (s\<lparr>items := map_set cid r (items s)\<rparr>)))))"

definition Confirm :: "time \<Rightarrow> time \<Rightarrow> string \<Rightarrow> bool \<Rightarrow> MemoryStore option \<Rightarrow> Record op" where
  "Confirm t1 t2 rawID approve store = (case store of
     None \<Rightarrow> (Err ErrNotFound, None)
   | Some s \<Rightarrow>
      (let cid = TrimSpace rawID; s = cleanupLocked t1 cid s in
       case map_of (items s) cid of
         None \<Rightarrow> (Err ErrNotFound, Some s)
       | Some item \<Rightarrow>
          if isExpired t2 (recExpiresAt item)
          then (Err ErrExpired, Some (s\<lparr>items := map_del (recID item) (items s)\<rparr>))
          else if recConsumed item then (Err ErrConsumed, Some s)
          else (let item = item\<lparr>recApproved := approve\<rparr> in
                (Ok (cloneRecord item), Some (s\<lparr>items := map_set (recID item) item (items s)\<rparr>)))))"

definition check_matches :: "Record \<Rightarrow> Check \<Rightarrow> bool" where
  "check_matches item check \<longleftrightarrow>
     matches (recOperationID item) (chkOperationID check)
   \<and> matches (recMethod item) (ToUpper (TrimSpace (chkMethod check)))
   \<and> matches (recFinalURL item) (chkFinalURL check)"

definition ConsumeApproved :: "time \<Rightarrow> time \<Rightarrow> string \<Rightarrow> Check \<Rightarrow> MemoryStore option \<Rightarrow> Record op" where
  "ConsumeApproved t1 t2 rawID check store = (case store of
     None \<Rightarrow> (Err ErrNotFound, None)
   | Some s \<Rightarrow>
      (let cid = TrimSpace rawID; s = cleanupLocked t1 cid s in
       case map_of (items s) cid of
         None \<Rightarrow> (Err ErrNotFound, Some s)
       | Some item \<Rightarrow>
          if isExpired t2 (recExpiresAt item)
          then (Err ErrExpired, Some (s\<lparr>items := map_del (recID item) (items s)\<rparr>))
          else if recConsumed item then (Err ErrConsumed, Some s)
          else if \<not> recApproved item then (Err ErrNotApproved, Some s)
          else if \<not> check_matches item check then (Err ErrMismatch, Some s)
          else (let item = item\<lparr>recConsumed := True\<rparr> in
                (Ok (cloneRecord item), Some (s\<lparr>items := map_set (recID item) item (items s)\<rparr>)))))"

section \<open>Well-formed stores\<close>

text \<open>Keys are distinct and every record is filed under its own identifier.\<close>

definition store_ok :: "MemoryStore \<Rightarrow> bool" where
  "store_ok s \<longleftrightarrow> map_ok (items s) \<and> (\<forall>cid r. map_of (items s) cid = Some r \<longrightarrow> recID r = cid)"

definition rec_of :: "MemoryStore \<Rightarrow> string \<Rightarrow> Record option" where
  "rec_of s cid = map_of (items s) cid"

lemma store_okD: "store_ok s \<Longrightarrow> rec_of s cid = Some r \<Longrightarrow> recID r = cid"
  by (auto simp: store_ok_def rec_of_def)

lemma cloneRecord_id [simp]: "cloneRecord r = r"
  by (simp add: cloneRecord_def)

lemma ttl_cleanup [simp]: "ttl (cleanupLocked t k s) = ttl s"
  by (simp add: cleanupLocked_def)

lemma rec_of_cleanup:
  "store_ok s \<Longrightarrow> rec_of (cleanupLocked t k s) cid = (case rec_of s cid of None \<Rightarrow> None
     | Some r \<Rightarrow> if cid = k \<or> \<not> isExpired t (recExpiresAt r) then Some r else None)"
  by (simp add: rec_of_def cleanupLocked_def store_ok_def map_of_filter_key split: option.split)

lemma rec_of_cleanup_SomeD:
  "store_ok s \<Longrightarrow> rec_of (cleanupLocked t k s) cid = Some r \<Longrightarrow> rec_of s cid = Some r"
  by (auto simp: rec_of_cleanup split: option.splits if_splits)

lemma rec_of_cleanup_skip: "store_ok s \<Longrightarrow> rec_of (cleanupLocked t k s) k = rec_of s k"
  by (simp add: rec_of_cleanup split: option.split)

lemma store_ok_cleanup [simp]: "store_ok s \<Longrightarrow> store_ok (cleanupLocked t k s)"
  using rec_of_cleanup_SomeD [of s t k]
  by (auto simp: store_ok_def rec_of_def cleanupLocked_def)

lemma store_ok_set: "store_ok s \<Longrightarrow> recID r = cid \<Longrightarrow> store_ok (s\<lparr>items := map_set cid r (items s)\<rparr>)"
  by (auto simp: store_ok_def)

lemma store_ok_del: "store_ok s \<Longrightarrow> store_ok (s\<lparr>items := map_del cid (items s)\<rparr>)"
  by (auto simp: store_ok_def)

lemma rec_of_upd [simp]:
  "rec_of (s\<lparr>items := map_set cid r (items s)\<rparr>) = (rec_of s)(cid \<mapsto> r)"
  "rec_of (s\<lparr>items := map_del cid (items s)\<rparr>) = (rec_of s)(cid := None)"
  by (simp_all add: rec_of_def fun_eq_iff)

lemma rec_of_New [simp]: "rec_of (NewMemoryStore d) cid = None"
  by (simp add: rec_of_def NewMemoryStore_def)

lemma store_ok_New [simp]: "store_ok (NewMemoryStore d)"
  by (simp add: store_ok_def NewMemoryStore_def)

lemma ttl_New [simp]: "ttl (NewMemoryStore d) = (if d \<le> 0 then defaultTTL else d)"
  by (simp add: NewMemoryStore_def)

lemma newRecord_sel [simp]:
  "recID (newRecord cid t d req) = cid" "\<not> recApproved (newRecord cid t d req)"
  "\<not> recConsumed (newRecord cid t d req)" "recExpiresAt (newRecord cid t d req) = AddTime t d"
  by (simp_all add: newRecord_def)


section \<open>The contract of the store\<close>

text \<open>
  \<open>confirmation.Store\<close>, as the execute and confirmation tools use it. \<open>lookup\<close> is the
  abstract content of a store. A failed call only forgets records; a successful one
  changes the record it names and forgets others.
\<close>

locale confirmation_store =
  fixes ok :: "'s \<Rightarrow> bool"
    and lookup :: "'s \<Rightarrow> string \<Rightarrow> Record option"
    and request :: "time \<Rightarrow> time \<Rightarrow> (string, string) result \<Rightarrow> ConfirmRequest \<Rightarrow> 's \<Rightarrow> (confirm_error, Record) result \<times> 's"
    and confirm :: "time \<Rightarrow> time \<Rightarrow> string \<Rightarrow> bool \<Rightarrow> 's \<Rightarrow> (confirm_error, Record) result \<times> 's"
    and consume :: "time \<Rightarrow> time \<Rightarrow> string \<Rightarrow> Check \<Rightarrow> 's \<Rightarrow> (confirm_error, Record) result \<times> 's"
  assumes request_ok: "ok s \<Longrightarrow> request t1 t2 f q s = (res, s') \<Longrightarrow> ok s'"
    and confirm_ok: "ok s \<Longrightarrow> confirm t1 t2 k a s = (res, s') \<Longrightarrow> ok s'"
    and consume_ok: "ok s \<Longrightarrow> consume t1 t2 k c s = (res, s') \<Longrightarrow> ok s'"
    and request_err: "ok s \<Longrightarrow> request t1 t2 f q s = (Err e, s') \<Longrightarrow> lookup s' \<subseteq>\<^sub>m lookup s"
    and confirm_err: "ok s \<Longrightarrow> confirm t1 t2 k a s = (Err e, s') \<Longrightarrow> lookup s' \<subseteq>\<^sub>m lookup s"
    and consume_err: "ok s \<Longrightarrow> consume t1 t2 k c s = (Err e, s') \<Longrightarrow> lookup s' \<subseteq>\<^sub>m lookup s"
    and request_done: "ok s \<Longrightarrow> request t1 t2 f q s = (Ok r, s') \<Longrightarrow>
      f = Ok (recID r) \<and> \<not> recApproved r \<and> \<not> recConsumed r
      \<and> lookup s' \<subseteq>\<^sub>m (lookup s)(recID r \<mapsto> r)"
    and confirm_done: "ok s \<Longrightarrow> confirm t1 t2 k a s = (Ok r, s') \<Longrightarrow>
      (\<exists>r0. lookup s (recID r) = Some r0 \<and> \<not> recConsumed r0 \<and> r = r0\<lparr>recApproved := a\<rparr>
        \<and> lookup s' \<subseteq>\<^sub>m (lookup s)(recID r \<mapsto> r))"
    and consume_done: "ok s \<Longrightarrow> consume t1 t2 k c s = (Ok r, s') \<Longrightarrow>
      (\<exists>r0. lookup s (recID r) = Some r0 \<and> recApproved r0 \<and> \<not> recConsumed r0
        \<and> check_matches r0 c \<and> \<not> isExpired t2 (recExpiresAt r0)
        \<and> r = r0\<lparr>recConsumed := True\<rparr> \<and> lookup s' \<subseteq>\<^sub>m (lookup s)(recID r \<mapsto> r))"

definition opt_ok :: "MemoryStore option \<Rightarrow> bool" where
  "opt_ok store = (case store of None \<Rightarrow> True | Some s \<Rightarrow> store_ok s)"

definition opt_rec :: "MemoryStore option \<Rightarrow> string \<Rightarrow> Record option" where
  "opt_rec store cid = (case store of None \<Rightarrow> None | Some s \<Rightarrow> rec_of s cid)"

lemma opt_simps [simp]:
  "opt_ok None" "opt_ok (Some s) = store_ok s" "opt_rec None = Map.empty" "opt_rec (Some s) = rec_of s"
  by (auto simp: opt_ok_def opt_rec_def)

lemma cleanup_le: "store_ok s \<Longrightarrow> rec_of (cleanupLocked t k s) \<subseteq>\<^sub>m rec_of s"
  by (auto simp: map_le_def dest: rec_of_cleanup_SomeD)

lemma map_le_upd: "m \<subseteq>\<^sub>m n \<Longrightarrow> m(k \<mapsto> v) \<subseteq>\<^sub>m n(k \<mapsto> v)"
  by (auto simp: map_le_def)

lemma map_le_forget: "m \<subseteq>\<^sub>m n \<Longrightarrow> m(k := None) \<subseteq>\<^sub>m n"
  by (auto simp: map_le_def)

lemma map_of_items: "map_of (items s) k = rec_of s k"
  by (simp add: rec_of_def)

lemma Request_cases:
  assumes "Request t1 t2 f q (Some s) = (res, store)"
  obtains e where "f = Err e" "res = Err (ErrRandom e)" "store = Some (cleanupLocked t1 [] s)"
  | cid r where "f = Ok cid" "r = newRecord cid t2 (ttl s) q" "res = Ok r"
      "store = Some ((cleanupLocked t1 [] s)\<lparr>items := map_set cid r (items (cleanupLocked t1 [] s))\<rparr>)"
  using assms by (auto simp: Request_def Let_def split: sum.splits)

lemma Confirm_cases:
  assumes "Confirm t1 t2 k a (Some s) = (res, store)" and ok: "store_ok s"
  obtains e where "res = Err e" "store = Some (cleanupLocked t1 (TrimSpace k) s)"
  | cid where "res = Err ErrExpired" "store = Some ((cleanupLocked t1 (TrimSpace k) s)
        \<lparr>items := map_del cid (items (cleanupLocked t1 (TrimSpace k) s))\<rparr>)"
  | r0 r where "res = Ok r" "rec_of s (TrimSpace k) = Some r0" "\<not> isExpired t2 (recExpiresAt r0)"
      "\<not> recConsumed r0" "r = r0\<lparr>recApproved := a\<rparr>" "recID r = TrimSpace k"
      "store = Some ((cleanupLocked t1 (TrimSpace k) s)
        \<lparr>items := map_set (recID r) r (items (cleanupLocked t1 (TrimSpace k) s))\<rparr>)"
  using assms(1) rec_of_cleanup_skip [OF ok, of t1 "TrimSpace k"] store_okD [OF ok, of "TrimSpace k"]
  by (auto simp: Confirm_def Let_def map_of_items split: option.splits if_splits)

lemma Consume_cases:
  assumes "ConsumeApproved t1 t2 k c (Some s) = (res, store)" and ok: "store_ok s"
  obtains e where "res = Err e" "store = Some (cleanupLocked t1 (TrimSpace k) s)"
  | cid where "res = Err ErrExpired" "store = Some ((cleanupLocked t1 (TrimSpace k) s)
        \<lparr>items := map_del cid (items (cleanupLocked t1 (TrimSpace k) s))\<rparr>)"
  | r0 r where "res = Ok r" "rec_of s (TrimSpace k) = Some r0" "\<not> isExpired t2 (recExpiresAt r0)"
      "\<not> recConsumed r0" "recApproved r0" "check_matches r0 c"
      "r = r0\<lparr>recConsumed := True\<rparr>" "recID r = TrimSpace k"
      "store = Some ((cleanupLocked t1 (TrimSpace k) s)
        \<lparr>items := map_set (recID r) r (items (cleanupLocked t1 (TrimSpace k) s))\<rparr>)"
  using assms(1) rec_of_cleanup_skip [OF ok, of t1 "TrimSpace k"] store_okD [OF ok, of "TrimSpace k"]
  by (auto simp: ConsumeApproved_def Let_def map_of_items split: option.splits if_splits)

lemma op_nil [simp]:
  "Request t1 t2 f q None = (Err ErrNotFound, None)"
  "Confirm t1 t2 k a None = (Err ErrNotFound, None)"
  "ConsumeApproved t1 t2 k c None = (Err ErrNotFound, None)"
  by (simp_all add: Request_def Confirm_def ConsumeApproved_def)

lemmas store_step = cleanup_le map_le_upd map_le_forget store_ok_set store_ok_del

interpretation mem: confirmation_store opt_ok opt_rec Request Confirm ConsumeApproved
proof unfold_locales
  fix store t1 t2 f q res store' assume "opt_ok store" "Request t1 t2 f q store = (res, store')"
  then show "opt_ok store'"
    by (cases store) (auto elim!: Request_cases intro!: store_step)
next
  fix store t1 t2 k a res store' assume "opt_ok store" "Confirm t1 t2 k a store = (res, store')"
  then show "opt_ok store'"
    by (cases store) (auto elim!: Confirm_cases intro!: store_step)
next
  fix store t1 t2 k c res store' assume "opt_ok store" "ConsumeApproved t1 t2 k c store = (res, store')"
  then show "opt_ok store'"
    by (cases store) (auto elim!: Consume_cases intro!: store_step)
next
  fix store t1 t2 f q e store' assume "opt_ok store" "Request t1 t2 f q store = (Err e, store')"
  then show "opt_rec store' \<subseteq>\<^sub>m opt_rec store"
    by (cases store) (auto elim!: Request_cases intro!: store_step)
next
  fix store t1 t2 k a e store' assume "opt_ok store" "Confirm t1 t2 k a store = (Err e, store')"
  then show "opt_rec store' \<subseteq>\<^sub>m opt_rec store"
    by (cases store) (auto elim!: Confirm_cases intro!: store_step)
next
  fix store t1 t2 k c e store' assume "opt_ok store" "ConsumeApproved t1 t2 k c store = (Err e, store')"
  then show "opt_rec store' \<subseteq>\<^sub>m opt_rec store"
    by (cases store) (auto elim!: Consume_cases intro!: store_step)
next
  fix store t1 t2 f q r store' assume "opt_ok store" "Request t1 t2 f q store = (Ok r, store')"
  then show "f = Ok (recID r) \<and> \<not> recApproved r \<and> \<not> recConsumed r
      \<and> opt_rec store' \<subseteq>\<^sub>m (opt_rec store)(recID r \<mapsto> r)"
    by (cases store) (auto elim!: Request_cases intro!: store_step)
next
  fix store t1 t2 k a r store' assume "opt_ok store" "Confirm t1 t2 k a store = (Ok r, store')"
  then show "\<exists>r0. opt_rec store (recID r) = Some r0 \<and> \<not> recConsumed r0 \<and> r = r0\<lparr>recApproved := a\<rparr>
      \<and> opt_rec store' \<subseteq>\<^sub>m (opt_rec store)(recID r \<mapsto> r)"
    by (cases store) (auto elim!: Confirm_cases intro!: store_step)
next
  fix store t1 t2 k c r store' assume "opt_ok store" "ConsumeApproved t1 t2 k c store = (Ok r, store')"
  then show "\<exists>r0. opt_rec store (recID r) = Some r0 \<and> recApproved r0 \<and> \<not> recConsumed r0
      \<and> check_matches r0 c \<and> \<not> isExpired t2 (recExpiresAt r0)
      \<and> r = r0\<lparr>recConsumed := True\<rparr> \<and> opt_rec store' \<subseteq>\<^sub>m (opt_rec store)(recID r \<mapsto> r)"
    by (cases store) (auto elim!: Consume_cases intro!: store_step)
qed

end
