(* ===== verification/ConfirmationRuns.thy ===== *)
theory ConfirmationRuns
  imports Confirmation
begin

text \<open>
  Histories of the confirmation store. A history is the list of the successful calls,
  newest first; failed calls leave no event but may drop expired records. The state
  machine \<open>run\<close> interleaves the operations in any order, at any times (the clock may even
  go backwards) and with any identifiers from \<open>newID\<close>. Where identifiers repeat, a new
  record replaces the old one, so the guarantees are stated for histories whose issued
  identifiers are distinct, which is what 128 random bits are for.
\<close>

datatype event =
    EIssue Record
  | EConfirm string bool
  | EConsume string Check time

primrec issued :: "event list \<Rightarrow> string list" where
  "issued [] = []"
| "issued (ev # es) = (case ev of EIssue r \<Rightarrow> recID r # issued es | _ \<Rightarrow> issued es)"

primrec used :: "event list \<Rightarrow> string list" where
  "used [] = []"
| "used (ev # es) = (case ev of EConsume k c t \<Rightarrow> k # used es | _ \<Rightarrow> used es)"

text \<open>The latest answer the human gave for an identifier; no answer counts as a refusal.\<close>

primrec approval :: "event list \<Rightarrow> string \<Rightarrow> bool" where
  "approval [] k = False"
| "approval (ev # es) k = (case ev of EConfirm k' a \<Rightarrow> if k = k' then a else approval es k
     | EIssue r \<Rightarrow> if k = recID r then False else approval es k
     | EConsume k' c t \<Rightarrow> approval es k)"

inductive run :: "MemoryStore option \<Rightarrow> event list \<Rightarrow> MemoryStore option \<Rightarrow> bool" for s0 where
  run_start: "run s0 [] s0"
| run_request: "run s0 es s \<Longrightarrow> Request t1 t2 f q s = (Ok r, s') \<Longrightarrow> run s0 (EIssue r # es) s'"
| run_confirm: "run s0 es s \<Longrightarrow> Confirm t1 t2 k a s = (Ok r, s') \<Longrightarrow> run s0 (EConfirm (recID r) a # es) s'"
| run_consume: "run s0 es s \<Longrightarrow> ConsumeApproved t1 t2 k c s = (Ok r, s') \<Longrightarrow>
    run s0 (EConsume (recID r) c t2 # es) s'"
| run_fail_request: "run s0 es s \<Longrightarrow> Request t1 t2 f q s = (Err e, s') \<Longrightarrow> run s0 es s'"
| run_fail_confirm: "run s0 es s \<Longrightarrow> Confirm t1 t2 k a s = (Err e, s') \<Longrightarrow> run s0 es s'"
| run_fail_consume: "run s0 es s \<Longrightarrow> ConsumeApproved t1 t2 k c s = (Err e, s') \<Longrightarrow> run s0 es s'"

inductive_cases run_startE: "run s0 [] s"

section \<open>What a stored record says about the history\<close>

definition same_request :: "Record \<Rightarrow> Record \<Rightarrow> bool" where
  "same_request r r0 \<longleftrightarrow> r = r0\<lparr>recApproved := recApproved r, recConsumed := recConsumed r\<rparr>"

definition tracked :: "event list \<Rightarrow> (string \<Rightarrow> Record option) \<Rightarrow> bool" where
  "tracked es m \<longleftrightarrow> (\<forall>k r. m k = Some r \<longrightarrow>
     recID r = k \<and> recApproved r = approval es k \<and> (recConsumed r \<longleftrightarrow> k \<in> set (used es))
     \<and> (\<exists>r0. EIssue r0 \<in> set es \<and> same_request r r0))"

text \<open>A consumption is justified by the history before it.\<close>

definition justified_use :: "string \<Rightarrow> Check \<Rightarrow> time \<Rightarrow> event list \<Rightarrow> bool" where
  "justified_use k c t es \<longleftrightarrow> approval es k \<and> k \<notin> set (used es)
     \<and> (\<exists>r0. EIssue r0 \<in> set es \<and> recID r0 = k \<and> check_matches r0 c
          \<and> \<not> isExpired t (recExpiresAt r0))"

primrec justified :: "event list \<Rightarrow> bool" where
  "justified [] = True"
| "justified (ev # es) = (justified es \<and>
     (case ev of EConsume k c t \<Rightarrow> justified_use k c t es | _ \<Rightarrow> True))"

lemma issued_iff: "k \<in> set (issued es) \<longleftrightarrow> (\<exists>r. EIssue r \<in> set es \<and> recID r = k)"
  by (induction es) (auto split: event.splits)

lemma trackedD:
  assumes "tracked es m" and "m k = Some r"
  shows "recID r = k" "recApproved r = approval es k" "recConsumed r \<longleftrightarrow> k \<in> set (used es)"
    and "\<exists>r0. EIssue r0 \<in> set es \<and> same_request r r0"
  using assms by (auto simp: tracked_def)

lemma tracked_le: "tracked es m \<Longrightarrow> n \<subseteq>\<^sub>m m \<Longrightarrow> tracked es n"
  unfolding tracked_def map_le_def by (metis domI)

lemma same_request_refl [simp]: "same_request r r"
  by (simp add: same_request_def)

lemma same_request_upd:
  "same_request r r0 \<Longrightarrow> same_request (r\<lparr>recApproved := a\<rparr>) r0"
  "same_request r r0 \<Longrightarrow> same_request (r\<lparr>recConsumed := c\<rparr>) r0"
  by (cases r; cases r0; simp add: same_request_def)+

lemma same_request_sel:
  assumes "same_request r r0"
  shows "recID r0 = recID r" "check_matches r0 c = check_matches r c" "recExpiresAt r0 = recExpiresAt r"
  using assms by (cases r; cases r0; simp add: same_request_def check_matches_def)+

lemma used_issued: "justified es \<Longrightarrow> k \<in> set (used es) \<Longrightarrow> k \<in> set (issued es)"
proof (induction es)
  case (Cons ev es)
  have "k \<in> set (issued es)" if "justified_use k c t es" for c t
    using that by (auto simp: justified_use_def issued_iff)
  with Cons show ?case by (auto split: event.splits)
qed simp

section \<open>The store's contract carries the invariant\<close>

context confirmation_store
begin

definition inv :: "event list \<Rightarrow> 's \<Rightarrow> bool" where
  "inv es s \<longleftrightarrow> ok s \<and> (distinct (issued es) \<longrightarrow> tracked es (lookup s) \<and> justified es)"

lemma inv_fail:
  assumes "inv es s" and "ok s'" and "lookup s' \<subseteq>\<^sub>m lookup s"
  shows "inv es s'"
  using assms tracked_le by (auto simp: inv_def)

lemma tracked_upd:
  assumes "tracked es' ((lookup s)(k \<mapsto> r))" and "lookup s' \<subseteq>\<^sub>m (lookup s)(k \<mapsto> r)"
  shows "tracked es' (lookup s')"
  using assms by (rule tracked_le)

lemma inv_request:
  assumes inv: "inv es s" and step: "request t1 t2 f q s = (Ok r, s')"
  shows "inv (EIssue r # es) s'"
proof -
  have ok: "ok s" using inv by (simp add: inv_def)
  note rd = request_done [OF ok step]
  have "tracked (EIssue r # es) (lookup s') \<and> justified (EIssue r # es)" if d: "distinct (issued (EIssue r # es))"
  proof -
    from d inv have t: "tracked es (lookup s)" and j: "justified es" by (auto simp: inv_def)
    from d j have new: "recID r \<notin> set (issued es)" "recID r \<notin> set (used es)"
      using used_issued by auto
    have "tracked (EIssue r # es) ((lookup s)(recID r \<mapsto> r))"
      using rd new trackedD [OF t] by (fastforce simp: tracked_def)
    with j rd show ?thesis by (auto intro: tracked_upd)
  qed
  then show ?thesis using request_ok [OF ok step] by (simp add: inv_def del: issued.simps)
qed

lemma inv_confirm:
  assumes inv: "inv es s" and step: "confirm t1 t2 k a s = (Ok r, s')"
  shows "inv (EConfirm (recID r) a # es) s'"
proof -
  have ok: "ok s" using inv by (simp add: inv_def)
  from confirm_done [OF ok step] obtain r0 where r0: "lookup s (recID r) = Some r0"
    and r: "r = r0\<lparr>recApproved := a\<rparr>" and le: "lookup s' \<subseteq>\<^sub>m (lookup s)(recID r \<mapsto> r)" by blast
  have "tracked (EConfirm (recID r) a # es) (lookup s')" if t: "tracked es (lookup s)"
  proof -
    from trackedD [OF t r0] have "tracked (EConfirm (recID r) a # es) ((lookup s)(recID r \<mapsto> r))"
      using trackedD [OF t] r by (fastforce simp: tracked_def intro: same_request_upd)
    then show ?thesis using le by (rule tracked_upd)
  qed
  then show ?thesis using inv confirm_ok [OF ok step] by (auto simp: inv_def)
qed

lemma inv_consume:
  assumes inv: "inv es s" and step: "consume t1 t2 k c s = (Ok r, s')"
  shows "inv (EConsume (recID r) c t2 # es) s'"
proof -
  have ok: "ok s" using inv by (simp add: inv_def)
  from consume_done [OF ok step] obtain r0 where r0: "lookup s (recID r) = Some r0"
    and pre: "recApproved r0" "\<not> recConsumed r0" "check_matches r0 c" "\<not> isExpired t2 (recExpiresAt r0)"
    and r: "r = r0\<lparr>recConsumed := True\<rparr>" and le: "lookup s' \<subseteq>\<^sub>m (lookup s)(recID r \<mapsto> r)" by blast
  have "tracked (EConsume (recID r) c t2 # es) (lookup s')" if t: "tracked es (lookup s)"
  proof -
    from trackedD [OF t r0] have "tracked (EConsume (recID r) c t2 # es) ((lookup s)(recID r \<mapsto> r))"
      using trackedD [OF t] r by (fastforce simp: tracked_def intro: same_request_upd)
    then show ?thesis using le by (rule tracked_upd)
  qed
  moreover have "justified_use (recID r) c t2 es" if t: "tracked es (lookup s)"
    using trackedD [OF t r0] pre same_request_sel by (auto simp: justified_use_def)
  ultimately show ?thesis using inv consume_ok [OF ok step] by (auto simp: inv_def)
qed

end

lemma run_inv: "run s0 es s \<Longrightarrow> s0 = Some (NewMemoryStore d) \<Longrightarrow> mem.inv es s"
proof (induction rule: run.induct)
  case run_start
  then show ?case by (simp add: mem.inv_def tracked_def)
next
  case (run_fail_request es s t1 t2 f q e s')
  then show ?case using mem.request_ok mem.request_err mem.inv_fail by (metis mem.inv_def)
next
  case (run_fail_confirm es s t1 t2 k a e s')
  then show ?case using mem.confirm_ok mem.confirm_err mem.inv_fail by (metis mem.inv_def)
next
  case (run_fail_consume es s t1 t2 k c e s')
  then show ?case using mem.consume_ok mem.consume_err mem.inv_fail by (metis mem.inv_def)
qed (blast intro: mem.inv_request mem.inv_confirm mem.inv_consume)+

lemma justified_append: "justified (post @ es) \<Longrightarrow> justified es"
  by (induction post) auto

lemma distinct_used: "justified es \<Longrightarrow> distinct (used es)"
  by (induction es) (auto simp: justified_use_def split: event.splits)

lemma run_justified:
  "run (Some (NewMemoryStore d)) es s \<Longrightarrow> distinct (issued es) \<Longrightarrow> justified es"
  using run_inv by (auto simp: mem.inv_def)


section \<open>A concrete history\<close>

definition demo_request :: ConfirmRequest where
  "demo_request = \<lparr>reqOperationID = ''addPet'', reqMethod = ''post'', reqFinalURL = ''https://a/pet'',
     reqSummary = ANil, reqReason = []\<rparr>"

definition demo_record :: Record where
  "demo_record = newRecord ''c1'' (Time 5) 100 demo_request"

definition demo_check :: Check where
  "demo_check = \<lparr>chkOperationID = ''addPet'', chkMethod = ''POST'', chkFinalURL = ''https://a/pet''\<rparr>"

definition demo_store :: "Record \<Rightarrow> MemoryStore option" where
  "demo_store r = Some \<lparr>ttl = 100, items = [(''c1'', r)]\<rparr>"

definition demo_history :: "event list" where
  "demo_history = [EConsume ''c1'' demo_check (Time 9), EConfirm ''c1'' True, EIssue demo_record]"

lemmas demo_defs = demo_request_def demo_record_def demo_check_def demo_store_def demo_history_def

lemma demo_steps:
  "Request (Time 4) (Time 5) (Ok ''c1'') demo_request (Some (NewMemoryStore 100)) =
     (Ok demo_record, demo_store demo_record)"
  "Confirm (Time 6) (Time 7) ''c1'' True (demo_store demo_record) =
     (Ok (demo_record\<lparr>recApproved := True\<rparr>), demo_store (demo_record\<lparr>recApproved := True\<rparr>))"
  "ConsumeApproved (Time 8) (Time 9) ''c1'' demo_check (demo_store (demo_record\<lparr>recApproved := True\<rparr>)) =
     (Ok (demo_record\<lparr>recApproved := True, recConsumed := True\<rparr>),
      demo_store (demo_record\<lparr>recApproved := True, recConsumed := True\<rparr>))"
  by code_simp+

lemma demo_run:
  "run (Some (NewMemoryStore 100)) demo_history
     (demo_store (demo_record\<lparr>recApproved := True, recConsumed := True\<rparr>))"
proof -
  have k: "recID (demo_record\<lparr>recApproved := a\<rparr>) = ''c1''"
    "recID (demo_record\<lparr>recApproved := a, recConsumed := b\<rparr>) = ''c1''" for a b
    by (simp_all add: demo_record_def)
  note r1 = run_request [OF run_start demo_steps(1)]
  note r2 = run_confirm [OF r1 demo_steps(2), unfolded k]
  show ?thesis
    using run_consume [OF r2 demo_steps(3), unfolded k] by (simp add: demo_history_def)
qed

lemma demo_issued: "distinct (issued demo_history)"
  by (simp add: demo_history_def)

section \<open>Success of each operation\<close>

lemma Request_stored:
  assumes "store_ok s" and "Request t1 t2 (Ok cid) q (Some s) = (Ok r, s1)"
  shows "\<exists>m. s1 = Some m \<and> store_ok m \<and> rec_of m cid = Some (newRecord cid t2 (ttl s) q)"
  using assms by (auto elim!: Request_cases intro!: store_ok_set)

lemma Confirm_stored:
  assumes "store_ok m" and "rec_of m k = Some r" and "TrimSpace k = k"
    and "\<not> isExpired t4 (recExpiresAt r)" and "\<not> recConsumed r"
  shows "\<exists>m'. Confirm t3 t4 k a (Some m) = (Ok (r\<lparr>recApproved := a\<rparr>), Some m') \<and> store_ok m'
     \<and> rec_of m' k = Some (r\<lparr>recApproved := a\<rparr>)"
  using assms store_okD [OF assms(1,2)] rec_of_cleanup_skip [OF assms(1), of t3 k]
  by (auto simp: Confirm_def Let_def map_of_items intro!: store_ok_set)

lemma Consume_stored:
  assumes "store_ok m" and "rec_of m k = Some r" and "TrimSpace k = k"
    and "\<not> isExpired t6 (recExpiresAt r)" and "\<not> recConsumed r" and "recApproved r"
    and "check_matches r c"
  shows "\<exists>m'. ConsumeApproved t5 t6 k c (Some m) = (Ok (r\<lparr>recConsumed := True\<rparr>), m')"
  using assms rec_of_cleanup_skip [OF assms(1), of t5 k]
  by (auto simp: ConsumeApproved_def Let_def map_of_items)

lemma check_matches_newRecord:
  "check_matches (newRecord cid t d q)
     \<lparr>chkOperationID = reqOperationID q, chkMethod = reqMethod q, chkFinalURL = reqFinalURL q\<rparr>"
  by (simp add: check_matches_def matches_def newRecord_def)

lemma check_matches_approved [simp]: "check_matches (r\<lparr>recApproved := a\<rparr>) c = check_matches r c"
  by (simp add: check_matches_def)

section \<open>The guarantees\<close>

text \<open>
  Property C9: a confirmation is consumed at most once. In every history of the store from its
  construction on, whatever the interleaving of requests, answers, consumptions and clean-ups,
  no identifier is consumed twice, provided the generator never repeats an identifier.
\<close>

theorem consumed_at_most_once:
  assumes "run (Some (NewMemoryStore d)) es s" and "distinct (issued es)"
  shows "distinct (used es)"
  using run_justified [OF assms] by (rule distinct_used)

theorem consumed_at_most_once_witness:
  "distinct (used demo_history)"
  by (rule consumed_at_most_once [OF demo_run demo_issued])

text \<open>
  Property C10: every successful consumption is justified by what happened before it. The
  identifier was issued for a record whose operation, method and URL match the consuming call
  and which has not expired at that instant, the latest answer the human gave for it is an
  approval, and it had not been consumed before.
\<close>

theorem consumption_justified:
  assumes "run (Some (NewMemoryStore d)) (later @ EConsume k c t # earlier) s"
    and "distinct (issued (later @ EConsume k c t # earlier))"
  shows "approval earlier k \<and> k \<notin> set (used earlier)
     \<and> (\<exists>r0. EIssue r0 \<in> set earlier \<and> recID r0 = k \<and> check_matches r0 c
          \<and> \<not> isExpired t (recExpiresAt r0))"
  using justified_append [OF run_justified [OF assms]] by (simp add: justified_use_def)

theorem consumption_justified_witness:
  "\<exists>r0. EIssue r0 \<in> {EConfirm ''c1'' True, EIssue demo_record} \<and> recID r0 = ''c1''
     \<and> check_matches r0 demo_check \<and> \<not> isExpired (Time 9) (recExpiresAt r0)"
proof -
  have "run (Some (NewMemoryStore 100))
      ([] @ EConsume ''c1'' demo_check (Time 9) # [EConfirm ''c1'' True, EIssue demo_record])
      (demo_store (demo_record\<lparr>recApproved := True, recConsumed := True\<rparr>))"
    using demo_run by (simp add: demo_history_def)
  from consumption_justified [OF this] show ?thesis by simp
qed

text \<open>
  The intended flow succeeds. A record that is requested, approved and then
  presented with the call it was requested for, before its time to live has passed, is
  consumed; the summary the human saw is the one that was requested.
\<close>

theorem approve_then_consume:
  assumes "TrimSpace cid = cid" and "store_ok s"
    and "t4 < AddTime t2 (ttl s)" and "t6 < AddTime t2 (ttl s)"
    and "Request t1 t2 (Ok cid) q (Some s) = (Ok r, s1)"
    and "Confirm t3 t4 cid True s1 = (answer, s2)"
  shows "\<exists>r' s3. ConsumeApproved t5 t6 cid
       \<lparr>chkOperationID = reqOperationID q, chkMethod = reqMethod q, chkFinalURL = reqFinalURL q\<rparr> s2
     = (Ok r', s3) \<and> recConsumed r' \<and> recSummary r' = reqSummary q"
proof -
  let ?r = "newRecord cid t2 (ttl s) q"
  have fresh: "\<not> isExpired t (recExpiresAt ?r)" if "t < AddTime t2 (ttl s)" for t
    using that by (simp add: isExpired_def After_def)
  from Request_stored [OF assms(2,5)] obtain m where
    m: "s1 = Some m" "store_ok m" "rec_of m cid = Some ?r" by blast
  from Confirm_stored [OF m(2,3) assms(1) fresh [OF assms(3)], of t3 True] assms(6) m(1)
  obtain m' where m': "s2 = Some m'" "store_ok m'" "rec_of m' cid = Some (?r\<lparr>recApproved := True\<rparr>)"
    by auto
  have "\<exists>s3. ConsumeApproved t5 t6 cid
       \<lparr>chkOperationID = reqOperationID q, chkMethod = reqMethod q, chkFinalURL = reqFinalURL q\<rparr> s2
     = (Ok (?r\<lparr>recApproved := True, recConsumed := True\<rparr>), s3)"
    using Consume_stored [OF m'(2,3) assms(1)] fresh [OF assms(4)] m'(1) check_matches_newRecord
    by simp
  then show ?thesis by (fastforce simp: newRecord_def)
qed

text \<open>The demonstration history is an instance, at the instants 4 to 9 of a store with TTL 100.\<close>

theorem approve_then_consume_witness:
  "\<exists>r' s3. ConsumeApproved (Time 8) (Time 9) ''c1''
       \<lparr>chkOperationID = ''addPet'', chkMethod = ''post'', chkFinalURL = ''https://a/pet''\<rparr>
       (demo_store (demo_record\<lparr>recApproved := True\<rparr>))
     = (Ok r', s3) \<and> recConsumed r' \<and> recSummary r' = ANil"
proof -
  have "TrimSpace ''c1'' = ''c1''" by code_simp
  from approve_then_consume [OF this _ _ _ demo_steps(1,2), of "Time 9" "Time 8"] show ?thesis
    by (simp add: demo_request_def less_time_def)
qed

end
