(* ===== verification/HttpClient.thy ===== *)
theory HttpClient
  imports GoTime
begin

text \<open>
  The outbound HTTP client (\<open>internal/httpclient/client.go\<close>): request checks, the fixed-window
  rate limiters and the two layers of concurrency slots.

  A buffered channel used as a semaphore is the number of tokens in it. Blocking is modelled
  by a step that is not enabled (None); a cancelled context is a step of its own, so every
  interleaving of the callers is a sequence of steps. The client's own clock readings are
  arguments. What \<open>net/http\<close> does with a request that passed is outside the model: a call
  ends with a step, whatever its response.
\<close>

datatype do_error = NilRequest | ErrRequestTooLarge | ErrURLBlocked string | ErrRateLimited
  | CtxErr | ErrUseLastResponse

definition anonymousLimiterKey :: string where
  "anonymousLimiterKey = ''anonymous''"

definition normalizeLimiterKey :: "string \<Rightarrow> string" where
  "normalizeLimiterKey key = (if TrimSpace key = [] then anonymousLimiterKey else TrimSpace key)"

text \<open>A context carries at most one limiter key; None is a context without one.\<close>

definition WithLimiterKey :: "string \<Rightarrow> string option" where
  "WithLimiterKey key = Some (if TrimSpace key = [] then anonymousLimiterKey else TrimSpace key)"

definition LimiterKeyFromContext :: "string option \<Rightarrow> string" where
  "LimiterKeyFromContext ctx = (case ctx of None \<Rightarrow> anonymousLimiterKey
     | Some v \<Rightarrow> if TrimSpace v = [] then anonymousLimiterKey else TrimSpace v)"

section \<open>The fixed-window limiter\<close>

record minuteLimiter =
  lmax :: int
  windowStart :: time
  count :: int

definition newMinuteLimiter :: "int \<Rightarrow> minuteLimiter" where
  "newMinuteLimiter limit =
     \<lparr>lmax = (if limit \<le> 0 then 60 else limit), windowStart = Time 0, count = 0\<rparr>"

definition roll_window :: "time \<Rightarrow> minuteLimiter \<Rightarrow> minuteLimiter" where
  "roll_window now l = (if IsZero (windowStart l) \<or> Minute \<le> SubTime now (windowStart l)
     then l\<lparr>windowStart := now, count := 0\<rparr> else l)"

text \<open>One turn of the loop in \<open>Wait\<close>: Inr grants the slot, Inl is the time to sleep.\<close>

definition wait_turn :: "time \<Rightarrow> minuteLimiter \<Rightarrow> (duration + unit) \<times> minuteLimiter" where
  "wait_turn now l0 =
     (let l = roll_window now l0 in
      if count l < lmax l then (Inr (), l\<lparr>count := count l + 1\<rparr>)
      else (Inl (SubTime (AddTime (windowStart l) Minute) now), l))"

text \<open>
  The whole loop. The script lists, turn by turn, the clock reading, what other callers do
  to the limiter before the next turn, and whether the context ends during the sleep. None:
  the script is over and the caller still waits.
\<close>

type_synonym wait_script = "(time \<times> bool \<times> (minuteLimiter \<Rightarrow> minuteLimiter)) list"

fun Wait :: "wait_script \<Rightarrow> minuteLimiter \<Rightarrow> ((do_error, unit) result \<times> minuteLimiter) option" where
  "Wait [] l = None"
| "Wait ((now, cancelled, others) # rest) l =
     (case wait_turn now l of
        (Inr u, l') \<Rightarrow> Some (Ok u, l')
      | (Inl waitFor, l') \<Rightarrow>
          if waitFor \<le> 0 then Wait rest (others l')
          else if cancelled then Some (Err ErrRateLimited, l')
          else Wait rest (others l'))"

text \<open>All turns of all callers in clock order: the instants at which a slot is granted.\<close>

fun grants :: "minuteLimiter \<Rightarrow> time list \<Rightarrow> time list" where
  "grants l [] = []"
| "grants l (now # ts) = (case wait_turn now l of
     (Inr u, l') \<Rightarrow> now # grants l' ts
   | (Inl d, l') \<Rightarrow> grants l' ts)"

definition limiter_ok :: "minuteLimiter \<Rightarrow> bool" where
  "limiter_ok l \<longleftrightarrow> 0 < lmax l \<and> 0 \<le> count l \<and> count l \<le> lmax l"

lemma limiter_ok_new [simp]: "limiter_ok (newMinuteLimiter n)"
  by (simp add: limiter_ok_def newMinuteLimiter_def)

lemma limiter_ok_roll: "limiter_ok l \<Longrightarrow> limiter_ok (roll_window now l)"
  by (simp add: limiter_ok_def roll_window_def)

lemma wait_turn_ok: "limiter_ok l \<Longrightarrow> wait_turn now l = (d, l') \<Longrightarrow> limiter_ok l' \<and> lmax l' = lmax l"
  by (auto simp: wait_turn_def Let_def limiter_ok_def roll_window_def split: if_splits)

text \<open>A refused turn is inside its window: the sleep is positive, so the loop never spins.\<close>

lemma wait_turn_sleeps:
  assumes "limiter_ok l" and "wait_turn now l = (Inl d, l')"
  shows "0 < d" and "count l' = lmax l'" and "AddTime now d = AddTime (windowStart l') Minute"
    and "\<not> IsZero (windowStart l')" and "l' = l"
  using assms
  by (auto simp: wait_turn_def Let_def roll_window_def limiter_ok_def SubTime_def AddTime_def
      Minute_def Second_def split: if_splits)

lemma wait_turn_retry:
  assumes "limiter_ok l" and "wait_turn now l = (Inl d, l')" and "AddTime now d \<le> now'"
  shows "fst (wait_turn now' l') = Inr ()"
proof -
  have "AddTime (windowStart l') Minute \<le> now'"
    using wait_turn_sleeps(3) [OF assms(1,2)] assms(3) by simp
  then have "Minute \<le> SubTime now' (windowStart l')"
    by (simp add: less_eq_time_def SubTime_def)
  moreover have "0 < lmax l'"
    using wait_turn_ok [OF assms(1,2)] by (simp add: limiter_ok_def)
  ultimately show ?thesis by (simp add: wait_turn_def roll_window_def Let_def)
qed

section \<open>How many grants fit into a minute\<close>

definition in_minute :: "time \<Rightarrow> time list \<Rightarrow> time list" where
  "in_minute a ts = filter (\<lambda>t. a \<le> t \<and> t < AddTime a Minute) ts"

lemma in_minute_simps [simp]:
  "in_minute a [] = []"
  "in_minute a (t # ts) = (if a \<le> t \<and> t < AddTime a Minute then t # in_minute a ts else in_minute a ts)"
  by (simp_all add: in_minute_def)

lemma wait_turn_grant:
  "wait_turn now l = (Inr u, l') \<Longrightarrow> lmax l' = lmax l \<and>
     (windowStart l' = windowStart l \<and> count l' = count l + 1 \<and> count l < lmax l
        \<and> \<not> IsZero (windowStart l) \<and> SubTime now (windowStart l) < Minute
      \<or> windowStart l' = now \<and> count l' = 1 \<and> 0 < lmax l
        \<and> (IsZero (windowStart l) \<or> Minute \<le> SubTime now (windowStart l)))"
  by (auto simp: wait_turn_def Let_def roll_window_def split: if_splits)

lemma wait_turn_refuse:
  "limiter_ok l \<Longrightarrow> wait_turn now l = (Inl d, l') \<Longrightarrow> l' = l"
  using wait_turn_sleeps(5) by blast

lemma wait_turn_cases [case_names granted refused]:
  obtains (granted) l' where "wait_turn now l = (Inr (), l')" "grants l (now # ts) = now # grants l' ts"
  | (refused) d l' where "wait_turn now l = (Inl d, l')" "grants l (now # ts) = grants l' ts"
  by (cases "wait_turn now l"; cases "fst (wait_turn now l)") auto

lemma grants_subset: "set (grants l ts) \<subseteq> set ts"
proof (induction ts arbitrary: l)
  case (Cons now ts)
  show ?case by (rule wait_turn_cases [of now l ts]) (use Cons.IH in auto)
qed simp

lemma late_grants: "\<forall>t \<in> set ts. AddTime a Minute \<le> t \<Longrightarrow> in_minute a (grants l ts) = []"
  using grants_subset [of l ts] by (fastforce simp: in_minute_def filter_empty_conv)

definition from_window :: "minuteLimiter \<Rightarrow> time list \<Rightarrow> bool" where
  "from_window l ts \<longleftrightarrow> limiter_ok l \<and> (IsZero (windowStart l) \<or> 0 < count l) \<and> sorted ts \<and> (\<forall>t \<in> set ts. windowStart l \<le> t \<and> 0 < nanos t)"

lemma from_window_step:
  assumes "from_window l (now # ts)"
  shows "wait_turn now l = (Inl d, l') \<Longrightarrow> l' = l \<and> from_window l ts"
    and "wait_turn now l = (Inr u, l') \<Longrightarrow> from_window l' ts \<and> lmax l' = lmax l"
  using assms wait_turn_refuse [of l now d l'] wait_turn_ok [of l now _ l'] wait_turn_grant [of now l u l']
  by (auto simp: from_window_def)

text \<open>Inside a window that opened in the minute, the rest of the window is all there is.\<close>

lemma grants_one_window:
  assumes "from_window l ts" and "a \<le> windowStart l" and "\<not> IsZero (windowStart l)"
  shows "int (length (in_minute a (grants l ts))) \<le> lmax l - count l"
  using assms
proof (induction ts arbitrary: l)
  case (Cons now ts)
  show ?case
  proof (cases rule: wait_turn_cases [of now l ts])
    case (granted l')
    note g = wait_turn_grant [OF granted(1)] and w = from_window_step(2) [OF Cons.prems(1) granted(1)]
    show ?thesis
    proof (cases "windowStart l' = windowStart l \<and> count l' = count l + 1")
      case True
      with Cons.IH [of l'] Cons.prems g w granted(2) show ?thesis by auto
    next
      case False
      with g Cons.prems have late: "AddTime a Minute \<le> now"
        by (auto simp: less_eq_time_def SubTime_def)
      then have "in_minute a (grants l' ts) = []"
        using Cons.prems(1) by (intro late_grants) (auto simp: from_window_def)
      with granted(2) leD [OF late] Cons.prems(1) show ?thesis
        by (simp add: from_window_def limiter_ok_def)
    qed
  next
    case (refused d l')
    with from_window_step(1) [OF Cons.prems(1) refused(1)] Cons.IH [of l] Cons.prems show ?thesis by simp
  qed
qed (simp add: from_window_def limiter_ok_def)

text \<open>A window from before the minute contributes its rest, and one new window may open.\<close>

lemma grants_two_windows:
  assumes "from_window l ts" and "\<forall>t \<in> set ts. a \<le> t" and "windowStart l < a"
  shows "int (length (in_minute a (grants l ts))) \<le> 2 * lmax l - count l"
  using assms
proof (induction ts arbitrary: l)
  case (Cons now ts)
  show ?case
  proof (cases rule: wait_turn_cases [of now l ts])
    case (granted l')
    note g = wait_turn_grant [OF granted(1)] and w = from_window_step(2) [OF Cons.prems(1) granted(1)]
    show ?thesis
    proof (cases "windowStart l' = windowStart l \<and> count l' = count l + 1")
      case True
      with Cons.IH [of l'] Cons.prems g w granted(2) show ?thesis by auto
    next
      case False
      with g w Cons.prems granted(2) grants_one_window [of l' ts a] show ?thesis
        by (auto simp: from_window_def limiter_ok_def IsZero_def)
    qed
  next
    case (refused d l')
    with from_window_step(1) [OF Cons.prems(1) refused(1)] Cons.IH [of l] Cons.prems show ?thesis by simp
  qed
qed (simp add: from_window_def limiter_ok_def)

lemma grants_first_window:
  assumes "from_window l (now # ts)" and "IsZero (windowStart l)" and "a \<le> now"
  shows "int (length (in_minute a (grants l (now # ts)))) \<le> lmax l"
proof (cases rule: wait_turn_cases [of now l ts])
  case (granted l')
  note g = wait_turn_grant [OF granted(1)] and w = from_window_step(2) [OF assms(1) granted(1)]
  with assms granted(2) grants_one_window [of l' ts a] show ?thesis
    by (auto simp: from_window_def IsZero_def)
next
  case (refused d l')
  with assms wait_turn_sleeps(4,5) [of l now d l'] show ?thesis by (simp add: from_window_def)
qed

lemma grants_minute:
  assumes "from_window l ts"
  shows "int (length (in_minute a (grants l ts))) \<le> 2 * lmax l - 1"
  using assms
proof (induction ts arbitrary: l)
  case (Cons now ts)
  show ?case
  proof (cases "a \<le> now")
    case True
    with Cons.prems have "\<forall>t \<in> set (now # ts). a \<le> t"
      by (auto simp: from_window_def)
    then show ?thesis
      using grants_one_window [OF Cons.prems, of a] grants_two_windows [OF Cons.prems, of a]
        grants_first_window [OF Cons.prems _ True] Cons.prems
      by (cases "IsZero (windowStart l)"; cases "windowStart l < a")
         (auto simp: from_window_def limiter_ok_def not_less)
  next
    case False
    show ?thesis
    proof (cases rule: wait_turn_cases [of now l ts])
      case (granted l')
      with False Cons.IH [of l'] from_window_step(2) [OF Cons.prems granted(1)] show ?thesis by simp
    next
      case (refused d l')
      with Cons.IH [of l'] from_window_step(1) [OF Cons.prems refused(1)] show ?thesis by simp
    qed
  qed
qed (simp add: from_window_def limiter_ok_def)


definition burst :: "time list" where
  "burst = [Time 1, Time 60000000000, Time 60000000001, Time 60000000002]"

lemma burst_granted: "in_minute (Time 60000000000) (grants (newMinuteLimiter 2) burst) = tl burst"
  by code_simp


text \<open>
  A throttled caller gets through. If no other caller touches the limiter, a
  caller whose first turn does not get a slot gets one on the turn after its sleep, which ends
  when the window is a minute old; so \<open>Wait\<close> returns after at most two turns.
\<close>

theorem wait_granted_after_sleep:
  assumes "limiter_ok l" and "AddTime (windowStart l) Minute \<le> now'"
  shows "\<exists>l'. Wait [(now, False, \<lambda>l. l), (now', cancelled, others)] l = Some (Ok (), l')"
proof (cases rule: wait_turn_cases [of now l "[]"])
  case (refused d l')
  from wait_turn_sleeps [OF assms(1) refused(1)] have d: "0 < d" "l' = l" "AddTime now d \<le> now'"
    using assms(2) by auto
  from wait_turn_retry [OF assms(1) refused(1) d(3)] obtain l2 where "wait_turn now' l' = (Inr (), l2)"
    by (cases "wait_turn now' l'") auto
  with d refused(1) show ?thesis by simp
qed simp

definition full_limiter :: minuteLimiter where
  "full_limiter = \<lparr>lmax = 1, windowStart = Time 5, count = 1\<rparr>"

theorem wait_granted_after_sleep_witness:
  "\<exists>l'. Wait [(Time 6, False, \<lambda>l. l), (Time 60000000005, True, \<lambda>l. l)] full_limiter = Some (Ok (), l')"
  by (rule wait_granted_after_sleep)
     (simp_all add: full_limiter_def limiter_ok_def less_eq_time_def Minute_def Second_def)

end
