(* ===== verification/HttpCalls.thy ===== *)
theory HttpCalls
  imports HttpClient
begin

text \<open>
  \<open>Client.Do\<close> as the goroutines run it: each call is at one of the program points between
  two blocking operations, and an action moves one call to its next point together with the
  shared client. Channels are token counts with a capacity, the per-key maps are created
  lazily as in the code.
\<close>

section \<open>Per-key semaphores and limiters\<close>

record keyedSemaphore =
  smax :: nat
  svalues :: "(string \<times> nat) list"

record keyedMinuteLimiter =
  kmax :: int
  limiters :: "(string \<times> minuteLimiter) list"

definition newKeyedSemaphore :: "int \<Rightarrow> keyedSemaphore" where
  "newKeyedSemaphore limit = \<lparr>smax = (if limit \<le> 0 then 10 else nat limit), svalues = []\<rparr>"

definition newKeyedMinuteLimiter :: "int \<Rightarrow> keyedMinuteLimiter" where
  "newKeyedMinuteLimiter limit = \<lparr>kmax = (if limit \<le> 0 then 60 else limit), limiters = []\<rparr>"

definition chan_send :: "nat \<Rightarrow> nat \<Rightarrow> nat option" where
  "chan_send cap n = (if n < cap then Some (n + 1) else None)"

text \<open>A receive with a default branch: an empty channel is left as it is.\<close>

definition chan_recv :: "nat \<Rightarrow> nat" where
  "chan_recv n = (if 0 < n then n - 1 else n)"

definition sem_get :: "string \<Rightarrow> keyedSemaphore \<Rightarrow> nat \<times> keyedSemaphore" where
  "sem_get key s = (case map_of (svalues s) key of
     Some n \<Rightarrow> (n, s) | None \<Rightarrow> (0, s\<lparr>svalues := map_set key 0 (svalues s)\<rparr>))"

definition Acquire :: "string \<Rightarrow> keyedSemaphore \<Rightarrow> keyedSemaphore option" where
  "Acquire key s = (let k = normalizeLimiterKey key; (n, s) = sem_get k s in
     case chan_send (smax s) n of None \<Rightarrow> None
     | Some n' \<Rightarrow> Some (s\<lparr>svalues := map_set k n' (svalues s)\<rparr>))"

definition Release :: "string \<Rightarrow> keyedSemaphore \<Rightarrow> keyedSemaphore" where
  "Release key s = (let k = normalizeLimiterKey key; (n, s) = sem_get k s in
     s\<lparr>svalues := map_set k (chan_recv n) (svalues s)\<rparr>)"

definition limiter_get :: "string \<Rightarrow> keyedMinuteLimiter \<Rightarrow> minuteLimiter \<times> keyedMinuteLimiter" where
  "limiter_get key s = (case map_of (limiters s) key of
     Some l \<Rightarrow> (l, s)
   | None \<Rightarrow> (let l = newMinuteLimiter (kmax s) in (l, s\<lparr>limiters := map_set key l (limiters s)\<rparr>)))"

definition key_turn :: "time \<Rightarrow> string \<Rightarrow> keyedMinuteLimiter \<Rightarrow> (duration + unit) \<times> keyedMinuteLimiter" where
  "key_turn now key s = (let k = normalizeLimiterKey key; (l, s) = limiter_get k s; (d, l') = wait_turn now l in
     (d, s\<lparr>limiters := map_set k l' (limiters s)\<rparr>))"

definition tokens :: "keyedSemaphore \<Rightarrow> string \<Rightarrow> nat" where
  "tokens s k = (case map_of (svalues s) k of Some n \<Rightarrow> n | None \<Rightarrow> 0)"

lemma tokens_set [simp]: "tokens (s\<lparr>svalues := map_set k n (svalues s)\<rparr>) = (tokens s)(k := n)"
  by (auto simp: tokens_def)

lemma sem_get_tokens [simp]:
  "fst (sem_get k s) = tokens s k" "tokens (snd (sem_get k s)) = tokens s"
  "smax (snd (sem_get k s)) = smax s"
  by (auto simp: sem_get_def fun_eq_iff split: option.split) (simp_all add: tokens_def)

lemma Acquire_eq:
  "Acquire key s = (let k = normalizeLimiterKey key; s' = snd (sem_get k s) in
     if tokens s k < smax s
     then Some (s'\<lparr>svalues := map_set k (tokens s k + 1) (svalues s')\<rparr>) else None)"
  by (simp add: Acquire_def Let_def chan_send_def case_prod_beta)

lemma Acquire_Some:
  assumes "Acquire key s = Some s'"
  shows "tokens s (normalizeLimiterKey key) < smax s" and "smax s' = smax s"
    and "tokens s' = (tokens s)(normalizeLimiterKey key := tokens s (normalizeLimiterKey key) + 1)"
  using assms by (simp_all add: Acquire_eq Let_def split: if_split_asm) auto

lemma Acquire_le: "Acquire key s = Some s' \<Longrightarrow> tokens s k \<le> smax s \<Longrightarrow> tokens s' k \<le> smax s"
  using Acquire_Some [of key s s'] by simp

lemma Release_tokens [simp]:
  "tokens (Release key s) = (tokens s)(normalizeLimiterKey key := tokens s (normalizeLimiterKey key) - 1)"
  "smax (Release key s) = smax s"
  by (simp_all add: Release_def Let_def chan_recv_def case_prod_beta)

section \<open>The client and its calls\<close>

record Options =
  Timeout :: duration
  MaxConcurrent :: int
  MaxCallsPerMinute :: int
  MaxConcurrentPerKey :: int
  MaxCallsPerMinutePerKey :: int
  MaxRequestBytes :: int
  ValidateURL :: "(string \<Rightarrow> string option) option"

record Client =
  timeout :: duration
  capacity :: nat
  semaphore :: nat
  limiter :: minuteLimiter
  perKeySem :: keyedSemaphore
  perKeyLimiter :: keyedMinuteLimiter
  maxRequestBytes :: int
  validateURL :: "(string \<Rightarrow> string option) option"

definition or_default :: "int \<Rightarrow> int \<Rightarrow> int" where
  "or_default v d = (if v \<le> 0 then d else v)"

definition NewClient :: "Options \<Rightarrow> Client" where
  "NewClient opts =
     (let maxConcurrent = or_default (MaxConcurrent opts) 10;
          maxCallsPerMinute = or_default (MaxCallsPerMinute opts) 60 in
      \<lparr>timeout = or_default (Timeout opts) (30 * Second),
       capacity = nat maxConcurrent, semaphore = 0,
       limiter = newMinuteLimiter maxCallsPerMinute,
       perKeySem = newKeyedSemaphore (or_default (MaxConcurrentPerKey opts) maxConcurrent),
       perKeyLimiter = newKeyedMinuteLimiter (or_default (MaxCallsPerMinutePerKey opts) maxCallsPerMinute),
       maxRequestBytes = or_default (MaxRequestBytes opts) (2 ^ 20),
       validateURL = ValidateURL opts\<rparr>)"

text \<open>The checks that come before any waiting.\<close>

definition precheck :: "Client \<Rightarrow> int \<Rightarrow> string \<Rightarrow> (do_error, unit) result" where
  "precheck c contentLength url =
     (if 0 < maxRequestBytes c \<and> maxRequestBytes c < contentLength then Err ErrRequestTooLarge
      else (case validateURL c of None \<Rightarrow> Ok ()
        | Some v \<Rightarrow> (case v url of None \<Rightarrow> Ok () | Some e \<Rightarrow> Err (ErrURLBlocked e))))"

definition CheckRedirect :: "Client \<Rightarrow> string \<Rightarrow> (do_error, unit) result" where
  "CheckRedirect c url = (case validateURL c of None \<Rightarrow> Err ErrUseLastResponse
     | Some v \<Rightarrow> (case v url of None \<Rightarrow> Ok () | Some e \<Rightarrow> Err (ErrURLBlocked e)))"

datatype phase = PStart | PWaitGlobal | PWaitKey | PWaitLimit | PWaitKeyLimit | PSent
  | PDone "(do_error, unit) result"

record call =
  contentLength :: int
  curl :: string
  ckey :: "string option"
  phase :: phase

definition call_key :: "call \<Rightarrow> string" where
  "call_key x = LimiterKeyFromContext (ckey x)"

definition release :: "Client \<Rightarrow> Client" where
  "release c = c\<lparr>semaphore := chan_recv (semaphore c)\<rparr>"

definition release_both :: "string \<Rightarrow> Client \<Rightarrow> Client" where
  "release_both key c = release (c\<lparr>perKeySem := Release key (perKeySem c)\<rparr>)"

section \<open>The steps of a call\<close>

definition enter :: "phase \<Rightarrow> call \<Rightarrow> call" where
  "enter p x = x\<lparr>phase := p\<rparr>"

text \<open>\<open>Do\<close> up to \<open>acquire\<close>.\<close>

definition do_check :: "Client \<Rightarrow> call \<Rightarrow> (Client \<times> call) option" where
  "do_check c x = (if phase x \<noteq> PStart then None else
     Some (c, case precheck c (contentLength x) (curl x) of
       Err e \<Rightarrow> enter (PDone (Err e)) x | Ok u \<Rightarrow> enter PWaitGlobal x))"

text \<open>
  \<open>acquire\<close>: the global slot, then the slot of the key; giving up while waiting for the
  second gives the first one back.
\<close>

definition take_global :: "Client \<Rightarrow> call \<Rightarrow> (Client \<times> call) option" where
  "take_global c x = (if phase x \<noteq> PWaitGlobal then None else
     (case chan_send (capacity c) (semaphore c) of None \<Rightarrow> None
      | Some n \<Rightarrow> Some (c\<lparr>semaphore := n\<rparr>, enter PWaitKey x)))"

definition cancel_global :: "Client \<Rightarrow> call \<Rightarrow> (Client \<times> call) option" where
  "cancel_global c x = (if phase x \<noteq> PWaitGlobal then None
     else Some (c, enter (PDone (Err CtxErr)) x))"

definition take_key :: "Client \<Rightarrow> call \<Rightarrow> (Client \<times> call) option" where
  "take_key c x = (if phase x \<noteq> PWaitKey then None else
     (case Acquire (call_key x) (perKeySem c) of None \<Rightarrow> None
      | Some s \<Rightarrow> Some (c\<lparr>perKeySem := s\<rparr>, enter PWaitLimit x)))"

definition cancel_key :: "Client \<Rightarrow> call \<Rightarrow> (Client \<times> call) option" where
  "cancel_key c x = (if phase x \<noteq> PWaitKey then None
     else Some (release (c\<lparr>perKeySem := snd (sem_get (normalizeLimiterKey (call_key x)) (perKeySem c))\<rparr>),
                enter (PDone (Err CtxErr)) x))"

text \<open>
  The two rate limits. A refused turn leaves the call where it is; a context that ends
  during the sleep ends the call, and the deferred release gives both slots back.
\<close>

definition limit_turn :: "time \<Rightarrow> bool \<Rightarrow> Client \<Rightarrow> call \<Rightarrow> (Client \<times> call) option" where
  "limit_turn now cancelled c x = (if phase x \<noteq> PWaitLimit then None else
     (case wait_turn now (limiter c) of
        (Inr u, l) \<Rightarrow> Some (c\<lparr>limiter := l\<rparr>, enter PWaitKeyLimit x)
      | (Inl d, l) \<Rightarrow> Some (if 0 < d \<and> cancelled
           then (release_both (call_key x) (c\<lparr>limiter := l\<rparr>), enter (PDone (Err ErrRateLimited)) x)
           else (c\<lparr>limiter := l\<rparr>, x))))"

definition key_limit_turn :: "time \<Rightarrow> bool \<Rightarrow> Client \<Rightarrow> call \<Rightarrow> (Client \<times> call) option" where
  "key_limit_turn now cancelled c x = (if phase x \<noteq> PWaitKeyLimit then None else
     (case key_turn now (call_key x) (perKeyLimiter c) of
        (Inr u, l) \<Rightarrow> Some (c\<lparr>perKeyLimiter := l\<rparr>, enter PSent x)
      | (Inl d, l) \<Rightarrow> Some (if 0 < d \<and> cancelled
           then (release_both (call_key x) (c\<lparr>perKeyLimiter := l\<rparr>), enter (PDone (Err ErrRateLimited)) x)
           else (c\<lparr>perKeyLimiter := l\<rparr>, x))))"

definition finish :: "Client \<Rightarrow> call \<Rightarrow> (Client \<times> call) option" where
  "finish c x = (if phase x \<noteq> PSent then None
     else Some (release_both (call_key x) c, enter (PDone (Ok ())) x))"

datatype action = ACheck | ATakeGlobal | ACancelGlobal | ATakeKey | ACancelKey
  | ALimit time bool | AKeyLimit time bool | AFinish

fun call_step :: "action \<Rightarrow> Client \<Rightarrow> call \<Rightarrow> (Client \<times> call) option" where
  "call_step ACheck = do_check"
| "call_step ATakeGlobal = take_global"
| "call_step ACancelGlobal = cancel_global"
| "call_step ATakeKey = take_key"
| "call_step ACancelKey = cancel_key"
| "call_step (ALimit now cancelled) = limit_turn now cancelled"
| "call_step (AKeyLimit now cancelled) = key_limit_turn now cancelled"
| "call_step AFinish = finish"

lemmas step_defs = do_check_def take_global_def cancel_global_def take_key_def cancel_key_def
  limit_turn_def key_limit_turn_def finish_def enter_def

text \<open>The whole system: the client, the calls begun so far, and one more call or one step.\<close>

inductive reach :: "Options \<Rightarrow> Client \<Rightarrow> call list \<Rightarrow> bool" for opts where
  reach_new: "reach opts (NewClient opts) []"
| reach_call: "reach opts c xs \<Longrightarrow> phase x = PStart \<Longrightarrow> reach opts c (xs @ [x])"
| reach_step: "reach opts c xs \<Longrightarrow> i < length xs \<Longrightarrow> call_step a c (xs ! i) = Some (c', x') \<Longrightarrow>
    reach opts c' (xs[i := x'])"

section \<open>Slot accounting\<close>

definition holds_global :: "call \<Rightarrow> bool" where
  "holds_global x \<longleftrightarrow> phase x \<in> {PWaitKey, PWaitLimit, PWaitKeyLimit, PSent}"

definition holds_key :: "string \<Rightarrow> call \<Rightarrow> bool" where
  "holds_key k x \<longleftrightarrow> phase x \<in> {PWaitLimit, PWaitKeyLimit, PSent} \<and> normalizeLimiterKey (call_key x) = k"

definition n_of :: "(call \<Rightarrow> bool) \<Rightarrow> call list \<Rightarrow> nat" where
  "n_of P xs = length (filter P xs)"

lemma n_of_simps [simp]: "n_of P [] = 0" "n_of P (xs @ [x]) = n_of P xs + of_bool (P x)"
  by (simp_all add: n_of_def)

lemma n_of_update:
  "i < length xs \<Longrightarrow> n_of P (xs[i := x']) + of_bool (P (xs ! i)) = n_of P xs + of_bool (P x')"
proof (induction xs arbitrary: i)
  case (Cons x xs)
  show ?case
  proof (cases i)
    case (Suc j)
    with Cons.prems Cons.IH [of j] show ?thesis by (simp add: n_of_def)
  qed (simp add: n_of_def)
qed simp

lemma n_of_pos: "i < length xs \<Longrightarrow> P (xs ! i) \<Longrightarrow> 0 < n_of P xs"
  by (auto simp: n_of_def filter_empty_conv)

text \<open>
  What one step does to the slots, against what it does to the call, provided that the slots
  the call holds are really taken.
\<close>

definition held :: "Client \<Rightarrow> call \<Rightarrow> bool" where
  "held c x \<longleftrightarrow> (holds_global x \<longrightarrow> 0 < semaphore c) \<and> (\<forall>k. holds_key k x \<longrightarrow> 0 < tokens (perKeySem c) k)"

definition slot_step :: "Client \<Rightarrow> call \<Rightarrow> Client \<Rightarrow> call \<Rightarrow> bool" where
  "slot_step c x c' x' \<longleftrightarrow>
     semaphore c' + of_bool (holds_global x) = semaphore c + of_bool (holds_global x')
   \<and> (\<forall>k. tokens (perKeySem c') k + of_bool (holds_key k x)
          = tokens (perKeySem c) k + of_bool (holds_key k x'))
   \<and> capacity c' = capacity c \<and> smax (perKeySem c') = smax (perKeySem c)
   \<and> (semaphore c \<le> capacity c \<longrightarrow> semaphore c' \<le> capacity c)
   \<and> (\<forall>k. tokens (perKeySem c) k \<le> smax (perKeySem c) \<longrightarrow> tokens (perKeySem c') k \<le> smax (perKeySem c))"

lemma enter_sel [simp]: "phase (enter p x) = p" "call_key (enter p x) = call_key x"
  by (simp_all add: enter_def call_key_def)

lemma holds_enter:
  "holds_global (enter p x) \<longleftrightarrow> p \<in> {PWaitKey, PWaitLimit, PWaitKeyLimit, PSent}"
  "holds_key k (enter p x) \<longleftrightarrow> p \<in> {PWaitLimit, PWaitKeyLimit, PSent} \<and> normalizeLimiterKey (call_key x) = k"
  by (auto simp: holds_global_def holds_key_def enter_def call_key_def)

lemma holds_phase:
  assumes "phase x = p"
  shows "holds_global x \<longleftrightarrow> p \<in> {PWaitKey, PWaitLimit, PWaitKeyLimit, PSent}"
    and "holds_key k x \<longleftrightarrow> p \<in> {PWaitLimit, PWaitKeyLimit, PSent} \<and> normalizeLimiterKey (call_key x) = k"
  using assms by (auto simp: holds_global_def holds_key_def)

lemma slot_step_same:
  assumes "semaphore c' = semaphore c" "perKeySem c' = perKeySem c" "capacity c' = capacity c"
    and "holds_global x' = holds_global x" "\<And>k. holds_key k x' = holds_key k x"
  shows "slot_step c x c' x'"
  using assms by (simp add: slot_step_def)

lemma release_both_sel:
  "semaphore (release_both k c) = semaphore c - 1" "capacity (release_both k c) = capacity c"
  "perKeySem (release_both k c) = Release k (perKeySem c)"
  by (simp_all add: release_both_def release_def chan_recv_def)

lemma slot_step_release:
  assumes "phase x \<in> {PWaitLimit, PWaitKeyLimit, PSent}" and "held c x"
    and "semaphore c' = semaphore c" "perKeySem c' = perKeySem c" "capacity c' = capacity c"
  shows "slot_step c x (release_both (call_key x) c') (enter (PDone r) x)"
  using assms by (auto simp: slot_step_def release_both_sel holds_enter held_def holds_phase)

lemma do_check_slots: "do_check c x = Some (c', x') \<Longrightarrow> slot_step c x c' x'"
  by (auto simp: do_check_def holds_enter holds_phase split: if_splits sum.splits intro!: slot_step_same)

lemma take_global_slots: "take_global c x = Some (c', x') \<Longrightarrow> slot_step c x c' x'"
  by (auto simp: take_global_def chan_send_def slot_step_def holds_enter holds_phase
      split: if_splits)

lemma cancel_global_slots: "cancel_global c x = Some (c', x') \<Longrightarrow> slot_step c x c' x'"
  by (auto simp: cancel_global_def holds_enter holds_phase split: if_splits intro!: slot_step_same)

lemma take_key_slots: "take_key c x = Some (c', x') \<Longrightarrow> slot_step c x c' x'"
  by (auto simp: take_key_def slot_step_def holds_enter holds_phase dest: Acquire_Some Acquire_le
      split: if_splits option.splits)

lemma cancel_key_slots: "cancel_key c x = Some (c', x') \<Longrightarrow> held c x \<Longrightarrow> slot_step c x c' x'"
  by (auto simp: cancel_key_def release_def chan_recv_def held_def slot_step_def holds_enter holds_phase
      split: if_splits)

lemma limit_turn_slots: "limit_turn now k c x = Some (c', x') \<Longrightarrow> held c x \<Longrightarrow> slot_step c x c' x'"
  by (auto simp: limit_turn_def holds_enter holds_phase split: if_splits prod.splits sum.splits
      intro!: slot_step_same slot_step_release)

lemma key_limit_turn_slots: "key_limit_turn now k c x = Some (c', x') \<Longrightarrow> held c x \<Longrightarrow> slot_step c x c' x'"
  by (auto simp: key_limit_turn_def holds_enter holds_phase split: if_splits prod.splits sum.splits
      intro!: slot_step_same slot_step_release)

lemma finish_slots: "finish c x = Some (c', x') \<Longrightarrow> held c x \<Longrightarrow> slot_step c x c' x'"
  by (auto simp: finish_def split: if_splits intro!: slot_step_release)

lemma call_step_slots: "call_step a c x = Some (c', x') \<Longrightarrow> held c x \<Longrightarrow> slot_step c x c' x'"
  by (cases a) (simp_all add: do_check_slots take_global_slots cancel_global_slots take_key_slots
      cancel_key_slots limit_turn_slots key_limit_turn_slots finish_slots)


section \<open>Invariants of the system\<close>

definition accounted :: "Client \<Rightarrow> call list \<Rightarrow> bool" where
  "accounted c xs \<longleftrightarrow> semaphore c = n_of holds_global xs
     \<and> (\<forall>k. tokens (perKeySem c) k = n_of (holds_key k) xs)"

definition within :: "Client \<Rightarrow> bool" where
  "within c \<longleftrightarrow> semaphore c \<le> capacity c \<and> (\<forall>k. tokens (perKeySem c) k \<le> smax (perKeySem c))"

definition config :: "Client \<Rightarrow> nat \<times> nat \<times> int \<times> (string \<Rightarrow> string option) option" where
  "config c = (capacity c, smax (perKeySem c), maxRequestBytes c, validateURL c)"

lemma accounted_held: "accounted c xs \<Longrightarrow> i < length xs \<Longrightarrow> held c (xs ! i)"
  using n_of_pos [of i xs] by (auto simp: held_def accounted_def)

lemma accounted_step:
  assumes "accounted c xs" and "i < length xs" and "slot_step c (xs ! i) c' x'"
  shows "accounted c' (xs[i := x'])"
  unfolding accounted_def
proof (intro conjI allI)
  show "semaphore c' = n_of holds_global (xs[i := x'])"
    using assms n_of_update [OF assms(2), of holds_global x'] by (simp add: accounted_def slot_step_def)
  show "tokens (perKeySem c') k = n_of (holds_key k) (xs[i := x'])" for k
    using assms n_of_update [OF assms(2), of "holds_key k" x'] unfolding accounted_def slot_step_def
    by (metis add_right_cancel)
qed

lemma config_enter [simp]:
  "config (c\<lparr>semaphore := n\<rparr>) = config c" "config (c\<lparr>limiter := l\<rparr>) = config c"
  "config (c\<lparr>perKeyLimiter := kl\<rparr>) = config c" "config (release_both k c) = config c"
  "config (release c) = config c"
  by (simp_all add: config_def release_both_def release_def)

lemma config_perKeySem:
  "Acquire k (perKeySem c) = Some s \<Longrightarrow> config (c\<lparr>perKeySem := s\<rparr>) = config c"
  "config (c\<lparr>perKeySem := snd (sem_get k (perKeySem c))\<rparr>) = config c"
  by (auto simp: config_def dest: Acquire_Some(2))

lemma call_step_config: "call_step a c x = Some (c', x') \<Longrightarrow> config c' = config c"
  by (cases a) (auto simp: step_defs chan_send_def config_perKeySem
      split: if_splits option.splits prod.splits sum.splits)

definition sound :: "Options \<Rightarrow> Client \<Rightarrow> call list \<Rightarrow> bool" where
  "sound opts c xs \<longleftrightarrow> accounted c xs \<and> within c \<and> config c = config (NewClient opts)"

lemma reach_sound: "reach opts c xs \<Longrightarrow> sound opts c xs"
proof (induction rule: reach.induct)
  case reach_new
  show ?case
    by (simp add: sound_def accounted_def within_def NewClient_def Let_def newKeyedSemaphore_def tokens_def)
next
  case (reach_call c xs x)
  then show ?case by (simp add: sound_def accounted_def holds_global_def holds_key_def)
next
  case (reach_step c xs i a c' x')
  then have "slot_step c (xs ! i) c' x'"
    using call_step_slots accounted_held by (auto simp: sound_def)
  moreover from this reach_step have "within c'"
    by (auto simp: sound_def within_def slot_step_def)
  ultimately show ?case
    using reach_step accounted_step call_step_config unfolding sound_def by metis
qed

text \<open>A call that is past the checks has passed them.\<close>

definition cleared :: "Options \<Rightarrow> call \<Rightarrow> bool" where
  "cleared opts x \<longleftrightarrow> (phase x = PStart \<or> (\<exists>e. phase x = PDone (Err e)))
     \<or> precheck (NewClient opts) (contentLength x) (curl x) = Ok ()"

lemma precheck_config: "config c = config d \<Longrightarrow> precheck c n u = precheck d n u"
  by (simp add: precheck_def config_def)

lemma call_step_phase:
  assumes "call_step a c x = Some (c', x')"
  shows "contentLength x' = contentLength x" "curl x' = curl x"
    and "phase x = PStart \<Longrightarrow> (\<exists>e. phase x' = PDone (Err e)) \<or> precheck c (contentLength x) (curl x) = Ok ()"
    and "phase x \<noteq> PDone r" and "phase x' \<noteq> PStart"
  using assms by (cases a; auto simp: step_defs split: if_splits option.splits prod.splits sum.splits)+

lemma reach_cleared: "reach opts c xs \<Longrightarrow> \<forall>x \<in> set xs. cleared opts x"
proof (induction rule: reach.induct)
  case (reach_step c xs i a c' x')
  have "cleared opts (xs ! i)" using reach_step by simp
  moreover have "config c = config (NewClient opts)"
    using reach_sound [OF reach_step(1)] by (simp add: sound_def)
  ultimately have "cleared opts x'"
    using call_step_phase [OF reach_step(3)] precheck_config by (metis cleared_def)
  then show ?case using reach_step(4) set_update_subset_insert [of xs i x'] by blast
qed (auto simp: cleared_def)

text \<open>
  Property C12: the concurrency slots are accounted for exactly. Whatever the interleaving of
  calls, cancellations and rate-limit refusals, the global semaphore holds one token per call
  between \<open>acquire\<close> and its release, each key's semaphore one per such call of that key,
  and neither exceeds its configured capacity: nothing is lost on an error path and nothing
  is released twice. In particular no token is left when every call has ended.
\<close>

theorem slots_accounted:
  assumes "reach opts c xs"
  shows "semaphore c = n_of holds_global xs \<and> semaphore c \<le> capacity (NewClient opts)
     \<and> tokens (perKeySem c) k = n_of (holds_key k) xs
     \<and> tokens (perKeySem c) k \<le> smax (perKeySem (NewClient opts))"
  using reach_sound [OF assms] unfolding sound_def accounted_def within_def config_def
  by (metis prod.inject)


section \<open>A concrete run\<close>

definition demo_opts :: Options where
  "demo_opts = \<lparr>Timeout = 0, MaxConcurrent = 1, MaxCallsPerMinute = 5, MaxConcurrentPerKey = 0,
     MaxCallsPerMinutePerKey = 0, MaxRequestBytes = 100,
     ValidateURL = Some (\<lambda>u. if u = ''http://ok'' then None else Some ''blocked'')\<rparr>"

definition demo_call :: call where
  "demo_call = \<lparr>contentLength = 10, curl = ''http://ok'', ckey = None, phase = PStart\<rparr>"

fun run_actions :: "action list \<Rightarrow> Client \<Rightarrow> call \<Rightarrow> (Client \<times> call) option" where
  "run_actions [] c x = Some (c, x)"
| "run_actions (a # as) c x = (case call_step a c x of None \<Rightarrow> None | Some (c', x') \<Rightarrow> run_actions as c' x')"

lemma run_actions_reach:
  "reach opts c [x] \<Longrightarrow> run_actions as c x = Some (c', x') \<Longrightarrow> reach opts c' [x']"
proof (induction as arbitrary: c x)
  case (Cons a as)
  from Cons.prems(2) obtain d y where d: "call_step a c x = Some (d, y)" "run_actions as d y = Some (c', x')"
    by (auto split: option.splits)
  from reach_step [OF Cons.prems(1), of 0 a d y] d(1) have "reach opts d [y]" by simp
  then show ?case using d(2) by (rule Cons.IH)
qed simp

definition demo_path :: "action list" where
  "demo_path = [ACheck, ATakeGlobal, ATakeKey, ALimit (Time 1) False, AKeyLimit (Time 2) False]"

definition demo_end :: "Client \<times> call" where
  "demo_end = the (run_actions demo_path (NewClient demo_opts) demo_call)"

lemma demo_reach: "reach demo_opts (fst demo_end) [snd demo_end]"
proof -
  have "reach demo_opts (NewClient demo_opts) [demo_call]"
    using reach_call [OF reach_new, of demo_call] by (simp add: demo_call_def)
  moreover have "case run_actions demo_path (NewClient demo_opts) demo_call of None \<Rightarrow> False | Some r \<Rightarrow> True"
    by code_simp
  ultimately show ?thesis
    using run_actions_reach by (auto simp: demo_end_def split: option.splits)
qed

lemma demo_sent: "phase (snd demo_end) = PSent" "n_of holds_global [snd demo_end] = 1"
  "curl (snd demo_end) = ''http://ok''" "contentLength (snd demo_end) = 10"
  by code_simp+

theorem slots_accounted_witness:
  "semaphore (fst demo_end) = n_of holds_global [snd demo_end] \<and> n_of holds_global [snd demo_end] = 1"
  using slots_accounted [OF demo_reach] demo_sent by simp


end
