(* ===== verification/GoUrl.thy ===== *)
theory GoUrl
  imports GoPrelude
begin

text \<open>
  The part of Go's \<open>net/url\<close> (Go 1.25.1) the gateway uses: percent-encoding in its modes,
  \<open>Parse\<close>, \<open>String\<close>, host and port splitting, query strings. The URL parser decides which
  upstream a call goes to, so it is written out rather than assumed.
\<close>

datatype encoding = EncPath | EncPathSegment | EncHost | EncZone | EncUserPassword
  | EncQueryComponent | EncFragment

datatype url_error = UrlError string

section \<open>Percent-encoding\<close>

definition is_alpha :: "char \<Rightarrow> bool" where
  "is_alpha c \<longleftrightarrow> (let n = of_char c :: nat in 65 \<le> n \<and> n \<le> 90 \<or> 97 \<le> n \<and> n \<le> 122)"

definition is_digit :: "char \<Rightarrow> bool" where
  "is_digit c \<longleftrightarrow> (let n = of_char c :: nat in 48 \<le> n \<and> n \<le> 57)"

definition is_alnum :: "char \<Rightarrow> bool" where
  "is_alnum c \<longleftrightarrow> is_alpha c \<or> is_digit c"

definition shouldEscape :: "char \<Rightarrow> encoding \<Rightarrow> bool" where
  "shouldEscape c mode =
     (if is_alnum c then False
      else if mode \<in> {EncHost, EncZone} \<and> c \<in> set (CHR 0x27 # CHR 0x22 # ''!$&()*+,;=:[]<>'') then False
      else if c \<in> set ''-_.~'' then False
      else if c \<in> set ''$&+,/:;=?@'' then
        (case mode of
           EncPath \<Rightarrow> c = CHR ''?''
         | EncPathSegment \<Rightarrow> c \<in> set ''/;,?''
         | EncUserPassword \<Rightarrow> c \<in> set ''@/?:''
         | EncQueryComponent \<Rightarrow> True
         | EncFragment \<Rightarrow> False
         | _ \<Rightarrow> True)
      else if mode = EncFragment \<and> c \<in> set ''!()*'' then False
      else True)"

definition upper_hex :: "nat \<Rightarrow> char" where
  "upper_hex d = (if d < 10 then char_of (48 + d) else char_of (55 + d))"

definition ishex :: "char \<Rightarrow> bool" where
  "ishex c \<longleftrightarrow> (let n = of_char c :: nat in 48 \<le> n \<and> n \<le> 57 \<or> 97 \<le> n \<and> n \<le> 102 \<or> 65 \<le> n \<and> n \<le> 70)"

definition unhex :: "char \<Rightarrow> nat" where
  "unhex c = (let n = of_char c :: nat in
     if 48 \<le> n \<and> n \<le> 57 then n - 48 else if 97 \<le> n \<and> n \<le> 102 then n - 87 else n - 55)"

definition escape_char :: "encoding \<Rightarrow> char \<Rightarrow> string" where
  "escape_char mode c =
     (if \<not> shouldEscape c mode then [c]
      else if c = CHR '' '' \<and> mode = EncQueryComponent then ''+''
      else (let n = of_char c :: nat in [CHR ''%'', upper_hex (n div 16), upper_hex (n mod 16)]))"

definition escape :: "string \<Rightarrow> encoding \<Rightarrow> string" where
  "escape s mode = concat (map (escape_char mode) s)"

definition unescape_error :: "string \<Rightarrow> url_error" where
  "unescape_error s = UrlError (''invalid URL escape '' @ quote (take 3 s))"

text \<open>The checks on one \<open>%XX\<close> group, then the byte itself; other bytes pass unless the mode forbids them.\<close>

fun unescape :: "string \<Rightarrow> encoding \<Rightarrow> (url_error, string) result" where
  "unescape [] mode = Ok []"
| "unescape (c # s) mode =
     (if c = CHR ''%'' then
        (case s of
           a # b # t \<Rightarrow>
             if \<not> (ishex a \<and> ishex b) then Err (unescape_error (c # s))
             else if mode = EncHost \<and> unhex a < 8 \<and> \<not> (a = CHR ''2'' \<and> b = CHR ''5'')
               then Err (unescape_error (c # s))
             else if mode = EncZone \<and> (let v = unhex a * 16 + unhex b in
                 \<not> (a = CHR ''2'' \<and> b = CHR ''5'') \<and> v \<noteq> 32 \<and> shouldEscape (char_of v) EncHost)
               then Err (unescape_error (c # s))
             else (case unescape t mode of Err e \<Rightarrow> Err e
                   | Ok r \<Rightarrow> Ok (char_of (unhex a * 16 + unhex b) # r))
         | _ \<Rightarrow> Err (unescape_error (c # s)))
      else if mode \<in> {EncHost, EncZone} \<and> (of_char c :: nat) < 128 \<and> shouldEscape c mode
        then Err (UrlError (''invalid character '' @ quote [c] @ '' in host name''))
      else (case unescape s mode of Err e \<Rightarrow> Err e
            | Ok r \<Rightarrow> Ok ((if c = CHR ''+'' \<and> mode = EncQueryComponent then CHR '' '' else c) # r)))"

definition PathEscape :: "string \<Rightarrow> string" where
  "PathEscape s = escape s EncPathSegment"

definition PathUnescape :: "string \<Rightarrow> (url_error, string) result" where
  "PathUnescape s = unescape s EncPathSegment"

definition QueryEscape :: "string \<Rightarrow> string" where
  "QueryEscape s = escape s EncQueryComponent"

definition QueryUnescape :: "string \<Rightarrow> (url_error, string) result" where
  "QueryUnescape s = unescape s EncQueryComponent"

lemma hex_halves: "(of_char c :: nat) div 16 < 16" "(of_char c :: nat) mod 16 < 16"
  using nat_of_char_less_256 [of c] by linarith+

lemma hex_roundtrip: "d < 16 \<Longrightarrow> ishex (upper_hex d) \<and> unhex (upper_hex d) = d"
  by (auto simp: upper_hex_def ishex_def unhex_def)

lemma upper_hex_plain: "d < 16 \<Longrightarrow> upper_hex d \<noteq> CHR ''%''"
  using hex_roundtrip [of d] by (auto simp: ishex_def)

lemma of_char_split: "char_of ((of_char c :: nat) div 16 * 16 + of_char c mod 16) = c"
  by simp

lemma percent_escaped: "mode \<notin> {EncHost, EncZone} \<Longrightarrow> shouldEscape CHR ''%'' mode"
  by (cases mode) (simp_all add: shouldEscape_def is_alnum_def is_alpha_def is_digit_def)

lemma plus_escaped: "shouldEscape CHR ''+'' EncQueryComponent"
  by (simp add: shouldEscape_def is_alnum_def is_alpha_def is_digit_def)

lemma unescape_percent:
  assumes "mode \<notin> {EncHost, EncZone}" and "ishex a" and "ishex b"
  shows "unescape (CHR ''%'' # a # b # s) mode = (case unescape s mode of Err e \<Rightarrow> Err e
     | Ok r \<Rightarrow> Ok (char_of (unhex a * 16 + unhex b) # r))"
  using assms by simp

lemma unescape_plain:
  assumes "mode \<notin> {EncHost, EncZone}" and "c \<noteq> CHR ''%''" and "c = CHR ''+'' \<longrightarrow> mode \<noteq> EncQueryComponent"
  shows "unescape (c # s) mode = (case unescape s mode of Err e \<Rightarrow> Err e | Ok r \<Rightarrow> Ok (c # r))"
  using assms by (auto split: sum.split)

lemma unescape_space:
  "unescape (CHR ''+'' # s) EncQueryComponent =
     (case unescape s EncQueryComponent of Err e \<Rightarrow> Err e | Ok r \<Rightarrow> Ok (CHR '' '' # r))"
  by (simp split: sum.split)

lemma unescape_escape_char:
  assumes "mode \<notin> {EncHost, EncZone}"
  shows "unescape (escape_char mode c @ s) mode =
     (case unescape s mode of Err e \<Rightarrow> Err e | Ok r \<Rightarrow> Ok (c # r))"
proof (cases "shouldEscape c mode")
  case False
  then have "c \<noteq> CHR ''%''" "c = CHR ''+'' \<longrightarrow> mode \<noteq> EncQueryComponent"
    using percent_escaped [OF assms] plus_escaped by auto
  with False assms show ?thesis by (simp add: escape_char_def unescape_plain del: unescape.simps)
next
  case True
  show ?thesis
  proof (cases "c = CHR '' '' \<and> mode = EncQueryComponent")
    case False
    with True have "escape_char mode c @ s
        = CHR ''%'' # upper_hex (of_char c div 16) # upper_hex (of_char c mod 16) # s"
      by (simp add: escape_char_def Let_def)
    moreover have "char_of (unhex (upper_hex (of_char c div 16)) * 16 + unhex (upper_hex (of_char c mod 16))) = c"
      using hex_halves [of c, THEN hex_roundtrip] by simp
    ultimately show ?thesis
      using hex_halves [of c, THEN hex_roundtrip] by (simp add: unescape_percent [OF assms] del: unescape.simps split: sum.split)
  qed (use True in \<open>simp add: escape_char_def unescape_space del: unescape.simps split: sum.split\<close>)
qed

text \<open>Outside the host modes, decoding undoes encoding.\<close>

lemma unescape_escape: "mode \<notin> {EncHost, EncZone} \<Longrightarrow> unescape (escape s mode) mode = Ok s"
proof (induction s)
  case (Cons c s)
  have "escape (c # s) mode = escape_char mode c @ escape s mode" by (simp add: escape_def)
  with Cons show ?case by (simp add: unescape_escape_char)
qed (simp add: escape_def)

lemma PathUnescape_PathEscape [simp]: "PathUnescape (PathEscape s) = Ok s"
  by (simp add: PathUnescape_def PathEscape_def unescape_escape)

lemma QueryUnescape_QueryEscape [simp]: "QueryUnescape (QueryEscape s) = Ok s"
  by (simp add: QueryUnescape_def QueryEscape_def unescape_escape)

lemma escape_char_set: "d \<in> set (escape_char mode c) \<Longrightarrow>
    d = c \<and> \<not> shouldEscape c mode \<or> d = CHR ''+'' \<or> d = CHR ''%'' \<or> ishex d"
proof -
  from hex_halves [THEN hex_roundtrip] show "d \<in> set (escape_char mode c) \<Longrightarrow> ?thesis"
    by (auto simp: escape_char_def Let_def split: if_splits)
qed

text \<open>An escaped path segment contains no separator of a path, query or fragment.\<close>

lemma PathEscape_clean: "set (PathEscape s) \<inter> set ''/?#;, '' = {}"
proof -
  have "d \<notin> set ''/?#;, ''" if "d \<in> set (PathEscape s)" for d
  proof -
    from that obtain c where "d \<in> set (escape_char EncPathSegment c)"
      by (auto simp: PathEscape_def escape_def)
    from escape_char_set [OF this] show ?thesis
      by (auto simp: shouldEscape_def ishex_def is_alnum_def is_alpha_def is_digit_def)
  qed
  then show ?thesis by auto
qed

section \<open>URLs\<close>

record URL =
  Scheme :: string
  Opaque :: string
  Userinfo :: "(string \<times> string option) option"
  URLHost :: string
  Path :: string
  RawPath :: string
  OmitHost :: bool
  ForceQuery :: bool
  RawQuery :: string
  Fragment :: string
  RawFragment :: string

definition empty_url :: URL where
  "empty_url = \<lparr>Scheme = [], Opaque = [], Userinfo = None, URLHost = [], Path = [], RawPath = [],
     OmitHost = False, ForceQuery = False, RawQuery = [], Fragment = [], RawFragment = []\<rparr>"

text \<open>\<open>getScheme\<close>: the scheme read so far (reversed) and whether a byte was read.\<close>

fun getScheme_from :: "string \<Rightarrow> string \<Rightarrow> string \<Rightarrow> (url_error, string \<times> string) result" where
  "getScheme_from raw acc [] = Ok ([], raw)"
| "getScheme_from raw acc (c # s) =
     (if is_alpha c then getScheme_from raw (c # acc) s
      else if is_digit c \<or> c \<in> set ''+-.'' then
        (if acc = [] then Ok ([], raw) else getScheme_from raw (c # acc) s)
      else if c = CHR '':'' then
        (if acc = [] then Err (UrlError ''missing protocol scheme'') else Ok (rev acc, s))
      else Ok ([], raw))"

definition getScheme :: "string \<Rightarrow> (url_error, string \<times> string) result" where
  "getScheme raw = getScheme_from raw [] raw"

definition validOptionalPort :: "string \<Rightarrow> bool" where
  "validOptionalPort port = (case port of [] \<Rightarrow> True | c # s \<Rightarrow> c = CHR '':'' \<and> list_all is_digit s)"

definition validUserinfo :: "string \<Rightarrow> bool" where
  "validUserinfo s = list_all (\<lambda>c. is_alnum c \<or> c \<in> set (CHR 0x27 # ''-._:~!$&()*+,;=%@'')) s"

definition invalid_port :: "string \<Rightarrow> url_error" where
  "invalid_port p = UrlError (''invalid port '' @ quote p @ '' after host'')"

definition bindE :: "(url_error, 'a) result \<Rightarrow> ('a \<Rightarrow> (url_error, 'b) result) \<Rightarrow> (url_error, 'b) result" where
  "bindE m f = (case m of Err e \<Rightarrow> Err e | Ok a \<Rightarrow> f a)"

lemma bindE_simps [simp]: "bindE (Err e) f = Err e" "bindE (Ok a) f = f a"
  by (simp_all add: bindE_def)

definition parseHost :: "string \<Rightarrow> (url_error, string) result" where
  "parseHost host =
     (if prefix ''['' host then
        (case LastIndexChar host CHR '']'' of
           None \<Rightarrow> Err (UrlError (''missing '' @ [CHR 0x27] @ '']'' @ [CHR 0x27] @ '' in host''))
         | Some i \<Rightarrow>
            if \<not> validOptionalPort (drop (i + 1) host) then Err (invalid_port (drop (i + 1) host))
            else (case Index (take i host) ''%25'' of
                    Some z \<Rightarrow> bindE (unescape (take z host) EncHost) (\<lambda>h1.
                      bindE (unescape (drop z (take i host)) EncZone) (\<lambda>h2.
                      bindE (unescape (drop i host) EncHost) (\<lambda>h3. Ok (h1 @ h2 @ h3))))
                  | None \<Rightarrow> unescape host EncHost))
      else (case LastIndexChar host CHR '':'' of
              Some i \<Rightarrow> if \<not> validOptionalPort (drop i host) then Err (invalid_port (drop i host))
                        else unescape host EncHost
            | None \<Rightarrow> unescape host EncHost))"

definition parseAuthority ::
  "string \<Rightarrow> (url_error, (string \<times> string option) option \<times> string) result" where
  "parseAuthority authority =
     (case LastIndexChar authority CHR ''@'' of
        None \<Rightarrow> bindE (parseHost authority) (\<lambda>h. Ok (None, h))
      | Some i \<Rightarrow> bindE (parseHost (drop (i + 1) authority)) (\<lambda>h.
          (let u = take i authority in
           if \<not> validUserinfo u then Err (UrlError ''net/url: invalid userinfo'')
           else (case Cut u CHR '':'' of (name, pass, found) \<Rightarrow>
             bindE (unescape name EncUserPassword) (\<lambda>n.
             if found then bindE (unescape pass EncUserPassword) (\<lambda>p. Ok (Some (n, Some p), h))
             else Ok (Some (n, None), h))))))"

definition setPath :: "string \<Rightarrow> URL \<Rightarrow> (url_error, URL) result" where
  "setPath p u = bindE (unescape p EncPath) (\<lambda>path.
     Ok (u\<lparr>Path := path, RawPath := (if p = escape path EncPath then [] else p)\<rparr>))"

definition setFragment :: "string \<Rightarrow> URL \<Rightarrow> (url_error, URL) result" where
  "setFragment f u = bindE (unescape f EncFragment) (\<lambda>frag.
     Ok (u\<lparr>Fragment := frag, RawFragment := (if f = escape frag EncFragment then [] else f)\<rparr>))"

definition cut_query :: "string \<Rightarrow> string \<times> bool \<times> string" where
  "cut_query rest =
     (if suffix ''?'' rest \<and> length (filter (\<lambda>c. c = CHR ''?'') rest) = 1
      then (butlast rest, True, [])
      else (case Cut rest CHR ''?'' of (r, q, found) \<Rightarrow> (r, False, q)))"

definition has_ctl :: "string \<Rightarrow> bool" where
  "has_ctl s = list_ex (\<lambda>c. (of_char c :: nat) < 32 \<or> (of_char c :: nat) = 127) s"

definition parse_no_fragment :: "string \<Rightarrow> (url_error, URL) result" where
  "parse_no_fragment raw =
     (if has_ctl raw then Err (UrlError ''net/url: invalid control character in URL'')
      else if raw = ''*'' then Ok (empty_url\<lparr>Path := ''*''\<rparr>)
      else bindE (getScheme raw) (\<lambda>(scheme, rest0).
        case cut_query rest0 of (rest, force, query) \<Rightarrow>
        (let u = empty_url\<lparr>Scheme := ToLower scheme, ForceQuery := force, RawQuery := query\<rparr> in
         if \<not> prefix ''/'' rest \<and> Scheme u \<noteq> [] then Ok (u\<lparr>Opaque := rest\<rparr>)
         else if \<not> prefix ''/'' rest \<and> CHR '':'' \<in> set (takeWhile (\<lambda>c. c \<noteq> CHR ''/'') rest) then
           Err (UrlError ''first path segment in URL cannot contain colon'')
         else if (Scheme u \<noteq> [] \<or> \<not> prefix ''///'' rest) \<and> prefix ''//'' rest then
           (let after = drop 2 rest; authority = takeWhile (\<lambda>c. c \<noteq> CHR ''/'') after;
                path = dropWhile (\<lambda>c. c \<noteq> CHR ''/'') after in
            bindE (parseAuthority authority) (\<lambda>(ui, h).
              setPath path (u\<lparr>Userinfo := ui, URLHost := h\<rparr>)))
         else setPath rest (u\<lparr>OmitHost := (Scheme u \<noteq> [] \<and> prefix ''/'' rest)\<rparr>))))"

definition in_parse :: "string \<Rightarrow> (url_error, 'a) result \<Rightarrow> (url_error, 'a) result" where
  "in_parse s r = (case r of Ok a \<Rightarrow> Ok a
     | Err (UrlError e) \<Rightarrow> Err (UrlError (''parse '' @ quote s @ '': '' @ e)))"

definition parse_url :: "string \<Rightarrow> (url_error, URL) result" where
  "parse_url raw = (case Cut raw CHR ''#'' of (u, frag, found) \<Rightarrow>
     bindE (in_parse u (parse_no_fragment u)) (\<lambda>url.
       if frag = [] then Ok url else in_parse raw (setFragment frag url)))"

definition validEncoded :: "string \<Rightarrow> encoding \<Rightarrow> bool" where
  "validEncoded s mode =
     list_all (\<lambda>c. c \<in> set (CHR 0x27 # ''!$&()*+,;=:@[]%'') \<or> \<not> shouldEscape c mode) s"

definition EscapedPath :: "URL \<Rightarrow> string" where
  "EscapedPath u =
     (if RawPath u \<noteq> [] \<and> validEncoded (RawPath u) EncPath \<and> unescape (RawPath u) EncPath = Ok (Path u)
      then RawPath u else if Path u = ''*'' then ''*'' else escape (Path u) EncPath)"

definition EscapedFragment :: "URL \<Rightarrow> string" where
  "EscapedFragment u =
     (if RawFragment u \<noteq> [] \<and> validEncoded (RawFragment u) EncFragment
         \<and> unescape (RawFragment u) EncFragment = Ok (Fragment u)
      then RawFragment u else escape (Fragment u) EncFragment)"

definition show_user :: "string \<times> string option \<Rightarrow> string" where
  "show_user ui = (case ui of (n, p) \<Rightarrow> escape n EncUserPassword @
     (case p of None \<Rightarrow> [] | Some s \<Rightarrow> '':'' @ escape s EncUserPassword))"

definition show_url :: "URL \<Rightarrow> string" where
  "show_url u =
     (let scheme = (if Scheme u \<noteq> [] then Scheme u @ '':'' else []);
          tail = (if ForceQuery u \<or> RawQuery u \<noteq> [] then ''?'' @ RawQuery u else [])
               @ (if Fragment u \<noteq> [] then ''#'' @ EscapedFragment u else []) in
      if Opaque u \<noteq> [] then scheme @ Opaque u @ tail
      else (let auth = (if (Scheme u \<noteq> [] \<or> URLHost u \<noteq> [] \<or> Userinfo u \<noteq> None)
                  \<and> \<not> (OmitHost u \<and> URLHost u = [] \<and> Userinfo u = None)
                then (if URLHost u \<noteq> [] \<or> Path u \<noteq> [] \<or> Userinfo u \<noteq> None then ''//'' else [])
                  @ (case Userinfo u of None \<Rightarrow> [] | Some ui \<Rightarrow> show_user ui @ ''@'')
                  @ escape (URLHost u) EncHost
                else []);
              path = EscapedPath u;
              buf = scheme @ auth;
              buf = (if path \<noteq> [] \<and> \<not> prefix ''/'' path \<and> URLHost u \<noteq> [] then buf @ ''/'' else buf);
              buf = (if buf = [] \<and> CHR '':'' \<in> set (takeWhile (\<lambda>c. c \<noteq> CHR ''/'') path) then ''./'' else buf)
            in buf @ path @ tail))"

text \<open>\<open>Hostname\<close> and \<open>Port\<close>.\<close>

definition splitHostPort :: "string \<Rightarrow> string \<times> string" where
  "splitHostPort hp =
     (let (h, p) = (case LastIndexChar hp CHR '':'' of
            Some i \<Rightarrow> if validOptionalPort (drop i hp) then (take i hp, drop (i + 1) hp) else (hp, [])
          | None \<Rightarrow> (hp, [])) in
      (if prefix ''['' h \<and> suffix '']'' h then take (length h - 2) (drop 1 h) else h, p))"

definition Hostname :: "URL \<Rightarrow> string" where
  "Hostname u = fst (splitHostPort (URLHost u))"

section \<open>Query strings\<close>

type_synonym url_values = "(string \<times> string list) list"

definition values_add :: "string \<Rightarrow> string \<Rightarrow> url_values \<Rightarrow> url_values" where
  "values_add k v m = map_set k ((case map_of m k of None \<Rightarrow> [] | Some vs \<Rightarrow> vs) @ [v]) m"

definition values_get :: "url_values \<Rightarrow> string \<Rightarrow> string" where
  "values_get m k = (case map_of m k of Some (v # vs) \<Rightarrow> v | _ \<Rightarrow> [])"

text \<open>\<open>ParseQuery\<close> as \<open>URL.Query\<close> uses it: broken pairs are dropped silently.\<close>

fun parse_pairs :: "string list \<Rightarrow> url_values \<Rightarrow> url_values" where
  "parse_pairs [] m = m"
| "parse_pairs (kv # kvs) m =
     (if CHR '';'' \<in> set kv \<or> kv = [] then parse_pairs kvs m
      else (case Cut kv CHR ''='' of (k, v, found) \<Rightarrow>
        (case (QueryUnescape k, QueryUnescape v) of
           (Ok k', Ok v') \<Rightarrow> parse_pairs kvs (values_add k' v' m)
         | _ \<Rightarrow> parse_pairs kvs m)))"

definition ParseQuery :: "string \<Rightarrow> url_values" where
  "ParseQuery q = parse_pairs (Split q CHR ''&'') []"

definition Query :: "URL \<Rightarrow> url_values" where
  "Query u = ParseQuery (RawQuery u)"

text \<open>\<open>Values.Encode\<close>: keys in order, the values of a key in insertion order.\<close>

definition Encode :: "url_values \<Rightarrow> string" where
  "Encode m = Join (concat (map (\<lambda>(k, vs). map (\<lambda>v. QueryEscape k @ ''='' @ QueryEscape v) vs)
     (sort_key fst m))) ''&''"

end
