(* ===== verification/GoNetip.thy ===== *)
theory GoNetip
  imports GoPrelude GoUrl "HOL-Library.Word"
begin

text \<open>
  IP addresses: Go's \<open>net/netip\<close> and \<open>net.SplitHostPort\<close>. An IPv4 address is a 32-bit
  word, an IPv6 address a 128-bit word with its zone. The parser follows the groups of the
  source's loop; the classification predicates read leading bits.
\<close>

datatype Addr = V4 "32 word" | V6 "128 word" string

section \<open>Parsing\<close>

definition digits_value :: "string \<Rightarrow> int" where
  "digits_value s = foldl (\<lambda>v c. v * 10 + (int (of_char c) - 48)) 0 s"

definition ipv4_octet :: "string \<Rightarrow> int option" where
  "ipv4_octet s =
     (if s = [] \<or> \<not> list_all is_digit s \<or> 3 < length s then None
      else if 1 < length s \<and> hd s = CHR ''0'' then None
      else if 255 < digits_value s then None else Some (digits_value s))"

text \<open>Four octets, as the value of 32 bits.\<close>

definition parse_v4 :: "string \<Rightarrow> int option" where
  "parse_v4 s = (case map ipv4_octet (Split s CHR ''.'') of
     [Some a, Some b, Some c, Some d] \<Rightarrow> Some (((a * 256 + b) * 256 + c) * 256 + d)
   | _ \<Rightarrow> None)"

definition hex_value :: "string \<Rightarrow> int" where
  "hex_value s = foldl (\<lambda>v c. v * 16 + int (unhex c)) 0 s"

text \<open>
  The loop of \<open>parseIPv6\<close>: \<open>groups\<close> are the 16-bit fields read so far, \<open>ell\<close> the number of
  fields before the ellipsis. The first argument bounds the rounds: a round adds a field, and
  the loop stops at eight.
\<close>

fun v6_loop :: "nat \<Rightarrow> int list \<Rightarrow> nat option \<Rightarrow> string \<Rightarrow> (int list \<times> nat option \<times> string) option" where
  "v6_loop 0 groups ell s = Some (groups, ell, s)"
| "v6_loop (Suc n) groups ell s =
     (let h = takeWhile ishex s; rest = dropWhile ishex s in
      if h = [] \<or> 4 < length h then None
      else (case rest of
         [] \<Rightarrow> Some (groups @ [hex_value h], ell, [])
       | c # t \<Rightarrow>
           if c = CHR ''.'' then
             (if ell = None \<and> length groups \<noteq> 6 then None
              else if 6 < length groups then None
              else (case parse_v4 s of None \<Rightarrow> None
                    | Some v \<Rightarrow> Some (groups @ [v div 65536, v mod 65536], ell, [])))
           else if c \<noteq> CHR '':'' \<or> t = [] then None
           else if hd t = CHR '':'' then
             (if ell \<noteq> None then None
              else if tl t = [] then Some (groups @ [hex_value h], Some (length groups + 1), [])
              else v6_loop n (groups @ [hex_value h]) (Some (length groups + 1)) (tl t))
           else v6_loop n (groups @ [hex_value h]) ell t))"

definition groups_value :: "int list \<Rightarrow> int" where
  "groups_value gs = foldl (\<lambda>v g. v * 65536 + g) 0 gs"

definition expand_v6 :: "int list \<Rightarrow> nat option \<Rightarrow> int list option" where
  "expand_v6 groups ell = (case ell of
     None \<Rightarrow> if length groups < 8 then None else Some groups
   | Some k \<Rightarrow> if 8 \<le> length groups then None
       else Some (take k groups @ replicate (8 - length groups) 0 @ drop k groups))"

definition parse_v6 :: "string \<Rightarrow> Addr option" where
  "parse_v6 whole =
     (let s = takeWhile (\<lambda>c. c \<noteq> CHR ''%'') whole; zone = drop (length s + 1) whole in
      if CHR ''%'' \<in> set whole \<and> zone = [] then None
      else if s = ''::'' then Some (V6 0 zone)
      else (let (ell, body) = (if prefix ''::'' s then (Some 0, drop 2 s) else (None, s)) in
        case v6_loop 8 [] ell body of
          Some (groups, ell', []) \<Rightarrow>
            (case expand_v6 groups ell' of None \<Rightarrow> None
             | Some gs \<Rightarrow> Some (V6 (word_of_int (groups_value gs)) zone))
        | _ \<Rightarrow> None))"

definition ParseAddr :: "string \<Rightarrow> Addr option" where
  "ParseAddr s = (case dropWhile (\<lambda>c. c \<notin> set ''.:%'') s of
     [] \<Rightarrow> None
   | c # t \<Rightarrow> if c = CHR ''.'' then map_option (\<lambda>v. V4 (word_of_int v)) (parse_v4 s)
             else if c = CHR '':'' then parse_v6 s else None)"

text \<open>\<open>net.SplitHostPort\<close>, None for its errors.\<close>

definition SplitHostPort :: "string \<Rightarrow> (string \<times> string) option" where
  "SplitHostPort hp = (case LastIndexChar hp CHR '':'' of
     None \<Rightarrow> None
   | Some i \<Rightarrow>
      if prefix ''['' hp then
        (let inner = takeWhile (\<lambda>c. c \<noteq> CHR '']'') hp; e = length inner in
         if e = length hp \<or> e + 1 \<noteq> i then None
         else if CHR ''['' \<in> set (drop 1 hp) \<or> CHR '']'' \<in> set (drop (e + 1) hp) then None
         else Some (drop 1 inner, drop (i + 1) hp))
      else if CHR '':'' \<in> set (take i hp) \<or> CHR ''['' \<in> set hp \<or> CHR '']'' \<in> set hp then None
      else Some (take i hp, drop (i + 1) hp))"

section \<open>Classification\<close>

definition Unmap :: "Addr \<Rightarrow> Addr" where
  "Unmap ip = (case ip of V4 w \<Rightarrow> ip
     | V6 w z \<Rightarrow> if drop_bit 32 w = 0xffff then V4 (ucast w) else ip)"

definition IsLoopback :: "Addr \<Rightarrow> bool" where
  "IsLoopback ip = (case ip of V4 w \<Rightarrow> drop_bit 24 w = 127 | V6 w z \<Rightarrow> w = 1)"

definition IsPrivate :: "Addr \<Rightarrow> bool" where
  "IsPrivate ip = (case ip of
     V4 w \<Rightarrow> drop_bit 24 w = 10 \<or> drop_bit 20 w = 0xac1 \<or> drop_bit 16 w = 0xc0a8
   | V6 w z \<Rightarrow> drop_bit 121 w = 0x7e)"

definition IsLinkLocalUnicast :: "Addr \<Rightarrow> bool" where
  "IsLinkLocalUnicast ip = (case ip of V4 w \<Rightarrow> drop_bit 16 w = 0xa9fe | V6 w z \<Rightarrow> drop_bit 118 w = 0x3fa)"

definition IsLinkLocalMulticast :: "Addr \<Rightarrow> bool" where
  "IsLinkLocalMulticast ip = (case ip of V4 w \<Rightarrow> drop_bit 8 w = 0xe00000
     | V6 w z \<Rightarrow> drop_bit 120 w = 0xff \<and> uint (drop_bit 112 w) mod 16 = 2)"

definition IsMulticast :: "Addr \<Rightarrow> bool" where
  "IsMulticast ip = (case ip of V4 w \<Rightarrow> drop_bit 28 w = 0xe | V6 w z \<Rightarrow> drop_bit 120 w = 0xff)"

text \<open>The zone matters here: the zero address with a zone is not the unspecified address.\<close>

definition IsUnspecified :: "Addr \<Rightarrow> bool" where
  "IsUnspecified ip = (case ip of V4 w \<Rightarrow> w = 0 | V6 w z \<Rightarrow> w = 0 \<and> z = [])"

text \<open>A prefix is its leading bits; an address with a zone is in no prefix.\<close>

datatype Prefix = P4 nat "32 word" | P6 nat "128 word"

definition Contains_ip :: "Prefix \<Rightarrow> Addr \<Rightarrow> bool" where
  "Contains_ip p ip = (case (p, ip) of
     (P4 n b, V4 w) \<Rightarrow> drop_bit (32 - n) w = drop_bit (32 - n) b
   | (P6 n b, V6 w z) \<Rightarrow> z = [] \<and> drop_bit (128 - n) w = drop_bit (128 - n) b
   | _ \<Rightarrow> False)"

section \<open>Leading bits of a dotted quad\<close>

definition quad :: "int \<Rightarrow> int \<Rightarrow> int \<Rightarrow> int \<Rightarrow> 32 word" where
  "quad a b c d = word_of_int (((a * 256 + b) * 256 + c) * 256 + d)"

definition octet :: "int \<Rightarrow> bool" where
  "octet a \<longleftrightarrow> 0 \<le> a \<and> a < 256"

lemma uint_quad:
  assumes "octet a" "octet b" "octet c" "octet d"
  shows "uint (quad a b c d) = ((a * 256 + b) * 256 + c) * 256 + d"
proof -
  have "0 \<le> ((a * 256 + b) * 256 + c) * 256 + d" "((a * 256 + b) * 256 + c) * 256 + d < 2 ^ LENGTH(32)"
    using assms by (simp_all add: octet_def)
  then show ?thesis
    unfolding quad_def by (rule word_of_int_inverse [OF refl])
qed

lemma uint_drop_bit: "uint (drop_bit n (w :: 'a::len word)) = uint w div 2 ^ n"
proof -
  have "take_bit LENGTH('a) (uint w) = uint w"
    by (rule take_bit_int_eq_self) (simp_all add: uint_bounded)
  then show ?thesis by (simp add: unsigned_drop_bit_eq drop_bit_eq_div [of n "uint w"])
qed

lemma drop_bit_eq_iff: "drop_bit n (w :: 'a::len word) = v \<longleftrightarrow> uint w div 2 ^ n = uint v"
  by (simp only: word_uint_eq_iff uint_drop_bit)

end
