(* ===== verification/NetGuard.thy ===== *)
theory NetGuard
  imports GoUrl GoNetip
begin

text \<open>
  The SSRF guard (\<open>internal/netguard/guard.go\<close>): which URLs the gateway may call. DNS is
  the argument \<open>resolve\<close>, a resolver's answer for a host name.
\<close>

datatype guard_error = ErrInvalidURL string | ErrHostNotAllowed string | ErrPrivateNetwork string
  | ErrHostResolution string

record GuardConfig =
  AllowedHosts :: "string list"
  BlockPrivateNetworks :: bool

record Guard =
  allowedExact :: "string list"
  allowedSuffix :: "string list"
  blockPrivate :: bool

type_synonym resolver = "string \<Rightarrow> (string, Addr list) result"

definition extraBlockedPrefixes :: "Prefix list" where
  "extraBlockedPrefixes =
    [P4 10 (quad 100 64 0 0), P4 15 (quad 198 18 0 0), P4 4 (quad 240 0 0 0),
     P6 32 (word_of_int 0x20010db8000000000000000000000000)]"

text \<open>The model's addresses are all valid, so the test on \<open>IsValid\<close> has no case here.\<close>

definition isBlockedIP :: "Addr \<Rightarrow> bool" where
  "isBlockedIP ip \<longleftrightarrow>
     IsLoopback ip \<or> IsPrivate ip \<or> IsLinkLocalUnicast ip \<or> IsLinkLocalMulticast ip
   \<or> IsMulticast ip \<or> IsUnspecified ip
   \<or> list_ex (\<lambda>p. Contains_ip p ip) extraBlockedPrefixes"

definition normalizeHost :: "string \<Rightarrow> string" where
  "normalizeHost raw =
     (let value = TrimSpace (ToLower raw) in
      if value = [] then []
      else (let value = (if Contains value ''://''
                  then (case parse_url value of Ok u \<Rightarrow> Hostname u | Err e \<Rightarrow> value) else value);
                value = (case SplitHostPort value of Some (h, p) \<Rightarrow> h | None \<Rightarrow> value);
                value = Trim value ''[]'';
                value = (case LastIndexChar value CHR ''%'' of
                  Some i \<Rightarrow> if 0 < i then take i value else value | None \<Rightarrow> value)
            in TrimSpace value))"

text \<open>Exact entries (a Go set, here in insertion order) and the suffixes of \<open>*.\<close> entries.\<close>

fun normalizeAllowlist :: "string list \<Rightarrow> string list \<times> string list" where
  "normalizeAllowlist [] = ([], [])"
| "normalizeAllowlist (entry # rest) =
     (let (exact, sfx) = normalizeAllowlist rest; item = TrimSpace (ToLower entry) in
      if item = [] then (exact, sfx)
      else if HasPrefix item ''*.'' then
        (let value = normalizeHost (TrimPrefix item ''*.'') in
         if value = [] then (exact, sfx) else (exact, value # sfx))
      else (let value = normalizeHost item in
         if value = [] then (exact, sfx) else (value # exact, sfx)))"

definition NewGuard :: "GuardConfig \<Rightarrow> Guard" where
  "NewGuard cfg = (let (exact, sfx) = normalizeAllowlist (AllowedHosts cfg) in
     \<lparr>allowedExact = exact, allowedSuffix = sfx, blockPrivate = BlockPrivateNetworks cfg\<rparr>)"

definition isAllowed :: "Guard \<Rightarrow> string \<Rightarrow> bool" where
  "isAllowed g host \<longleftrightarrow>
     allowedExact g = [] \<and> allowedSuffix g = []
   \<or> host \<in> set (allowedExact g)
   \<or> list_ex (\<lambda>sfx. host = sfx \<or> HasSuffix host (''.'' @ sfx)) (allowedSuffix g)"

definition ValidateHost :: "Guard \<Rightarrow> resolver \<Rightarrow> string \<Rightarrow> (guard_error, unit) result" where
  "ValidateHost g resolve host =
     (let normalized = normalizeHost host in
      if normalized = [] then Err (ErrInvalidURL ''empty host'')
      else if \<not> isAllowed g normalized then Err (ErrHostNotAllowed normalized)
      else if \<not> blockPrivate g then Ok ()
      else (case ParseAddr normalized of
          Some ip \<Rightarrow> if isBlockedIP (Unmap ip) then Err (ErrPrivateNetwork normalized) else Ok ()
        | None \<Rightarrow>
           (case resolve normalized of
              Err e \<Rightarrow> Err (ErrHostResolution (normalized @ '': '' @ e))
            | Ok addrs \<Rightarrow>
                if addrs = [] then Err (ErrHostResolution (normalized @ '': no records''))
                else if list_ex (\<lambda>a. isBlockedIP (Unmap a)) addrs then Err (ErrPrivateNetwork normalized)
                else Ok ())))"

definition ValidateURL :: "Guard \<Rightarrow> resolver \<Rightarrow> string \<Rightarrow> (guard_error, unit) result" where
  "ValidateURL g resolve rawURL =
     (let trimmed = TrimSpace rawURL in
      if trimmed = [] then Err (ErrInvalidURL ''empty'')
      else (case parse_url trimmed of
          Err (UrlError e) \<Rightarrow> Err (ErrInvalidURL e)
        | Ok u \<Rightarrow>
           (let scheme = ToLower (TrimSpace (Scheme u)) in
            if scheme \<noteq> ''http'' \<and> scheme \<noteq> ''https''
              then Err (ErrInvalidURL (''unsupported scheme '' @ quote (Scheme u)))
            else (let host = TrimSpace (Hostname u) in
              if host = [] then Err (ErrInvalidURL ''missing host'') else ValidateHost g resolve host))))"

section \<open>What the guard lets through\<close>

lemma normalizeHost_nonempty_in:
  "x \<in> set (fst (normalizeAllowlist es)) \<union> set (snd (normalizeAllowlist es)) \<Longrightarrow> x \<noteq> []"
  by (induction es rule: normalizeAllowlist.induct)
     (auto simp: Let_def split: prod.splits if_splits)

definition dot_suffix :: "string \<Rightarrow> string \<Rightarrow> bool" where
  "dot_suffix host sfx \<longleftrightarrow> host = sfx \<or> (\<exists>sub. host = sub @ ''.'' @ sfx)"

lemma isAllowed_iff:
  "isAllowed g host \<longleftrightarrow> allowedExact g = [] \<and> allowedSuffix g = []
     \<or> host \<in> set (allowedExact g) \<or> (\<exists>sfx \<in> set (allowedSuffix g). dot_suffix host sfx)"
  by (auto simp: isAllowed_def dot_suffix_def list_ex_iff HasSuffix_def suffix_def)

text \<open>The addresses a host stands for, as the guard sees them.\<close>

definition host_addrs :: "resolver \<Rightarrow> string \<Rightarrow> Addr list" where
  "host_addrs resolve host = (case ParseAddr host of Some ip \<Rightarrow> [ip]
     | None \<Rightarrow> (case resolve host of Ok addrs \<Rightarrow> addrs | Err e \<Rightarrow> []))"

lemma ValidateHost_Ok_iff:
  "ValidateHost g resolve host = Ok () \<longleftrightarrow>
     normalizeHost host \<noteq> [] \<and> isAllowed g (normalizeHost host)
   \<and> (blockPrivate g \<longrightarrow> host_addrs resolve (normalizeHost host) \<noteq> []
        \<and> (\<forall>a \<in> set (host_addrs resolve (normalizeHost host)). \<not> isBlockedIP (Unmap a)))"
  by (auto simp: ValidateHost_def host_addrs_def Let_def list_ex_iff split: option.splits sum.splits)

text \<open>
  Property C13: what a URL must satisfy to pass the guard, exactly. It parses, its scheme is http
  or https, it names a host, the normalised host is allowlisted (or no allowlist is set): equal
  to an entry, equal to the domain of a wildcard entry or a subdomain of it at a dot boundary;
  and with the private-network block on, the host has addresses and none of them, an IPv4-mapped
  one taken as IPv4, is in a blocked range.
\<close>

theorem ValidateURL_Ok_iff:
  "ValidateURL g resolve raw = Ok () \<longleftrightarrow>
     (\<exists>u. TrimSpace raw \<noteq> [] \<and> parse_url (TrimSpace raw) = Ok u
        \<and> ToLower (TrimSpace (Scheme u)) \<in> {''http'', ''https''}
        \<and> TrimSpace (Hostname u) \<noteq> []
        \<and> (let host = normalizeHost (TrimSpace (Hostname u)) in
             host \<noteq> []
           \<and> (allowedExact g = [] \<and> allowedSuffix g = [] \<or> host \<in> set (allowedExact g)
                \<or> (\<exists>sfx \<in> set (allowedSuffix g). dot_suffix host sfx))
           \<and> (blockPrivate g \<longrightarrow> host_addrs resolve host \<noteq> []
                \<and> (\<forall>a \<in> set (host_addrs resolve host). \<not> isBlockedIP (Unmap a)))))"
  unfolding ValidateURL_def Let_def isAllowed_iff [symmetric]
  by (auto simp: ValidateHost_Ok_iff split: sum.split url_error.split)

lemmas addr_defs = IsLoopback_def IsPrivate_def IsLinkLocalUnicast_def IsLinkLocalMulticast_def
  IsMulticast_def IsUnspecified_def


lemma quad_div3:
  assumes "octet a" "octet b" "octet c" "octet d"
  shows "uint (quad a b c d) div 2 ^ 24 = a" "uint (quad a b c d) div 2 ^ 16 = a * 256 + b"
    "uint (quad a b c d) div 2 ^ 8 = (a * 256 + b) * 256 + c"
proof -
  show "uint (quad a b c d) div 2 ^ 24 = a" unfolding uint_quad [OF assms]
    by (rule int_div_pos_eq [where r = "(b * 256 + c) * 256 + d"]) (use assms in \<open>simp_all add: octet_def\<close>)
  show "uint (quad a b c d) div 2 ^ 16 = a * 256 + b" unfolding uint_quad [OF assms]
    by (rule int_div_pos_eq [where r = "c * 256 + d"]) (use assms in \<open>simp_all add: octet_def\<close>)
  show "uint (quad a b c d) div 2 ^ 8 = (a * 256 + b) * 256 + c" unfolding uint_quad [OF assms]
    by (rule int_div_pos_eq [where r = d]) (use assms in \<open>simp_all add: octet_def\<close>)
qed

lemma div_pow_split: "(x :: int) div 2 ^ 28 = x div 2 ^ 24 div 16" "x div 2 ^ 20 = x div 2 ^ 16 div 16"
  "x div 2 ^ 22 = x div 2 ^ 16 div 64" "x div 2 ^ 17 = x div 2 ^ 16 div 2"
  by (simp_all flip: zdiv_zmult2_eq)

lemma quad_div:
  assumes "octet a" "octet b" "octet c" "octet d"
  shows "uint (quad a b c d) div 2 ^ 28 = a div 16" "uint (quad a b c d) div 2 ^ 20 = (a * 256 + b) div 16"
    "uint (quad a b c d) div 2 ^ 22 = (a * 256 + b) div 64"
    "uint (quad a b c d) div 2 ^ 17 = (a * 256 + b) div 2"
  by (simp_all only: div_pow_split quad_div3 [OF assms])

definition blocked_quad :: "int \<Rightarrow> int \<Rightarrow> int \<Rightarrow> int \<Rightarrow> bool" where
  "blocked_quad a b c d \<longleftrightarrow> a = 0 \<and> b = 0 \<and> c = 0 \<and> d = 0
     \<or> a = 10 \<or> a = 127 \<or> a = 169 \<and> b = 254 \<or> a = 172 \<and> 16 \<le> b \<and> b < 32 \<or> a = 192 \<and> b = 168
     \<or> a = 100 \<and> 64 \<le> b \<and> b < 128 \<or> a = 198 \<and> (b = 18 \<or> b = 19) \<or> 224 \<le> a"

lemma octets [simp]: "octet a \<longleftrightarrow> 0 \<le> a \<and> a < 256"
  by (simp add: octet_def)

lemma div_ranges:
  "(x :: int) div 16 = 14 \<longleftrightarrow> 224 \<le> x \<and> x < 240" "x div 16 = 15 \<longleftrightarrow> 240 \<le> x \<and> x < 256"
  "x div 16 = 0xac1 \<longleftrightarrow> 44048 \<le> x \<and> x < 44064" "x div 64 = 401 \<longleftrightarrow> 25664 \<le> x \<and> x < 25728"
  "x div 2 = 25353 \<longleftrightarrow> x = 50706 \<or> x = 50707"
  by presburger+

lemma octet_interval:
  assumes "octet b" "0 \<le> l" "h \<le> 256"
  shows "p * 256 + l \<le> a * 256 + b \<and> a * 256 + b < p * 256 + h \<longleftrightarrow> a = p \<and> l \<le> b \<and> b < h"
proof (cases a p rule: linorder_cases)
  case less
  then have "a + 1 \<le> p" by simp
  with assms show ?thesis unfolding octets by linarith
next
  case greater
  then have "p + 1 \<le> a" by simp
  with assms show ?thesis unfolding octets by linarith
qed auto

lemma octet_ranges:
  assumes b: "octet b" and c: "octet c"
  shows "44048 \<le> a * 256 + b \<and> a * 256 + b < 44064 \<longleftrightarrow> a = 172 \<and> 16 \<le> b \<and> b < 32"
    and "25664 \<le> a * 256 + b \<and> a * 256 + b < 25728 \<longleftrightarrow> a = 100 \<and> 64 \<le> b \<and> b < 128"
    and "a * 256 + b = 50706 \<longleftrightarrow> a = 198 \<and> b = 18" and "a * 256 + b = 50707 \<longleftrightarrow> a = 198 \<and> b = 19"
    and "a * 256 + b = 0xc0a8 \<longleftrightarrow> a = 192 \<and> b = 168" and "a * 256 + b = 0xa9fe \<longleftrightarrow> a = 169 \<and> b = 254"
    and "(a * 256 + b) * 256 + c = 0xe00000 \<longleftrightarrow> a = 224 \<and> b = 0 \<and> c = 0"
proof -
  note iv = octet_interval [OF b, where a = a]
  show "44048 \<le> a * 256 + b \<and> a * 256 + b < 44064 \<longleftrightarrow> a = 172 \<and> 16 \<le> b \<and> b < 32"
    using iv [of 16 32 172] by simp
  show "25664 \<le> a * 256 + b \<and> a * 256 + b < 25728 \<longleftrightarrow> a = 100 \<and> 64 \<le> b \<and> b < 128"
    using iv [of 64 128 100] by simp
  have eq: "a * 256 + b = p * 256 + q \<longleftrightarrow> a = p \<and> b = q" if "octet q" for p q
    using iv [of q "q + 1" p] that unfolding octets by linarith
  show "a * 256 + b = 50706 \<longleftrightarrow> a = 198 \<and> b = 18" "a * 256 + b = 50707 \<longleftrightarrow> a = 198 \<and> b = 19"
    "a * 256 + b = 0xc0a8 \<longleftrightarrow> a = 192 \<and> b = 168" "a * 256 + b = 0xa9fe \<longleftrightarrow> a = 169 \<and> b = 254"
    using eq [of 18 198] eq [of 19 198] eq [of 168 192] eq [of 254 169] by simp_all
  have "(a * 256 + b) * 256 + c = 0xe00000 \<longleftrightarrow> a * 256 + b = 224 * 256 + 0 \<and> c = 0"
    using octet_interval [OF c, of 0 1 "224 * 256" "a * 256 + b"] c unfolding octets by linarith
  then show "(a * 256 + b) * 256 + c = 0xe00000 \<longleftrightarrow> a = 224 \<and> b = 0 \<and> c = 0"
    using eq [of 0 224] by simp
qed

lemma quad_zero: 
  assumes "octet a" "octet b" "octet c" "octet d"
  shows "quad a b c d = 0 \<longleftrightarrow> a = 0 \<and> b = 0 \<and> c = 0 \<and> d = 0"
proof -
  have "quad a b c d = 0 \<longleftrightarrow> uint (quad a b c d) = 0" by (simp add: word_uint_eq_iff)
  then show ?thesis unfolding uint_quad [OF assms] using assms by simp linarith
qed

text \<open>
  Property C34: the IPv4 ranges the guard blocks, in dotted-quad terms: the unspecified
  address, private, loopback, link-local, carrier-grade NAT, benchmark, multicast, reserved
  and broadcast addresses, and nothing else.
\<close>

theorem isBlockedIP_v4:
  assumes "octet a" "octet b" "octet c" "octet d"
  shows "isBlockedIP (V4 (quad a b c d)) \<longleftrightarrow> blocked_quad a b c d"
proof -
  have high: "a = 224 \<and> b = 0 \<and> c = 0 \<or> 224 \<le> a \<and> a < 240 \<or> 240 \<le> a \<and> a < 256 \<longleftrightarrow> 224 \<le> a"
    using assms by auto
  have ext: "list_ex (\<lambda>p. Contains_ip p (V4 w)) extraBlockedPrefixes \<longleftrightarrow>
      uint w div 2 ^ 22 = 401 \<or> uint w div 2 ^ 17 = 25353 \<or> uint w div 2 ^ 28 = 15" for w
    by (simp add: extraBlockedPrefixes_def Contains_ip_def drop_bit_eq_iff uint_drop_bit uint_quad)
  have "isBlockedIP (V4 (quad a b c d)) \<longleftrightarrow>
      a = 127 \<or> a = 10 \<or> (a * 256 + b) div 16 = 0xac1 \<or> a * 256 + b = 0xc0a8 \<or> a * 256 + b = 0xa9fe
    \<or> (a * 256 + b) * 256 + c = 0xe00000 \<or> a div 16 = 0xe \<or> quad a b c d = 0
    \<or> (a * 256 + b) div 64 = 401 \<or> (a * 256 + b) div 2 = 25353 \<or> a div 16 = 15"
    unfolding isBlockedIP_def ext addr_defs Addr.case drop_bit_eq_iff quad_div [OF assms] quad_div3 [OF assms]
    by simp
  also have "\<dots> \<longleftrightarrow> blocked_quad a b c d"
    unfolding quad_zero [OF assms] blocked_quad_def div_ranges octet_ranges [OF assms(2,3)]
    using high by argo
  finally show ?thesis .
qed

theorem isBlockedIP_v4_witness:
  "isBlockedIP (V4 (quad 172 31 255 255)) \<and> \<not> isBlockedIP (V4 (quad 172 32 0 0))"
  using isBlockedIP_v4 [of 172 31 255 255] isBlockedIP_v4 [of 172 32 0 0] by (simp add: blocked_quad_def)

text \<open>
  A hole in the guard: the unspecified IPv6 address with a doubled zone. The zone survives
  the normalisation, so the address is not taken for the unspecified one, and the URL passes
  although connecting to it reaches the local host.
\<close>

theorem zoned_unspecified_passes:
  "ValidateURL (NewGuard \<lparr>AllowedHosts = [], BlockPrivateNetworks = True\<rparr>) resolve
     ''http://[::%25a%25b]:8080/'' = Ok ()
   \<and> ValidateURL (NewGuard \<lparr>AllowedHosts = [], BlockPrivateNetworks = True\<rparr>) resolve
     ''http://[::]:8080/'' = Err (ErrPrivateNetwork ''::'')"
  by code_simp

definition public_resolver :: resolver where
  "public_resolver host = Ok [V4 (quad 93 184 216 34)]"

lemma example_passes:
  "ValidateURL (NewGuard \<lparr>AllowedHosts = [''*.example.com''], BlockPrivateNetworks = True\<rparr>) public_resolver
     ''https://api.example.com/v1'' = Ok ()"
  by code_simp

lemma ValidateURL_Ok_iff_witness:
  "\<exists>u. parse_url (TrimSpace ''https://api.example.com/v1'') = Ok u
     \<and> host_addrs public_resolver (normalizeHost (TrimSpace (Hostname u))) \<noteq> []
     \<and> (\<forall>a \<in> set (host_addrs public_resolver (normalizeHost (TrimSpace (Hostname u)))). \<not> isBlockedIP (Unmap a))"
proof -
  have block: "blockPrivate (NewGuard \<lparr>AllowedHosts = [''*.example.com''], BlockPrivateNetworks = True\<rparr>)"
    by code_simp
  from iffD1 [OF ValidateURL_Ok_iff example_passes] block show ?thesis by (auto simp: Let_def)
qed

end
