(* ===== verification/TtlCache.thy ===== *)
theory TtlCache
  imports GoTime
begin

text \<open>
  What every cache of the gateway promises (upstream tokens, introspection results, signing
  keys, the Swagger snapshot): a hit is the value stored last under that key, and it is still
  live. The caches differ in whether an entry is live at its very deadline, which is the
  parameter \<open>live\<close>, and in what they forget on a lookup.
\<close>

datatype ('k, 'v) cache_event = CPut 'k 'v time | CGet 'k time

primrec latest :: "('k, 'v) cache_event list \<Rightarrow> 'k \<Rightarrow> ('v \<times> time) option" where
  "latest [] k = None"
| "latest (ev # es) k = (case ev of CPut k' v d \<Rightarrow> if k = k' then Some (v, d) else latest es k
     | CGet k' t \<Rightarrow> latest es k)"

locale ttl_cache =
  fixes live :: "time \<Rightarrow> time \<Rightarrow> bool"
    and valid :: "'v \<Rightarrow> bool"
    and empty :: 's
    and get :: "'k \<Rightarrow> time \<Rightarrow> 's \<Rightarrow> 'v option \<times> 's"
    and put :: "'k \<Rightarrow> 'v \<Rightarrow> time \<Rightarrow> 's \<Rightarrow> 's"
  assumes get_empty: "fst (get k t empty) = None"
    and get_put: "valid v \<Longrightarrow> fst (get k t (put k v d s)) = (if live t d then Some v else None)"
    and get_put_other: "k \<noteq> k' \<Longrightarrow> fst (get k t (put k' v d s)) \<in> {fst (get k t s), None}"
    and get_get: "fst (get k t (snd (get k' t' s))) \<in> {fst (get k t s), None}"
begin

primrec exec :: "('k, 'v) cache_event list \<Rightarrow> 's" where
  "exec [] = empty"
| "exec (ev # es) = (case ev of CPut k v d \<Rightarrow> put k v d (exec es) | CGet k t \<Rightarrow> snd (get k t (exec es)))"

primrec stores_valid :: "('k, 'v) cache_event list \<Rightarrow> bool" where
  "stores_valid [] = True"
| "stores_valid (ev # es) = ((case ev of CPut k v d \<Rightarrow> valid v | CGet k t \<Rightarrow> True) \<and> stores_valid es)"

lemma hit_is_latest:
  "stores_valid es \<Longrightarrow> fst (get k t (exec es)) = Some v \<Longrightarrow> \<exists>d. latest es k = Some (v, d) \<and> live t d"
proof (induction es)
  case Nil
  then show ?case by (simp add: get_empty)
next
  case (Cons ev es)
  show ?case
  proof (cases ev)
    case (CPut k' w d)
    show ?thesis
    proof (cases "k = k'")
      case True
      with Cons.prems CPut show ?thesis by (simp add: get_put split: if_splits)
    next
      case False
      with Cons CPut get_put_other [of k k' t w d "exec es"] show ?thesis by auto
    qed
  next
    case (CGet k' t')
    with Cons get_get [of k t k' t' "exec es"] show ?thesis by auto
  qed
qed

lemma fresh_hit: "valid v \<Longrightarrow> live t d \<Longrightarrow> fst (get k t (exec (CPut k v d # es))) = Some v"
  by (simp add: get_put)

end

end
