(* ===== verification/GoHttp.thy ===== *)
theory GoHttp
  imports GoUrl GoAny
begin

text \<open>
  HTTP messages as the gateway builds and reads them. A header is a map from canonical names
  to values; \<open>header_set\<close> and \<open>header_get\<close> canonicalise the name as \<open>net/http\<close> does. A
  response body is a read outcome: the bytes, or a read error. Sending is an argument of the
  functions that do it: the transport is not code of the repository. So is the JSON text
  decoder: bodies enter the model as the value the decoder gives for their text.
\<close>

record HttpRequest =
  rqMethod :: string
  rqURL :: string
  rqHeader :: "(string \<times> string list) list"
  rqBody :: string

record HttpResponse =
  StatusCode :: int
  rsHeader :: "(string \<times> string list) list"
  rsBody :: "(string, string) result"

type_synonym transport = "HttpRequest \<Rightarrow> (string, HttpResponse) result"
type_synonym json_decoder = "string \<Rightarrow> any option"

definition is_token_char :: "char \<Rightarrow> bool" where
  "is_token_char c \<longleftrightarrow> is_alnum c \<or> c \<in> set (CHR 0x27 # ''!#$%&*+-.^_`|~'')"

fun canon_from :: "bool \<Rightarrow> string \<Rightarrow> string" where
  "canon_from up [] = []"
| "canon_from up (c # s) = (if up then upper_char c else lower_char c) # canon_from (c = CHR ''-'') s"

definition canonical_name :: "string \<Rightarrow> string" where
  "canonical_name s = (if list_all is_token_char s then canon_from True s else s)"

definition header_set :: "string \<Rightarrow> string \<Rightarrow> (string \<times> string list) list \<Rightarrow> (string \<times> string list) list" where
  "header_set k v h = map_set (canonical_name k) [v] h"

definition header_get :: "string \<Rightarrow> (string \<times> string list) list \<Rightarrow> string" where
  "header_get k h = (case map_of h (canonical_name k) of Some (v # vs) \<Rightarrow> v | _ \<Rightarrow> [])"

lemma header_get_set [simp]: "header_get k (header_set k v h) = v"
  by (simp add: header_get_def header_set_def)

lemma header_get_set_other:
  "canonical_name k \<noteq> canonical_name k' \<Longrightarrow> header_get k (header_set k' v h) = header_get k h"
  by (simp add: header_get_def header_set_def)

text \<open>\<open>io.ReadAll\<close> of a limited reader: at most \<open>n\<close> bytes.\<close>

definition read_limited :: "int \<Rightarrow> (string, string) result \<Rightarrow> (string, string) result" where
  "read_limited n body = (case body of Err e \<Rightarrow> Err e
     | Ok b \<Rightarrow> Ok (if int (length b) \<le> n then b else take (nat n) b))"

text \<open>\<open>http.NewRequest\<close>: an unparsable URL is an error; SetBasicAuth sets a header computed
  by \<open>basic\<close>, the standard base64 encoding.\<close>

definition NewRequest :: "string \<Rightarrow> string \<Rightarrow> string \<Rightarrow> (string, HttpRequest) result" where
  "NewRequest method url body = (case parse_url url of
     Err (UrlError e) \<Rightarrow> Err e
   | Ok u \<Rightarrow> Ok \<lparr>rqMethod = method, rqURL = show_url u, rqHeader = [], rqBody = body\<rparr>)"

definition set_header :: "string \<Rightarrow> string \<Rightarrow> HttpRequest \<Rightarrow> HttpRequest" where
  "set_header k v r = r\<lparr>rqHeader := header_set k v (rqHeader r)\<rparr>"

section \<open>Base64\<close>

definition b64_char :: "string \<Rightarrow> int \<Rightarrow> char" where
  "b64_char last2 n = (if n < 26 then char_of (65 + n) else if n < 52 then char_of (71 + n)
     else if n < 62 then char_of (n - 4) else if n = 62 then hd last2 else last last2)"

fun b64_encode :: "string \<Rightarrow> bool \<Rightarrow> string \<Rightarrow> string" where
  "b64_encode l2 pad (a # b # c # s) =
     (let n = (of_char a * 256 + of_char b) * 256 + of_char c :: int in
      [b64_char l2 (n div 262144), b64_char l2 (n div 4096 mod 64), b64_char l2 (n div 64 mod 64),
       b64_char l2 (n mod 64)] @ b64_encode l2 pad s)"
| "b64_encode l2 pad [a, b] =
     (let n = (of_char a * 256 + of_char b) * 4 :: int in
      [b64_char l2 (n div 4096), b64_char l2 (n div 64 mod 64), b64_char l2 (n mod 64)]
        @ (if pad then ''='' else []))"
| "b64_encode l2 pad [a] =
     (let n = of_char a * 16 :: int in
      [b64_char l2 (n div 64), b64_char l2 (n mod 64)] @ (if pad then ''=='' else []))"
| "b64_encode l2 pad [] = []"

definition StdBase64 :: "string \<Rightarrow> string" where
  "StdBase64 s = b64_encode ''+/'' True s"

definition SetBasicAuth :: "string \<Rightarrow> string \<Rightarrow> HttpRequest \<Rightarrow> HttpRequest" where
  "SetBasicAuth user pass r = set_header ''Authorization'' (''Basic '' @ StdBase64 (user @ '':'' @ pass)) r"

end
