(* ===== verification/UpstreamAuth.thy ===== *)
theory UpstreamAuth
  imports TtlCache GoHttp
begin

text \<open>
  Credentials for the upstream API (\<open>internal/upstreamauth\<close>): none, a static bearer token,
  an API key, or OAuth client credentials with a cached access token. The token endpoint is
  reached through the arguments \<open>send\<close> and \<open>decode\<close>.

  \<open>token\<close> drops its lock between the cache check and the store, so concurrent callers may
  interleave there; the cache theorems hold for every order of checks and stores.
\<close>

datatype auth_error = ErrInvalidConfig string | ErrToken string

section \<open>Static credentials\<close>

definition NoopApply :: "HttpRequest option \<Rightarrow> (auth_error, HttpRequest option) result" where
  "NoopApply req = Ok req"

record StaticBearerProvider =
  bearer_token :: string

definition NewStaticBearerProvider :: "string \<Rightarrow> (auth_error, StaticBearerProvider) result" where
  "NewStaticBearerProvider token =
     (if TrimSpace token = [] then Err (ErrInvalidConfig ''UPSTREAM_BEARER_TOKEN is required'')
      else Ok \<lparr>bearer_token = TrimSpace token\<rparr>)"

definition BearerApply :: "StaticBearerProvider \<Rightarrow> HttpRequest option \<Rightarrow> HttpRequest option" where
  "BearerApply p req = (case req of None \<Rightarrow> None
     | Some r \<Rightarrow> Some (set_header ''Authorization'' (''Bearer '' @ bearer_token p) r))"

record APIKeyProvider =
  key_header :: string
  key_value :: string

definition NewAPIKeyProvider :: "string \<Rightarrow> string \<Rightarrow> (auth_error, APIKeyProvider) result" where
  "NewAPIKeyProvider header v =
     (if TrimSpace header = [] then Err (ErrInvalidConfig ''UPSTREAM_API_KEY_HEADER is required'')
      else if TrimSpace v = [] then Err (ErrInvalidConfig ''UPSTREAM_API_KEY_VALUE is required'')
      else Ok \<lparr>key_header = TrimSpace header, key_value = TrimSpace v\<rparr>)"

definition APIKeyApply :: "APIKeyProvider \<Rightarrow> HttpRequest option \<Rightarrow> HttpRequest option" where
  "APIKeyApply p req = (case req of None \<Rightarrow> None | Some r \<Rightarrow> Some (set_header (key_header p) (key_value p) r))"

section \<open>OAuth client credentials\<close>

definition defaultTokenSafetyMargin :: duration where
  "defaultTokenSafetyMargin = 10 * Second"

record oauthToken =
  accessToken :: string
  expiresAt :: time

record OAuthOptions =
  optTokenURL :: string
  optClientID :: string
  optClientSecret :: string
  optScopes :: string
  optAudience :: string
  optCacheTTL :: duration

record OAuthProvider =
  tokenURL :: string
  clientID :: string
  clientSecret :: string
  scopes :: string
  audience :: string
  cacheTTL :: duration
  cachedToken :: oauthToken

definition no_token :: oauthToken where
  "no_token = \<lparr>accessToken = [], expiresAt = Time 0\<rparr>"

definition NewOAuthClientCredentialsProvider :: "OAuthOptions \<Rightarrow> (auth_error, OAuthProvider) result" where
  "NewOAuthClientCredentialsProvider opts =
     (if TrimSpace (optTokenURL opts) = [] then Err (ErrInvalidConfig ''UPSTREAM_OAUTH_TOKEN_URL is required'')
      else if TrimSpace (optClientID opts) = [] then Err (ErrInvalidConfig ''UPSTREAM_OAUTH_CLIENT_ID is required'')
      else if TrimSpace (optClientSecret opts) = []
        then Err (ErrInvalidConfig ''UPSTREAM_OAUTH_CLIENT_SECRET is required'')
      else Ok \<lparr>tokenURL = TrimSpace (optTokenURL opts), clientID = TrimSpace (optClientID opts),
               clientSecret = TrimSpace (optClientSecret opts), scopes = TrimSpace (optScopes opts),
               audience = TrimSpace (optAudience opts), cacheTTL = optCacheTTL opts,
               cachedToken = no_token\<rparr>)"

text \<open>\<open>time.Duration(v) * time.Second\<close> wraps around at 64 bits.\<close>

definition seconds :: "int \<Rightarrow> duration" where
  "seconds n = wrap64 (n * Second)"

definition parseExpiresIn :: "any \<Rightarrow> duration" where
  "parseExpiresIn raw = (case raw of
     AFloat f \<Rightarrow> seconds (to_int64 (f64_trunc f))
   | AInt i \<Rightarrow> seconds i
   | ANumber s \<Rightarrow> (case ParseInt s of None \<Rightarrow> 0 | Some i \<Rightarrow> seconds i)
   | AStr s \<Rightarrow> (case ParseInt (TrimSpace s) of None \<Rightarrow> 0 | Some i \<Rightarrow> seconds i)
   | _ \<Rightarrow> 0)"

definition deriveTTL :: "any \<Rightarrow> duration" where
  "deriveTTL raw =
     (let expiresIn = parseExpiresIn raw in
      if expiresIn \<le> 0 then 50 * Second
      else (let ttl = expiresIn - defaultTokenSafetyMargin in
        if ttl < 5 * Second then 5 * Second else ttl))"

definition token_form :: "OAuthProvider \<Rightarrow> url_values" where
  "token_form p = [(''grant_type'', [''client_credentials''])]
     @ (if scopes p \<noteq> [] then [(''scope'', [scopes p])] else [])
     @ (if audience p \<noteq> [] then [(''audience'', [audience p])] else [])"

definition token_request :: "OAuthProvider \<Rightarrow> (string, HttpRequest) result" where
  "token_request p = (case NewRequest ''POST'' (tokenURL p) (Encode (token_form p)) of
     Err e \<Rightarrow> Err e
   | Ok r \<Rightarrow> Ok (set_header ''Accept'' ''application/json''
       (set_header ''Content-Type'' ''application/x-www-form-urlencoded''
         (SetBasicAuth (clientID p) (clientSecret p) r))))"

text \<open>
  Decoding into \<open>tokenResponse\<close>: the body must be an object (or null, which sets nothing)
  whose \<open>access_token\<close> and \<open>token_type\<close> are strings, null or absent. Field names are taken
  exactly; the decoder's fallback to names that differ in case is left out.
\<close>

definition string_field :: "(string \<times> any) list \<Rightarrow> string \<Rightarrow> (string, string) result" where
  "string_field kvs k = (case map_of kvs k of
     None \<Rightarrow> Ok [] | Some ANil \<Rightarrow> Ok [] | Some (AStr s) \<Rightarrow> Ok s
   | Some x \<Rightarrow> Err (k @ '' is not a string''))"

definition decode_token :: "any \<Rightarrow> (string, string \<times> any) result" where
  "decode_token v = (case v of
     ANil \<Rightarrow> Ok ([], ANil)
   | AMap kvs \<Rightarrow>
      (case (string_field kvs ''access_token'', string_field kvs ''token_type'') of
         (Ok t, Ok ty) \<Rightarrow> Ok (t, case map_of kvs ''expires_in'' of None \<Rightarrow> ANil | Some x \<Rightarrow> x)
       | (Err e, _) \<Rightarrow> Err (''decode token response: '' @ e)
       | (_, Err e) \<Rightarrow> Err (''decode token response: '' @ e))
   | _ \<Rightarrow> Err ''decode token response: not an object'')"

definition choose_ttl :: "OAuthProvider \<Rightarrow> any \<Rightarrow> duration" where
  "choose_ttl p expiresIn =
     (let ttl = deriveTTL expiresIn; ttl = (if 0 < cacheTTL p then cacheTTL p else ttl) in
      if ttl \<le> 0 then 50 * Second else ttl)"

definition fetchToken ::
  "transport \<Rightarrow> json_decoder \<Rightarrow> OAuthProvider \<Rightarrow> (string, string \<times> duration) result" where
  "fetchToken send decode p = (case token_request p of
     Err e \<Rightarrow> Err e
   | Ok req \<Rightarrow> (case send req of
       Err e \<Rightarrow> Err e
     | Ok resp \<Rightarrow>
        if StatusCode resp < 200 \<or> 299 < StatusCode resp then
          Err (''token endpoint status '' @ Itoa (StatusCode resp) @ '': '' @
            TrimSpace (case read_limited 4096 (rsBody resp) of Ok b \<Rightarrow> b | Err e \<Rightarrow> []))
        else (case read_limited 1048576 (rsBody resp) of
          Err e \<Rightarrow> Err e
        | Ok body \<Rightarrow> (case decode body of
            None \<Rightarrow> Err ''decode token response: invalid JSON''
          | Some v \<Rightarrow> (case decode_token v of
              Err e \<Rightarrow> Err e
            | Ok (t, expiresIn) \<Rightarrow>
                if TrimSpace t = [] then Err ''token response missing access_token''
                else Ok (t, choose_ttl p expiresIn))))))"

text \<open>The two locked sections of \<open>token\<close>, and \<open>token\<close> itself for a caller that runs alone.\<close>

definition token_cached :: "time \<Rightarrow> OAuthProvider \<Rightarrow> string option" where
  "token_cached now p =
     (if accessToken (cachedToken p) \<noteq> [] \<and> Before now (expiresAt (cachedToken p))
      then Some (accessToken (cachedToken p)) else None)"

definition token_store :: "string \<Rightarrow> time \<Rightarrow> OAuthProvider \<Rightarrow> OAuthProvider" where
  "token_store t deadline p = p\<lparr>cachedToken := \<lparr>accessToken = t, expiresAt = deadline\<rparr>\<rparr>"

definition token ::
  "transport \<Rightarrow> json_decoder \<Rightarrow> time \<Rightarrow> time \<Rightarrow> OAuthProvider \<Rightarrow> (string, string) result \<times> OAuthProvider" where
  "token send decode now later p = (case token_cached now p of
     Some t \<Rightarrow> (Ok t, p)
   | None \<Rightarrow> (case fetchToken send decode p of
       Err e \<Rightarrow> (Err e, p)
     | Ok (t, ttl) \<Rightarrow> (Ok t, token_store t (AddTime later ttl) p)))"

definition OAuthApply ::
  "transport \<Rightarrow> json_decoder \<Rightarrow> time \<Rightarrow> time \<Rightarrow> OAuthProvider \<Rightarrow> HttpRequest option
     \<Rightarrow> (string, HttpRequest option) result \<times> OAuthProvider" where
  "OAuthApply send decode now later p req = (case req of
     None \<Rightarrow> (Ok None, p)
   | Some r \<Rightarrow> (case token send decode now later p of
       (Err e, p') \<Rightarrow> (Err e, p')
     | (Ok t, p') \<Rightarrow> (Ok (Some (set_header ''Authorization'' (''Bearer '' @ t) r)), p')))"

section \<open>The token cache is a cache\<close>

definition token_get :: "unit \<Rightarrow> time \<Rightarrow> OAuthProvider \<Rightarrow> string option \<times> OAuthProvider" where
  "token_get k now p = (token_cached now p, p)"

definition token_put :: "unit \<Rightarrow> string \<Rightarrow> time \<Rightarrow> OAuthProvider \<Rightarrow> OAuthProvider" where
  "token_put k t d p = token_store t d p"

interpretation tok: ttl_cache "\<lambda>t d. t < d" "\<lambda>t. t \<noteq> []" "p\<lparr>cachedToken := no_token\<rparr>" token_get token_put
  for p
  by unfold_locales
     (auto simp: token_get_def token_put_def token_cached_def token_store_def no_token_def Before_def)

lemma choose_ttl_pos: "0 < choose_ttl p v"
  by (auto simp: choose_ttl_def deriveTTL_def Let_def Second_def defaultTokenSafetyMargin_def)

lemma fetchToken_nonempty: "fetchToken send decode p = Ok (t, ttl) \<Longrightarrow> t \<noteq> [] \<and> 0 < ttl"
  by (auto simp: fetchToken_def choose_ttl_pos split: sum.splits if_splits option.splits prod.splits)


lemma seconds_id: "0 \<le> n \<Longrightarrow> n * Second < 2 ^ 63 \<Longrightarrow> seconds n = n * Second"
  unfolding seconds_def by (rule wrap64_id) (simp_all add: Second_def)

section \<open>Properties\<close>

text \<open>
  Property C27: a token the cache hands out is never stale. Whatever the order in which
  concurrent callers check and store, the token served is the one stored last, and the moment
  of serving lies strictly before the deadline it was stored with.
\<close>

theorem cached_token_live:
  assumes "tok.stores_valid es" and "token_cached now (tok.exec p es) = Some t"
  shows "\<exists>d. latest es () = Some (t, d) \<and> now < d"
  using tok.hit_is_latest [OF assms(1), of "()" now p t] assms(2) by (simp add: token_get_def)

text \<open>
  The time to live of a fetched token. Without an override, a lifetime of
  \<open>n\<close> seconds (which \<open>int64\<close> nanoseconds can hold) gives ten seconds less than \<open>n\<close>, but at
  least five; so from 15 seconds on the token is dropped ten seconds before it expires.
\<close>

theorem ttl_has_safety_margin:
  assumes "cacheTTL p \<le> 0" and "0 < n" and "n * Second < 2 ^ 63"
  shows "choose_ttl p (AInt n) = max 5 (n - 10) * Second"
proof -
  have "parseExpiresIn (AInt n) = n * Second"
    using assms seconds_id [of n] by (simp add: parseExpiresIn_def)
  then show ?thesis
    using assms by (simp add: choose_ttl_def deriveTTL_def Let_def Second_def defaultTokenSafetyMargin_def max_def)
qed

text \<open>
  A request the provider authorised carries a non-empty bearer token, which is
  either the cached one, still live, or one just fetched and now stored with its deadline.
\<close>

theorem oauth_apply_sets_token:
  assumes "OAuthApply send decode now later p (Some r) = (Ok (Some r'), p')"
  shows "\<exists>t. t \<noteq> [] \<and> header_get ''Authorization'' (rqHeader r') = ''Bearer '' @ t
     \<and> (token_cached now p = Some t \<and> p' = p
        \<or> (\<exists>ttl > 0. fetchToken send decode p = Ok (t, ttl)
             \<and> cachedToken p' = \<lparr>accessToken = t, expiresAt = AddTime later ttl\<rparr>))"
proof -
  have "token_cached now p = Some t \<Longrightarrow> t \<noteq> []" for t
    by (auto simp: token_cached_def split: if_splits)
  then show ?thesis
    using assms fetchToken_nonempty [of send decode p]
    by (auto simp: OAuthApply_def token_def token_store_def set_header_def
        split: option.splits sum.splits prod.splits)
qed

section \<open>A token endpoint\<close>

definition demo_provider :: OAuthProvider where
  "demo_provider = \<lparr>tokenURL = ''https://idp/token'', clientID = ''id'', clientSecret = ''secret'',
     scopes = ''read'', audience = [], cacheTTL = 0, cachedToken = no_token\<rparr>"

definition demo_send :: transport where
  "demo_send r = (if rqBody r = ''grant_type=client_credentials&scope=read''
     then Ok \<lparr>StatusCode = 200, rsHeader = [], rsBody = Ok ''body''\<rparr> else Err ''bad form'')"

definition demo_decode :: json_decoder where
  "demo_decode s = Some (AMap [(''access_token'', AStr ''abc''), (''expires_in'', AFloat (F64 6 1))])"

definition demo_req :: HttpRequest where
  "demo_req = \<lparr>rqMethod = ''GET'', rqURL = ''https://api/x'', rqHeader = [], rqBody = []\<rparr>"

definition demo_deadline :: time where
  "demo_deadline = AddTime (Time 2) (50 * Second)"

lemma demo_apply: "OAuthApply demo_send demo_decode (Time 1) (Time 2) demo_provider (Some demo_req)
   = (Ok (Some (set_header ''Authorization'' ''Bearer abc'' demo_req)),
      token_store ''abc'' demo_deadline demo_provider)"
  by code_simp

theorem cached_token_live_witness:
  "\<exists>d. latest [CPut () ''abc'' (Time 9)] () = Some (''abc'', d) \<and> Time 5 < d"
proof -
  have "token_cached (Time 5) (tok.exec demo_provider [CPut () ''abc'' (Time 9)]) = Some ''abc''"
    by (simp add: token_put_def token_store_def token_cached_def Before_def less_time_def)
  from cached_token_live [OF _ this] show ?thesis by simp
qed

theorem ttl_has_safety_margin_witness: "choose_ttl demo_provider (AInt 60) = 50 * Second"
  using ttl_has_safety_margin [of demo_provider 60] by (simp add: demo_provider_def Second_def)

theorem oauth_apply_sets_token_witness:
  "\<exists>ttl > 0. fetchToken demo_send demo_decode demo_provider = Ok (''abc'', ttl)"
proof -
  have "token_cached (Time 1) demo_provider = None"
    by (simp add: token_cached_def demo_provider_def no_token_def)
  with oauth_apply_sets_token [OF demo_apply] show ?thesis
    by (auto simp: token_store_def)
qed

text \<open>The floor of five seconds can outlive a token that is valid for less.\<close>

theorem short_token_outlived: "choose_ttl demo_provider (AInt 2) = 5 * Second"
  by code_simp

end
