(* ===== verification/AuthClaims.thy ===== *)
theory AuthClaims
  imports GoTime GoHttp
begin

text \<open>
  Inbound authentication, the parts both validators share (\<open>internal/auth\<close>): the bearer
  header, the claim readers, scopes, and the middleware that turns a validator's verdict into
  an HTTP answer. Claims are a decoded JSON object.
\<close>

type_synonym claims = "(string \<times> any) list"

record Principal =
  Subject :: string
  Scopes :: "string list"
  RawClaims :: claims

text \<open>\<open>Panicked\<close> is a Go panic, which \<open>net/http\<close> turns into an aborted connection.\<close>

datatype access_error = Unauthorized string | Forbidden string | Panicked

definition access_error_text :: "access_error \<Rightarrow> string" where
  "access_error_text e = (case e of
     Unauthorized r \<Rightarrow> if r = [] then ''unauthorized'' else ''unauthorized: '' @ r
   | Forbidden r \<Rightarrow> if r = [] then ''forbidden'' else ''forbidden: '' @ r
   | Panicked \<Rightarrow> ''panic'')"

definition IsForbidden :: "access_error \<Rightarrow> bool" where
  "IsForbidden e = (case e of Forbidden r \<Rightarrow> True | _ \<Rightarrow> False)"

section \<open>The bearer header and the middleware\<close>

definition bearerToken :: "string \<Rightarrow> (access_error, string) result" where
  "bearerToken header = (case Fields (TrimSpace header) of
     [scheme, t] \<Rightarrow>
       if \<not> EqualFold scheme ''Bearer'' then Err (Unauthorized ''authorization scheme must be bearer'')
       else if TrimSpace t = [] then Err (Unauthorized ''empty bearer token'')
       else Ok (TrimSpace t)
   | _ \<Rightarrow> Err (Unauthorized ''invalid authorization header''))"

datatype handled = Status nat | Next Principal | Aborted

definition Middleware ::
  "(string \<Rightarrow> 's \<Rightarrow> (access_error, Principal) result \<times> 's) option \<Rightarrow> string \<Rightarrow> 's \<Rightarrow> handled \<times> 's" where
  "Middleware validator header s = (case validator of
     None \<Rightarrow> (Status 401, s)
   | Some validate \<Rightarrow> (case bearerToken header of
       Err e \<Rightarrow> (Status 401, s)
     | Ok t \<Rightarrow> (case validate t s of
         (Ok p, s') \<Rightarrow> (Next p, s')
       | (Err e, s') \<Rightarrow> (if e = Panicked then Aborted else if IsForbidden e then Status 403 else Status 401, s'))))"

section \<open>Reading claims\<close>

definition claimString :: "claims \<Rightarrow> string \<Rightarrow> string option" where
  "claimString cs key = (case map_of cs key of Some (AStr s) \<Rightarrow> Some s | _ \<Rightarrow> None)"

definition claimTime :: "claims \<Rightarrow> string \<Rightarrow> (string, time option) result" where
  "claimTime cs key = (case map_of cs key of
     None \<Rightarrow> Ok None
   | Some (AFloat f) \<Rightarrow> Ok (Some (UnixTime (to_int64 (f64_trunc f))))
   | Some (AInt i) \<Rightarrow> Ok (Some (UnixTime i))
   | Some (ANumber s) \<Rightarrow> (case ParseInt s of Some i \<Rightarrow> Ok (Some (UnixTime i)) | None \<Rightarrow> Err ''invalid number'')
   | Some (AStr s) \<Rightarrow> (case ParseInt (TrimSpace s) of Some i \<Rightarrow> Ok (Some (UnixTime i)) | None \<Rightarrow> Err ''invalid number'')
   | Some x \<Rightarrow> Err (''claim '' @ quote key @ '' is not a numeric timestamp''))"

definition audContains :: "any \<Rightarrow> string \<Rightarrow> bool" where
  "audContains raw expected0 =
     (let expected = TrimSpace expected0 in
      if expected = [] then True
      else (case raw of
          AStr s \<Rightarrow> TrimSpace s = expected
        | AStrs ss \<Rightarrow> list_ex (\<lambda>s. TrimSpace s = expected) ss
        | AList vs \<Rightarrow> list_ex (\<lambda>v. case v of AStr s \<Rightarrow> TrimSpace s = expected | _ \<Rightarrow> False) vs
        | _ \<Rightarrow> False))"

definition splitScopeString :: "string \<Rightarrow> string list" where
  "splitScopeString raw = filter (\<lambda>p. p \<noteq> []) (map TrimSpace
     (FieldsFunc raw (\<lambda>r. r \<in> {CHR '' '', CHR '','', CHR 0x09, CHR 0x0A, CHR 0x0D})))"

definition valuesToScopes :: "any option \<Rightarrow> string list" where
  "valuesToScopes raw = (case raw of
     Some (AStr s) \<Rightarrow> splitScopeString s
   | Some (AStrs ss) \<Rightarrow> concat (map splitScopeString ss)
   | Some (AList vs) \<Rightarrow> concat (map (\<lambda>v. case v of AStr s \<Rightarrow> splitScopeString s | _ \<Rightarrow> []) vs)
   | _ \<Rightarrow> [])"

definition extractScopes :: "claims \<Rightarrow> string list" where
  "extractScopes cs = trim_unique {} (valuesToScopes (map_of cs ''scope'')
     @ valuesToScopes (map_of cs ''scp'') @ valuesToScopes (map_of cs ''permissions''))"

text \<open>A Go set in some iteration order.\<close>

definition scopesToSet :: "string list \<Rightarrow> string list" where
  "scopesToSet ss = trim_unique {} ss"

definition ensureRequiredScopes :: "string list \<Rightarrow> string list \<Rightarrow> (string, unit) result" where
  "ensureRequiredScopes have required = (case find (\<lambda>s. s \<notin> set have) required of
     Some s \<Rightarrow> Err (''required scope '' @ quote s @ '' is missing'') | None \<Rightarrow> Ok ())"

definition check_exp :: "claims \<Rightarrow> time \<Rightarrow> bool \<Rightarrow> (string, unit) result" where
  "check_exp cs now required = (case claimTime cs ''exp'' of
     Err e \<Rightarrow> Err e
   | Ok None \<Rightarrow> if required then Err ''exp claim is required'' else Ok ()
   | Ok (Some t) \<Rightarrow> if \<not> Before now t then Err ''token is expired'' else Ok ())"

definition check_nbf :: "claims \<Rightarrow> time \<Rightarrow> (string, unit) result" where
  "check_nbf cs now = (case claimTime cs ''nbf'' of
     Err e \<Rightarrow> Err e
   | Ok None \<Rightarrow> Ok ()
   | Ok (Some t) \<Rightarrow> if Before now t then Err ''token is not valid yet'' else Ok ())"

definition validateJWTClaims :: "claims \<Rightarrow> string \<Rightarrow> string \<Rightarrow> time \<Rightarrow> (string, unit) result" where
  "validateJWTClaims cs issuer audience now =
     (if TrimSpace issuer \<noteq> [] \<and> claimString cs ''iss'' \<noteq> Some issuer then Err ''issuer claim mismatch''
      else if TrimSpace audience \<noteq> [] \<and> (case map_of cs ''aud'' of None \<Rightarrow> True | Some a \<Rightarrow> \<not> audContains a audience)
        then Err ''audience claim mismatch''
      else (case check_exp cs now True of Err e \<Rightarrow> Err e | Ok u \<Rightarrow> check_nbf cs now))"

definition validateOptionalIssuerAudience :: "claims \<Rightarrow> string \<Rightarrow> string \<Rightarrow> (string, unit) result" where
  "validateOptionalIssuerAudience cs issuer audience =
     (if TrimSpace issuer \<noteq> [] \<and> (case claimString cs ''iss'' of Some i \<Rightarrow> i \<noteq> issuer | None \<Rightarrow> False)
        then Err ''issuer claim mismatch''
      else if TrimSpace audience \<noteq> [] \<and> (case map_of cs ''aud'' of Some a \<Rightarrow> \<not> audContains a audience | None \<Rightarrow> False)
        then Err ''audience claim mismatch''
      else Ok ())"

definition cloneClaims :: "claims \<Rightarrow> claims" where
  "cloneClaims cs = map (\<lambda>(k, v). (k, v)) cs"

definition subject_of :: "claims \<Rightarrow> string" where
  "subject_of cs = (case map_of cs ''sub'' of Some (AStr s) \<Rightarrow> s | _ \<Rightarrow> [])"

definition principal_of :: "claims \<Rightarrow> Principal" where
  "principal_of cs = \<lparr>Subject = subject_of cs, Scopes = extractScopes cs, RawClaims = cloneClaims cs\<rparr>"

section \<open>Lemmas\<close>

lemma ensureRequiredScopes_Ok_iff: "ensureRequiredScopes have required = Ok () \<longleftrightarrow> set required \<subseteq> set have"
  by (auto simp: ensureRequiredScopes_def find_None_iff find_Some_iff split: option.splits) (metis nth_mem subset_eq)

lemma check_nbf_Ok_iff: "check_nbf cs now = Ok () \<longleftrightarrow>
    claimTime cs ''nbf'' = Ok None \<or> (\<exists>t. claimTime cs ''nbf'' = Ok (Some t) \<and> t \<le> now)"
  by (auto simp: check_nbf_def Before_def not_less split: sum.splits option.splits)

lemma check_exp_Ok_iff: "check_exp cs now required = Ok () \<longleftrightarrow>
    (claimTime cs ''exp'' = Ok None \<and> \<not> required) \<or> (\<exists>t. claimTime cs ''exp'' = Ok (Some t) \<and> now < t)"
  by (auto simp: check_exp_def Before_def not_less split: sum.splits option.splits)

lemma validateJWTClaims_Ok_iff:
  "validateJWTClaims cs issuer audience now = Ok () \<longleftrightarrow>
     (TrimSpace issuer = [] \<or> claimString cs ''iss'' = Some issuer)
   \<and> (TrimSpace audience = [] \<or> (\<exists>a. map_of cs ''aud'' = Some a \<and> audContains a audience))
   \<and> (\<exists>t. claimTime cs ''exp'' = Ok (Some t) \<and> now < t)
   \<and> check_nbf cs now = Ok ()"
  using check_exp_Ok_iff [of cs now True]
  by (auto simp: validateJWTClaims_def split: sum.splits option.splits)

lemma extractScopes_props: "distinct (extractScopes cs)" "s \<in> set (extractScopes cs) \<Longrightarrow> TrimSpace s = s \<and> s \<noteq> []"
  unfolding extractScopes_def by (rule distinct_trim_unique) (rule trim_unique_trimmed)

lemma principal_of_sel [simp]:
  "Scopes (principal_of cs) = extractScopes cs" "Subject (principal_of cs) = subject_of cs"
  "RawClaims (principal_of cs) = cs"
  by (simp_all add: principal_of_def cloneClaims_def)


end
