(* ===== verification/AuthIntrospection.thy ===== *)
theory AuthIntrospection
  imports AuthClaims TtlCache
begin

text \<open>
  Opaque tokens (\<open>internal/auth/introspection.go\<close>): RFC 7662 introspection with a result
  cache. The validator reads its clock at each check; the readings of one call are the
  record \<open>clock\<close>. Transport and JSON decoder are arguments.
\<close>

record IntrospectionOptions =
  optIntrospectionURL :: string
  optIClientID :: string
  optIClientSecret :: string
  optIIssuer :: string
  optIAudience :: string
  optIRequiredScopes :: "string list"
  optICacheTTL :: duration

record CacheEntry =
  entryPrincipal :: Principal
  entryExpiresAt :: time

record IntrospectionValidator =
  introspectionURL :: string
  iClientID :: string
  iClientSecret :: string
  iIssuer :: string
  iAudience :: string
  iRequiredScopes :: "string list"
  iCacheTTL :: duration
  iCache :: "(string \<times> CacheEntry) list"

definition NewIntrospectionValidator :: "IntrospectionOptions \<Rightarrow> (string, IntrospectionValidator) result" where
  "NewIntrospectionValidator opts =
     (if TrimSpace (optIntrospectionURL opts) = [] then Err ''introspection url is required''
      else if TrimSpace (optIClientID opts) = [] then Err ''oauth client id is required''
      else if TrimSpace (optIClientSecret opts) = [] then Err ''oauth client secret is required''
      else Ok \<lparr>introspectionURL = TrimSpace (optIntrospectionURL opts),
         iClientID = TrimSpace (optIClientID opts), iClientSecret = TrimSpace (optIClientSecret opts),
         iIssuer = TrimSpace (optIIssuer opts), iAudience = TrimSpace (optIAudience opts),
         iRequiredScopes = scopesToSet (optIRequiredScopes opts),
         iCacheTTL = (if optICacheTTL opts \<le> 0 then 45 * Second else optICacheTTL opts),
         iCache = []\<rparr>)"

section \<open>The cache\<close>

definition cached :: "time \<Rightarrow> string \<Rightarrow> IntrospectionValidator \<Rightarrow> Principal option \<times> IntrospectionValidator" where
  "cached now t v = (case map_of (iCache v) t of
     None \<Rightarrow> (None, v)
   | Some entry \<Rightarrow>
       if After now (entryExpiresAt entry) then (None, v\<lparr>iCache := map_del t (iCache v)\<rparr>)
       else (Some (entryPrincipal entry), v))"

definition store_deadline :: "time \<Rightarrow> duration \<Rightarrow> time option \<Rightarrow> time" where
  "store_deadline now d expiry =
     (let expiresAt = AddTime now d in
      case expiry of Some e \<Rightarrow> if Before e expiresAt then e else expiresAt | None \<Rightarrow> expiresAt)"

definition put_entry :: "string \<Rightarrow> Principal \<Rightarrow> time \<Rightarrow> IntrospectionValidator \<Rightarrow> IntrospectionValidator" where
  "put_entry t p deadline v =
     v\<lparr>iCache := map_set t \<lparr>entryPrincipal = p, entryExpiresAt = deadline\<rparr> (iCache v)\<rparr>"

definition store :: "time \<Rightarrow> string \<Rightarrow> Principal \<Rightarrow> time option \<Rightarrow> IntrospectionValidator \<Rightarrow> IntrospectionValidator" where
  "store now t p expiry v = put_entry t p (store_deadline now (iCacheTTL v) expiry) v"

definition cache_get :: "string \<Rightarrow> time \<Rightarrow> IntrospectionValidator \<Rightarrow> Principal option \<times> IntrospectionValidator" where
  "cache_get t now v = cached now t v"

interpretation intro: ttl_cache "\<lambda>t d. t \<le> d" "\<lambda>p. True" "v\<lparr>iCache := []\<rparr>" cache_get put_entry
  for v
  by unfold_locales (auto simp: cache_get_def cached_def put_entry_def After_def not_less split: option.splits)

lemma store_deadline_le: "store_deadline now d (Some e) \<le> e"
  by (auto simp: store_deadline_def Let_def Before_def not_less)

section \<open>Validation\<close>

definition introspect ::
  "transport \<Rightarrow> json_decoder \<Rightarrow> IntrospectionValidator \<Rightarrow> string \<Rightarrow> (string, claims) result" where
  "introspect send decode v t =
     (case NewRequest ''POST'' (introspectionURL v) (Encode [(''token'', [t])]) of
       Err e \<Rightarrow> Err e
     | Ok r \<Rightarrow> (case send (set_header ''Accept'' ''application/json''
          (set_header ''Content-Type'' ''application/x-www-form-urlencoded''
            (SetBasicAuth (iClientID v) (iClientSecret v) r))) of
         Err e \<Rightarrow> Err e
       | Ok resp \<Rightarrow>
          if StatusCode resp \<noteq> 200 then
            Err (''introspection endpoint returned status '' @ Itoa (StatusCode resp))
          else (case read_limited 1048576 (rsBody resp) of
              Err e \<Rightarrow> Err e
            | Ok body \<Rightarrow> (case decode body of
                Some (AMap cs) \<Rightarrow> Ok cs
              | Some ANil \<Rightarrow> Ok []
              | _ \<Rightarrow> Err ''invalid introspection response''))))"

record clock =
  atCache :: time
  atExp :: time
  atNbf :: time
  atStore :: time

definition is_active :: "claims \<Rightarrow> bool" where
  "is_active cs = (case map_of cs ''active'' of Some (ABool b) \<Rightarrow> b | _ \<Rightarrow> False)"

definition judge :: "clock \<Rightarrow> IntrospectionValidator \<Rightarrow> claims \<Rightarrow> (access_error, unit) result" where
  "judge c v cs =
     (if \<not> is_active cs then Err (Unauthorized ''inactive token'')
      else (case check_exp cs (atExp c) False of
        Err e \<Rightarrow> Err (Unauthorized e)
      | Ok u \<Rightarrow> (case check_nbf cs (atNbf c) of
        Err e \<Rightarrow> Err (Unauthorized e)
      | Ok u \<Rightarrow> (case validateOptionalIssuerAudience cs (iIssuer v) (iAudience v) of
        Err e \<Rightarrow> Err (Unauthorized e)
      | Ok u \<Rightarrow> (case ensureRequiredScopes (extractScopes cs) (iRequiredScopes v) of
        Err e \<Rightarrow> Err (Forbidden e)
      | Ok u \<Rightarrow> Ok ())))))"

definition claim_expiry :: "claims \<Rightarrow> time option" where
  "claim_expiry cs = (case claimTime cs ''exp'' of Ok e \<Rightarrow> e | Err x \<Rightarrow> None)"

definition IntrospectionValidate ::
  "transport \<Rightarrow> json_decoder \<Rightarrow> clock \<Rightarrow> string \<Rightarrow> IntrospectionValidator
     \<Rightarrow> (access_error, Principal) result \<times> IntrospectionValidator" where
  "IntrospectionValidate send decode c rawToken v =
     (let t = TrimSpace rawToken in
      if t = [] then (Err (Unauthorized ''empty token''), v)
      else (case cached (atCache c) t v of
          (Some p, v') \<Rightarrow> (Ok p, v')
        | (None, v') \<Rightarrow> (case introspect send decode v' t of
            Err e \<Rightarrow> (Err (Unauthorized e), v')
          | Ok cs \<Rightarrow> (case judge c v' cs of
              Err e \<Rightarrow> (Err e, v')
            | Ok u \<Rightarrow> (Ok (principal_of cs), store (atStore c) t (principal_of cs) (claim_expiry cs) v')))))"

lemma cached_scopes: "cached now t v = (r, v') \<Longrightarrow> iRequiredScopes v' = iRequiredScopes v"
  by (auto simp: cached_def split: option.splits if_split_asm)

lemma judge_Ok:
  assumes "judge c v cs = Ok ()"
  shows "is_active cs" and "set (iRequiredScopes v) \<subseteq> set (extractScopes cs)"
    and "claimTime cs ''exp'' = Ok None \<or> (\<exists>t. claimTime cs ''exp'' = Ok (Some t) \<and> atExp c < t)"
    and "claimTime cs ''nbf'' = Ok None \<or> (\<exists>t. claimTime cs ''nbf'' = Ok (Some t) \<and> t \<le> atNbf c)"
  using assms check_exp_Ok_iff [of cs "atExp c" False] check_nbf_Ok_iff [of cs "atNbf c"]
    ensureRequiredScopes_Ok_iff [of "extractScopes cs" "iRequiredScopes v"]
  by (auto simp: judge_def split: if_splits sum.splits)

text \<open>What every entry of the cache was stored with.\<close>

definition entry_sound :: "IntrospectionValidator \<Rightarrow> CacheEntry \<Rightarrow> bool" where
  "entry_sound v e \<longleftrightarrow> (\<exists>cs. entryPrincipal e = principal_of cs \<and> is_active cs
     \<and> set (iRequiredScopes v) \<subseteq> set (extractScopes cs)
     \<and> (\<forall>t. claim_expiry cs = Some t \<longrightarrow> entryExpiresAt e \<le> t))"

definition cache_sound :: "IntrospectionValidator \<Rightarrow> bool" where
  "cache_sound v \<longleftrightarrow> (\<forall>t e. map_of (iCache v) t = Some e \<longrightarrow> entry_sound v e)"

lemma cached_sound: "cache_sound v \<Longrightarrow> cached now t v = (r, v') \<Longrightarrow> cache_sound v'"
  by (auto simp: cached_def cache_sound_def entry_sound_def split: option.splits if_splits)

lemma store_sound:
  assumes "cache_sound v" and "judge c v cs = Ok ()"
  shows "cache_sound (store now t (principal_of cs) (claim_expiry cs) v)"
proof -
  have "entry_sound v \<lparr>entryPrincipal = principal_of cs,
      entryExpiresAt = store_deadline now (iCacheTTL v) (claim_expiry cs)\<rparr>"
    using judge_Ok(1,2) [OF assms(2)] store_deadline_le [of now "iCacheTTL v"]
    by (auto simp: entry_sound_def intro!: exI [of _ cs])
  with assms(1) show ?thesis
    by (auto simp: cache_sound_def store_def put_entry_def entry_sound_def)
qed

text \<open>
  Property C29: the introspection cache stays sound. Validation keeps the invariant that every
  cached principal comes from claims that were active and carried the required scopes, with a
  deadline that does not exceed their exp claim.
\<close>

theorem introspection_cache_sound:
  assumes "cache_sound v" and "IntrospectionValidate send decode c t v = (r, v')"
  shows "cache_sound v'"
proof (cases "TrimSpace t = []")
  case True
  with assms show ?thesis by (simp add: IntrospectionValidate_def)
next
  case False
  obtain h w where w: "cached (atCache c) (TrimSpace t) v = (h, w)" by force
  with assms False cached_sound [OF assms(1) w] store_sound [of w c] show ?thesis
    by (auto simp: IntrospectionValidate_def Let_def split: option.splits sum.splits prod.splits)
qed

text \<open>
  Property C16: whom introspection admits. An accepted principal was derived from claims that
  were active and carry every required scope; a token with an exp claim is not accepted after
  that instant, from the cache or fresh. (At the very instant of exp a fresh token is refused,
  a cached one is still accepted.)
\<close>

theorem introspection_admits:
  assumes "cache_sound v" and "IntrospectionValidate send decode c t v = (Ok p, v')"
  shows "\<exists>cs. p = principal_of cs \<and> is_active cs \<and> set (iRequiredScopes v) \<subseteq> set (Scopes p)
     \<and> (\<forall>e. claim_expiry cs = Some e \<longrightarrow> atCache c \<le> e \<or> atExp c < e)"
proof -
  obtain h w where w: "cached (atCache c) (TrimSpace t) v = (h, w)" by force
  note conf = cached_scopes [OF w]
  have ne: "TrimSpace t \<noteq> []" using assms(2) by (auto simp: IntrospectionValidate_def)
  show ?thesis
  proof (cases h)
    case None
    with assms(2) w ne obtain cs where cs: "judge c w cs = Ok ()" "p = principal_of cs"
      by (auto simp: IntrospectionValidate_def Let_def split: sum.splits)
    have "atExp c < e" if "claim_expiry cs = Some e" for e
      using judge_Ok(3) [OF cs(1)] that by (auto simp: claim_expiry_def)
    moreover have "set (iRequiredScopes v) \<subseteq> set (Scopes p)"
      using judge_Ok(2) [OF cs(1)] cs(2) conf by simp
    ultimately show ?thesis using judge_Ok(1) [OF cs(1)] cs(2) by blast
  next
    case (Some q)
    with w obtain e where e: "map_of (iCache v) (TrimSpace t) = Some e" "entryPrincipal e = q"
      "atCache c \<le> entryExpiresAt e"
      by (auto simp: cached_def split: option.splits if_splits)
    moreover have "p = q" using assms(2) w ne Some by (simp add: IntrospectionValidate_def)
    moreover have "entry_sound v e" using assms(1) e(1) by (auto simp: cache_sound_def)
    ultimately obtain cs where "p = principal_of cs" "is_active cs"
      "set (iRequiredScopes v) \<subseteq> set (extractScopes cs)"
      and le: "\<And>x. claim_expiry cs = Some x \<Longrightarrow> entryExpiresAt e \<le> x"
      by (auto simp: entry_sound_def)
    then show ?thesis using order_trans [OF e(3) le] by auto
  qed
qed


text \<open>
  The introspection cache never confuses tokens. In any history of stores and
  look-ups, a hit for a token is the principal stored last for that very token, not after its
  deadline.
\<close>

theorem introspection_hit_is_latest:
  assumes "intro.stores_valid es" and "fst (cached now t (intro.exec v es)) = Some p"
  shows "\<exists>d. latest es t = Some (p, d) \<and> now \<le> d"
  using intro.hit_is_latest [OF assms(1), of t now v p] assms(2) by (simp add: cache_get_def)

section \<open>An introspection endpoint\<close>

definition demo_validator :: IntrospectionValidator where
  "demo_validator = \<lparr>introspectionURL = ''https://idp/introspect'', iClientID = ''id'',
     iClientSecret = ''secret'', iIssuer = [], iAudience = [], iRequiredScopes = [''api''],
     iCacheTTL = 45 * Second, iCache = []\<rparr>"

definition demo_endpoint :: transport where
  "demo_endpoint r = (if rqBody r = ''token=t1''
     then Ok \<lparr>StatusCode = 200, rsHeader = [], rsBody = Ok ''body''\<rparr> else Err ''refused'')"

definition demo_claims :: claims where
  "demo_claims = [(''active'', ABool True), (''scope'', AStr ''api read''), (''sub'', AStr ''u''),
     (''exp'', AFloat (F64 5 1))]"

definition demo_json :: json_decoder where
  "demo_json s = Some (AMap demo_claims)"

definition at_second :: "int \<Rightarrow> clock" where
  "at_second n = \<lparr>atCache = UnixTime n, atExp = UnixTime n, atNbf = UnixTime n, atStore = UnixTime n\<rparr>"

lemma demo_validates:
  "IntrospectionValidate demo_endpoint demo_json (at_second 7) ''t1'' demo_validator
     = (Ok (principal_of demo_claims),
        put_entry ''t1'' (principal_of demo_claims) (UnixTime 50) demo_validator)"
  by code_simp

lemma demo_sound: "cache_sound demo_validator"
  by (simp add: cache_sound_def demo_validator_def)

theorem introspection_cache_sound_witness:
  "cache_sound (put_entry ''t1'' (principal_of demo_claims) (UnixTime 50) demo_validator)"
  by (rule introspection_cache_sound [OF demo_sound demo_validates])

theorem introspection_admits_witness:
  "\<exists>cs. principal_of demo_claims = principal_of cs \<and> is_active cs"
  using introspection_admits [OF demo_sound demo_validates] by blast

theorem introspection_hit_is_latest_witness:
  "\<exists>d. latest [CGet ''x'' (Time 1), CPut ''t1'' (principal_of demo_claims) (Time 9)] ''t1''
     = Some (principal_of demo_claims, d) \<and> Time 5 \<le> d"
proof (rule introspection_hit_is_latest [where v = demo_validator])
  show "fst (cached (Time 5) ''t1'' (intro.exec demo_validator
      [CGet ''x'' (Time 1), CPut ''t1'' (principal_of demo_claims) (Time 9)])) = Some (principal_of demo_claims)"
    by (simp add: cache_get_def put_entry_def cached_def After_def less_time_def)
qed simp

end
