(* ===== verification/AuthJwt.thy ===== *)
theory AuthJwt
  imports AuthClaims TtlCache
begin

text \<open>
  Signed tokens (\<open>internal/auth/jwt_jwks.go\<close>): the key set fetched from the JWKS endpoint and
  cached, key selection, and validation. The JWT library is the argument \<open>parser\<close>: it gets the
  token and the key function and returns the claims or an error. Public keys are their numbers;
  the check that a point is on the curve is the argument \<open>on_curve\<close> (\<open>crypto/ecdh\<close>).
\<close>

datatype public_key = RSAKey int int | ECKey int int

record cachedJWK =
  jKey :: public_key
  jKty :: string
  jAlg :: string

record jwkKey =
  Kty :: string
  Kid :: string
  Use :: string
  Alg :: string
  KN :: string
  KE :: string
  Crv :: string
  KX :: string
  KY :: string

datatype jwk_fault = JwkError string | JwkPanic

section \<open>Decoding a key\<close>

text \<open>\<open>base64.RawURLEncoding\<close>: no padding, CR and LF skipped, trailing bits ignored.\<close>

definition b64url_value :: "char \<Rightarrow> int option" where
  "b64url_value c = (let n = of_char c :: int in
     if 65 \<le> n \<and> n \<le> 90 then Some (n - 65) else if 97 \<le> n \<and> n \<le> 122 then Some (n - 71)
     else if 48 \<le> n \<and> n \<le> 57 then Some (n + 4) else if c = CHR ''-'' then Some 62
     else if c = CHR ''_'' then Some 63 else None)"

fun b64_groups :: "int list \<Rightarrow> int list option" where
  "b64_groups (a # b # c # d # s) = (case b64_groups s of None \<Rightarrow> None
     | Some r \<Rightarrow> Some ([a * 4 + b div 16, b mod 16 * 16 + c div 4, c mod 4 * 64 + d] @ r))"
| "b64_groups [a, b, c] = Some [a * 4 + b div 16, b mod 16 * 16 + c div 4]"
| "b64_groups [a, b] = Some [a * 4 + b div 16]"
| "b64_groups [a] = None"
| "b64_groups [] = Some []"

definition RawURLDecode :: "string \<Rightarrow> int list option" where
  "RawURLDecode s =
     (let vs = map b64url_value (filter (\<lambda>c. c \<notin> {CHR 0x0A, CHR 0x0D}) s) in
      if None \<in> set vs then None else b64_groups (map the vs))"

text \<open>\<open>big.Int.SetBytes\<close>.\<close>

definition big_endian :: "int list \<Rightarrow> int" where
  "big_endian bs = foldl (\<lambda>v b. v * 256 + b) 0 bs"

text \<open>The exponent is accumulated in an \<open>int\<close> of 64 bits.\<close>

definition exponent :: "int list \<Rightarrow> int" where
  "exponent bs = foldl (\<lambda>e b. wrap64 (e * 256) + b) 0 bs"

definition parseRSAPublicKey :: "string \<Rightarrow> string \<Rightarrow> (jwk_fault, public_key) result" where
  "parseRSAPublicKey nRaw eRaw =
     (case RawURLDecode (TrimSpace nRaw) of
        None \<Rightarrow> Err (JwkError ''illegal base64 data'')
      | Some nBytes \<Rightarrow> (case RawURLDecode (TrimSpace eRaw) of
          None \<Rightarrow> Err (JwkError ''illegal base64 data'')
        | Some eBytes \<Rightarrow>
            if eBytes = [] then Err (JwkError ''invalid rsa exponent'')
            else if exponent eBytes \<le> 0 then Err (JwkError ''invalid rsa exponent value'')
            else Ok (RSAKey (big_endian nBytes) (exponent eBytes))))"

text \<open>\<open>FillBytes\<close> panics when the number does not fit the 32-byte field.\<close>

definition parseECPublicKey ::
  "(int \<Rightarrow> int \<Rightarrow> bool) \<Rightarrow> string \<Rightarrow> string \<Rightarrow> string \<Rightarrow> (jwk_fault, public_key) result" where
  "parseECPublicKey on_curve crvRaw xRaw yRaw =
     (if TrimSpace crvRaw \<noteq> ''P-256'' then Err (JwkError ''only P-256 is supported'')
      else (case RawURLDecode (TrimSpace xRaw) of
        None \<Rightarrow> Err (JwkError ''illegal base64 data'')
      | Some xBytes \<Rightarrow> (case RawURLDecode (TrimSpace yRaw) of
          None \<Rightarrow> Err (JwkError ''illegal base64 data'')
        | Some yBytes \<Rightarrow>
            (let x = big_endian xBytes; y = big_endian yBytes in
             if 2 ^ 256 \<le> x \<or> 2 ^ 256 \<le> y then Err JwkPanic
             else if \<not> on_curve x y then Err (JwkError ''ec point is not on curve'')
             else Ok (ECKey x y)))))"

definition parseJWK :: "(int \<Rightarrow> int \<Rightarrow> bool) \<Rightarrow> jwkKey \<Rightarrow> (jwk_fault, cachedJWK) result" where
  "parseJWK on_curve key =
     (let kty = ToUpper (TrimSpace (Kty key)) in
      if kty = ''RSA'' then
        (case parseRSAPublicKey (KN key) (KE key) of Err e \<Rightarrow> Err e
         | Ok pub \<Rightarrow> Ok \<lparr>jKey = pub, jKty = ''RSA'', jAlg = TrimSpace (Alg key)\<rparr>)
      else if kty = ''EC'' then
        (case parseECPublicKey on_curve (Crv key) (KX key) (KY key) of Err e \<Rightarrow> Err e
         | Ok pub \<Rightarrow> Ok \<lparr>jKey = pub, jKty = ''EC'', jAlg = TrimSpace (Alg key)\<rparr>)
      else Err (JwkError ''unsupported kty''))"

section \<open>The key cache\<close>

record JWTOptions =
  jOptIssuer :: string
  jOptAudience :: string
  jOptJWKSURL :: string
  jOptRequiredScopes :: "string list"
  jOptCacheTTL :: duration

record JWTJWKSValidator =
  jIssuer :: string
  jAudience :: string
  jwksURL :: string
  jRequiredScopes :: "string list"
  jCacheTTL :: duration
  jExpiresAt :: time
  jKeys :: "(string \<times> cachedJWK) list"

definition NewJWTJWKSValidator :: "JWTOptions \<Rightarrow> (string, JWTJWKSValidator) result" where
  "NewJWTJWKSValidator opts =
     (if TrimSpace (jOptJWKSURL opts) = [] then Err ''JWKS URL is required''
      else Ok \<lparr>jIssuer = TrimSpace (jOptIssuer opts), jAudience = TrimSpace (jOptAudience opts),
        jwksURL = TrimSpace (jOptJWKSURL opts), jRequiredScopes = scopesToSet (jOptRequiredScopes opts),
        jCacheTTL = (if jOptCacheTTL opts \<le> 0 then 5 * Minute else jOptCacheTTL opts),
        jExpiresAt = Time 0, jKeys = []\<rparr>)"

definition jwkMatchesAlg :: "cachedJWK \<Rightarrow> string \<Rightarrow> bool" where
  "jwkMatchesAlg key alg =
     (if jAlg key \<noteq> [] then jAlg key = alg
      else if jKty key = ''RSA'' then alg = ''RS256''
      else if jKty key = ''EC'' then alg = ''ES256'' else False)"

text \<open>Without a key identifier the key must be the only one that fits the algorithm.\<close>

definition select_key :: "(string \<times> cachedJWK) list \<Rightarrow> string \<Rightarrow> string \<Rightarrow> public_key option" where
  "select_key keys kid alg =
     (if kid \<noteq> [] then
        (case map_of keys kid of None \<Rightarrow> None
         | Some entry \<Rightarrow> if jwkMatchesAlg entry alg then Some (jKey entry) else None)
      else (case filter (\<lambda>(k, entry). jwkMatchesAlg entry alg) keys of
              [(k, entry)] \<Rightarrow> Some (jKey entry) | _ \<Rightarrow> None))"

definition live_keys :: "time \<Rightarrow> JWTJWKSValidator \<Rightarrow> (string \<times> cachedJWK) list option" where
  "live_keys now v = (if jKeys v = [] \<or> After now (jExpiresAt v) then None else Some (jKeys v))"

definition cachedKey :: "time \<Rightarrow> string \<Rightarrow> string \<Rightarrow> JWTJWKSValidator \<Rightarrow> public_key option" where
  "cachedKey now kid alg v = (case live_keys now v of None \<Rightarrow> None | Some keys \<Rightarrow> select_key keys kid alg)"

fun parse_keys :: "(int \<Rightarrow> int \<Rightarrow> bool) \<Rightarrow> nat \<Rightarrow> jwkKey list \<Rightarrow> (string \<times> cachedJWK) list
    \<Rightarrow> (jwk_fault, (string \<times> cachedJWK) list) result" where
  "parse_keys on_curve i [] keys = Ok keys"
| "parse_keys on_curve i (key # rest) keys = (case parseJWK on_curve key of
     Err JwkPanic \<Rightarrow> Err JwkPanic
   | Err (JwkError e) \<Rightarrow> parse_keys on_curve (Suc i) rest keys
   | Ok parsed \<Rightarrow>
       (let cacheKey = (if TrimSpace (Kid key) = [] then ''_anon_'' @ Itoa (int i) else TrimSpace (Kid key)) in
        parse_keys on_curve (Suc i) rest (map_set cacheKey parsed keys)))"

text \<open>Decoding into \<open>jwksDocument\<close> (exact field names).\<close>

definition jwk_field :: "(string \<times> any) list \<Rightarrow> string \<Rightarrow> string option" where
  "jwk_field kvs k = (case map_of kvs k of None \<Rightarrow> Some [] | Some ANil \<Rightarrow> Some []
     | Some (AStr s) \<Rightarrow> Some s | _ \<Rightarrow> None)"

definition decode_jwk :: "any \<Rightarrow> jwkKey option" where
  "decode_jwk v = (case v of
     ANil \<Rightarrow> Some \<lparr>Kty = [], Kid = [], Use = [], Alg = [], KN = [], KE = [], Crv = [], KX = [], KY = []\<rparr>
   | AMap kvs \<Rightarrow>
      (case map (jwk_field kvs) [''kty'', ''kid'', ''use'', ''alg'', ''n'', ''e'', ''crv'', ''x'', ''y''] of
         [Some kty, Some kid, Some us, Some alg, Some n, Some e, Some crv, Some x, Some y] \<Rightarrow>
           Some \<lparr>Kty = kty, Kid = kid, Use = us, Alg = alg, KN = n, KE = e, Crv = crv, KX = x, KY = y\<rparr>
       | _ \<Rightarrow> None)
   | _ \<Rightarrow> None)"

definition decode_jwks :: "any \<Rightarrow> jwkKey list option" where
  "decode_jwks v = (case v of
     ANil \<Rightarrow> Some []
   | AMap kvs \<Rightarrow> (case map_of kvs ''keys'' of
       None \<Rightarrow> Some [] | Some ANil \<Rightarrow> Some []
     | Some (AList vs) \<Rightarrow> (let ks = map decode_jwk vs in if None \<in> set ks then None else Some (map the ks))
     | _ \<Rightarrow> None)
   | _ \<Rightarrow> None)"

definition put_keys :: "(string \<times> cachedJWK) list \<Rightarrow> time \<Rightarrow> JWTJWKSValidator \<Rightarrow> JWTJWKSValidator" where
  "put_keys keys deadline v = v\<lparr>jKeys := keys, jExpiresAt := deadline\<rparr>"

definition fetch_keys :: "transport \<Rightarrow> json_decoder \<Rightarrow> (int \<Rightarrow> int \<Rightarrow> bool) \<Rightarrow> JWTJWKSValidator
    \<Rightarrow> (jwk_fault, (string \<times> cachedJWK) list) result" where
  "fetch_keys send decode on_curve v = (case NewRequest ''GET'' (jwksURL v) [] of
     Err e \<Rightarrow> Err (JwkError e)
   | Ok r \<Rightarrow> (case send (set_header ''Accept'' ''application/json'' r) of
       Err e \<Rightarrow> Err (JwkError e)
     | Ok resp \<Rightarrow>
        if StatusCode resp \<noteq> 200
          then Err (JwkError (''jwks endpoint returned status '' @ Itoa (StatusCode resp)))
        else (case read_limited 1048576 (rsBody resp) of
            Err e \<Rightarrow> Err (JwkError e)
          | Ok body \<Rightarrow> (case Option.bind (decode body) decode_jwks of
              None \<Rightarrow> Err (JwkError ''invalid jwks payload'')
            | Some ks \<Rightarrow> (case parse_keys on_curve 0 ks [] of
                Err e \<Rightarrow> Err e
              | Ok keys \<Rightarrow> if keys = [] then Err (JwkError ''jwks contains no supported keys'') else Ok keys)))))"

definition refreshJWKS :: "transport \<Rightarrow> json_decoder \<Rightarrow> (int \<Rightarrow> int \<Rightarrow> bool) \<Rightarrow> time
    \<Rightarrow> JWTJWKSValidator \<Rightarrow> (jwk_fault, unit) result \<times> JWTJWKSValidator" where
  "refreshJWKS send decode on_curve now v = (case fetch_keys send decode on_curve v of
     Err e \<Rightarrow> (Err e, v)
   | Ok keys \<Rightarrow> (Ok (), put_keys keys (AddTime now (jCacheTTL v)) v))"

section \<open>Key lookup and validation\<close>

record jwt_clock =
  atLookup :: time
  atRefresh :: time
  atRelookup :: time
  atClaims :: time

record outside =
  osend :: transport
  odecode :: json_decoder
  oncurve :: "int \<Rightarrow> int \<Rightarrow> bool"

definition lookupKey :: "outside \<Rightarrow> jwt_clock \<Rightarrow> string \<Rightarrow> string \<Rightarrow> JWTJWKSValidator
    \<Rightarrow> (access_error, public_key) result \<times> JWTJWKSValidator" where
  "lookupKey env c kid alg v = (case cachedKey (atLookup c) kid alg v of
     Some key \<Rightarrow> (Ok key, v)
   | None \<Rightarrow> (case refreshJWKS (osend env) (odecode env) (oncurve env) (atRefresh c) v of
       (Err JwkPanic, v') \<Rightarrow> (Err Panicked, v')
     | (Err (JwkError e), v') \<Rightarrow> (Err (Unauthorized ''jwks refresh failed''), v')
     | (Ok u, v') \<Rightarrow> (case cachedKey (atRelookup c) kid alg v' of
         Some key \<Rightarrow> (Ok key, v')
       | None \<Rightarrow> (Err (Unauthorized ''matching jwk not found''), v'))))"

definition header_string :: "any \<Rightarrow> string" where
  "header_string x = (case x of AStr s \<Rightarrow> s | _ \<Rightarrow> [])"

text \<open>The key function given to the library: the token's algorithm and key id headers.\<close>

type_synonym keyfunc = "any \<Rightarrow> any \<Rightarrow> JWTJWKSValidator \<Rightarrow> (access_error, public_key) result \<times> JWTJWKSValidator"
type_synonym jwt_parser = "string \<Rightarrow> keyfunc \<Rightarrow> JWTJWKSValidator \<Rightarrow> (access_error, claims) result \<times> JWTJWKSValidator"

definition jwt_keyfunc :: "outside \<Rightarrow> jwt_clock \<Rightarrow> keyfunc" where
  "jwt_keyfunc env c algHeader kidHeader v =
     (let alg = header_string algHeader in
      if alg \<noteq> ''RS256'' \<and> alg \<noteq> ''ES256'' then (Err (Unauthorized ''unsupported signing algorithm''), v)
      else lookupKey env c (header_string kidHeader) alg v)"

definition JWTValidate :: "jwt_parser \<Rightarrow> outside \<Rightarrow> jwt_clock \<Rightarrow> string \<Rightarrow> JWTJWKSValidator
    \<Rightarrow> (access_error, Principal) result \<times> JWTJWKSValidator" where
  "JWTValidate parser env c t v =
     (if TrimSpace t = [] then (Err (Unauthorized ''empty token''), v)
      else (case parser t (jwt_keyfunc env c) v of
          (Err e, v') \<Rightarrow> (Err (if e = Panicked then Panicked else Unauthorized ''invalid jwt''), v')
        | (Ok cs, v') \<Rightarrow> (case validateJWTClaims cs (jIssuer v) (jAudience v) (atClaims c) of
            Err e \<Rightarrow> (Err (Unauthorized e), v')
          | Ok u \<Rightarrow> (case ensureRequiredScopes (extractScopes cs) (jRequiredScopes v) of
              Err e \<Rightarrow> (Err (Forbidden e), v')
            | Ok u \<Rightarrow> (Ok (principal_of cs), v')))))"

section \<open>The key cache is a cache\<close>

definition keys_get :: "unit \<Rightarrow> time \<Rightarrow> JWTJWKSValidator \<Rightarrow> (string \<times> cachedJWK) list option \<times> JWTJWKSValidator" where
  "keys_get u now v = (live_keys now v, v)"

definition keys_put :: "unit \<Rightarrow> (string \<times> cachedJWK) list \<Rightarrow> time \<Rightarrow> JWTJWKSValidator \<Rightarrow> JWTJWKSValidator" where
  "keys_put u keys d v = put_keys keys d v"

interpretation jwks: ttl_cache "\<lambda>t d. t \<le> d" "\<lambda>ks. ks \<noteq> []" "v\<lparr>jKeys := []\<rparr>" keys_get keys_put
  for v
  by unfold_locales (auto simp: keys_get_def keys_put_def live_keys_def put_keys_def After_def not_less)

section \<open>Properties\<close>

lemma select_key_Some:
  assumes "select_key keys kid alg = Some key"
  shows "\<exists>k entry. (k, entry) \<in> set keys \<and> jKey entry = key \<and> jwkMatchesAlg entry alg
     \<and> (kid = [] \<or> k = kid)"
proof (cases "kid = []")
  case False
  with assms show ?thesis
    by (auto simp: select_key_def split: option.splits if_splits dest: map_of_SomeD)
next
  case True
  then obtain k entry where f: "filter (\<lambda>(k, entry). jwkMatchesAlg entry alg) keys = [(k, entry)]"
    and "key = jKey entry"
    using assms by (auto simp: select_key_def split: list.splits prod.splits)
  moreover have "(k, entry) \<in> set (filter (\<lambda>(k, entry). jwkMatchesAlg entry alg) keys)"
    unfolding f by simp
  then have "(k, entry) \<in> set keys" "jwkMatchesAlg entry alg" by simp_all
  ultimately show ?thesis using True by blast
qed

definition key_source :: "outside \<Rightarrow> jwt_clock \<Rightarrow> JWTJWKSValidator \<Rightarrow> (string \<times> cachedJWK) list \<Rightarrow> bool" where
  "key_source env c v keys \<longleftrightarrow> live_keys (atLookup c) v = Some keys
     \<or> fetch_keys (osend env) (odecode env) (oncurve env) v = Ok keys"

lemma lookupKey_source:
  assumes "lookupKey env c kid alg v = (Ok key, v')"
  shows "\<exists>keys. key_source env c v keys \<and> select_key keys kid alg = Some key"
  using assms
  by (auto simp: lookupKey_def cachedKey_def refreshJWKS_def key_source_def live_keys_def put_keys_def After_def
      split: option.splits sum.splits jwk_fault.splits if_splits)

text \<open>
  What the library documents: claims come back only for a token whose signature it verified
  with the key that the key function returned for the token's own headers.
\<close>

definition jwt_sound :: "jwt_parser \<Rightarrow> (any \<Rightarrow> public_key \<Rightarrow> string \<Rightarrow> claims \<Rightarrow> bool) \<Rightarrow> bool" where
  "jwt_sound parser signed \<longleftrightarrow> (\<forall>t kf s cs s'. parser t kf s = (Ok cs, s') \<longrightarrow>
     (\<exists>alg kid key. kf alg kid s = (Ok key, s') \<and> signed alg key t cs))"


text \<open>
  The key set in use is the one fetched last, and not past its deadline, in any
  history of refreshes and look-ups.
\<close>

theorem live_keys_latest:
  assumes "jwks.stores_valid es" and "live_keys now (jwks.exec v es) = Some keys"
  shows "\<exists>d. latest es () = Some (keys, d) \<and> now \<le> d"
  using jwks.hit_is_latest [OF assms(1), of "()" now v keys] assms(2) by (simp add: keys_get_def)


section \<open>A key set and a token\<close>

definition demo_jwt :: JWTJWKSValidator where
  "demo_jwt = \<lparr>jIssuer = ''iss'', jAudience = [], jwksURL = ''https://idp/jwks'',
     jRequiredScopes = [''api''], jCacheTTL = 5 * Minute, jExpiresAt = Time 0, jKeys = []\<rparr>"

definition demo_jwks :: any where
  "demo_jwks = AMap [(''keys'', AList [AMap [(''kty'', AStr ''RSA''), (''kid'', AStr ''k1''),
     (''n'', AStr ''AQAB''), (''e'', AStr ''AQAB'')]])]"

definition demo_env :: outside where
  "demo_env = \<lparr>osend = (\<lambda>r. Ok \<lparr>StatusCode = 200, rsHeader = [], rsBody = Ok ''jwks''\<rparr>),
     odecode = (\<lambda>s. Some demo_jwks), oncurve = (\<lambda>x y. False)\<rparr>"

definition demo_jwt_claims :: claims where
  "demo_jwt_claims = [(''iss'', AStr ''iss''), (''exp'', AFloat (F64 9 1)), (''scp'', AList [AStr ''api''])]"

definition demo_parser :: jwt_parser where
  "demo_parser t kf v = (case kf (AStr ''RS256'') (AStr ''k1'') v of
     (Ok key, v') \<Rightarrow> (if t = ''tok'' \<and> key = RSAKey 65537 65537 then Ok demo_jwt_claims else Err (Unauthorized ''bad''), v')
   | (Err e, v') \<Rightarrow> (Err e, v'))"

definition demo_signed :: "any \<Rightarrow> public_key \<Rightarrow> string \<Rightarrow> claims \<Rightarrow> bool" where
  "demo_signed alg key t cs \<longleftrightarrow> alg = AStr ''RS256'' \<and> key = RSAKey 65537 65537 \<and> t = ''tok''
     \<and> cs = demo_jwt_claims"

definition demo_jwt_clock :: jwt_clock where
  "demo_jwt_clock = \<lparr>atLookup = UnixTime 5, atRefresh = UnixTime 6, atRelookup = UnixTime 7, atClaims = UnixTime 8\<rparr>"

lemma demo_jwt_sound: "jwt_sound demo_parser demo_signed"
  by (auto simp: jwt_sound_def demo_parser_def demo_signed_def split: sum.splits prod.splits if_splits)

lemma demo_jwt_validates:
  "fst (JWTValidate demo_parser demo_env demo_jwt_clock ''tok'' demo_jwt) = Ok (principal_of demo_jwt_claims)"
  by code_simp


theorem live_keys_latest_witness:
  "\<exists>d. latest [CPut () [(''k'', \<lparr>jKey = RSAKey 5 3, jKty = ''RSA'', jAlg = []\<rparr>)] (Time 9)] ()
     = Some ([(''k'', \<lparr>jKey = RSAKey 5 3, jKty = ''RSA'', jAlg = []\<rparr>)], d) \<and> Time 4 \<le> d"
  by (rule live_keys_latest [where v = demo_jwt])
     (simp_all add: keys_put_def put_keys_def live_keys_def After_def less_time_def)

text \<open>
  A key set with one oversized EC coordinate panics as a whole, although keys that cannot be
  parsed are meant to be skipped.
\<close>

definition oversized :: jwkKey where
  "oversized = \<lparr>Kty = ''EC'', Kid = ''big'', Use = [], Alg = [], KN = [], KE = [], Crv = ''P-256'',
     KX = replicate 44 (CHR ''_''), KY = ''AQAB''\<rparr>"

theorem oversized_coordinate_panics: "parse_keys on_curve 0 [oversized] [] = Err JwkPanic"
  by code_simp

end
