(* ===== verification/Pointer.thy ===== *)
theory Pointer
  imports GoAny GoUrl
begin

text \<open>
  JSON pointers into the raw Swagger document and the expansion of local references
  (\<open>internal/swagger/store.go\<close>). A document is an \<open>any\<close> value.

  \<open>resolveRefsInAny\<close> recurses into the target of a reference, so its termination rests on the
  set \<open>seen\<close> of pointers being expanded: a pointer is followed only if it is not in \<open>seen\<close>,
  and every pointer occurs in the value or in the document, of which there are finitely many.
\<close>

datatype swagger_error = ErrNotFound | ErrUnavailable string | ErrOther string

section \<open>Pointers\<close>

definition normalizePointer :: "string \<Rightarrow> string" where
  "normalizePointer raw =
     (let pointer = TrimSpace raw in
      if pointer = [] \<or> pointer = ''/'' then []
      else (let decoded = (case QueryUnescape pointer of Ok d \<Rightarrow> d | Err e \<Rightarrow> pointer);
                decoded = TrimPrefix (TrimSpace decoded) ''#'' in
        if decoded = [] \<or> decoded = ''/'' then []
        else if \<not> HasPrefix decoded ''/'' then ''/'' @ decoded else decoded))"

definition decodePointerToken :: "string \<Rightarrow> string" where
  "decodePointerToken t = ReplaceAll (ReplaceAll t ''~1'' ''/'') ''~0'' ''~''"

definition pointer_step :: "string \<Rightarrow> any \<Rightarrow> any option" where
  "pointer_step t node = (case node of
     AMap kvs \<Rightarrow> map_of kvs t
   | AList vs \<Rightarrow> (case ParseInt t of None \<Rightarrow> None
       | Some i \<Rightarrow> if i < 0 \<or> int (length vs) \<le> i then None else Some (vs ! nat i))
   | _ \<Rightarrow> None)"

fun walk :: "string list \<Rightarrow> any \<Rightarrow> any option" where
  "walk [] node = Some node"
| "walk (part # parts) node = (case pointer_step (decodePointerToken part) node of
     None \<Rightarrow> None | Some next \<Rightarrow> walk parts next)"

definition lookupPointer :: "any \<Rightarrow> string \<Rightarrow> any option" where
  "lookupPointer root pointer = (if pointer = [] then Some root
     else walk (Split (TrimPrefix pointer ''/'') CHR ''/'') root)"

definition referenceToPointer :: "string \<Rightarrow> string option" where
  "referenceToPointer ref = (let r = TrimSpace ref in
     if \<not> HasPrefix r ''#/'' then None else Some (TrimPrefix r ''#''))"

section \<open>The references of a value\<close>

definition ref_of :: "(string \<times> any) list \<Rightarrow> string option" where
  "ref_of kvs = (case map_of kvs ''$ref'' of Some (AStr s) \<Rightarrow> Some s | _ \<Rightarrow> None)"

definition target_of :: "(string \<times> any) list \<Rightarrow> string option" where
  "target_of kvs = (case ref_of kvs of None \<Rightarrow> None | Some r \<Rightarrow> referenceToPointer r)"

fun refs :: "any \<Rightarrow> string set" where
  "refs (AMap kvs) = set_option (target_of kvs) \<union> (\<Union>(k, v) \<in> set kvs. refs v)"
| "refs (AList vs) = (\<Union>v \<in> set vs. refs v)"
| "refs v = {}"

lemma finite_refs [simp]: "finite (refs v)"
  by (induction v rule: refs.induct) auto

lemma refs_entry: "(k, v) \<in> set kvs \<Longrightarrow> refs v \<subseteq> refs (AMap kvs)"
  by auto

lemma refs_item: "v \<in> set vs \<Longrightarrow> refs v \<subseteq> refs (AList vs)"
  by auto

lemma pointer_step_refs: "pointer_step t node = Some v \<Longrightarrow> refs v \<subseteq> refs node"
proof (cases node)
  case (AMap kvs)
  assume "pointer_step t node = Some v"
  with AMap have "(t, v) \<in> set kvs" by (auto simp: pointer_step_def dest: map_of_SomeD)
  with AMap show ?thesis by (simp only: refs_entry)
next
  case (AList vs)
  assume "pointer_step t node = Some v"
  with AList obtain i where "v = vs ! nat i" "nat i < length vs"
    by (auto simp: pointer_step_def split: option.splits if_splits)
  with AList show ?thesis by (simp only: refs_item nth_mem)
qed (simp_all add: pointer_step_def)

lemma walk_refs: "walk parts node = Some v \<Longrightarrow> refs v \<subseteq> refs node"
proof (induction parts arbitrary: node)
  case (Cons part parts)
  then obtain next_node where "pointer_step (decodePointerToken part) node = Some next_node"
    "walk parts next_node = Some v"
    by (auto split: option.splits)
  with Cons.IH pointer_step_refs show ?case by blast
qed simp

lemma lookupPointer_refs: "lookupPointer root p = Some v \<Longrightarrow> refs v \<subseteq> refs root"
  by (auto simp: lookupPointer_def walk_refs split: if_splits dest: walk_refs)

section \<open>Expansion of local references\<close>

text \<open>
  The expansion of a node with siblings next to its reference: the referenced object,
  overridden by the siblings; a target that is not an object leaves the node as it is.
\<close>

definition merge_siblings :: "(string \<times> any) list \<Rightarrow> (string \<times> any) list \<Rightarrow> (string \<times> any) list" where
  "merge_siblings base entries =
     fold (\<lambda>(k, v) m. if k = ''$ref'' then m else map_set k v m) entries base"

definition as_map :: "any \<Rightarrow> (string \<times> any) list option" where
  "as_map v = (case v of AMap kvs \<Rightarrow> Some kvs | _ \<Rightarrow> None)"

function resolveRefsInAny :: "any \<Rightarrow> string list \<Rightarrow> any \<Rightarrow> any" where
  "resolveRefsInAny root seen (AMap kvs) =
     (case target_of kvs of
        None \<Rightarrow> AMap (map (\<lambda>(k, v). (k, resolveRefsInAny root seen v)) kvs)
      | Some pointer \<Rightarrow>
          if pointer \<in> set seen
          then AMap [(''x-circularRef'', AStr (the (ref_of kvs)))]
          else (case lookupPointer root pointer of
              None \<Rightarrow> AMap (map (\<lambda>(k, v). (k, resolveRefsInAny root seen v)) kvs)
            | Some resolved \<Rightarrow>
                (let expanded = resolveRefsInAny root (pointer # seen) resolved in
                 if length kvs = 1 then expanded
                 else (case as_map expanded of
                     Some base \<Rightarrow> AMap (merge_siblings base
                       (map (\<lambda>(k, v). (k, resolveRefsInAny root (pointer # seen) v)) kvs))
                   | None \<Rightarrow> AMap (map (\<lambda>(k, v). (k, resolveRefsInAny root seen v)) kvs)))))"
| "resolveRefsInAny root seen (AList vs) = AList (map (resolveRefsInAny root seen) vs)"
| "resolveRefsInAny root seen ANil = ANil"
| "resolveRefsInAny root seen (ABool b) = ABool b"
| "resolveRefsInAny root seen (AFloat f) = AFloat f"
| "resolveRefsInAny root seen (AInt i) = AInt i"
| "resolveRefsInAny root seen (AUint n) = AUint n"
| "resolveRefsInAny root seen (ANumber s) = ANumber s"
| "resolveRefsInAny root seen (AStr s) = AStr s"
| "resolveRefsInAny root seen (AStrs ss) = AStrs ss"
| "resolveRefsInAny root seen (ABytes s) = ABytes s"
| "resolveRefsInAny root seen (AStrMap m) = AStrMap m"
  by pat_completeness auto

definition pending :: "any \<Rightarrow> string list \<Rightarrow> any \<Rightarrow> nat" where
  "pending root seen v = card ((refs v \<union> refs root) - set seen)"

lemma pending_mono: "refs v \<subseteq> refs w \<union> refs root \<Longrightarrow> set seen \<subseteq> set seen' \<Longrightarrow>
    pending root seen' v \<le> pending root seen w"
  unfolding pending_def by (rule card_mono) auto

lemma pending_less:
  assumes "p \<in> refs w" and "p \<notin> set seen" and "refs v \<subseteq> refs root"
  shows "pending root (p # seen) v < pending root seen w"
  unfolding pending_def by (rule psubset_card_mono) (use assms in auto)

lemma size_entry: "(k, v) \<in> set kvs \<Longrightarrow> size v < size (AMap kvs)"
proof (induction kvs)
  case (Cons kv kvs)
  then show ?case by (cases kv) auto
qed simp

lemma size_item: "v \<in> set vs \<Longrightarrow> size v < size (AList vs)"
  by (induction vs) auto

lemma step_down:
  assumes "refs v \<subseteq> refs w" and "size v < size w" and "set seen \<subseteq> set seen'"
  shows "((root, seen', v), (root, seen, w)) \<in> measures [\<lambda>(root, seen, v). pending root seen v, \<lambda>(root, seen, v). size v]"
proof -
  have "refs v \<subseteq> refs w \<union> refs root" using assms(1) by blast
  from pending_mono [OF this assms(3)] assms(2) show ?thesis by auto
qed

lemma step_entry: "x \<in> set kvs \<Longrightarrow> (k, v) = x \<Longrightarrow> set seen \<subseteq> set seen' \<Longrightarrow>
    ((root, seen', v), (root, seen, AMap kvs)) \<in> measures [\<lambda>(root, seen, v). pending root seen v, \<lambda>(root, seen, v). size v]"
  by (rule step_down) (use refs_entry size_entry in blast)+

lemma step_item: "v \<in> set vs \<Longrightarrow>
    ((root, seen, v), (root, seen, AList vs)) \<in> measures [\<lambda>(root, seen, v). pending root seen v, \<lambda>(root, seen, v). size v]"
  by (rule step_down) (use refs_item size_item in blast)+

lemma step_target:
  assumes "target_of kvs = Some p" and "p \<notin> set seen" and "lookupPointer root p = Some v"
  shows "((root, p # seen, v), (root, seen, AMap kvs)) \<in> measures [\<lambda>(root, seen, v). pending root seen v, \<lambda>(root, seen, v). size v]"
  using pending_less [of p "AMap kvs" seen v root] lookupPointer_refs [OF assms(3)] assms by auto

termination resolveRefsInAny
  by (relation "measures [\<lambda>(root, seen, v). pending root seen v, \<lambda>(root, seen, v). size v]")
     (auto simp del: in_measures intro: step_target step_entry step_item)


section \<open>Pointers written for a path\<close>

text \<open>The inverse of \<open>decodePointerToken\<close> (RFC 6901), and the pointer of a path of keys.\<close>

definition encodePointerToken :: "string \<Rightarrow> string" where
  "encodePointerToken t =
     concat (map (\<lambda>c. if c = CHR ''~'' then ''~0'' else if c = CHR ''/'' then ''~1'' else [c]) t)"

definition pointer_of :: "string list \<Rightarrow> string" where
  "pointer_of ts = (if ts = [] then [] else ''/'' @ Join (map encodePointerToken ts) ''/'')"

fun descend :: "string list \<Rightarrow> any \<Rightarrow> any option" where
  "descend [] node = Some node"
| "descend (t # ts) node = Option.bind (pointer_step t node) (descend ts)"

lemma decode_slashes:
  "ReplaceAll (encodePointerToken t) ''~1'' ''/'' = concat (map (\<lambda>c. if c = CHR ''~'' then ''~0'' else [c]) t)"
  by (induction t) (auto simp: encodePointerToken_def)

lemma decode_tildes:
  "ReplaceAll (concat (map (\<lambda>c. if c = CHR ''~'' then ''~0'' else [c]) t)) ''~0'' ''~'' = t"
  by (induction t) auto

lemma decode_encode [simp]: "decodePointerToken (encodePointerToken t) = t"
  by (simp add: decodePointerToken_def decode_slashes decode_tildes)

lemma encode_no_slash: "CHR ''/'' \<notin> set (encodePointerToken t)"
  by (auto simp: encodePointerToken_def)

lemma walk_descend: "walk (map encodePointerToken ts) node = descend ts node"
  by (induction ts arbitrary: node) (auto split: option.split)

text \<open>
  Property C35: pointers address what they name. The pointer of a path of keys, with tilde and
  slash escaped as RFC 6901 asks, looks up exactly the value at the end of that path.
\<close>

theorem lookup_pointer_of: "lookupPointer root (pointer_of ts) = descend ts root"
proof (cases "ts = []")
  case False
  then have "Split (Join (map encodePointerToken ts) ''/'') CHR ''/'' = map encodePointerToken ts"
    by (intro Split_Join) (auto simp: encode_no_slash)
  with False show ?thesis
    by (simp add: lookupPointer_def pointer_of_def TrimPrefix_def walk_descend)
qed (simp add: lookupPointer_def pointer_of_def)

text \<open>
  Expansion only touches references. A value without local references is returned
  as it is, whatever the document and the pointers under expansion.
\<close>

theorem resolve_without_refs:
  assumes "refs v = {}"
  shows "resolveRefsInAny root seen v = v"
  using assms
proof (induction root seen v rule: resolveRefsInAny.induct)
  case (1 root seen kvs)
  from "1.prems" have t: "target_of kvs = None" and r: "\<And>k v. (k, v) \<in> set kvs \<Longrightarrow> refs v = {}" by auto
  have "(case kv of (k, v) \<Rightarrow> (k, resolveRefsInAny root seen v)) = kv" if "kv \<in> set kvs" for kv
  proof (cases kv)
    case (Pair k v)
    with that "1.IH"(1) [OF t that, of k v] r [of k v] show ?thesis by simp
  qed
  then have "map (\<lambda>(k, v). (k, resolveRefsInAny root seen v)) kvs = kvs"
    by (rule map_idI)
  with t show ?case by simp
next
  case (2 root seen vs)
  have "resolveRefsInAny root seen v = v" if "v \<in> set vs" for v
    using "2.IH" [OF that] "2.prems" that by auto
  then show ?case by (simp add: map_idI)
qed simp_all

definition demo_doc :: any where
  "demo_doc = AMap [(''a'', AMap [(''$ref'', AStr ''#/b'')]),
     (''b'', AMap [(''x'', AMap [(''$ref'', AStr ''#/a'')]), (''application/vnd.api+json'', AInt 1)])]"

theorem resolve_without_refs_witness:
  "resolveRefsInAny demo_doc [''/a''] (AList [AMap [(''type'', AStr ''string'')]])
     = AList [AMap [(''type'', AStr ''string'')]]"
  by (rule resolve_without_refs) (simp add: target_of_def ref_of_def)

text \<open>A cycle of references ends in a marker instead of a loop.\<close>

lemma cycle_marked: "resolveRefsInAny demo_doc [] (AMap [(''$ref'', AStr ''#/a'')]) =
    AMap [(''x'', AMap [(''x-circularRef'', AStr ''#/a'')]), (''application/vnd.api+json'', AInt 1)]"
  by code_simp

text \<open>
  The look-up tool decodes its pointer as a query component, so a plus sign in a key becomes a
  space and the key, which is in the document, is not found.
\<close>

theorem plus_key_unreachable:
  "lookupPointer demo_doc (pointer_of [''b'', ''application/vnd.api+json'']) = Some (AInt 1)
   \<and> lookupPointer demo_doc (normalizePointer (pointer_of [''b'', ''application/vnd.api+json''])) = None"
  by code_simp

end
