(* ===== verification/SwaggerModel.thy ===== *)
theory SwaggerModel
  imports GoAny Pointer
begin

text \<open>
  The data of the Swagger subsystem (\<open>internal/swagger/contract.go\<close>) and the fields of the
  \<open>kin-openapi\<close> document that the resolver reads. Schemas are shared by pointer there, and the
  resolver's cycle check compares pointers, so a document carries a heap of schemas by address;
  a nil pointer is None.
\<close>

record SchemaRef =
  srRef :: string
  srValue :: "nat option"

record Schema =
  sType :: "string list option"
  sTitle :: string
  sFormat :: string
  sDescription :: string
  sEnum :: "any list"
  sDefault :: any
  sExample :: any
  sNullable :: bool
  sReadOnly :: bool
  sWriteOnly :: bool
  sDeprecated :: bool
  sMin :: "f64 option"
  sMax :: "f64 option"
  sMultipleOf :: "f64 option"
  sMinLength :: nat
  sMaxLength :: "nat option"
  sPattern :: string
  sMinItems :: nat
  sMaxItems :: "nat option"
  sUniqueItems :: bool
  sRequired :: "string list"
  sMinProps :: nat
  sMaxProps :: "nat option"
  sItems :: "SchemaRef option"
  sNot :: "SchemaRef option"
  sAllOf :: "SchemaRef option list"
  sAnyOf :: "SchemaRef option list"
  sOneOf :: "SchemaRef option list"
  sProperties :: "(string \<times> SchemaRef option) list"
  sAdditionalHas :: "bool option"
  sAdditionalSchema :: "SchemaRef option"
  sExtensions :: "(string \<times> any) list"

type_synonym heap = "(nat \<times> Schema) list"

record MediaType =
  mSchema :: "SchemaRef option"
  mExample :: any
  mExamples :: "(string \<times> any option) list"

type_synonym content = "(string \<times> MediaType option) list"

record Parameter =
  pName :: string
  pIn :: string
  pRequired :: bool
  pDescription :: string
  pSchema :: "SchemaRef option"
  pContent :: content

record ResponseDef =
  rDescription :: "string option"
  rContent :: content

record OpenAPIOperation =
  oaOperationID :: string
  oaSummary :: string
  oaDescription :: string
  oaTags :: "string list"
  oaDeprecated :: bool
  oaServers :: "string option list option"
  oaSecurity :: "any option"
  oaParameters :: "Parameter option list"
  oaRequestBody :: "content option"
  oaResponses :: "(string \<times> ResponseDef option) list option"

record OpenAPIPathItem =
  piParameters :: "Parameter option list"
  piServers :: "string option list"
  piOperations :: "(string \<times> OpenAPIOperation) list"

record OpenAPISpec =
  spPaths :: "(string \<times> OpenAPIPathItem option) list option"
  spServers :: "string option list"
  spSecurity :: any
  spSchemas :: "(string \<times> SchemaRef option) list option"
  spHeap :: heap

record Document =
  dSpec :: "OpenAPISpec option"
  dRaw :: any

record Operation =
  opMethod :: string
  opPath :: string
  opOperationID :: string
  opPathItem :: "OpenAPIPathItem option"
  opValue :: "OpenAPIOperation option"
  opDoc :: "Document option"

record Param =
  paName :: string
  paIn :: string
  paRequired :: bool
  paDescription :: string
  paSchema :: any

record ApiRequest =
  rqContentTypes :: "string list"
  rqBodySchema :: any
  rqExamples :: any

record ApiResponse =
  rsStatus :: int
  rsDescription :: string
  rsContentTypes :: "string list"
  rsBodySchema :: any

record ResponseGroups =
  rgSuccess :: "ApiResponse list"
  rgErrors :: "ApiResponse list"

record ResolvedOperation =
  Method :: string
  BaseURL :: string
  PathTemplate :: string
  URLTemplate :: string
  ExampleURL :: string
  OperationID :: string
  Summary :: string
  Description :: string
  Tags :: "string list"
  Deprecated :: bool
  PathParams :: "Param list"
  QueryParams :: "Param list"
  HeaderParams :: "Param list"
  CookieParams :: "Param list"
  ApiRequest :: ApiRequest
  Responses :: ResponseGroups
  Security :: any
  Servers :: "string list"

end
