(* ===== verification/SwaggerResolver.thy ===== *)
theory SwaggerResolver
  imports SwaggerModel "HOL-Library.Product_Lexorder"
begin

text \<open>
  The resolver (\<open>internal/swagger/resolver.go\<close>): from an operation of the parsed document to
  the flat description the tools use. Schemas are unfolded through the heap; the set \<open>seen\<close> of
  addresses on the current path stops a cyclic schema, and gives the termination measure.
  \<open>sort.Slice\<close> is not stable in Go; the model sorts stably, so elements with equal keys are in
  one of the orders Go may produce.
\<close>

section \<open>Helpers\<close>

definition methodOrder :: "(string \<times> int) list" where
  "methodOrder = [(''GET'', 0), (''POST'', 1), (''PUT'', 2), (''DELETE'', 3), (''PATCH'', 4),
     (''OPTIONS'', 5), (''HEAD'', 6), (''TRACE'', 7)]"

definition dedupeStrings :: "string list \<Rightarrow> string list" where
  "dedupeStrings xs = trim_unique {} xs"

definition parseStatusCode :: "string \<Rightarrow> int" where
  "parseStatusCode v = (case ParseInt (TrimSpace v) of None \<Rightarrow> 0 | Some c \<Rightarrow> c)"

definition compareStatus :: "string \<Rightarrow> string \<Rightarrow> int" where
  "compareStatus a b =
     (let ai = parseStatusCode a; bi = parseStatusCode b in
      if ai = bi then (if ai = 0 then (if a = b then 0 else if a < b then -1 else 1) else 0)
      else if ai = 0 then 1
      else if bi = 0 then -1
      else if ai < bi then -1 else 1)"

text \<open>The order \<open>compareStatus\<close> describes: numbers first, by value, then the rest by text.\<close>

definition status_key :: "string \<Rightarrow> bool \<times> int \<times> string" where
  "status_key s = (let c = parseStatusCode s in (c = 0, c, if c = 0 then s else []))"

definition stringPtrValue :: "string option \<Rightarrow> string" where
  "stringPtrValue v = (case v of None \<Rightarrow> [] | Some s \<Rightarrow> s)"

definition firstServer :: "string list \<Rightarrow> string" where
  "firstServer servers = (case servers of [] \<Rightarrow> [] | s # ss \<Rightarrow> TrimSpace s)"

definition buildOperationURL :: "string \<Rightarrow> string \<Rightarrow> string" where
  "buildOperationURL base0 path0 =
     (let baseURL = TrimSpace base0 in
      if baseURL = [] then []
      else (let baseURL = TrimRight baseURL ''/''; pathTemplate = TrimSpace path0 in
        if pathTemplate = [] then baseURL
        else if HasPrefix pathTemplate ''/'' then baseURL @ pathTemplate
        else baseURL @ ''/'' @ pathTemplate))"

definition buildExampleOperationURL :: "string \<Rightarrow> string \<Rightarrow> string" where
  "buildExampleOperationURL baseURL pathTemplate =
     (if Contains pathTemplate ''{'' then [] else buildOperationURL baseURL pathTemplate)"

definition syntheticOperationID :: "string \<Rightarrow> string \<Rightarrow> string" where
  "syntheticOperationID m path =
     (let p = Trim path ''/'';
          p = ReplaceAll p ''/'' ''_'';
          p = ReplaceAll p ''{'' [];
          p = ReplaceAll p ''}'' [];
          p = (if p = [] then ''root'' else p)
      in ToLower (TrimSpace m) @ ''_'' @ p)"

definition sortParams :: "Param list \<Rightarrow> Param list" where
  "sortParams ps = sort_key (\<lambda>p. (paName p, paIn p)) ps"

definition sortedMediaTypeKeys :: "content \<Rightarrow> string list" where
  "sortedMediaTypeKeys c = sort (map_keys c)"

definition media_at :: "content \<Rightarrow> string \<Rightarrow> MediaType option" where
  "media_at c k = (case map_of c k of Some (Some md) \<Rightarrow> Some md | _ \<Rightarrow> None)"

fun first_media :: "content \<Rightarrow> string list \<Rightarrow> MediaType option" where
  "first_media c [] = None"
| "first_media c (k # ks) = (case media_at c k of Some md \<Rightarrow> Some md | None \<Rightarrow> first_media c ks)"

definition preferredMedia :: "content \<Rightarrow> MediaType option" where
  "preferredMedia c = (case media_at c ''application/json'' of
     Some md \<Rightarrow> Some md | None \<Rightarrow> first_media c (sortedMediaTypeKeys c))"

definition extractExamples :: "MediaType option \<Rightarrow> any" where
  "extractExamples media = (case media of
     None \<Rightarrow> ANil
   | Some md \<Rightarrow>
      if mExample md \<noteq> ANil then cloneAny (mExample md)
      else (let out = concat (map (\<lambda>k. case map_of (mExamples md) k of
                  Some (Some v) \<Rightarrow> [(k, cloneAny v)] | _ \<Rightarrow> []) (sort (map_keys (mExamples md)))) in
            if out = [] then ANil else AMap out))"

section \<open>Schemas\<close>

definition entry_if :: "bool \<Rightarrow> string \<Rightarrow> any \<Rightarrow> (string \<times> any) list" where
  "entry_if c k v = (if c then [(k, v)] else [])"

definition entry_some :: "'a option \<Rightarrow> string \<Rightarrow> ('a \<Rightarrow> any) \<Rightarrow> (string \<times> any) list" where
  "entry_some x k f = (case x of None \<Rightarrow> [] | Some a \<Rightarrow> [(k, f a)])"

definition type_value :: "string list \<Rightarrow> any" where
  "type_value ts = (case ts of [t] \<Rightarrow> AStr t | _ \<Rightarrow> AStrs ts)"

definition schema_entries :: "string \<Rightarrow> Schema \<Rightarrow> (SchemaRef option \<Rightarrow> any) \<Rightarrow> (string \<times> any) list" where
  "schema_entries sourceRef s resolve =
     entry_if (sourceRef \<noteq> []) ''x-originRef'' (AStr sourceRef)
   @ (case sType s of Some (t # ts) \<Rightarrow> [(''type'', type_value (t # ts))] | _ \<Rightarrow> [])
   @ entry_if (sTitle s \<noteq> []) ''title'' (AStr (sTitle s))
   @ entry_if (sFormat s \<noteq> []) ''format'' (AStr (sFormat s))
   @ entry_if (sDescription s \<noteq> []) ''description'' (AStr (sDescription s))
   @ entry_if (sEnum s \<noteq> []) ''enum'' (cloneAny (AList (sEnum s)))
   @ entry_if (sDefault s \<noteq> ANil) ''default'' (cloneAny (sDefault s))
   @ entry_if (sExample s \<noteq> ANil) ''example'' (cloneAny (sExample s))
   @ entry_if (sNullable s) ''nullable'' (ABool True)
   @ entry_if (sReadOnly s) ''readOnly'' (ABool True)
   @ entry_if (sWriteOnly s) ''writeOnly'' (ABool True)
   @ entry_if (sDeprecated s) ''deprecated'' (ABool True)
   @ entry_some (sMin s) ''minimum'' AFloat
   @ entry_some (sMax s) ''maximum'' AFloat
   @ entry_some (sMultipleOf s) ''multipleOf'' AFloat
   @ entry_if (0 < sMinLength s) ''minLength'' (AUint (sMinLength s))
   @ entry_some (sMaxLength s) ''maxLength'' AUint
   @ entry_if (sPattern s \<noteq> []) ''pattern'' (AStr (sPattern s))
   @ entry_if (0 < sMinItems s) ''minItems'' (AUint (sMinItems s))
   @ entry_some (sMaxItems s) ''maxItems'' AUint
   @ entry_if (sUniqueItems s) ''uniqueItems'' (ABool True)
   @ entry_if (sRequired s \<noteq> []) ''required'' (AStrs (sort (sRequired s)))
   @ entry_if (0 < sMinProps s) ''minProperties'' (AUint (sMinProps s))
   @ entry_some (sMaxProps s) ''maxProperties'' AUint
   @ entry_if (sItems s \<noteq> None) ''items'' (resolve (sItems s))
   @ entry_if (sNot s \<noteq> None) ''not'' (resolve (sNot s))
   @ entry_if (sAllOf s \<noteq> []) ''allOf'' (AList (map resolve (sAllOf s)))
   @ entry_if (sAnyOf s \<noteq> []) ''anyOf'' (AList (map resolve (sAnyOf s)))
   @ entry_if (sOneOf s \<noteq> []) ''oneOf'' (AList (map resolve (sOneOf s)))
   @ entry_if (sProperties s \<noteq> []) ''properties''
       (AMap (map (\<lambda>(k, r). (k, resolve r)) (sort_key fst (sProperties s))))
   @ (case sAdditionalHas s of
        Some b \<Rightarrow> [(''additionalProperties'', ABool b)]
      | None \<Rightarrow> entry_if (sAdditionalSchema s \<noteq> None) ''additionalProperties'' (resolve (sAdditionalSchema s)))
   @ map (\<lambda>(k, v). (k, cloneAny v)) (sExtensions s)"

text \<open>A map built by assigning the entries in order; a later entry overwrites an earlier one.\<close>

definition map_from :: "(string \<times> any) list \<Rightarrow> (string \<times> any) list" where
  "map_from es = fold (\<lambda>(k, v). map_set k v) es []"

definition circular_marker :: "string \<Rightarrow> any" where
  "circular_marker sourceRef =
     AMap [(''x-circularRef'', if sourceRef \<noteq> [] then AStr sourceRef else ABool True)]"

definition unseen :: "heap \<Rightarrow> nat list \<Rightarrow> nat" where
  "unseen heap seen = card (set (map_keys heap) - set seen)"

lemma unseen_less: "map_of heap i = Some s \<Longrightarrow> i \<notin> set seen \<Longrightarrow> unseen heap (i # seen) < unseen heap seen"
proof -
  assume "map_of heap i = Some s" and i: "i \<notin> set seen"
  then have "i \<in> set (map_keys heap)" by (force dest: map_of_SomeD)
  with i show ?thesis unfolding unseen_def by (intro psubset_card_mono) auto
qed

function resolveSchemaRef :: "heap \<Rightarrow> nat list \<Rightarrow> SchemaRef option \<Rightarrow> any" where
  "resolveSchemaRef heap seen ref = (case ref of
     None \<Rightarrow> ANil
   | Some r \<Rightarrow> (case srValue r of
       None \<Rightarrow> if srRef r = [] then ANil else AMap [(''x-unresolvedRef'', AStr (srRef r))]
     | Some i \<Rightarrow> (case map_of heap i of
         None \<Rightarrow> ANil
       | Some s \<Rightarrow>
          if i \<in> set seen then circular_marker (srRef r)
          else AMap (map_from (schema_entries (srRef r) s (resolveSchemaRef heap (i # seen)))))))"
  by pat_completeness auto

termination resolveSchemaRef
  by (relation "measure (\<lambda>(heap, seen, ref). unseen heap seen)") (auto intro: unseen_less)

declare resolveSchemaRef.simps [simp del]

section \<open>Endpoints\<close>

definition server_list :: "string option list \<Rightarrow> string list" where
  "server_list src = dedupeStrings (map TrimSpace
     (filter (\<lambda>u. TrimSpace u \<noteq> []) (concat (map (\<lambda>s. case s of None \<Rightarrow> [] | Some u \<Rightarrow> [u]) src))))"

definition resolveServers :: "string \<Rightarrow> Operation \<Rightarrow> string list" where
  "resolveServers baseURLOverride op =
     (if baseURLOverride \<noteq> [] then [baseURLOverride]
      else server_list
        (case Option.bind (opValue op) oaServers of
           Some src \<Rightarrow> src
         | None \<Rightarrow> (case opPathItem op of
             Some pit \<Rightarrow> if piServers pit \<noteq> [] then piServers pit
               else (case Option.bind (opDoc op) dSpec of Some sp \<Rightarrow> spServers sp | None \<Rightarrow> [])
           | None \<Rightarrow> (case Option.bind (opDoc op) dSpec of Some sp \<Rightarrow> spServers sp | None \<Rightarrow> []))))"

definition resolveSecurity :: "Operation \<Rightarrow> any" where
  "resolveSecurity op = (case Option.bind (opValue op) oaSecurity of
     Some sec \<Rightarrow> sec
   | None \<Rightarrow> (case Option.bind (opDoc op) dSpec of Some sp \<Rightarrow> spSecurity sp | None \<Rightarrow> ANil))"

definition param_key :: "Parameter \<Rightarrow> string" where
  "param_key p = ToLower (TrimSpace (pIn p)) @ '':'' @ TrimSpace (pName p)"

definition params_of :: "Parameter option list \<Rightarrow> Parameter list" where
  "params_of ps = concat (map (\<lambda>p. case p of None \<Rightarrow> [] | Some p \<Rightarrow> [p]) ps)"

definition declared_params :: "Operation \<Rightarrow> Parameter list" where
  "declared_params op =
     (case opPathItem op of None \<Rightarrow> [] | Some pit \<Rightarrow> params_of (piParameters pit))
   @ (case opValue op of None \<Rightarrow> [] | Some v \<Rightarrow> params_of (oaParameters v))"

text \<open>The map and the order list of the source together are a map that remembers first insertion.\<close>

definition mergeParameters :: "Operation \<Rightarrow> Parameter list" where
  "mergeParameters op = map snd (fold (\<lambda>p. map_set (param_key p) p) (declared_params op) [])"

fun first_schema :: "heap \<Rightarrow> content \<Rightarrow> string list \<Rightarrow> any" where
  "first_schema heap c [] = ANil"
| "first_schema heap c (k # ks) = (case media_at c k of
     Some md \<Rightarrow> if mSchema md = None then first_schema heap c ks else resolveSchemaRef heap [] (mSchema md)
   | None \<Rightarrow> first_schema heap c ks)"

definition resolveParameterSchema :: "heap \<Rightarrow> Parameter \<Rightarrow> any" where
  "resolveParameterSchema heap p =
     (if pSchema p \<noteq> None then resolveSchemaRef heap [] (pSchema p)
      else first_schema heap (pContent p) (sortedMediaTypeKeys (pContent p)))"

definition empty_request :: ApiRequest where
  "empty_request = \<lparr>rqContentTypes = [], rqBodySchema = ANil, rqExamples = ANil\<rparr>"

definition resolveRequest :: "heap \<Rightarrow> Operation \<Rightarrow> ApiRequest" where
  "resolveRequest heap op = (case Option.bind (opValue op) oaRequestBody of
     None \<Rightarrow> empty_request
   | Some c \<Rightarrow>
      (let request = empty_request\<lparr>rqContentTypes := sortedMediaTypeKeys c\<rparr> in
       case preferredMedia c of None \<Rightarrow> request
       | Some md \<Rightarrow> request\<lparr>rqBodySchema := resolveSchemaRef heap [] (mSchema md),
                            rqExamples := extractExamples (Some md)\<rparr>))"

definition resolve_response :: "heap \<Rightarrow> string \<Rightarrow> ResponseDef \<Rightarrow> ApiResponse" where
  "resolve_response heap statusKey r =
     \<lparr>rsStatus = parseStatusCode statusKey, rsDescription = stringPtrValue (rDescription r),
      rsContentTypes = sortedMediaTypeKeys (rContent r),
      rsBodySchema = (case preferredMedia (rContent r) of None \<Rightarrow> ANil
        | Some md \<Rightarrow> resolveSchemaRef heap [] (mSchema md))\<rparr>"

definition add_response :: "heap \<Rightarrow> (string \<times> ResponseDef option) list \<Rightarrow> string \<Rightarrow> ResponseGroups \<Rightarrow> ResponseGroups" where
  "add_response heap m statusKey groups = (case map_of m statusKey of
     Some (Some r) \<Rightarrow>
      (let entry = resolve_response heap statusKey r; status = rsStatus entry in
       if 200 \<le> status \<and> status < 400 then groups\<lparr>rgSuccess := rgSuccess groups @ [entry]\<rparr>
       else if 400 \<le> status \<and> status < 600 then groups\<lparr>rgErrors := rgErrors groups @ [entry]\<rparr>
       else if status = 0 \<and> EqualFold statusKey ''default'' then groups\<lparr>rgErrors := rgErrors groups @ [entry]\<rparr>
       else groups)
   | _ \<Rightarrow> groups)"

definition resolveResponses :: "heap \<Rightarrow> Operation \<Rightarrow> ResponseGroups" where
  "resolveResponses heap op = (case Option.bind (opValue op) oaResponses of
     None \<Rightarrow> \<lparr>rgSuccess = [], rgErrors = []\<rparr>
   | Some m \<Rightarrow> fold (add_response heap m) (sort_key status_key (map_keys m)) \<lparr>rgSuccess = [], rgErrors = []\<rparr>)"

definition to_param :: "heap \<Rightarrow> Parameter \<Rightarrow> Param" where
  "to_param heap p = \<lparr>paName = pName p, paIn = pIn p, paRequired = pRequired p,
     paDescription = pDescription p, paSchema = resolveParameterSchema heap p\<rparr>"

definition params_in :: "heap \<Rightarrow> string \<Rightarrow> Parameter list \<Rightarrow> Param list" where
  "params_in heap location ps = sortParams (map (to_param heap) (filter (\<lambda>p. pIn p = location) ps))"

definition ResolveEndpoint :: "string \<Rightarrow> Operation \<Rightarrow> (swagger_error, ResolvedOperation) result" where
  "ResolveEndpoint baseURLOverride op = (case Option.bind (opDoc op) dSpec of
     None \<Rightarrow> Err (ErrOther ''missing openapi document'')
   | Some sp \<Rightarrow> (case opValue op of
       None \<Rightarrow> Err (ErrOther ''missing operation payload'')
     | Some v \<Rightarrow>
        (let heap = spHeap sp;
             servers = resolveServers baseURLOverride op;
             baseURL = firstServer servers;
             ps = mergeParameters op in
         Ok \<lparr>Method = ToUpper (opMethod op), BaseURL = baseURL, PathTemplate = opPath op,
           URLTemplate = buildOperationURL baseURL (opPath op),
           ExampleURL = buildExampleOperationURL baseURL (opPath op),
           OperationID = (if opOperationID op = [] then syntheticOperationID (opMethod op) (opPath op)
                          else opOperationID op),
           Summary = oaSummary v, Description = oaDescription v, Tags = oaTags v, Deprecated = oaDeprecated v,
           PathParams = params_in heap ''path'' ps, QueryParams = params_in heap ''query'' ps,
           HeaderParams = params_in heap ''header'' ps, CookieParams = params_in heap ''cookie'' ps,
           ApiRequest = resolveRequest heap op, Responses = resolveResponses heap op,
           Security = resolveSecurity op, Servers = servers\<rparr>)))"

section \<open>Properties\<close>

text \<open>
  \<open>compareStatus\<close> is a consistent order for \<open>sort.Slice\<close>: it is the order of the
  keys that put numeric codes first, by value, and the rest by text. So it is a strict weak
  order, and the default response comes after every numbered one.
\<close>

theorem compareStatus_is_key_order:
  "(compareStatus a b < 0 \<longleftrightarrow> status_key a < status_key b)
   \<and> (compareStatus a b = 0 \<longleftrightarrow> status_key a = status_key b)"
  by (auto simp: compareStatus_def status_key_def Let_def less_prod_def)

definition merged_params :: "Parameter list \<Rightarrow> (string \<times> Parameter) list" where
  "merged_params ps = fold (\<lambda>p. map_set (param_key p) p) ps []"

lemma merged_params_snoc: "merged_params (ps @ [p]) = map_set (param_key p) p (merged_params ps)"
  by (simp add: merged_params_def)

lemma merged_params_ok: "map_ok (merged_params ps)"
  by (induction ps rule: rev_induct) (simp_all add: merged_params_snoc, simp add: merged_params_def)

lemma merged_params_lookup: "map_of (merged_params ps) k = find (\<lambda>p. param_key p = k) (rev ps)"
  by (induction ps rule: rev_induct) (simp_all add: merged_params_snoc, simp add: merged_params_def)

lemma merged_params_keyed: "(k, p) \<in> set (merged_params ps) \<Longrightarrow> k = param_key p"
proof -
  assume "(k, p) \<in> set (merged_params ps)"
  then have "find (\<lambda>p. param_key p = k) (rev ps) = Some p"
    using merged_params_ok [of ps] merged_params_lookup [of ps k] by (simp add: map_of_is_SomeI)
  then show ?thesis by (auto simp: find_Some_iff)
qed

lemma mergeParameters_eq: "mergeParameters op = map snd (merged_params (declared_params op))"
  by (simp add: mergeParameters_def merged_params_def)

text \<open>
  Parameter merging. No two merged parameters share location and name, and a
  parameter survives iff it is the last declared under its key, path-level declarations
  coming first: an operation overrides its path, and nothing is lost or duplicated.
\<close>

theorem mergeParameters_last_wins:
  "distinct (map param_key (mergeParameters op))
   \<and> (p \<in> set (mergeParameters op) \<longleftrightarrow>
        find (\<lambda>q. param_key q = param_key p) (rev (declared_params op)) = Some p)"
proof -
  let ?m = "merged_params (declared_params op)"
  have "map param_key (map snd ?m) = map_keys ?m"
    using merged_params_keyed by (auto simp: map_eq_conv)
  then have "distinct (map param_key (mergeParameters op))"
    using merged_params_ok [of "declared_params op"] by (simp only: mergeParameters_eq)
  moreover have "p \<in> set (mergeParameters op) \<longleftrightarrow> (param_key p, p) \<in> set ?m"
    using merged_params_keyed by (force simp: mergeParameters_eq)
  ultimately show ?thesis
    using merged_params_ok by (simp add: Some_eq_map_of_iff flip: merged_params_lookup)
qed

definition groups_ok :: "ResponseGroups \<Rightarrow> bool" where
  "groups_ok g \<longleftrightarrow> (\<forall>r \<in> set (rgSuccess g). 200 \<le> rsStatus r \<and> rsStatus r < 400)
     \<and> (\<forall>r \<in> set (rgErrors g). 400 \<le> rsStatus r \<and> rsStatus r < 600 \<or> rsStatus r = 0)"

lemma add_response_ok: "groups_ok g \<Longrightarrow> groups_ok (add_response heap m k g)"
  by (auto simp: add_response_def groups_ok_def Let_def split: option.split)

lemma fold_add_response_ok: "groups_ok g \<Longrightarrow> groups_ok (fold (add_response heap m) ks g)"
  by (induction ks arbitrary: g) (auto intro: add_response_ok)

text \<open>
  Response groups. Success entries have a status in 200 to 399, error entries one
  in 400 to 599 or come from a default response (status 0); other statuses appear in neither.
\<close>

theorem resolveResponses_groups: "groups_ok (resolveResponses heap op)"
  by (auto simp: resolveResponses_def split: option.split intro!: fold_add_response_ok)
     (simp_all add: groups_ok_def)

lemma map_from_ok: "map_ok (map_from es)"
proof -
  have "map_ok m \<Longrightarrow> map_ok (fold (\<lambda>(k, v). map_set k v) es m)" for m :: "(string \<times> any) list"
    by (induction es arbitrary: m) (auto split: prod.split)
  then show ?thesis by (simp add: map_from_def)
qed


definition empty_schema :: Schema where
  "empty_schema = \<lparr>sType = None, sTitle = [], sFormat = [], sDescription = [], sEnum = [], sDefault = ANil,
     sExample = ANil, sNullable = False, sReadOnly = False, sWriteOnly = False, sDeprecated = False,
     sMin = None, sMax = None, sMultipleOf = None, sMinLength = 0, sMaxLength = None, sPattern = [],
     sMinItems = 0, sMaxItems = None, sUniqueItems = False, sRequired = [], sMinProps = 0, sMaxProps = None,
     sItems = None, sNot = None, sAllOf = [], sAnyOf = [], sOneOf = [], sProperties = [],
     sAdditionalHas = None, sAdditionalSchema = None, sExtensions = []\<rparr>"

definition tree_heap :: heap where
  "tree_heap = [(1, empty_schema\<lparr>sType := Some [''object''], sProperties :=
     [(''left'', Some \<lparr>srRef = ''#/components/schemas/Tree'', srValue = Some 1\<rparr>)]\<rparr>)]"

definition tree_ref :: SchemaRef where
  "tree_ref = \<lparr>srRef = [], srValue = Some 1\<rparr>"

lemma tree_resolves: "resolveSchemaRef tree_heap [] (Some tree_ref) = AMap [(''type'', AStr ''object''),
   (''properties'', AMap [(''left'', AMap [(''x-circularRef'', AStr ''#/components/schemas/Tree'')])])]"
  by code_simp


text \<open>Two paths can get the same synthetic identifier, so one hides the other by identifier.\<close>

theorem synthetic_ids_collide:
  "syntheticOperationID ''GET'' ''/pets/{id}'' = syntheticOperationID ''GET'' ''/pets/id''"
  by code_simp

end
