(* ===== verification/SwaggerStore.thy ===== *)
theory SwaggerStore
  imports SwaggerResolver GoTime
begin

text \<open>
  The cached Swagger store (\<open>internal/swagger/store.go\<close>): the snapshot logic, the indexes of a
  snapshot and the store's queries, and the store used when no source is configured
  (\<open>noop_store.go\<close>). What the loader and parser return is an argument, \<open>load\<close> being the parsed
  document or the first error of the two (a store without loader or parser has the error that says so).
\<close>

record cacheState =
  document :: Document
  endpoints :: "ResolvedOperation list"
  endpointsByMethod :: "(string \<times> ResolvedOperation list) list"
  endpointByOpID :: "(string \<times> ResolvedOperation) list"
  schemaByName :: "(string \<times> any) list"
  expiresAt :: time

record CachedStore =
  baseURLOverride :: string
  reload :: bool
  cttl :: duration
  state :: "cacheState option"

definition NewCachedStore :: "string \<Rightarrow> bool \<Rightarrow> duration \<Rightarrow> CachedStore" where
  "NewCachedStore base rel d = \<lparr>baseURLOverride = base, reload = rel,
     cttl = (if d \<le> 0 then 5 * Minute else d), state = None\<rparr>"

section \<open>Collecting and ordering operations\<close>

definition pad3 :: "int \<Rightarrow> string" where
  "pad3 n = (let ds = Itoa n in replicate (3 - length ds) (CHR ''0'') @ ds)"

definition methodSortKey :: "string \<Rightarrow> string" where
  "methodSortKey raw = (let m = ToUpper (TrimSpace raw) in
     case map_of methodOrder m of None \<Rightarrow> ''999_'' @ m | Some order \<Rightarrow> pad3 order @ ''_'' @ m)"

definition sortOperations :: "ResolvedOperation list \<Rightarrow> ResolvedOperation list" where
  "sortOperations ops = sort_key (\<lambda>op. (methodSortKey (Method op), PathTemplate op, OperationID op)) ops"

definition path_operations :: "Document \<Rightarrow> string \<Rightarrow> OpenAPIPathItem \<Rightarrow> Operation list" where
  "path_operations doc path pathItem =
     concat (map (\<lambda>m. case map_of (piOperations pathItem) m of
        None \<Rightarrow> []
      | Some op \<Rightarrow> [\<lparr>opMethod = ToUpper m, opPath = path,
          opOperationID = (if TrimSpace (oaOperationID op) = [] then syntheticOperationID m path
                           else oaOperationID op),
          opPathItem = Some pathItem, opValue = Some op, opDoc = Some doc\<rparr>])
      (sort_key methodSortKey (map ToUpper (map_keys (piOperations pathItem)))))"

definition collectOperations :: "Document \<Rightarrow> Operation list" where
  "collectOperations doc = (case Option.bind (dSpec doc) spPaths of
     None \<Rightarrow> []
   | Some pathMap \<Rightarrow> concat (map (\<lambda>path. case map_of pathMap path of
        Some (Some pathItem) \<Rightarrow> path_operations doc path pathItem | _ \<Rightarrow> [])
       (sort (map_keys pathMap))))"

section \<open>Building a snapshot\<close>

fun resolve_all :: "string \<Rightarrow> Operation list \<Rightarrow> (swagger_error, ResolvedOperation list) result" where
  "resolve_all base [] = Ok []"
| "resolve_all base (op # ops) = (case ResolveEndpoint base op of
     Err e \<Rightarrow> Err (ErrOther (''resolve operation '' @ opMethod op @ '' '' @ opPath op))
   | Ok entry \<Rightarrow> (case resolve_all base ops of Err e \<Rightarrow> Err e | Ok entries \<Rightarrow> Ok (entry # entries)))"

definition method_key :: "ResolvedOperation \<Rightarrow> string" where
  "method_key op = ToUpper (TrimSpace (Method op))"

definition add_by_method :: "ResolvedOperation \<Rightarrow> (string \<times> ResolvedOperation list) list
    \<Rightarrow> (string \<times> ResolvedOperation list) list" where
  "add_by_method op m = map_set (method_key op)
     ((case map_of m (method_key op) of None \<Rightarrow> [] | Some l \<Rightarrow> l) @ [op]) m"

definition index_by_method :: "ResolvedOperation list \<Rightarrow> (string \<times> ResolvedOperation list) list" where
  "index_by_method ops = map (\<lambda>(k, l). (k, sortOperations l)) (fold add_by_method ops [])"

definition index_by_id :: "ResolvedOperation list \<Rightarrow> (string \<times> ResolvedOperation) list" where
  "index_by_id ops = fold (\<lambda>op. map_set (OperationID op) op) ops []"

definition schema_index :: "OpenAPISpec \<Rightarrow> (string \<times> any) list" where
  "schema_index sp = (case spSchemas sp of None \<Rightarrow> []
     | Some schemas \<Rightarrow> map (\<lambda>(name, ref). (name, resolveSchemaRef (spHeap sp) [] ref)) schemas)"

definition buildState :: "CachedStore \<Rightarrow> (swagger_error, Document option) result \<Rightarrow> time
    \<Rightarrow> (swagger_error, cacheState) result" where
  "buildState s load now = (case load of
     Err e \<Rightarrow> Err e
   | Ok None \<Rightarrow> Err (ErrOther ''empty parsed swagger document'')
   | Ok (Some doc) \<Rightarrow> (case dSpec doc of
       None \<Rightarrow> Err (ErrOther ''empty parsed swagger document'')
     | Some sp \<Rightarrow> (case resolve_all (baseURLOverride s) (collectOperations doc) of
         Err e \<Rightarrow> Err e
       | Ok resolved \<Rightarrow> Ok \<lparr>document = doc, endpoints = sortOperations resolved,
           endpointsByMethod = index_by_method resolved, endpointByOpID = index_by_id resolved,
           schemaByName = schema_index sp, expiresAt = AddTime now (cttl s)\<rparr>)))"

text \<open>
  \<open>snapshot\<close>: the unlocked look (\<open>t1\<close>), the second look under the lock (\<open>t2\<close>), and the rebuild,
  which stamps the new snapshot at \<open>t3\<close>. A failed rebuild falls back to the old snapshot.
\<close>

definition usable :: "CachedStore \<Rightarrow> time \<Rightarrow> cacheState option" where
  "usable s now = (case state s of
     Some st \<Rightarrow> if \<not> reload s \<and> Before now (expiresAt st) then Some st else None | None \<Rightarrow> None)"

definition rebuild :: "(swagger_error, Document option) result \<Rightarrow> time \<Rightarrow> time \<Rightarrow> CachedStore
    \<Rightarrow> (swagger_error, cacheState) result \<times> CachedStore" where
  "rebuild load t2 t3 s = (case usable s t2 of
     Some st \<Rightarrow> (Ok st, s)
   | None \<Rightarrow> (case buildState s load t3 of
       Ok fresh \<Rightarrow> (Ok fresh, s\<lparr>state := Some fresh\<rparr>)
     | Err e \<Rightarrow> (case state s of Some st \<Rightarrow> (Ok st, s) | None \<Rightarrow> (Err e, s))))"

definition snapshot :: "(swagger_error, Document option) result \<Rightarrow> time \<Rightarrow> time \<Rightarrow> time \<Rightarrow> CachedStore
    \<Rightarrow> (swagger_error, cacheState) result \<times> CachedStore" where
  "snapshot load t1 t2 t3 s = (case usable s t1 of
     Some st \<Rightarrow> (Ok st, s) | None \<Rightarrow> rebuild load t2 t3 s)"

section \<open>Queries on a snapshot\<close>

text \<open>
  Every query takes a snapshot and reads it; results are copies, which are equal to the
  stored values in the model.
\<close>

definition copy_params :: "Param list \<Rightarrow> Param list" where
  "copy_params ps = map (\<lambda>p. p\<lparr>paSchema := cloneAny (paSchema p)\<rparr>) ps"

definition copy_responses :: "ApiResponse list \<Rightarrow> ApiResponse list" where
  "copy_responses rs = map (\<lambda>r. r\<lparr>rsBodySchema := cloneAny (rsBodySchema r)\<rparr>) rs"

definition copyOperation :: "ResolvedOperation \<Rightarrow> ResolvedOperation" where
  "copyOperation v = v\<lparr>
     ApiRequest := (ApiRequest v)\<lparr>rqBodySchema := cloneAny (rqBodySchema (ApiRequest v)),
       rqExamples := cloneAny (rqExamples (ApiRequest v))\<rparr>,
     Responses := (Responses v)\<lparr>rgSuccess := copy_responses (rgSuccess (Responses v)),
       rgErrors := copy_responses (rgErrors (Responses v))\<rparr>,
     PathParams := copy_params (PathParams v), QueryParams := copy_params (QueryParams v),
     HeaderParams := copy_params (HeaderParams v), CookieParams := copy_params (CookieParams v),
     Security := cloneAny (Security v)\<rparr>"

lemma copyOperation_id [simp]: "copyOperation v = v"
  by (simp add: copyOperation_def copy_params_def copy_responses_def)

definition ListEndpoints :: "(swagger_error, cacheState) result \<Rightarrow> (swagger_error, ResolvedOperation list) result" where
  "ListEndpoints snap = (case snap of Err e \<Rightarrow> Err e | Ok st \<Rightarrow> Ok (map copyOperation (endpoints st)))"

definition ListEndpointsByMethod :: "(swagger_error, cacheState) result \<Rightarrow> string
    \<Rightarrow> (swagger_error, ResolvedOperation list) result" where
  "ListEndpointsByMethod snap m = (case snap of Err e \<Rightarrow> Err e
     | Ok st \<Rightarrow> Ok (map copyOperation
         (case map_of (endpointsByMethod st) (ToUpper (TrimSpace m)) of None \<Rightarrow> [] | Some l \<Rightarrow> l)))"

definition GetEndpointByOperationID :: "(swagger_error, cacheState) result \<Rightarrow> string
    \<Rightarrow> (swagger_error, ResolvedOperation) result" where
  "GetEndpointByOperationID snap opID = (case snap of Err e \<Rightarrow> Err e
     | Ok st \<Rightarrow> (case map_of (endpointByOpID st) (TrimSpace opID) of
         None \<Rightarrow> Err ErrNotFound | Some entry \<Rightarrow> Ok (copyOperation entry)))"

definition GetSchemaByName :: "(swagger_error, cacheState) result \<Rightarrow> string \<Rightarrow> (swagger_error, any) result" where
  "GetSchemaByName snap name = (case snap of Err e \<Rightarrow> Err e
     | Ok st \<Rightarrow> (case map_of (schemaByName st) (TrimSpace name) of
         None \<Rightarrow> Err ErrNotFound | Some v \<Rightarrow> Ok (cloneAny v)))"

definition Lookup :: "(swagger_error, cacheState) result \<Rightarrow> string \<Rightarrow> (swagger_error, any) result" where
  "Lookup snap pointer = (case snap of Err e \<Rightarrow> Err e
     | Ok st \<Rightarrow> (case lookupPointer (dRaw (document st)) (normalizePointer pointer) of
         None \<Rightarrow> Err ErrNotFound
       | Some v \<Rightarrow> Ok (resolveRefsInAny (dRaw (document st)) [] (cloneAny v))))"

definition noop_error :: swagger_error where
  "noop_error = ErrUnavailable ''SWAGGER_PATH is empty''"

definition NoopListEndpoints :: "unit \<Rightarrow> (swagger_error, ResolvedOperation list) result" where
  "NoopListEndpoints s = Err noop_error"

definition NoopListEndpointsByMethod :: "unit \<Rightarrow> string \<Rightarrow> (swagger_error, ResolvedOperation list) result" where
  "NoopListEndpointsByMethod s m = Err noop_error"

definition NoopGetEndpointByOperationID :: "unit \<Rightarrow> string \<Rightarrow> (swagger_error, ResolvedOperation) result" where
  "NoopGetEndpointByOperationID s i = Err noop_error"

definition NoopGetSchemaByName :: "unit \<Rightarrow> string \<Rightarrow> (swagger_error, any) result" where
  "NoopGetSchemaByName s n = Err noop_error"

definition NoopLookup :: "unit \<Rightarrow> string \<Rightarrow> (swagger_error, any) result" where
  "NoopLookup s p = Err noop_error"

section \<open>The snapshot is kept fresh and never lost\<close>

lemma usable_state: "usable s t = Some st \<Longrightarrow> state s = Some st"
  by (auto simp: usable_def split: option.splits if_splits)


inductive store_run :: "CachedStore \<Rightarrow> (swagger_error, cacheState) result list \<Rightarrow> CachedStore \<Rightarrow> bool" for s0 where
  store_start: "store_run s0 [] s0"
| store_snapshot: "store_run s0 rs s \<Longrightarrow> snapshot load t1 t2 t3 s = (r, s') \<Longrightarrow> store_run s0 (r # rs) s'"

inductive_cases store_runE: "store_run s0 (r # rs) s"

lemma snapshot_Ok: "snapshot load t1 t2 t3 s = (Ok st, s') \<Longrightarrow> state s' = Some st"
  by (auto simp: snapshot_def rebuild_def usable_state split: option.splits sum.splits)

lemma snapshot_Err: "snapshot load t1 t2 t3 s = (Err e, s') \<Longrightarrow> state s = None"
  by (auto simp: snapshot_def rebuild_def split: option.splits sum.splits)

lemma snapshot_keeps: "snapshot load t1 t2 t3 s = (r, s') \<Longrightarrow> state s' = None \<Longrightarrow> (\<exists>e. r = Err e) \<and> state s = None"
  by (cases r) (auto dest: snapshot_Ok snapshot_Err)

lemma store_run_state: "store_run s0 rs s \<Longrightarrow> state s = None \<Longrightarrow> Ok st \<notin> set rs"
  by (induction rule: store_run.induct) (auto dest: snapshot_keeps)

text \<open>
  Property C32: once a document has been loaded, the store answers from then on: no later
  loader, parser or resolver failure makes a snapshot request fail.
\<close>

theorem snapshot_survives_failures:
  assumes "store_run s0 (r # rs) s" and "Ok st \<in> set rs"
  shows "\<exists>st'. r = Ok st'"
  using assms by (cases r) (auto elim!: store_runE dest: store_run_state snapshot_Err)

definition empty_document :: Document where
  "empty_document = \<lparr>dSpec = Some \<lparr>spPaths = None, spServers = [], spSecurity = ANil, spSchemas = None,
     spHeap = []\<rparr>, dRaw = AMap []\<rparr>"

lemma snapshot_survives_failures_witness:
  "\<exists>st'. fst (snapshot (Err (ErrOther ''down'')) (Time 9) (Time 9) (Time 9)
     (snd (snapshot (Ok (Some empty_document)) (Time 0) (Time 0) (Time 0) (NewCachedStore [] True 1)))) = Ok st'"
proof -
  let ?s0 = "NewCachedStore [] True 1"
  let ?p1 = "snapshot (Ok (Some empty_document)) (Time 0) (Time 0) (Time 0) ?s0"
  let ?p2 = "snapshot (Err (ErrOther ''down'')) (Time 9) (Time 9) (Time 9) (snd ?p1)"
  have run1: "store_run ?s0 [fst ?p1] (snd ?p1)" by (rule store_snapshot [OF store_start]) simp
  have run2: "store_run ?s0 [fst ?p2, fst ?p1] (snd ?p2)" by (rule store_snapshot [OF run1]) simp
  have "\<exists>st. fst ?p1 = Ok st"
    by (simp add: snapshot_def rebuild_def usable_def NewCachedStore_def buildState_def empty_document_def
        collectOperations_def)
  then obtain st where "Ok st \<in> set [fst ?p1]" by auto
  from snapshot_survives_failures [OF run2 this] show ?thesis .
qed

section \<open>The indexes agree with the list\<close>

lemma index_by_id_snoc: "index_by_id (ops @ [op]) = map_set (OperationID op) op (index_by_id ops)"
  by (simp add: index_by_id_def)

lemma index_by_id_lookup: "map_of (index_by_id ops) i = find (\<lambda>op. OperationID op = i) (rev ops)"
  by (induction ops rule: rev_induct) (simp_all add: index_by_id_snoc, simp add: index_by_id_def)

lemma by_method_snoc: "fold add_by_method (ops @ [op]) m = add_by_method op (fold add_by_method ops m)"
  by simp

lemma by_method_lookup:
  "(case map_of (fold add_by_method ops []) k of None \<Rightarrow> [] | Some l \<Rightarrow> l) = filter (\<lambda>op. method_key op = k) ops"
proof (induction ops rule: rev_induct)
  case (snoc op ops)
  then show ?case by (auto simp: add_by_method_def split: option.splits)
qed simp

lemma index_by_method_lookup:
  "(case map_of (index_by_method ops) k of None \<Rightarrow> [] | Some l \<Rightarrow> l)
     = sortOperations (filter (\<lambda>op. method_key op = k) ops)"
proof -
  have "map_of (index_by_method ops) k = map_option sortOperations (map_of (fold add_by_method ops []) k)"
    by (simp add: index_by_method_def map_of_map)
  then show ?thesis
    using by_method_lookup [of ops k] by (auto simp: sortOperations_def split: option.splits)
qed

lemma set_sortOperations [simp]: "set (sortOperations ops) = set ops"
  by (simp add: sortOperations_def)

text \<open>
  \<open>swagger.Store\<close>, as the tools and resources rely on it: an operation found by identifier is
  one of the listed ones and has that identifier, and a listing by method is the part of the
  whole listing with that method.
\<close>

locale swagger_store =
  fixes valid :: "'v \<Rightarrow> bool"
    and list_all_ops :: "'v \<Rightarrow> (swagger_error, ResolvedOperation list) result"
    and list_method :: "'v \<Rightarrow> string \<Rightarrow> (swagger_error, ResolvedOperation list) result"
    and by_id :: "'v \<Rightarrow> string \<Rightarrow> (swagger_error, ResolvedOperation) result"
  assumes by_id_listed: "valid v \<Longrightarrow> by_id v i = Ok op \<Longrightarrow>
      OperationID op = TrimSpace i \<and> (\<exists>ops. list_all_ops v = Ok ops \<and> op \<in> set ops)"
    and method_listed: "valid v \<Longrightarrow> list_method v m = Ok ops' \<Longrightarrow>
      (\<exists>ops. list_all_ops v = Ok ops \<and> set ops' = {op \<in> set ops. method_key op = ToUpper (TrimSpace m)})"
    and listed_found: "valid v \<Longrightarrow> list_all_ops v = Ok ops \<Longrightarrow> op \<in> set ops \<Longrightarrow>
      TrimSpace (OperationID op) = OperationID op \<Longrightarrow> (\<exists>op'. by_id v (OperationID op) = Ok op')"
begin

lemma by_id_in_method:
  assumes "valid v" and "by_id v i = Ok op" and "list_method v (Method op) = Ok ops"
  shows "op \<in> set ops"
proof -
  from by_id_listed [OF assms(1,2)] obtain all where all: "list_all_ops v = Ok all" "op \<in> set all" by blast
  from method_listed [OF assms(1,3)] all(1)
  have "set ops = {op' \<in> set all. method_key op' = ToUpper (TrimSpace (Method op))}" by auto
  with all(2) show ?thesis by (simp add: method_key_def)
qed

end

definition built :: "(swagger_error, cacheState) result \<Rightarrow> bool" where
  "built snap \<longleftrightarrow> (case snap of Err e \<Rightarrow> True | Ok st \<Rightarrow> (\<exists>s load now. buildState s load now = Ok st))"

lemma buildState_indexes:
  assumes "buildState s load now = Ok st"
  shows "\<exists>ops. endpoints st = sortOperations ops \<and> endpointByOpID st = index_by_id ops
     \<and> endpointsByMethod st = index_by_method ops"
  using assms by (auto simp: buildState_def split: sum.splits option.splits)

lemma find_SomeD: "find P xs = Some x \<Longrightarrow> P x \<and> x \<in> set xs"
  by (induction xs) (auto split: if_splits)

lemma by_id_cached: "GetEndpointByOperationID (Ok st) i = Ok op \<Longrightarrow> endpointByOpID st = index_by_id ops \<Longrightarrow>
    OperationID op = TrimSpace i \<and> op \<in> set ops"
  by (auto simp: GetEndpointByOperationID_def index_by_id_lookup split: option.splits dest!: find_SomeD)

lemma by_id_cached_found: "op \<in> set ops \<Longrightarrow> endpointByOpID st = index_by_id ops \<Longrightarrow>
    TrimSpace (OperationID op) = OperationID op \<Longrightarrow> \<exists>op'. GetEndpointByOperationID (Ok st) (OperationID op) = Ok op'"
  by (auto simp: GetEndpointByOperationID_def index_by_id_lookup find_None_iff split: option.splits)

lemma map_copyOperation [simp]: "map copyOperation ops = ops"
  by (induction ops) simp_all

lemma list_method_cached: "endpointsByMethod st = index_by_method ops \<Longrightarrow>
    ListEndpointsByMethod (Ok st) m = Ok (sortOperations (filter (\<lambda>op. method_key op = ToUpper (TrimSpace m)) ops))"
  by (simp add: ListEndpointsByMethod_def index_by_method_lookup cong: option.case_cong)

lemma list_cached [simp]: "ListEndpoints (Ok st) = Ok (endpoints st)"
  by (simp add: ListEndpoints_def)

lemma queries_Err [simp]: "ListEndpoints (Err e) = Err e" "ListEndpointsByMethod (Err e) m = Err e"
    "GetEndpointByOperationID (Err e) i = Err e"
  by (simp_all add: ListEndpoints_def ListEndpointsByMethod_def GetEndpointByOperationID_def)

lemma built_cases:
  assumes "built snap"
  obtains e where "snap = Err e"
  | st ops where "snap = Ok st" "endpoints st = sortOperations ops" "endpointByOpID st = index_by_id ops"
      "endpointsByMethod st = index_by_method ops"
  using assms buildState_indexes by (cases snap) (auto simp: built_def, blast)

interpretation cst: swagger_store built ListEndpoints ListEndpointsByMethod GetEndpointByOperationID
proof unfold_locales
  fix snap i op assume "built snap" "GetEndpointByOperationID snap i = Ok op"
  then show "OperationID op = TrimSpace i \<and> (\<exists>ops. ListEndpoints snap = Ok ops \<and> op \<in> set ops)"
    by (elim built_cases) (auto dest: by_id_cached)
next
  fix snap m ops' assume "built snap" "ListEndpointsByMethod snap m = Ok ops'"
  then show "\<exists>ops. ListEndpoints snap = Ok ops \<and> set ops' = {op \<in> set ops. method_key op = ToUpper (TrimSpace m)}"
    by (elim built_cases) (auto simp: list_method_cached)
next
  fix snap ops op assume "built snap" "ListEndpoints snap = Ok ops" "op \<in> set ops"
    "TrimSpace (OperationID op) = OperationID op"
  then show "\<exists>op'. GetEndpointByOperationID snap (OperationID op) = Ok op'"
    by (elim built_cases) (auto intro: by_id_cached_found)
qed

interpretation noop: swagger_store "\<lambda>u. True" NoopListEndpoints NoopListEndpointsByMethod NoopGetEndpointByOperationID
  by unfold_locales (simp_all add: NoopListEndpoints_def NoopListEndpointsByMethod_def NoopGetEndpointByOperationID_def)

text \<open>
  The identifier index and the listings of a snapshot agree. An operation found
  by its identifier has that identifier, is in the full listing, and is in the listing of its
  own method; so a tool that resolves an identifier acts on an operation the API document
  declares. Without this an index keyed differently from the list would go unnoticed.
\<close>

theorem found_operation_is_listed:
  assumes "buildState s load now = Ok st" and "GetEndpointByOperationID (Ok st) i = Ok op"
  shows "OperationID op = TrimSpace i
     \<and> (\<exists>ops. ListEndpoints (Ok st) = Ok ops \<and> op \<in> set ops)
     \<and> (\<exists>ops. ListEndpointsByMethod (Ok st) (Method op) = Ok ops \<and> op \<in> set ops)"
proof -
  have built: "built (Ok st)" using assms(1) by (auto simp: built_def)
  obtain ops where ops: "ListEndpointsByMethod (Ok st) (Method op) = Ok ops"
    by (simp add: ListEndpointsByMethod_def)
  from cst.by_id_listed [OF built assms(2)] cst.by_id_in_method [OF built assms(2) ops] ops
  show ?thesis by blast
qed

definition one_operation_document :: Document where
  "one_operation_document = \<lparr>dSpec = Some \<lparr>spPaths = Some [(''/ping'', Some \<lparr>piParameters = [], piServers = [],
       piOperations = [(''GET'', \<lparr>oaOperationID = ''ping'', oaSummary = [], oaDescription = [], oaTags = [],
         oaDeprecated = False, oaServers = None, oaSecurity = None, oaParameters = [], oaRequestBody = None,
         oaResponses = None\<rparr>)]\<rparr>)], spServers = [], spSecurity = ANil, spSchemas = None, spHeap = []\<rparr>,
     dRaw = AMap []\<rparr>"

lemma one_operation_found:
  "case buildState (NewCachedStore ''http://h'' True 1) (Ok (Some one_operation_document)) (Time 0) of
     Ok st \<Rightarrow> (case GetEndpointByOperationID (Ok st) ''ping'' of Ok op \<Rightarrow> OperationID op = ''ping'' | Err e \<Rightarrow> False)
   | Err e \<Rightarrow> False"
  by code_simp

lemma found_operation_is_listed_witness:
  "\<exists>st op ops. buildState (NewCachedStore ''http://h'' True 1) (Ok (Some one_operation_document)) (Time 0) = Ok st
     \<and> GetEndpointByOperationID (Ok st) ''ping'' = Ok op \<and> ListEndpoints (Ok st) = Ok ops \<and> op \<in> set ops"
proof -
  from one_operation_found obtain st op
    where st: "buildState (NewCachedStore ''http://h'' True 1) (Ok (Some one_operation_document)) (Time 0) = Ok st"
      and op: "GetEndpointByOperationID (Ok st) ''ping'' = Ok op"
    by (auto split: sum.splits)
  from found_operation_is_listed [OF st op] st op show ?thesis by blast
qed

end
