(* ===== verification/SwaggerLoader.thy ===== *)
theory SwaggerLoader
  imports GoHttp GoTime Pointer
begin

text \<open>
  Loading the API document (\<open>internal/swagger/loader.go\<close>) from a file or over HTTP. The file
  system and the network are arguments: \<open>open_file\<close> gives the size and the content of a path,
  \<open>net\<close> the answer to one request, a redirect being an answer of its own. Following redirects,
  with the policy the loader installs, is part of the model.
\<close>

section \<open>Options\<close>

type_synonym url_validator = "string \<Rightarrow> string option"
type_synonym redirect_policy = "URL option \<Rightarrow> URL list \<Rightarrow> string option"

record http_client =
  clTimeout :: duration
  clCheckRedirect :: "redirect_policy option"

definition DefaultSwaggerHTTPTimeout :: duration where
  "DefaultSwaggerHTTPTimeout = 10 * Second"

definition DefaultSwaggerMaxBytes :: int where
  "DefaultSwaggerMaxBytes = 5 * 1024 * 1024"

definition DefaultSwaggerUserAgent :: string where
  "DefaultSwaggerUserAgent = ''MCP-Swagger-Loader/1.0''"

definition DefaultSwaggerMaxRedirects :: int where
  "DefaultSwaggerMaxRedirects = 5"

record sourceLoaderConfig =
  cfgHTTPClient :: "http_client option"
  cfgValidate :: "url_validator option"
  cfgHTTPTimeout :: duration
  cfgMaxBytes :: int
  cfgUserAgent :: string
  cfgMaxRedirects :: int

type_synonym SourceLoaderOption = "sourceLoaderConfig \<Rightarrow> sourceLoaderConfig"

definition WithURLValidator :: "url_validator option \<Rightarrow> SourceLoaderOption" where
  "WithURLValidator v cfg = cfg\<lparr>cfgValidate := v\<rparr>"

definition WithHTTPTimeout :: "duration \<Rightarrow> SourceLoaderOption" where
  "WithHTTPTimeout d cfg = (if 0 < d then cfg\<lparr>cfgHTTPTimeout := d\<rparr> else cfg)"

definition WithMaxBytes :: "int \<Rightarrow> SourceLoaderOption" where
  "WithMaxBytes n cfg = (if 0 < n then cfg\<lparr>cfgMaxBytes := n\<rparr> else cfg)"

definition WithUserAgent :: "string \<Rightarrow> SourceLoaderOption" where
  "WithUserAgent ua cfg = (if TrimSpace ua \<noteq> [] then cfg\<lparr>cfgUserAgent := TrimSpace ua\<rparr> else cfg)"

definition WithMaxRedirects :: "int \<Rightarrow> SourceLoaderOption" where
  "WithMaxRedirects n cfg = (if 0 < n then cfg\<lparr>cfgMaxRedirects := n\<rparr> else cfg)"

section \<open>Kinds of source\<close>

datatype sourceKind = sourceKindFile | sourceKindHTTP | sourceKindUnsupportedURL

definition parseURLSource :: "string \<Rightarrow> URL option" where
  "parseURLSource source =
     (let raw = TrimSpace source in
      if raw = [] then None
      else (case parse_url raw of Err e \<Rightarrow> None
        | Ok parsed \<Rightarrow>
           if TrimSpace (Scheme parsed) = [] then None
           else (let scheme = ToLower (TrimSpace (Scheme parsed)) in
             if HasPrefix (ToLower raw) (scheme @ ''://'') \<or> scheme = ''file'' then Some parsed else None)))"

definition http_scheme :: "string \<Rightarrow> bool" where
  "http_scheme s = (let scheme = ToLower (TrimSpace s) in scheme = ''http'' \<or> scheme = ''https'')"

definition unsupported_scheme :: "string \<Rightarrow> swagger_error" where
  "unsupported_scheme s = ErrOther (''unsupported swagger URL scheme '' @ quote s @ '': only http/https are allowed'')"

definition detectSourceKind :: "string \<Rightarrow> sourceKind \<times> URL option \<times> swagger_error option" where
  "detectSourceKind source = (case parseURLSource source of
     None \<Rightarrow> (sourceKindFile, None, None)
   | Some parsed \<Rightarrow> if http_scheme (Scheme parsed) then (sourceKindHTTP, Some parsed, None)
       else (sourceKindUnsupportedURL, Some parsed, Some (unsupported_scheme (Scheme parsed))))"

section \<open>Reading with a limit\<close>

definition too_large :: "int \<Rightarrow> swagger_error" where
  "too_large n = ErrOther (''swagger payload exceeds configured size limit ('' @ Itoa n @ '' bytes)'')"

definition readAllWithLimit :: "(string, string) result \<Rightarrow> int \<Rightarrow> (swagger_error, string) result" where
  "readAllWithLimit reader maxBytes =
     (let maxBytes = (if maxBytes \<le> 0 then DefaultSwaggerMaxBytes else maxBytes) in
      case read_limited (wrap64 (maxBytes + 1)) reader of
        Err e \<Rightarrow> Err (ErrOther e)
      | Ok payload \<Rightarrow> if int (length payload) > maxBytes then Err (too_large maxBytes) else Ok payload)"

section \<open>The file loader\<close>

record opened_file =
  fileSize :: "int option"
  fileContent :: "(string, string) result"

record FileLoader =
  flPath :: string
  flMaxBytes :: int

definition NewFileLoader :: "string \<Rightarrow> int \<Rightarrow> FileLoader" where
  "NewFileLoader path maxBytes = \<lparr>flPath = TrimSpace path,
     flMaxBytes = (if maxBytes \<le> 0 then DefaultSwaggerMaxBytes else maxBytes)\<rparr>"

definition unavailable :: swagger_error where
  "unavailable = ErrUnavailable []"

definition FileLoad :: "(string \<Rightarrow> (string, opened_file) result) \<Rightarrow> FileLoader option
    \<Rightarrow> (swagger_error, string) result" where
  "FileLoad open_file l = (case l of
     None \<Rightarrow> Err unavailable
   | Some l \<Rightarrow>
      if TrimSpace (flPath l) = [] then Err unavailable
      else (case open_file (flPath l) of
          Err e \<Rightarrow> Err (ErrOther (''read swagger file: '' @ e))
        | Ok f \<Rightarrow> (case fileSize f of
            Some sz \<Rightarrow> if sz > flMaxBytes l then Err (too_large (flMaxBytes l))
                         else readAllWithLimit (fileContent f) (flMaxBytes l)
          | None \<Rightarrow> readAllWithLimit (fileContent f) (flMaxBytes l))))"

section \<open>The HTTP loader\<close>

record HTTPLoaderOptions =
  opHTTPClient :: "http_client option"
  opTimeout :: duration
  opMaxBytes :: int
  opUserAgent :: string
  opMaxRedirects :: int
  opURLValidator :: "url_validator option"

record HTTPLoader =
  hlSource :: string
  hlClient :: http_client
  hlValidate :: "url_validator option"
  hlMaxBytes :: int
  hlUserAgent :: string
  hlMaxRedirects :: int

definition cloneHTTPClient :: "http_client option \<Rightarrow> http_client" where
  "cloneHTTPClient source = (case source of
     None \<Rightarrow> \<lparr>clTimeout = DefaultSwaggerHTTPTimeout, clCheckRedirect = None\<rparr> | Some c \<Rightarrow> c)"

text \<open>The policy the loader installs: depth, target, scheme, validator, then the client's own policy.\<close>

definition redirect_check :: "HTTPLoader \<Rightarrow> redirect_policy option \<Rightarrow> redirect_policy" where
  "redirect_check l existing url via =
     (if int (length via) \<ge> hlMaxRedirects l
        then Some (''too many redirects while fetching swagger (max '' @ Itoa (hlMaxRedirects l) @ '')'')
      else (case url of
          None \<Rightarrow> Some ''invalid redirect target''
        | Some u \<Rightarrow>
           if \<not> http_scheme (Scheme u)
             then Some (''swagger redirect blocked: unsupported scheme '' @ quote (Scheme u))
           else (case Option.bind (hlValidate l) (\<lambda>validate. validate (show_url u)) of
               Some e \<Rightarrow> Some (''swagger redirect blocked by policy: '' @ e)
             | None \<Rightarrow> (case existing of Some f \<Rightarrow> f (Some u) via | None \<Rightarrow> None))))"

definition configureRedirectPolicy :: "HTTPLoader \<Rightarrow> HTTPLoader" where
  "configureRedirectPolicy l = l\<lparr>hlClient := (hlClient l)\<lparr>
     clCheckRedirect := Some (redirect_check l (clCheckRedirect (hlClient l)))\<rparr>\<rparr>"

definition NewHTTPLoader :: "string \<Rightarrow> HTTPLoaderOptions \<Rightarrow> HTTPLoader" where
  "NewHTTPLoader source opts =
     (let client = cloneHTTPClient (opHTTPClient opts);
          timeout = (if opTimeout opts \<le> 0 then DefaultSwaggerHTTPTimeout else opTimeout opts) in
      configureRedirectPolicy
       \<lparr>hlSource = TrimSpace source,
        hlClient = (if clTimeout client \<le> 0 then client\<lparr>clTimeout := timeout\<rparr> else client),
        hlValidate = opURLValidator opts,
        hlMaxBytes = (if opMaxBytes opts \<le> 0 then DefaultSwaggerMaxBytes else opMaxBytes opts),
        hlUserAgent = (if TrimSpace (opUserAgent opts) = [] then DefaultSwaggerUserAgent
                       else TrimSpace (opUserAgent opts)),
        hlMaxRedirects = (if opMaxRedirects opts \<le> 0 then DefaultSwaggerMaxRedirects
                          else opMaxRedirects opts)\<rparr>)"

text \<open>
  One answer of the network, and \<open>http.Client.Do\<close> for a GET: an answer that redirects is
  put to the client's policy together with the URLs requested so far, and followed when the
  policy agrees. \<open>fuel\<close> bounds the recursion; the policy of a loader stops it earlier. The
  list returned beside the outcome holds the URLs requested.
\<close>

record fetched =
  ftStatus :: int
  ftContentLength :: int
  ftBody :: "(string, string) result"

datatype answer = Answer fetched | RedirectTo URL

type_synonym network = "HttpRequest \<Rightarrow> (string, answer) result"

definition allowed_by :: "http_client \<Rightarrow> redirect_policy" where
  "allowed_by c = (case clCheckRedirect c of
     Some f \<Rightarrow> f | None \<Rightarrow> (\<lambda>u via. if length via \<ge> 10 then Some ''stopped after 10 redirects'' else None))"

fun do_get :: "nat \<Rightarrow> http_client \<Rightarrow> network \<Rightarrow> HttpRequest \<Rightarrow> URL \<Rightarrow> URL list
    \<Rightarrow> (string, fetched) result \<times> URL list" where
  "do_get 0 c net req u via = (Err ''out of fuel'', via)"
| "do_get (Suc n) c net req u via =
     (let via' = via @ [u] in
      case net (req\<lparr>rqURL := show_url u\<rparr>) of
        Err e \<Rightarrow> (Err e, via')
      | Ok (Answer r) \<Rightarrow> (Ok r, via')
      | Ok (RedirectTo v) \<Rightarrow> (case allowed_by c (Some v) via' of
          Some e \<Rightarrow> (Err e, via') | None \<Rightarrow> do_get n c net req v via'))"

definition redirect_fuel :: "HTTPLoader \<Rightarrow> nat" where
  "redirect_fuel l = Suc (nat (hlMaxRedirects l))"

definition load_request :: "HTTPLoader \<Rightarrow> HttpRequest \<Rightarrow> HttpRequest" where
  "load_request l req =
     (let req = set_header ''Accept'' ''application/json, application/yaml, text/yaml, text/plain, */*'' req in
      if hlUserAgent l \<noteq> [] then set_header ''User-Agent'' (hlUserAgent l) req else req)"

definition read_response :: "HTTPLoader \<Rightarrow> fetched \<Rightarrow> (swagger_error, string) result" where
  "read_response l r =
     (if ftStatus r < 200 \<or> ftStatus r > 299
        then Err (ErrOther (''swagger url returned status '' @ Itoa (ftStatus r)))
      else if ftContentLength r > 0 \<and> ftContentLength r > hlMaxBytes l then Err (too_large (hlMaxBytes l))
      else (case readAllWithLimit (ftBody r) (hlMaxBytes l) of
          Err (ErrOther e) \<Rightarrow> Err (ErrOther (''read swagger response: '' @ e))
        | Err e \<Rightarrow> Err e | Ok payload \<Rightarrow> Ok payload))"

definition fetch_url :: "network \<Rightarrow> HTTPLoader \<Rightarrow> URL \<Rightarrow> (swagger_error, string) result \<times> URL list" where
  "fetch_url net l u = (case NewRequest ''GET'' (hlSource l) [] of
     Err e \<Rightarrow> (Err (ErrOther e), [])
   | Ok req \<Rightarrow> (case do_get (redirect_fuel l) (hlClient l) net (load_request l req) u [] of
       (Err e, sent) \<Rightarrow> (Err (ErrOther (''fetch swagger url: '' @ e)), sent)
     | (Ok r, sent) \<Rightarrow> (read_response l r, sent)))"

definition HTTPLoad :: "network \<Rightarrow> HTTPLoader option \<Rightarrow> (swagger_error, string) result \<times> URL list" where
  "HTTPLoad net l = (case l of
     None \<Rightarrow> (Err unavailable, [])
   | Some l \<Rightarrow>
      if TrimSpace (hlSource l) = [] then (Err unavailable, [])
      else (case parse_url (hlSource l) of
          Err (UrlError e) \<Rightarrow> (Err (ErrOther (''invalid swagger URL: '' @ e)), [])
        | Ok parsed \<Rightarrow>
           if \<not> http_scheme (Scheme parsed) then (Err (unsupported_scheme (Scheme parsed)), [])
           else (case Option.bind (hlValidate l) (\<lambda>validate. validate (hlSource l)) of
               Some e \<Rightarrow> (Err (ErrOther (''swagger url blocked by policy: '' @ e)), [])
             | None \<Rightarrow> fetch_url net l parsed)))"

section \<open>The loader of a source\<close>

datatype loader = InvalidLoader "swagger_error option" | FromFile FileLoader | FromHTTP HTTPLoader

record SourceLoader =
  slSource :: string
  slLoader :: "loader option"

definition newSourceDelegate :: "string \<Rightarrow> sourceLoaderConfig \<Rightarrow> loader" where
  "newSourceDelegate source cfg =
     (if TrimSpace source = [] then InvalidLoader (Some unavailable)
      else (case detectSourceKind source of
          (kind, u, Some e) \<Rightarrow> InvalidLoader (Some e)
        | (kind, u, None) \<Rightarrow> (case kind of
            sourceKindHTTP \<Rightarrow> FromHTTP (NewHTTPLoader source \<lparr>opHTTPClient = cfgHTTPClient cfg,
              opTimeout = cfgHTTPTimeout cfg, opMaxBytes = cfgMaxBytes cfg, opUserAgent = cfgUserAgent cfg,
              opMaxRedirects = cfgMaxRedirects cfg, opURLValidator = cfgValidate cfg\<rparr>)
          | sourceKindFile \<Rightarrow> FromFile (NewFileLoader source (cfgMaxBytes cfg))
          | sourceKindUnsupportedURL \<Rightarrow>
              InvalidLoader (Some (ErrOther ''unsupported swagger source kind: unsupported_url'')))))"

definition NewSourceLoader :: "string \<Rightarrow> http_client option \<Rightarrow> SourceLoaderOption option list \<Rightarrow> SourceLoader" where
  "NewSourceLoader source client opts =
     (let cfg0 = \<lparr>cfgHTTPClient = client, cfgValidate = None, cfgHTTPTimeout = DefaultSwaggerHTTPTimeout,
            cfgMaxBytes = DefaultSwaggerMaxBytes, cfgUserAgent = DefaultSwaggerUserAgent,
            cfgMaxRedirects = DefaultSwaggerMaxRedirects\<rparr>;
          cfg = fold (\<lambda>opt cfg. case opt of None \<Rightarrow> cfg | Some f \<Rightarrow> f cfg) opts cfg0 in
      \<lparr>slSource = TrimSpace source, slLoader = Some (newSourceDelegate (TrimSpace source) cfg)\<rparr>)"

definition InvalidLoad :: "swagger_error option \<Rightarrow> (swagger_error, string) result" where
  "InvalidLoad e = (case e of Some e \<Rightarrow> Err e | None \<Rightarrow> Err unavailable)"

definition SourceLoad :: "(string \<Rightarrow> (string, opened_file) result) \<Rightarrow> network \<Rightarrow> SourceLoader option
    \<Rightarrow> (swagger_error, string) result \<times> URL list" where
  "SourceLoad open_file net l = (case l of
     None \<Rightarrow> (Err unavailable, [])
   | Some l \<Rightarrow>
      if slSource l = [] then (Err unavailable, [])
      else (case slLoader l of
          None \<Rightarrow> (Err unavailable, [])
        | Some (InvalidLoader e) \<Rightarrow> (InvalidLoad e, [])
        | Some (FromFile f) \<Rightarrow> (FileLoad open_file (Some f), [])
        | Some (FromHTTP h) \<Rightarrow> HTTPLoad net (Some h)))"

section \<open>Redirects cannot leave the validator\<close>

lemma redirect_check_None:
  assumes "redirect_check l existing (Some u) via = None"
  shows "int (length via) < hlMaxRedirects l" and "http_scheme (Scheme u)"
    and "hlValidate l = Some validate \<Longrightarrow> validate (show_url u) = None"
  using assms by (simp_all add: redirect_check_def split: if_splits option.splits)

lemma allowed_by_Some [simp]: "clCheckRedirect c = Some f \<Longrightarrow> allowed_by c = f"
  by (simp add: allowed_by_def)

lemma do_get_trace:
  assumes "allowed_by c = redirect_check l existing"
  shows "do_get n c net req u via = (r, sent) \<Longrightarrow> 0 < n \<Longrightarrow>
     \<exists>more. sent = via @ u # more
       \<and> (\<forall>v \<in> set more. http_scheme (Scheme v))
       \<and> (\<forall>validate. hlValidate l = Some validate \<longrightarrow> (\<forall>v \<in> set more. validate (show_url v) = None))
       \<and> (more \<noteq> [] \<longrightarrow> int (length sent) \<le> hlMaxRedirects l)"
proof (induction n arbitrary: u via)
  case (Suc n)
  show ?case
  proof (cases "\<exists>v. net (req\<lparr>rqURL := show_url u\<rparr>) = Ok (RedirectTo v)
      \<and> redirect_check l existing (Some v) (via @ [u]) = None")
    case False
    with Suc.prems assms show ?thesis
      by (auto simp: Let_def split: sum.splits answer.splits option.splits)
  next
    case True
    then obtain v where net: "net (req\<lparr>rqURL := show_url u\<rparr>) = Ok (RedirectTo v)"
      and ok: "redirect_check l existing (Some v) (via @ [u]) = None" by blast
    from Suc.prems net ok assms have rest: "do_get n c net req v (via @ [u]) = (r, sent)" by (simp add: Let_def)
    show ?thesis
    proof (cases n)
      case 0
      with rest show ?thesis by auto
    next
      case Suc': (Suc m)
      from Suc.IH [OF rest] Suc' obtain more where "sent = (via @ [u]) @ v # more"
        "\<forall>v \<in> set more. http_scheme (Scheme v)"
        "\<forall>validate. hlValidate l = Some validate \<longrightarrow> (\<forall>v \<in> set more. validate (show_url v) = None)"
        "more \<noteq> [] \<longrightarrow> int (length sent) \<le> hlMaxRedirects l" by auto
      with redirect_check_None [OF ok] show ?thesis by (cases more) auto
    qed
  qed
qed simp

text \<open>The policy stops the recursion: from \<open>redirect_fuel\<close> on, more fuel changes nothing.\<close>

lemma do_get_more_fuel:
  assumes "allowed_by c = redirect_check l existing"
  shows "Suc (nat (hlMaxRedirects l)) - length via \<le> n \<Longrightarrow> 0 < n \<Longrightarrow>
    do_get (n + k) c net req u via = do_get n c net req u via"
proof (induction n arbitrary: u via)
  case (Suc n)
  have step: "do_get (n + k) c net req v (via @ [u]) = do_get n c net req v (via @ [u])"
    if "redirect_check l existing (Some v) (via @ [u]) = None" for v
  proof -
    from redirect_check_None(1) [OF that] Suc.prems have "0 < n" by simp
    with Suc.IH [of "via @ [u]" v] Suc.prems show ?thesis by simp
  qed
  show ?case
    using step assms by (auto simp: Let_def split: sum.split answer.split option.split)
qed simp

lemma redirect_check_client [simp]: "redirect_check (l\<lparr>hlClient := c\<rparr>) = redirect_check l"
  by (intro ext) (cases l, auto simp: redirect_check_def split: option.split)

lemma configured_policy:
  "allowed_by (hlClient (configureRedirectPolicy l))
     = redirect_check (configureRedirectPolicy l) (clCheckRedirect (hlClient l))"
  by (simp add: configureRedirectPolicy_def allowed_by_def)

lemma NewHTTPLoader_policy:
  "\<exists>existing. allowed_by (hlClient (NewHTTPLoader source opts)) = redirect_check (NewHTTPLoader source opts) existing"
  unfolding NewHTTPLoader_def Let_def using configured_policy by blast

lemma NewHTTPLoader_fields [simp]:
  "hlSource (NewHTTPLoader source opts) = TrimSpace source"
  "hlValidate (NewHTTPLoader source opts) = opURLValidator opts"
  "0 < hlMaxRedirects (NewHTTPLoader source opts)"
  by (simp_all add: NewHTTPLoader_def Let_def configureRedirectPolicy_def DefaultSwaggerMaxRedirects_def)

lemma fetch_url_sent:
  assumes "fetch_url net l u = (r, sent)" and "sent \<noteq> []"
  shows "\<exists>req res. do_get (redirect_fuel l) (hlClient l) net req u [] = (res, sent)"
  using assms by (auto simp: fetch_url_def split: sum.splits prod.splits)

lemma HTTPLoad_sent:
  assumes "HTTPLoad net (Some l) = (r, sent)" and "sent \<noteq> []"
  shows "\<exists>u. parse_url (hlSource l) = Ok u \<and> http_scheme (Scheme u)
    \<and> (\<forall>validate. hlValidate l = Some validate \<longrightarrow> validate (hlSource l) = None)
    \<and> fetch_url net l u = (r, sent)"
  using assms by (auto simp: HTTPLoad_def split: if_splits sum.splits url_error.splits option.splits)

text \<open>
  Property C14: no request of the document loader leaves the validator. The first URL requested is
  the configured source, which the validator accepted; every further one is a redirect target
  whose own text the validator accepted; all are http or https, and there are at most as many
  requests as the redirect limit. A validated host that redirects inwards gains nothing.
\<close>

theorem loader_requests_validated:
  assumes "HTTPLoad net (Some (NewHTTPLoader source opts)) = (r, sent)"
    and "opURLValidator opts = Some validate" and "sent \<noteq> []"
  shows "parse_url (TrimSpace source) = Ok (hd sent) \<and> validate (TrimSpace source) = None
    \<and> (\<forall>u \<in> set (tl sent). validate (show_url u) = None)
    \<and> (\<forall>u \<in> set sent. http_scheme (Scheme u))
    \<and> int (length sent) \<le> max 1 (hlMaxRedirects (NewHTTPLoader source opts))"
proof -
  let ?l = "NewHTTPLoader source opts"
  from HTTPLoad_sent [OF assms(1,3)] assms(2) obtain u
    where u: "parse_url (TrimSpace source) = Ok u" "http_scheme (Scheme u)" "validate (TrimSpace source) = None"
      and "fetch_url net ?l u = (r, sent)" by auto
  from fetch_url_sent [OF this(4) assms(3)] obtain req res
    where get: "do_get (redirect_fuel ?l) (hlClient ?l) net req u [] = (res, sent)" by blast
  from NewHTTPLoader_policy obtain existing
    where "allowed_by (hlClient ?l) = redirect_check ?l existing" by blast
  from do_get_trace [OF this get] obtain more where more: "sent = u # more"
    "\<forall>v \<in> set more. http_scheme (Scheme v)" "\<forall>v \<in> set more. validate (show_url v) = None"
    "more \<noteq> [] \<longrightarrow> int (length sent) \<le> hlMaxRedirects ?l"
    using assms(2) by (auto simp: redirect_fuel_def)
  have "int (length sent) \<le> max 1 (hlMaxRedirects ?l)" using more(1,4) by (cases more) auto
  with u more show ?thesis by auto
qed

definition two_hops :: network where
  "two_hops req = (if rqURL req = ''http://a/x'' then (case parse_url ''http://b/y'' of
      Ok u \<Rightarrow> Ok (RedirectTo u) | Err e \<Rightarrow> Err ''bad'')
    else Ok (Answer \<lparr>ftStatus = 200, ftContentLength = 2, ftBody = Ok ''{}''\<rparr>))"

definition demo_options :: HTTPLoaderOptions where
  "demo_options = \<lparr>opHTTPClient = None, opTimeout = 0, opMaxBytes = 0, opUserAgent = [],
     opMaxRedirects = 0, opURLValidator = Some (\<lambda>u. None)\<rparr>"

lemma two_hops_sent: "map show_url (snd (HTTPLoad two_hops (Some (NewHTTPLoader ''http://a/x'' demo_options))))
    = [''http://a/x'', ''http://b/y'']"
  by code_simp

lemma loader_requests_validated_witness:
  "\<exists>sent. snd (HTTPLoad two_hops (Some (NewHTTPLoader ''http://a/x'' demo_options))) = sent \<and> sent \<noteq> []
     \<and> (\<forall>u \<in> set sent. http_scheme (Scheme u))"
proof -
  obtain r sent where run: "HTTPLoad two_hops (Some (NewHTTPLoader ''http://a/x'' demo_options)) = (r, sent)"
    by (cases "HTTPLoad two_hops (Some (NewHTTPLoader ''http://a/x'' demo_options))") blast
  with two_hops_sent have "sent \<noteq> []" by auto
  from loader_requests_validated [OF run _ this] run this show ?thesis
    by (auto simp: demo_options_def)
qed

text \<open>
  The size limit is hard and nothing is cut off. A payload that is returned is the
  whole body, not longer than the limit; a longer body is an error. This holds for the limits
  below the largest \<open>int64\<close>, where the code's \<open>maxBytes + 1\<close> does not wrap around.
\<close>

theorem payload_within_limit:
  assumes "0 < n" and "n < 2 ^ 63 - 1"
  shows "readAllWithLimit (Ok body) n = (if int (length body) \<le> n then Ok body else Err (too_large n))"
proof -
  from assms have "wrap64 (n + 1) = n + 1" by (simp add: wrap64_def)
  with assms show ?thesis by (auto simp: readAllWithLimit_def read_limited_def nat_add_distrib min_def)
qed

lemma payload_within_limit_witness: "readAllWithLimit (Ok ''abc'') 2 = Err (too_large 2)"
  using payload_within_limit [of 2 "''abc''"] by simp

end
