(* ===== verification/SwaggerParser.thy ===== *)
theory SwaggerParser
  imports SwaggerModel
begin

text \<open>
  Parsing the API document (\<open>internal/swagger/parser.go\<close>): the format switch, the generic tree,
  Swagger 2 detection, and the validation with its fallback. The JSON and YAML decoders, the
  \<open>kin-openapi\<close> loader, its Swagger 2 converter and its validator are arguments.
\<close>

section \<open>Normalising a decoded tree\<close>

text \<open>What a decoder returns: a YAML mapping may have keys that are not strings.\<close>

datatype tree =
    TLeaf any
  | TMap "(string \<times> tree) list"
  | TMapAny "(any \<times> tree) list"
  | TList "tree list"

fun normalizeYAML :: "tree \<Rightarrow> any" where
  "normalizeYAML (TLeaf v) = v"
| "normalizeYAML (TMap kvs) = AMap (map (\<lambda>(k, v). (k, normalizeYAML v)) kvs)"
| "normalizeYAML (TMapAny kvs) =
     AMap (fold (\<lambda>(k, v). map_set k v) (map (\<lambda>(k, v). (fmt_v k, normalizeYAML v)) kvs) [])"
| "normalizeYAML (TList vs) = AList (map normalizeYAML vs)"

section \<open>Formats\<close>

type_synonym tree_decoder = "string \<Rightarrow> (string, tree) result"

record Decoders =
  decJSON :: tree_decoder
  decYAML :: tree_decoder

record OpenAPIParser =
  pformat :: string

definition NewOpenAPIParser :: "string \<Rightarrow> OpenAPIParser" where
  "NewOpenAPIParser fmt =
     (let mode = ToLower (TrimSpace fmt) in \<lparr>pformat = (if mode = [] then ''auto'' else mode)\<rparr>)"

definition parseJSON :: "Decoders \<Rightarrow> string \<Rightarrow> (string, any) result" where
  "parseJSON d raw = (case decJSON d raw of Err e \<Rightarrow> Err e | Ok out \<Rightarrow> Ok (normalizeYAML out))"

definition parseYAML :: "Decoders \<Rightarrow> string \<Rightarrow> (string, any) result" where
  "parseYAML d raw = (case decYAML d raw of Err e \<Rightarrow> Err e | Ok out \<Rightarrow> Ok (normalizeYAML out))"

definition parseRawObject :: "Decoders \<Rightarrow> OpenAPIParser \<Rightarrow> string \<Rightarrow> (string, any) result" where
  "parseRawObject d p raw =
     (if pformat p = ''json'' then parseJSON d raw
      else if pformat p = ''yaml'' \<or> pformat p = ''yml'' then parseYAML d raw
      else if pformat p = ''auto'' then (case parseJSON d raw of Ok v \<Rightarrow> Ok v | Err e \<Rightarrow> parseYAML d raw)
      else Err (''unsupported swagger format '' @ quote (pformat p)))"

definition isSwaggerV2Document :: "any \<Rightarrow> bool" where
  "isSwaggerV2Document raw = (case raw of
     AMap root \<Rightarrow>
      (case map_of root ''openapi'' of
         Some v \<Rightarrow> TrimSpace (fmt_v v) = [] | None \<Rightarrow> True)
      \<and> (case map_of root ''swagger'' of
           None \<Rightarrow> False | Some v \<Rightarrow> HasPrefix (TrimSpace (fmt_v v)) ''2.'')
   | _ \<Rightarrow> False)"

section \<open>Sibling fields named in an error text\<close>

definition re_space :: "char \<Rightarrow> bool" where
  "re_space c \<longleftrightarrow> c \<in> {CHR '' '', CHR 0x09, CHR 0x0A, CHR 0x0C, CHR 0x0D}"

text \<open>
  One match of the regular expression at the start of \<open>s\<close>: the marker, white space, and a
  non-empty bracketed group; the group and what follows the match.
\<close>

definition sibling_marker :: string where
  "sibling_marker = ''extra sibling fields:''"

definition sibling_match :: "string \<Rightarrow> (string \<times> string) option" where
  "sibling_match s =
     (if \<not> HasPrefix s sibling_marker then None
      else (case dropWhile re_space (drop (length sibling_marker) s) of
          c # t \<Rightarrow>
            (let group = takeWhile (\<lambda>d. d \<noteq> CHR '']'') t; rest = dropWhile (\<lambda>d. d \<noteq> CHR '']'') t in
             if c = CHR ''['' \<and> group \<noteq> [] \<and> rest \<noteq> [] then Some (group, drop 1 rest) else None)
        | [] \<Rightarrow> None))"

lemma sibling_match_shorter: "sibling_match s = Some (g, t) \<Longrightarrow> length t < length s"
proof -
  assume "sibling_match s = Some (g, t)"
  then obtain c u where "dropWhile re_space (drop (length sibling_marker) s) = c # u"
    and t: "t = drop 1 (dropWhile (\<lambda>d. d \<noteq> CHR '']'') u)"
    by (auto simp: sibling_match_def Let_def split: if_splits list.splits)
  then have "length (c # u) \<le> length (drop (length sibling_marker) s)"
    using length_dropWhile_le [of re_space "drop (length sibling_marker) s"] by simp
  moreover have "length t \<le> length u" using t length_dropWhile_le [of _ u] by (simp add: diff_le_self le_diff_conv le_SucI)
  ultimately show ?thesis by simp
qed

function sibling_groups :: "string \<Rightarrow> string list" where
  "sibling_groups s = (case s of [] \<Rightarrow> [] | c # s' \<Rightarrow>
     (case sibling_match s of Some (g, t) \<Rightarrow> g # sibling_groups t | None \<Rightarrow> sibling_groups s'))"
  by pat_completeness auto

termination sibling_groups
  by (relation "measure length") (auto dest: sibling_match_shorter)

declare sibling_groups.simps [simp del]

definition group_fields :: "string \<Rightarrow> string list" where
  "group_fields g = filter (\<lambda>v. v \<noteq> []) (map TrimSpace
     (FieldsFunc g (\<lambda>c. c \<in> {CHR '','', CHR '' '', CHR 0x09, CHR 0x0A, CHR 0x0D})))"

definition extractExtraSiblingFields :: "string \<Rightarrow> string list" where
  "extractExtraSiblingFields errText =
     sort (rev (remdups (rev (concat (map group_fields (sibling_groups errText))))))"

section \<open>Loading and validating\<close>

record ValidationOption =
  noExamples :: bool
  noDefaults :: bool
  noPatterns :: bool
  allowSiblings :: "string list"

record OpenAPILib =
  lib_load :: "string \<Rightarrow> (string, OpenAPISpec) result"
  lib_convertV2 :: "any \<Rightarrow> (string, OpenAPISpec) result"
  lib_validate :: "ValidationOption \<Rightarrow> OpenAPISpec \<Rightarrow> string option"

definition strict :: ValidationOption where
  "strict = \<lparr>noExamples = False, noDefaults = False, noPatterns = False, allowSiblings = []\<rparr>"

definition relaxed :: "string \<Rightarrow> ValidationOption" where
  "relaxed err = \<lparr>noExamples = True, noDefaults = True, noPatterns = True,
     allowSiblings = extractExtraSiblingFields err\<rparr>"

definition validateOpenAPIDocument :: "OpenAPILib \<Rightarrow> OpenAPISpec option \<Rightarrow> string option" where
  "validateOpenAPIDocument lib spec = (case spec of
     None \<Rightarrow> Some ''empty parsed openapi document''
   | Some sp \<Rightarrow> (case lib_validate lib strict sp of
       None \<Rightarrow> None
     | Some strictErr \<Rightarrow> (case lib_validate lib (relaxed strictErr) sp of
         None \<Rightarrow> None | Some e \<Rightarrow> Some strictErr)))"

definition loadOpenAPISpec :: "OpenAPILib \<Rightarrow> string \<Rightarrow> any \<Rightarrow> (string, OpenAPISpec \<times> bool) result" where
  "loadOpenAPISpec lib raw parsedRaw =
     (if isSwaggerV2Document parsedRaw
      then (case lib_convertV2 lib parsedRaw of
          Err e \<Rightarrow> Err (''parse swagger v2 document: '' @ e) | Ok spec \<Rightarrow> Ok (spec, True))
      else (case lib_load lib raw of
          Err e \<Rightarrow> Err (''parse openapi document: '' @ e) | Ok spec \<Rightarrow> Ok (spec, False)))"

definition Parse :: "Decoders \<Rightarrow> OpenAPILib \<Rightarrow> OpenAPIParser \<Rightarrow> string \<Rightarrow> (string, Document) result" where
  "Parse d lib p raw =
     (if raw = [] then Err ''empty swagger payload''
      else (case parseRawObject d p raw of
          Err e \<Rightarrow> Err e
        | Ok parsedRaw \<Rightarrow> (case loadOpenAPISpec lib raw parsedRaw of
            Err e \<Rightarrow> Err e
          | Ok (spec, convertedFromSwaggerV2) \<Rightarrow> (case validateOpenAPIDocument lib (Some spec) of
              Some e \<Rightarrow> if \<not> convertedFromSwaggerV2 then Err (''validate openapi document: '' @ e)
                        else Ok \<lparr>dSpec = Some spec, dRaw = parsedRaw\<rparr>
            | None \<Rightarrow> Ok \<lparr>dSpec = Some spec, dRaw = parsedRaw\<rparr>))))"

section \<open>What a parsed document has passed\<close>

fun maps_ok :: "any \<Rightarrow> bool" where
  "maps_ok (AMap kvs) \<longleftrightarrow> distinct (map fst kvs) \<and> (\<forall>kv \<in> set kvs. maps_ok (snd kv))"
| "maps_ok (AList vs) \<longleftrightarrow> (\<forall>v \<in> set vs. maps_ok v)"
| "maps_ok v \<longleftrightarrow> True"

fun tree_ok :: "tree \<Rightarrow> bool" where
  "tree_ok (TLeaf v) \<longleftrightarrow> maps_ok v"
| "tree_ok (TMap kvs) \<longleftrightarrow> distinct (map fst kvs) \<and> (\<forall>kv \<in> set kvs. tree_ok (snd kv))"
| "tree_ok (TMapAny kvs) \<longleftrightarrow> (\<forall>kv \<in> set kvs. tree_ok (snd kv))"
| "tree_ok (TList vs) \<longleftrightarrow> (\<forall>v \<in> set vs. tree_ok v)"

lemma map_set_subset: "set (map_set k v m) \<subseteq> insert (k, v) (set m)"
  by (induction m) auto

lemma fold_map_set_ok:
  "map_ok m \<Longrightarrow> \<forall>kv \<in> set m. Q (snd kv) \<Longrightarrow> \<forall>kv \<in> set es. Q (snd kv) \<Longrightarrow>
   map_ok (fold (\<lambda>(k, v). map_set k v) es m) \<and> (\<forall>kv \<in> set (fold (\<lambda>(k, v). map_set k v) es m). Q (snd kv))"
proof (induction es arbitrary: m)
  case (Cons e es)
  obtain k v where e: "e = (k, v)" by (cases e)
  have "\<forall>kv \<in> set (map_set k v m). Q (snd kv)"
    using map_set_subset [of k v m] Cons.prems(2,3) e by fastforce
  moreover have "\<forall>kv \<in> set es. Q (snd kv)" using Cons.prems(3) by simp
  ultimately show ?case using Cons.IH [of "map_set k v m"] Cons.prems(1) e by simp
qed simp

text \<open>Normalising gives objects whose keys are distinct, whatever the keys of a YAML mapping print as.\<close>

lemma normalizeYAML_maps_ok: "tree_ok t \<Longrightarrow> maps_ok (normalizeYAML t)"
proof (induction t rule: normalizeYAML.induct)
  case (2 kvs)
  then show ?case by (auto simp: comp_def case_prod_beta)
next
  case (3 kvs)
  let ?es = "map (\<lambda>(k, v). (fmt_v k, normalizeYAML v)) kvs"
  from 3 have "\<forall>kv \<in> set ?es. maps_ok (snd kv)" by fastforce
  from fold_map_set_ok [OF _ _ this, of "[]"] show ?case by simp
qed simp_all

lemma sibling_fields_ok:
  "sorted (extractExtraSiblingFields e) \<and> distinct (extractExtraSiblingFields e)
   \<and> [] \<notin> set (extractExtraSiblingFields e)"
  by (auto simp: extractExtraSiblingFields_def group_fields_def)

text \<open>
  What an accepted document has passed. Its tree is the decoded payload; a Swagger 2
  tree was converted, and any other payload was loaded and passed validation, either strictly
  or with example, default and pattern checks off and with only those sibling fields allowed
  that the strict error named, each once and none blank.
\<close>

theorem parse_accepts:
  assumes "Parse d lib p raw = Ok doc"
  shows "raw \<noteq> [] \<and> parseRawObject d p raw = Ok (dRaw doc) \<and> (\<exists>sp. dSpec doc = Some sp
    \<and> (if isSwaggerV2Document (dRaw doc) then lib_convertV2 lib (dRaw doc) = Ok sp
       else lib_load lib raw = Ok sp
         \<and> (lib_validate lib strict sp = None
            \<or> (\<exists>e. lib_validate lib strict sp = Some e \<and> lib_validate lib (relaxed e) sp = None
                 \<and> distinct (allowSiblings (relaxed e)) \<and> [] \<notin> set (allowSiblings (relaxed e))))))"
  using assms sibling_fields_ok
  by (auto simp: Parse_def loadOpenAPISpec_def validateOpenAPIDocument_def relaxed_def
      split: if_splits sum.splits prod.splits option.splits)

definition tiny_lib :: OpenAPILib where
  "tiny_lib = \<lparr>lib_load = (\<lambda>raw. Ok \<lparr>spPaths = None, spServers = [], spSecurity = ANil, spSchemas = None, spHeap = []\<rparr>),
     lib_convertV2 = (\<lambda>v. Err ''no''),
     lib_validate = (\<lambda>opt sp. if allowSiblings opt = [''x'', ''y''] then None
        else Some ''bad: extra sibling fields: [y, x]'')\<rparr>"

definition tiny_decoders :: Decoders where
  "tiny_decoders = \<lparr>decJSON = (\<lambda>raw. Err ''not json''),
     decYAML = (\<lambda>raw. Ok (TMapAny [(AStr ''openapi'', TLeaf (AStr ''3.0.0''))]))\<rparr>"

lemma tiny_parse:
  "case Parse tiny_decoders tiny_lib (NewOpenAPIParser []) ''openapi: 3.0.0'' of
     Ok doc \<Rightarrow> (case dRaw doc of AMap [(k, AStr v)] \<Rightarrow> k = ''openapi'' \<and> v = ''3.0.0'' | _ \<Rightarrow> False) | Err e \<Rightarrow> False"
  by code_simp

lemma parse_accepts_witness:
  "\<exists>doc. Parse tiny_decoders tiny_lib (NewOpenAPIParser []) ''openapi: 3.0.0'' = Ok doc \<and> dSpec doc \<noteq> None"
proof -
  from tiny_parse obtain doc where doc: "Parse tiny_decoders tiny_lib (NewOpenAPIParser []) ''openapi: 3.0.0'' = Ok doc"
    by (auto split: sum.splits)
  from parse_accepts [OF doc] doc show ?thesis by auto
qed

end
