(* ===== verification/ToolValues.thy ===== *)
theory ToolValues
  imports GoAny
begin

text \<open>
  How the tools read their input (\<open>internal/tool/swagger_http_common.go\<close>): loose conversions of
  JSON values, the common envelope and the inputs of the single tools. An input is what
  \<open>json.Unmarshal\<close> makes of the arguments of a call. Errors are their texts.

  A Go map that may be nil is a list: the code never tells a nil map from an empty one, except
  where \<open>toAnyMapOrNil\<close> has made both nil.
\<close>

type_synonym anymap = "(string \<times> any) list"
type_synonym strmap = "(string \<times> string) list"

section \<open>Conversions\<close>

definition uniqueStrings :: "string list \<Rightarrow> string list" where
  "uniqueStrings xs = trim_unique {} xs"

text \<open>Values that are not objects do not survive the detour through JSON into a map.\<close>

definition toAnyMap :: "any \<Rightarrow> (string, anymap) result" where
  "toAnyMap v = (case v of
     ANil \<Rightarrow> Ok []
   | AMap m \<Rightarrow> Ok m
   | AStrMap m \<Rightarrow> Ok (map (\<lambda>(k, s). (k, AStr s)) m)
   | _ \<Rightarrow> Err ''tool input must be an object'')"

definition toAnyMapOrNil :: "any \<Rightarrow> (string, anymap) result" where
  "toAnyMapOrNil v = (case v of ANil \<Rightarrow> Ok [] | _ \<Rightarrow> toAnyMap v)"

definition firstNonNil :: "any list \<Rightarrow> any" where
  "firstNonNil vs = (case find (\<lambda>v. v \<noteq> ANil) vs of Some v \<Rightarrow> v | None \<Rightarrow> ANil)"

definition mapValue :: "anymap \<Rightarrow> string \<Rightarrow> any" where
  "mapValue m k = (case map_of m k of Some v \<Rightarrow> v | None \<Rightarrow> ANil)"

definition paramOrLegacy :: "anymap \<Rightarrow> string \<Rightarrow> any \<Rightarrow> any" where
  "paramOrLegacy params key legacy = (case map_of params key of Some v \<Rightarrow> v | None \<Rightarrow> legacy)"

definition valueAsString :: "any \<Rightarrow> string" where
  "valueAsString v = (case v of
     AStr s \<Rightarrow> TrimSpace s
   | ANumber s \<Rightarrow> TrimSpace s
   | AFloat f \<Rightarrow> format_f f
   | AInt i \<Rightarrow> Itoa i
   | ABool b \<Rightarrow> format_bool b
   | _ \<Rightarrow> [])"

definition mapValueAsString :: "any \<Rightarrow> string \<Rightarrow> string" where
  "mapValueAsString v key = (case toAnyMap v of Err e \<Rightarrow> [] | Ok m \<Rightarrow> valueAsString (mapValue m key))"

definition string_like :: "any \<Rightarrow> bool" where
  "string_like v \<longleftrightarrow> valueAsString v \<noteq> [] \<or> v = ANil"

definition valueAsStringMap :: "any \<Rightarrow> (string, strmap) result" where
  "valueAsStringMap v = (case v of
     ANil \<Rightarrow> Ok []
   | AStrMap m \<Rightarrow> Ok (fold (\<lambda>(k, s). map_set (TrimSpace k) (TrimSpace s)) m [])
   | AMap m \<Rightarrow> (case find (\<lambda>(k, i). \<not> string_like i) m of
       Some (k, i) \<Rightarrow> Err (''value for key '' @ quote k @ '' must be string-like'')
     | None \<Rightarrow> Ok (fold (\<lambda>(k, i). map_set (TrimSpace k) (TrimSpace (valueAsString i))) m []))
   | _ \<Rightarrow> Err ''must be an object'')"

definition findHeader :: "strmap \<Rightarrow> string \<Rightarrow> string option" where
  "findHeader headers name =
     map_option snd (find (\<lambda>(k, v). ToLower (TrimSpace k) = ToLower (TrimSpace name)) headers)"

definition copyStringMap :: "strmap \<Rightarrow> strmap" where
  "copyStringMap m = fold (\<lambda>(k, v). map_set k v) m []"

definition parseStatusCodeAny :: "any \<Rightarrow> (string, int) result" where
  "parseStatusCodeAny v = (case v of
     AInt i \<Rightarrow> Ok i
   | AFloat f \<Rightarrow> Ok (to_int64 (f64_trunc f))
   | ANumber s \<Rightarrow> (case ParseInt s of Some i \<Rightarrow> Ok i | None \<Rightarrow> Err ''invalid number'')
   | AStr s \<Rightarrow> (case ParseInt (TrimSpace s) of Some i \<Rightarrow> Ok i | None \<Rightarrow> Err ''invalid number'')
   | _ \<Rightarrow> Err ''unsupported status type'')"

text \<open>Items are trimmed, put in lower case, and kept once; the two steps commute.\<close>

definition parseStringListAny :: "any \<Rightarrow> string list" where
  "parseStringListAny v = (let add = (\<lambda>items. trim_unique {} (map ToLower items)) in
     case v of
       AStr s \<Rightarrow> add (FieldsFunc s (\<lambda>c. c \<in> {CHR '','', CHR '' '', CHR 0x09, CHR 0x0A, CHR 0x0D}))
     | AStrs ss \<Rightarrow> add ss
     | AList vs \<Rightarrow> add (map valueAsString vs)
     | _ \<Rightarrow> [])"

section \<open>The common envelope\<close>

record toolInputEnvelope =
  envOperationID :: string
  envPath :: anymap
  envQuery :: anymap
  envHeaders :: anymap
  envBody :: any
  envContentType :: string
  envBaseURL :: string

definition text_of :: "anymap \<Rightarrow> string \<Rightarrow> string" where
  "text_of m key = TrimSpace (valueAsString (mapValue m key))"

definition either_key :: "anymap \<Rightarrow> string \<Rightarrow> string \<Rightarrow> string" where
  "either_key m k k' = (if text_of m k = [] then text_of m k' else text_of m k)"

definition params_object :: "anymap \<Rightarrow> (string, anymap) result" where
  "params_object inMap = (case toAnyMap (mapValue inMap ''params'') of
     Err e \<Rightarrow> Err ''params must be an object'' | Ok m \<Rightarrow> Ok m)"

definition located :: "string \<Rightarrow> (string, 'a) result \<Rightarrow> (string, 'a) result" where
  "located pre r = (case r of Err e \<Rightarrow> Err (pre @ '': '' @ e) | Ok a \<Rightarrow> Ok a)"

definition parseToolInputEnvelope :: "any \<Rightarrow> bool \<Rightarrow> (string, toolInputEnvelope) result" where
  "parseToolInputEnvelope input requireOperationID = (case toAnyMap input of
     Err e \<Rightarrow> Err e
   | Ok inMap \<Rightarrow>
      (let operationID = either_key inMap ''operationId'' ''operationID'' in
       if requireOperationID \<and> operationID = [] then Err ''operationId is required''
       else (case params_object inMap of
           Err e \<Rightarrow> Err e
         | Ok params \<Rightarrow>
          (case located ''params.path'' (toAnyMapOrNil (paramOrLegacy params ''path'' (mapValue inMap ''pathParams''))) of
             Err e \<Rightarrow> Err e
           | Ok pathMap \<Rightarrow>
          (case located ''params.query'' (toAnyMapOrNil (paramOrLegacy params ''query'' (mapValue inMap ''queryParams''))) of
             Err e \<Rightarrow> Err e
           | Ok queryMap \<Rightarrow>
          (case located ''params.headers'' (toAnyMapOrNil (paramOrLegacy params ''headers'' (mapValue inMap ''headers''))) of
             Err e \<Rightarrow> Err e
           | Ok headersMap \<Rightarrow>
             Ok \<lparr>envOperationID = operationID, envPath = pathMap, envQuery = queryMap, envHeaders = headersMap,
                 envBody = paramOrLegacy params ''body'' (mapValue inMap ''body''),
                 envContentType = either_key inMap ''contentType'' ''content_type'',
                 envBaseURL = either_key inMap ''baseURL'' ''baseUrl''\<rparr>))))))"

section \<open>Inputs of the tools\<close>

record executeInput =
  exOperationID :: string
  exPathParams :: strmap
  exQueryParams :: strmap
  exHeaders :: strmap
  exBody :: any
  exContentType :: string
  exBaseURL :: string
  exConfirmationID :: string

definition content_type_of :: "string \<Rightarrow> strmap \<Rightarrow> string" where
  "content_type_of ct headers = (if ct \<noteq> [] then ct
     else (case findHeader headers ''Content-Type'' of Some v \<Rightarrow> TrimSpace v | None \<Rightarrow> []))"

text \<open>The first of five places that holds a non-blank confirmation identifier.\<close>

definition confirmation_of :: "anymap \<Rightarrow> anymap \<Rightarrow> string" where
  "confirmation_of inMap query =
     (case filter (\<lambda>s. s \<noteq> [])
        [text_of inMap ''confirmationId'', text_of inMap ''confirmationID'', text_of inMap ''confirmationToken'',
         text_of query ''confirmationId'', text_of query ''confirmationToken''] of
       [] \<Rightarrow> [] | s # ss \<Rightarrow> s)"

definition query_or_legacy :: "anymap \<Rightarrow> anymap \<Rightarrow> anymap" where
  "query_or_legacy inMap query = (if query \<noteq> [] then query
     else (case toAnyMapOrNil (mapValue inMap ''query'') of Ok q \<Rightarrow> q | Err e \<Rightarrow> []))"

definition parseExecuteInput :: "any \<Rightarrow> (string, executeInput) result" where
  "parseExecuteInput input = (case parseToolInputEnvelope input True of
     Err e \<Rightarrow> Err e
   | Ok env \<Rightarrow> (case toAnyMap input of
       Err e \<Rightarrow> Err e
     | Ok inMap \<Rightarrow>
        (let query = query_or_legacy inMap (envQuery env) in
         case located ''params.path'' (valueAsStringMap (AMap (envPath env))) of
           Err e \<Rightarrow> Err e
         | Ok pathParams \<Rightarrow> (case located ''params.query'' (valueAsStringMap (AMap query)) of
             Err e \<Rightarrow> Err e
           | Ok queryParams \<Rightarrow> (case located ''params.headers'' (valueAsStringMap (AMap (envHeaders env))) of
               Err e \<Rightarrow> Err e
             | Ok headers \<Rightarrow>
                 Ok \<lparr>exOperationID = envOperationID env, exPathParams = pathParams, exQueryParams = queryParams,
                     exHeaders = headers, exBody = envBody env,
                     exContentType = content_type_of (envContentType env) headers,
                     exBaseURL = envBaseURL env, exConfirmationID = confirmation_of inMap query\<rparr>)))))"

record searchInput =
  siQuery :: string
  siMethod :: string
  siTag :: string
  siLimit :: int
  siInclude :: "string list"
  siSchema :: string
  siStatus :: int

definition positive_or :: "int \<Rightarrow> any \<Rightarrow> int" where
  "positive_or d raw = (if raw = ANil then d
     else (case parseStatusCodeAny raw of Ok n \<Rightarrow> if 0 < n then n else d | Err e \<Rightarrow> d))"

definition parseSearchInput :: "any \<Rightarrow> (string, searchInput) result" where
  "parseSearchInput input = (case parseToolInputEnvelope input False of
     Err e \<Rightarrow> Err e
   | Ok env \<Rightarrow> (case toAnyMap input of
       Err e \<Rightarrow> Err e
     | Ok inMap \<Rightarrow>
        (let q = envQuery env; pick = (\<lambda>k. firstNonNil [mapValue q k, mapValue inMap k]);
             inc = parseStringListAny (pick ''include'') in
         Ok \<lparr>siQuery = ToLower (TrimSpace (valueAsString (firstNonNil
                [mapValue q ''query'', mapValue inMap ''query'', mapValue q ''q'', mapValue inMap ''q'']))),
             siMethod = ToUpper (TrimSpace (valueAsString (pick ''method''))),
             siTag = ToLower (TrimSpace (valueAsString (pick ''tag''))),
             siLimit = positive_or 20 (pick ''limit''),
             siInclude = (if inc = [] then [''endpoints''] else inc),
             siSchema = TrimSpace (valueAsString (pick ''schema'')),
             siStatus = positive_or 0 (pick ''status'')\<rparr>)))"

record planCallInput =
  plOperationID :: string
  plQuery :: string
  plGoal :: string

definition parsePlanCallInput :: "any \<Rightarrow> (string, planCallInput) result" where
  "parsePlanCallInput input = (case parseToolInputEnvelope input False of
     Err e \<Rightarrow> Err e
   | Ok env \<Rightarrow> (case toAnyMap input of
       Err e \<Rightarrow> Err e
     | Ok inMap \<Rightarrow>
        (let q = envQuery env in
         Ok \<lparr>plOperationID = TrimSpace (envOperationID env),
             plQuery = TrimSpace (valueAsString (firstNonNil
                [mapValue q ''query'', mapValue inMap ''query'', mapValue q ''q'', mapValue inMap ''q''])),
             plGoal = TrimSpace (valueAsString (firstNonNil
                [mapValue q ''goal'', mapValue inMap ''goal'', AStr (mapValueAsString (envBody env) ''goal'')]))\<rparr>)))"

record validateResponseInput =
  vrOperationID :: string
  vrStatus :: int
  vrHeaders :: strmap
  vrContentType :: string
  vrBodyEncoding :: string
  vrBody :: any

definition parseValidateResponseInput :: "any \<Rightarrow> (string, validateResponseInput) result" where
  "parseValidateResponseInput input = (case parseToolInputEnvelope input True of
     Err e \<Rightarrow> Err e
   | Ok env \<Rightarrow> (case toAnyMap input of
       Err e \<Rightarrow> Err e
     | Ok inMap \<Rightarrow>
        (case parseStatusCodeAny (firstNonNil [mapValue (envQuery env) ''status'', mapValue inMap ''status'']) of
           Err e \<Rightarrow> Err ''status must be a positive HTTP status code''
         | Ok status \<Rightarrow>
            if status \<le> 0 then Err ''status must be a positive HTTP status code''
            else (case located ''params.headers'' (valueAsStringMap (AMap (envHeaders env))) of
                Err e \<Rightarrow> Err e
              | Ok headers \<Rightarrow>
                  Ok \<lparr>vrOperationID = envOperationID env, vrStatus = status, vrHeaders = headers,
                      vrContentType = content_type_of (TrimSpace (envContentType env)) headers,
                      vrBodyEncoding = ToLower (text_of inMap ''bodyEncoding''), vrBody = envBody env\<rparr>))))"

section \<open>What a parsed input satisfies\<close>

lemma TrimSpace_text_of [simp]: "TrimSpace (text_of m k) = text_of m k"
  by (simp add: text_of_def)

lemma TrimSpace_either_key [simp]: "TrimSpace (either_key m k k') = either_key m k k'"
  by (simp add: either_key_def)

lemma confirmation_of_trimmed [simp]: "TrimSpace (confirmation_of m q) = confirmation_of m q"
  by (simp add: confirmation_of_def)

definition trimmed_map :: "strmap \<Rightarrow> bool" where
  "trimmed_map m \<longleftrightarrow> map_ok m \<and> (\<forall>(k, v) \<in> set m. TrimSpace k = k \<and> TrimSpace v = v)"

lemma map_set_in: "kv \<in> set (map_set k v m) \<Longrightarrow> kv = (k, v) \<or> kv \<in> set m"
  by (induction m) (auto split: if_splits)

lemma fold_trim_ok:
  "trimmed_map m \<Longrightarrow> trimmed_map (fold (\<lambda>(k, i). map_set (TrimSpace k) (TrimSpace (f i))) es m)"
proof (induction es arbitrary: m)
  case (Cons e es)
  obtain k i where e: "e = (k, i)" by (cases e)
  have "trimmed_map (map_set (TrimSpace k) (TrimSpace (f i)) m)"
    using Cons.prems by (auto simp: trimmed_map_def dest!: map_set_in)
  with Cons.IH e show ?case by simp
qed simp

lemma valueAsStringMap_trimmed: "valueAsStringMap v = Ok m \<Longrightarrow> trimmed_map m"
  using fold_trim_ok [of "[]" "\<lambda>s. s"] fold_trim_ok [of "[]" valueAsString]
  by (auto simp: valueAsStringMap_def trimmed_map_def [of "[]"] split: any.splits option.splits prod.splits)

end
