(* ===== verification/ToolSchema.thy ===== *)
theory ToolSchema
  imports ToolValues SwaggerResolver
begin

text \<open>
  Validation of a JSON value against a resolved schema (\<open>validateValueAgainstSchema\<close> and its
  helpers in \<open>internal/tool/swagger_http_common.go\<close>), and what it decides: the list of issues
  is empty exactly for the values that conform to the schema, in the sense of \<open>conforms\<close>.
\<close>

section \<open>Reading a schema\<close>

definition schema_list :: "anymap \<Rightarrow> string \<Rightarrow> any list" where
  "schema_list m key = (case map_of m key of Some (AList vs) \<Rightarrow> vs | _ \<Rightarrow> [])"

definition schema_props :: "anymap \<Rightarrow> anymap" where
  "schema_props m = (case map_of m ''properties'' of Some (AMap ps) \<Rightarrow> ps | _ \<Rightarrow> [])"

definition item_text :: "any \<Rightarrow> string option" where
  "item_text v = (case v of AStr s \<Rightarrow> if TrimSpace s \<noteq> [] then Some (TrimSpace s) else None | _ \<Rightarrow> None)"

definition schemaType :: "anymap \<Rightarrow> string" where
  "schemaType m = (case map_of m ''type'' of
     Some (AStr s) \<Rightarrow> ToLower (TrimSpace s)
   | Some (AList vs) \<Rightarrow> (case List.map_filter item_text vs of [] \<Rightarrow> [] | t # ts \<Rightarrow> ToLower t)
   | _ \<Rightarrow> [])"

definition schemaRequired :: "anymap \<Rightarrow> string list" where
  "schemaRequired m = (case map_of m ''required'' of
     Some (AList vs) \<Rightarrow> uniqueStrings (List.map_filter item_text vs)
   | Some (AStrs ss) \<Rightarrow> uniqueStrings ss
   | _ \<Rightarrow> [])"

definition isNumber :: "any \<Rightarrow> bool" where
  "isNumber v = (case v of AFloat f \<Rightarrow> True | AInt i \<Rightarrow> True | AUint n \<Rightarrow> True | ANumber s \<Rightarrow> True | _ \<Rightarrow> False)"

definition isInteger :: "any \<Rightarrow> bool" where
  "isInteger v = (case v of AInt i \<Rightarrow> True | AUint n \<Rightarrow> True | AFloat f \<Rightarrow> f64_integral f
     | ANumber s \<Rightarrow> ParseInt s \<noteq> None | _ \<Rightarrow> False)"

text \<open>\<open>ensureType\<close>: None when the value has the type; unknown type names accept every value.\<close>

definition type_ok :: "string \<Rightarrow> any \<Rightarrow> bool" where
  "type_ok expected v =
     (if expected = ''object'' then (case v of AMap m \<Rightarrow> True | _ \<Rightarrow> False)
      else if expected = ''array'' then (case v of AList vs \<Rightarrow> True | _ \<Rightarrow> False)
      else if expected = ''string'' then (case v of AStr s \<Rightarrow> True | _ \<Rightarrow> False)
      else if expected = ''boolean'' then (case v of ABool b \<Rightarrow> True | _ \<Rightarrow> False)
      else if expected = ''integer'' then isInteger v
      else if expected = ''number'' then isNumber v
      else True)"

definition ensureType :: "string \<Rightarrow> any \<Rightarrow> string option" where
  "ensureType expected v = (if type_ok expected v then None else Some (''expected '' @ expected))"

definition enumContains :: "any list \<Rightarrow> any \<Rightarrow> bool" where
  "enumContains enum v \<longleftrightarrow> list_ex (\<lambda>item. fmt_v item = fmt_v v) enum"

definition fields_of :: "any \<Rightarrow> anymap" where
  "fields_of v = (case v of AMap m \<Rightarrow> m | _ \<Rightarrow> [])"

definition elements_of :: "any \<Rightarrow> any list" where
  "elements_of v = (case v of AList vs \<Rightarrow> vs | _ \<Rightarrow> [])"

lemma size_in_map: "map_of m k = Some v \<Longrightarrow> size v < size (AMap m)"
  by (induction m) (auto split: if_splits)

lemma size_in_list: "v \<in> set vs \<Longrightarrow> size v < Suc (size_list size vs)"
  by (induction vs) auto

lemma schema_list_size: "b \<in> set (schema_list m k) \<Longrightarrow> size b < size (AMap m)"
proof -
  assume "b \<in> set (schema_list m k)"
  then obtain vs where "map_of m k = Some (AList vs)" "b \<in> set vs"
    by (cases "map_of m k") (auto simp: schema_list_def split: any.splits)
  then show ?thesis using size_in_map [of m k "AList vs"] size_in_list [of b vs] by simp
qed

lemma schema_props_size: "(k, s) \<in> set (schema_props m) \<Longrightarrow> size s < size (AMap m)"
proof -
  assume "(k, s) \<in> set (schema_props m)"
  then obtain ps where "map_of m ''properties'' = Some (AMap ps)" "(k, s) \<in> set ps"
    by (cases "map_of m ''properties''") (auto simp: schema_props_def split: any.splits)
  moreover from this(2) have "size s < size (AMap ps)" by (induction ps) auto
  ultimately show ?thesis using size_in_map [of m _ "AMap ps"] by fastforce
qed

section \<open>Validation\<close>

definition indexed :: "string \<Rightarrow> nat \<Rightarrow> string" where
  "indexed path i = path @ ''['' @ Itoa (int i) @ '']''"

definition required_issues :: "anymap \<Rightarrow> anymap \<Rightarrow> string \<Rightarrow> string list" where
  "required_issues m obj path = map (\<lambda>k. path @ ''.'' @ k @ '' is required'')
     (filter (\<lambda>k. map_of obj k = None) (schemaRequired m))"

definition enum_issues :: "anymap \<Rightarrow> any \<Rightarrow> string \<Rightarrow> string list" where
  "enum_issues m v path = (if schema_list m ''enum'' \<noteq> [] \<and> \<not> enumContains (schema_list m ''enum'') v
     then [path @ '' is not in enum''] else [])"

function validateValueAgainstSchema :: "any \<Rightarrow> any \<Rightarrow> string \<Rightarrow> string list" where
  "validateValueAgainstSchema v schema path = (case schema of
     AMap m \<Rightarrow>
      (let typeName = schemaType m;
           combined =
             concat (map (\<lambda>(i, b). validateValueAgainstSchema v b (indexed (path @ ''.allOf'') i))
               (enumerate 0 (schema_list m ''allOf'')))
           @ (if schema_list m ''anyOf'' \<noteq> []
                \<and> filter (\<lambda>b. validateValueAgainstSchema v b ''value'' = []) (schema_list m ''anyOf'') = []
              then [path @ '' does not match anyOf constraints''] else [])
           @ (if schema_list m ''oneOf'' \<noteq> []
                \<and> length (filter (\<lambda>b. validateValueAgainstSchema v b path = []) (schema_list m ''oneOf'')) \<noteq> 1
              then [path @ '' must match exactly one schema from oneOf''] else [])
       in (case (if typeName = [] then None else ensureType typeName v) of
            Some e \<Rightarrow> uniqueStrings (combined @ [path @ '': '' @ e])
          | None \<Rightarrow> uniqueStrings (combined
              @ (if typeName = ''object'' then required_issues m (fields_of v) path
                  @ concat (map (\<lambda>(k, s). case map_of (fields_of v) k of
                        None \<Rightarrow> [] | Some child \<Rightarrow> validateValueAgainstSchema child s (path @ ''.'' @ k)) (schema_props m))
                 else [])
              @ (if typeName = ''array'' then (case map_of m ''items'' of
                    None \<Rightarrow> []
                  | Some s \<Rightarrow> concat (map (\<lambda>(i, item). validateValueAgainstSchema item s (indexed path i))
                      (enumerate 0 (elements_of v))))
                 else [])
              @ enum_issues m v path)))
   | _ \<Rightarrow> [])"
  by pat_completeness auto

termination validateValueAgainstSchema
  by (relation "measure (\<lambda>(v, schema, path). size schema)")
     (auto simp del: any.size simp: set_zip enumerate_eq_zip intro: schema_list_size schema_list_size [OF nth_mem] schema_props_size size_in_map)

declare validateValueAgainstSchema.simps [simp del]

definition matchesAtLeastOne :: "any \<Rightarrow> any list \<Rightarrow> bool" where
  "matchesAtLeastOne v schemas \<longleftrightarrow> list_ex (\<lambda>s. validateValueAgainstSchema v s ''value'' = []) schemas"

section \<open>Blank texts\<close>

text \<open>Trimming removes only bytes of white-space runes, so a text with a letter is not blank.\<close>

lemma rune_at_take:
  "set (take (rune_at ws s) s) \<subseteq> \<Union> (set ` set ws)"
  by (induction ws) (auto simp: prefix_def)

lemma strip_removes: "\<exists>pre. s = pre @ strip ws s \<and> set pre \<subseteq> \<Union> (set ` set ws)"
proof (induction ws s rule: strip.induct)
  case (2 ws c s)
  show ?case
  proof (cases "rune_at ws (c # s)")
    case (Suc n)
    with 2 obtain pre where pre: "drop n s = pre @ strip ws (drop n s)" "set pre \<subseteq> \<Union> (set ` set ws)" by auto
    have "strip ws (c # s) = strip ws (drop n s)" using Suc by simp
    moreover have "c # s = take (Suc n) (c # s) @ drop n s" by simp
    ultimately have "c # s = (take (Suc n) (c # s) @ pre) @ strip ws (c # s)" using pre(1) by (metis append.assoc)
    moreover have "set (take (Suc n) (c # s) @ pre) \<subseteq> \<Union> (set ` set ws)"
      using rune_at_take [of ws "c # s"] pre(2) unfolding Suc by (simp del: take_Suc_Cons)
    ultimately show ?thesis by blast
  qed simp
qed simp

definition space_bytes :: "char set" where
  "space_bytes = \<Union> (set ` set space_runes)"

lemma TrimSpace_Nil_bytes: "TrimSpace s = [] \<Longrightarrow> set s \<subseteq> space_bytes"
proof -
  assume "TrimSpace s = []"
  then have right: "strip (map rev space_runes) (rev (trim_left s)) = []"
    by (simp add: TrimSpace_def trim_right_def)
  obtain pre where "s = pre @ trim_left s" "set pre \<subseteq> space_bytes"
    using strip_removes [of s space_runes] by (auto simp: trim_left_def space_bytes_def)
  moreover have "set (trim_left s) \<subseteq> space_bytes"
    using strip_removes [of "rev (trim_left s)" "map rev space_runes"] right
    by (auto simp: space_bytes_def)
  ultimately show ?thesis by (metis Un_least set_append)
qed

lemma not_blank: "c \<in> set s \<Longrightarrow> c \<notin> space_bytes \<Longrightarrow> TrimSpace s \<noteq> []"
  using TrimSpace_Nil_bytes by blast

lemma letter_not_space: "CHR ''i'' \<notin> space_bytes" "CHR ''o'' \<notin> space_bytes" "CHR ''e'' \<notin> space_bytes"
  by (simp_all add: space_bytes_def space_runes_def)

lemma uniqueStrings_Nil: "uniqueStrings xs = [] \<longleftrightarrow> (\<forall>x \<in> set xs. TrimSpace x = [])"
  by (simp add: uniqueStrings_def trim_unique_Nil_iff)

section \<open>What validation decides\<close>

function conforms :: "any \<Rightarrow> any \<Rightarrow> bool" where
  "conforms v schema = (case schema of
     AMap m \<Rightarrow>
        list_all (\<lambda>b. conforms v b) (schema_list m ''allOf'')
      \<and> (schema_list m ''anyOf'' = [] \<or> list_ex (\<lambda>b. conforms v b) (schema_list m ''anyOf''))
      \<and> (schema_list m ''oneOf'' = [] \<or> length (filter (\<lambda>b. conforms v b) (schema_list m ''oneOf'')) = 1)
      \<and> type_ok (schemaType m) v
      \<and> (schemaType m = ''object'' \<longrightarrow>
           list_all (\<lambda>k. map_of (fields_of v) k \<noteq> None) (schemaRequired m)
         \<and> list_all (\<lambda>(k, s). case map_of (fields_of v) k of None \<Rightarrow> True | Some child \<Rightarrow> conforms child s)
             (schema_props m))
      \<and> (schemaType m = ''array'' \<longrightarrow> (case map_of m ''items'' of
           None \<Rightarrow> True | Some s \<Rightarrow> list_all (\<lambda>item. conforms item s) (elements_of v)))
      \<and> (schema_list m ''enum'' = [] \<or> enumContains (schema_list m ''enum'') v)
   | _ \<Rightarrow> True)"
  by pat_completeness auto

termination conforms
  by (relation "measure (\<lambda>(v, schema). size schema)")
     (auto simp del: any.size intro: schema_list_size schema_props_size size_in_map)

declare conforms.simps [simp del]

lemma issues_unique: "\<exists>xs. validateValueAgainstSchema v s path = uniqueStrings xs"
proof (cases s)
  case (AMap m)
  show ?thesis unfolding AMap
    by (subst validateValueAgainstSchema.simps, simp only: any.case Let_def, split option.split, blast)
qed (subst validateValueAgainstSchema.simps, simp add: uniqueStrings_def, metis trim_unique.simps(1))+

lemma issue_not_blank: "x \<in> set (validateValueAgainstSchema v s path) \<Longrightarrow> TrimSpace x \<noteq> []"
  using issues_unique [of v s path] by (auto simp: uniqueStrings_def set_trim_unique)

lemma concat_blank:
  assumes "\<And>y x. y \<in> set xs \<Longrightarrow> x \<in> set (f y) \<Longrightarrow> TrimSpace x \<noteq> []"
  shows "(\<forall>x \<in> set (concat (map f xs)). TrimSpace x = []) \<longleftrightarrow> (\<forall>y \<in> set xs. f y = [])"
proof -
  have "(\<forall>x \<in> set (f y). TrimSpace x = []) \<longleftrightarrow> f y = []" if "y \<in> set xs" for y
    using assms [OF that] by (cases "f y") auto
  then show ?thesis by auto
qed

lemma required_issues_blank:
  "(\<forall>x \<in> set (required_issues m obj path). TrimSpace x = []) \<longleftrightarrow> list_all (\<lambda>k. map_of obj k \<noteq> None) (schemaRequired m)"
proof -
  have "TrimSpace (path @ ''.'' @ k @ '' is required'') \<noteq> []" for k
    by (rule not_blank [OF _ letter_not_space(1)]) simp
  then show ?thesis by (auto simp: required_issues_def list_all_iff)
qed

lemma enum_issues_blank:
  "(\<forall>x \<in> set (enum_issues m v path). TrimSpace x = [])
     \<longleftrightarrow> schema_list m ''enum'' = [] \<or> enumContains (schema_list m ''enum'') v"
proof -
  have "TrimSpace (path @ '' is not in enum'') \<noteq> []"
    by (rule not_blank [OF _ letter_not_space(1)]) simp
  then show ?thesis by (auto simp: enum_issues_def)
qed

lemma filter_conforms:
  assumes "\<And>b. b \<in> set bs \<Longrightarrow> f b = [] \<longleftrightarrow> P b"
  shows "filter (\<lambda>b. f b = []) bs = filter P bs"
  using assms by (rule filter_cong [OF refl])

lemma type_ok_Nil [simp]: "type_ok [] v"
  by (simp add: type_ok_def)

lemma ensureType_if: "(if t = [] then None else ensureType t v) = (if type_ok t v then None else Some (''expected '' @ t))"
  by (simp add: ensureType_def)

lemma message_not_blank: "TrimSpace (p @ '' does not match anyOf constraints'') \<noteq> []"
  "TrimSpace (p @ '' must match exactly one schema from oneOf'') \<noteq> []" "TrimSpace (p @ '': '' @ ''expected '' @ q) \<noteq> []"
  by (rule not_blank [OF _ letter_not_space(2)], simp, rule not_blank [OF _ letter_not_space(2)], simp,
      rule not_blank [OF _ letter_not_space(3)], simp)

abbreviation "blank_all xs \<equiv> \<forall>x \<in> set xs. TrimSpace x = []"

lemma blank_all_append: "blank_all (xs @ ys) \<longleftrightarrow> blank_all xs \<and> blank_all ys"
  by auto

lemma blank_all_if: "blank_all (if c then xs else []) \<longleftrightarrow> (c \<longrightarrow> blank_all xs)"
  by auto

lemma indexed_blank:
  assumes "\<And>i b. (i, b) \<in> set (enumerate 0 xs) \<Longrightarrow> f i b = [] \<longleftrightarrow> P b"
    and "\<And>i b x. x \<in> set (f i b) \<Longrightarrow> TrimSpace x \<noteq> []"
  shows "blank_all (concat (map (\<lambda>(i, b). f i b) (enumerate 0 xs))) \<longleftrightarrow> list_all P xs"
proof -
  have "blank_all (concat (map (\<lambda>(i, b). f i b) (enumerate 0 xs))) \<longleftrightarrow> (\<forall>y \<in> set (enumerate 0 xs). P (snd y))"
    by (subst concat_blank) (use assms in auto)
  also have "\<dots> \<longleftrightarrow> list_all P (map snd (enumerate 0 xs))" unfolding list_all_iff set_map by blast
  finally show ?thesis by (simp only: map_snd_enumerate)
qed

lemma blank_all_validated: "blank_all (validateValueAgainstSchema v s path) \<longleftrightarrow> validateValueAgainstSchema v s path = []"
  using issue_not_blank [of _ v s path] by (cases "validateValueAgainstSchema v s path") auto

lemma validate_iff_conforms: "validateValueAgainstSchema v s path = [] \<longleftrightarrow> conforms v s"
proof (induction v s path rule: validateValueAgainstSchema.induct)
  case (1 v s path)
  show ?case
  proof (cases s)
    case (AMap m)
    let ?V = validateValueAgainstSchema and ?t = "schemaType m"
    have all_of: "blank_all (concat (map (\<lambda>(i, b). ?V v b (indexed (path @ ''.allOf'') i))
          (enumerate 0 (schema_list m ''allOf'')))) \<longleftrightarrow> list_all (\<lambda>b. conforms v b) (schema_list m ''allOf'')"
      by (rule indexed_blank) (use "1.IH"(1) [OF AMap refl] issue_not_blank in blast)+
    have any_of: "filter (\<lambda>b. ?V v b ''value'' = []) (schema_list m ''anyOf'') = []
        \<longleftrightarrow> \<not> list_ex (\<lambda>b. conforms v b) (schema_list m ''anyOf'')"
      using "1.IH"(2) [OF AMap refl] by (auto simp: filter_empty_conv list_ex_iff)
    have one_of: "filter (\<lambda>b. ?V v b path = []) (schema_list m ''oneOf'') = filter (\<lambda>b. conforms v b) (schema_list m ''oneOf'')"
      by (rule filter_cong [OF refl]) (rule "1.IH"(3) [OF AMap refl])
    show ?thesis
    proof (cases "type_ok ?t v")
      case False
      then show ?thesis
        by (subst validateValueAgainstSchema.simps, subst conforms.simps)
           (simp only: AMap any.case Let_def ensureType_if if_False option.case uniqueStrings_Nil
              blank_all_append list.set ball_simps message_not_blank simp_thms)
    next
      case True
      then have ok: "(if ?t = [] then None else ensureType ?t v) = None" by (simp add: ensureType_if)
      have props: "blank_all (concat (map (\<lambda>(k, s). case map_of (fields_of v) k of
            None \<Rightarrow> [] | Some child \<Rightarrow> ?V child s (path @ ''.'' @ k)) (schema_props m)))
          \<longleftrightarrow> list_all (\<lambda>(k, s). case map_of (fields_of v) k of None \<Rightarrow> True | Some child \<Rightarrow> conforms child s)
               (schema_props m)" if "?t = ''object''"
        using "1.IH"(4) [OF AMap refl refl ok that]
        by (subst concat_blank) (auto simp: issue_not_blank list_all_iff split: option.splits)
      have items: "blank_all (concat (map (\<lambda>(i, item). ?V item s' (indexed path i)) (enumerate 0 (elements_of v))))
          \<longleftrightarrow> list_all (\<lambda>item. conforms item s') (elements_of v)"
        if "?t = ''array''" "map_of m ''items'' = Some s'" for s'
        by (rule indexed_blank) (use "1.IH"(5) [OF AMap refl refl ok that] issue_not_blank in blast)+
      have array: "blank_all (if ?t = ''array'' then (case map_of m ''items'' of None \<Rightarrow> []
            | Some s' \<Rightarrow> concat (map (\<lambda>(i, item). ?V item s' (indexed path i)) (enumerate 0 (elements_of v)))) else [])
          \<longleftrightarrow> (?t = ''array'' \<longrightarrow> (case map_of m ''items'' of None \<Rightarrow> True
            | Some s' \<Rightarrow> list_all (\<lambda>item. conforms item s') (elements_of v)))"
      proof (cases "?t = ''array''")
        case array: True
        show ?thesis
          by (cases "map_of m ''items''") (use items [OF array] array in \<open>simp_all only: option.case if_True list.set ball_simps simp_thms\<close>)
      qed simp
      have object: "blank_all (if ?t = ''object'' then required_issues m (fields_of v) path
            @ concat (map (\<lambda>(k, s). case map_of (fields_of v) k of None \<Rightarrow> []
                | Some child \<Rightarrow> ?V child s (path @ ''.'' @ k)) (schema_props m)) else [])
          \<longleftrightarrow> (?t = ''object'' \<longrightarrow> list_all (\<lambda>k. map_of (fields_of v) k \<noteq> None) (schemaRequired m)
            \<and> list_all (\<lambda>(k, s). case map_of (fields_of v) k of None \<Rightarrow> True | Some child \<Rightarrow> conforms child s)
               (schema_props m))"
        by (cases "?t = ''object''") (simp_all only: if_True if_False blank_all_append required_issues_blank props
            list.set ball_simps simp_thms)
      show ?thesis
        by (subst validateValueAgainstSchema.simps, subst conforms.simps, simp only: AMap any.case Let_def ok option.case
              uniqueStrings_Nil blank_all_append all_of any_of one_of array object True enum_issues_blank, subst (1 2) blank_all_if,
            simp only: list.set ball_simps message_not_blank simp_thms de_Morgan_conj not_not) blast
    qed
  qed (simp_all add: validateValueAgainstSchema.simps conforms.simps)
qed

text \<open>
  Property C18: what schema validation decides. A value has no issues exactly when it conforms: it
  conforms to every allOf branch, to some anyOf branch, to exactly one oneOf branch, has the
  declared type, has the required fields, its declared fields and elements conform, and it is
  in the enumeration, in the sense of the code. The answer does not depend on the path used in
  messages nor on the iteration order of the property map, and no issue is listed twice.
\<close>

theorem validation_decides:
  "(validateValueAgainstSchema v s path = [] \<longleftrightarrow> conforms v s)
   \<and> distinct (validateValueAgainstSchema v s path)"
  using validate_iff_conforms [of v s path] issues_unique [of v s path]
  by (auto simp: uniqueStrings_def distinct_trim_unique)

text \<open>
  Two gaps between the code and JSON schema: the enumeration compares printed texts, so the
  string 1 is in the enumeration of the number 1; and the resolver writes several types as a
  list of strings, which \<open>schemaType\<close> does not read, so such a schema accepts every value.
\<close>

lemma enum_compares_text: "conforms (AStr ''1'') (AMap [(''enum'', AList [AFloat (F64 1 0)])])"
  by code_simp

lemma type_list_unchecked: "conforms (ABool True) (AMap [(''type'', type_value [''string'', ''null''])])"
  by code_simp

end
