(* ===== verification/ToolBody.thy ===== *)
theory ToolBody
  imports ToolValues GoHttp GoTime
begin

text \<open>
  Request and response bodies (\<open>internal/tool/swagger_http_common.go\<close>): encoding a body for the
  wire, reading a response within its limit, and classing it as JSON, text or base64. The JSON
  encoder and decoder are the arguments of type \<open>codec\<close>.
\<close>

record codec =
  marshal :: "any \<Rightarrow> (string, string) result"
  unmarshal :: "string \<Rightarrow> (string, any) result"

section \<open>Classifying text\<close>

definition looksLikeJSONString :: "string \<Rightarrow> bool" where
  "looksLikeJSONString raw = (let s = TrimSpace raw in
     if s = [] then False else HasPrefix s ''{'' \<or> HasPrefix s ''['')"

definition looksLikeJSONBytes :: "string \<Rightarrow> bool" where
  "looksLikeJSONBytes raw = (case TrimSpace raw of [] \<Rightarrow> False | c # s \<Rightarrow> c = CHR ''{'' \<or> c = CHR ''['')"

definition isJSONContentType :: "string \<Rightarrow> bool" where
  "isJSONContentType ct = Contains (ToLower (TrimSpace ct)) ''json''"

definition defaultResponseContentType :: "string \<Rightarrow> string \<Rightarrow> string" where
  "defaultResponseContentType ct encoding =
     (if TrimSpace ct \<noteq> [] then TrimSpace ct
      else (let e = ToLower (TrimSpace encoding) in
        if e = ''json'' then ''application/json'' else if e = ''base64'' then ''application/octet-stream''
        else ''text/plain; charset=utf-8''))"

text \<open>\<open>utf8.Valid\<close>: well-formed sequences of one to four bytes, no surrogates, no overlong forms.\<close>

definition byte_in :: "nat \<Rightarrow> nat \<Rightarrow> char \<Rightarrow> bool" where
  "byte_in lo hi c \<longleftrightarrow> (let n = of_char c :: nat in lo \<le> n \<and> n \<le> hi)"

definition second_ok :: "nat \<Rightarrow> char \<Rightarrow> bool" where
  "second_ok n = (if n = 0xE0 then byte_in 0xA0 0xBF else if n = 0xED then byte_in 0x80 0x9F
     else if n = 0xF0 then byte_in 0x90 0xBF else if n = 0xF4 then byte_in 0x80 0x8F
     else byte_in 0x80 0xBF)"

definition extra_bytes :: "nat \<Rightarrow> nat option" where
  "extra_bytes n = (if n < 0x80 then Some 0 else if 0xC2 \<le> n \<and> n \<le> 0xDF then Some 1
     else if 0xE0 \<le> n \<and> n \<le> 0xEF then Some 2 else if 0xF0 \<le> n \<and> n \<le> 0xF4 then Some 3 else None)"

function utf8_valid :: "string \<Rightarrow> bool" where
  "utf8_valid s = (case s of [] \<Rightarrow> True | c # t \<Rightarrow>
     (case extra_bytes (of_char c) of
        None \<Rightarrow> False
      | Some k \<Rightarrow> k \<le> length t
          \<and> (k = 0 \<or> second_ok (of_char c) (hd t) \<and> list_all (byte_in 0x80 0xBF) (take (k - 1) (tl t)))
          \<and> utf8_valid (drop k t)))"
  by pat_completeness auto

termination utf8_valid
  by (relation "measure length") auto

declare utf8_valid.simps [simp del]

definition isUTF8Text :: "string \<Rightarrow> bool" where
  "isUTF8Text payload \<longleftrightarrow> utf8_valid payload
     \<and> list_all (\<lambda>c. (0x20 :: nat) \<le> of_char c \<or> c \<in> {CHR 0x0A, CHR 0x0D, CHR 0x09, CHR 0x0C}) payload"

definition isJSONObjectLike :: "any \<Rightarrow> bool" where
  "isJSONObjectLike v = (case v of AMap m \<Rightarrow> True | AList vs \<Rightarrow> True | ABool b \<Rightarrow> True | AFloat f \<Rightarrow> True
     | AInt i \<Rightarrow> True | AUint n \<Rightarrow> True | ANumber s \<Rightarrow> True | _ \<Rightarrow> False)"

section \<open>The body of a request\<close>

definition json_type :: "string \<Rightarrow> bool" where
  "json_type ct = Contains (ToLower ct) ''json''"

definition encode_text :: "codec \<Rightarrow> string \<Rightarrow> string \<Rightarrow> (string, string \<times> string \<times> any) result" where
  "encode_text c v ct =
     (let ct = (if ct = [] \<and> looksLikeJSONString (TrimSpace v) then ''application/json'' else ct) in
      if json_type ct then (case unmarshal c v of
          Err e \<Rightarrow> Err (''body must be valid JSON for content-type '' @ quote ct @ '': '' @ e)
        | Ok parsed \<Rightarrow> (case marshal c parsed of Err e \<Rightarrow> Err e | Ok payload \<Rightarrow> Ok (payload, ct, parsed)))
      else Ok (v, if ct = [] then ''text/plain; charset=utf-8'' else ct, AStr v))"

definition encode_bytes :: "codec \<Rightarrow> string \<Rightarrow> string \<Rightarrow> (string, string \<times> string \<times> any) result" where
  "encode_bytes c v ct =
     (let ct = (if ct = [] then ''application/octet-stream'' else ct);
          raw = Ok (v, ct, AMap [(''encoding'', AStr ''base64''), (''data'', AStr (StdBase64 v))]) in
      if json_type ct then (case unmarshal c v of
          Err e \<Rightarrow> raw
        | Ok parsed \<Rightarrow> (case marshal c parsed of Err e \<Rightarrow> Err e | Ok payload \<Rightarrow> Ok (payload, ct, parsed)))
      else raw)"

definition encode_value :: "codec \<Rightarrow> any \<Rightarrow> string \<Rightarrow> (string, string \<times> string \<times> any) result" where
  "encode_value c v ct = (case marshal c v of
     Err e \<Rightarrow> Err (''encode request body: '' @ e)
   | Ok payload \<Rightarrow> Ok (payload, if ct = [] then ''application/json'' else ct,
       case unmarshal c payload of Ok parsed \<Rightarrow> parsed | Err e \<Rightarrow> v))"

text \<open>The bytes for the wire, the content type, and the value that validation looks at.\<close>

definition encodeRequestBody :: "codec \<Rightarrow> any \<Rightarrow> string \<Rightarrow> (string, string \<times> string \<times> any) result" where
  "encodeRequestBody c body contentType = (let ct = TrimSpace contentType in
     case body of ANil \<Rightarrow> Ok ([], ct, ANil) | AStr v \<Rightarrow> encode_text c v ct
     | ABytes v \<Rightarrow> encode_bytes c v ct | _ \<Rightarrow> encode_value c body ct)"

section \<open>The body of a response\<close>

record responseBodyEnvelope =
  rbContentType :: string
  rbBodyEncoding :: string
  rbBody :: any

definition envelope :: "string \<Rightarrow> string \<Rightarrow> any \<Rightarrow> responseBodyEnvelope" where
  "envelope ct encoding body = \<lparr>rbContentType = defaultResponseContentType ct encoding,
     rbBodyEncoding = encoding, rbBody = body\<rparr>"

definition readResponseBodyLimited :: "(string, string) result \<Rightarrow> int \<Rightarrow> (string, string \<times> bool) result" where
  "readResponseBodyLimited reader maxBytes =
     (let n = (if maxBytes \<le> 0 then 2 * 1024 * 1024 else maxBytes) in
      case read_limited (wrap64 (n + 1)) reader of
        Err e \<Rightarrow> Err e
      | Ok payload \<Rightarrow> if int (length payload) > n then Ok (take (nat n) payload, True) else Ok (payload, False))"

definition decode_json :: "codec \<Rightarrow> string \<Rightarrow> string \<Rightarrow> any option" where
  "decode_json c ct payload = (if isJSONContentType ct \<or> looksLikeJSONBytes payload
     then (case unmarshal c payload of Ok v \<Rightarrow> Some v | Err e \<Rightarrow> None) else None)"

definition decodeResponseBody :: "codec \<Rightarrow> string \<Rightarrow> string \<Rightarrow> responseBodyEnvelope" where
  "decodeResponseBody c contentType payload = (let ct = TrimSpace contentType in
     if payload = [] then envelope ct ''text'' (AStr [])
     else (case decode_json c ct payload of
         Some parsed \<Rightarrow> envelope ct ''json'' parsed
       | None \<Rightarrow> if isUTF8Text payload then envelope ct ''text'' (AStr payload)
                 else envelope ct ''base64'' (AStr (StdBase64 payload))))"

definition extractBodyEnvelope :: "anymap \<Rightarrow> responseBodyEnvelope option" where
  "extractBodyEnvelope m =
     (let encoding = ToLower (text_of m ''bodyEncoding'') in
      if encoding = [] \<or> map_of m ''body'' = None then None
      else if \<not> list_all (\<lambda>k. k = ''contentType'' \<or> k = ''bodyEncoding'' \<or> k = ''body'') (map_keys m) then None
      else Some \<lparr>rbContentType = text_of m ''contentType'', rbBodyEncoding = encoding,
                 rbBody = mapValue m ''body''\<rparr>)"

definition extractBodyEnvelopeMap :: "any \<Rightarrow> responseBodyEnvelope option" where
  "extractBodyEnvelopeMap v = (case v of AMap m \<Rightarrow> if m = [] then None else extractBodyEnvelope m | _ \<Rightarrow> None)"

lemma any_in_map_size [termination_simp]: "map_of m k = Some v \<Longrightarrow> size v < Suc (size_list (size_prod size size) m)"
  by (induction m) (auto split: if_splits)

text \<open>A nested envelope is unwrapped to its body; a text that looks like JSON is parsed.\<close>

function bodyForValidation :: "codec \<Rightarrow> any \<Rightarrow> any" where
  "bodyForValidation c v = (case v of
     AMap m \<Rightarrow> (case extractBodyEnvelope m of Some b \<Rightarrow> bodyForValidation c (rbBody b) | None \<Rightarrow> v)
   | AStr s \<Rightarrow> if looksLikeJSONString (TrimSpace s)
       then (case unmarshal c s of Ok parsed \<Rightarrow> parsed | Err e \<Rightarrow> v) else v
   | _ \<Rightarrow> v)"
  by pat_completeness auto

lemma envelope_body: "extractBodyEnvelope m = Some b \<Longrightarrow> map_of m ''body'' = Some (rbBody b)"
  by (auto simp: extractBodyEnvelope_def Let_def mapValue_def split: if_splits)

lemma size_in_object: "map_of m k = Some v \<Longrightarrow> size v < size (AMap m)"
  by (induction m) (auto split: if_splits)

termination bodyForValidation
  by (relation "measure (size \<circ> snd)") (auto dest!: envelope_body dest: size_in_object simp del: any.size)

declare bodyForValidation.simps [simp del]

definition stringifyBody :: "codec \<Rightarrow> any \<Rightarrow> string" where
  "stringifyBody c v = (case v of
     ANil \<Rightarrow> [] | AStr s \<Rightarrow> s
   | ABytes b \<Rightarrow> if isUTF8Text b then b else StdBase64 b
   | _ \<Rightarrow> (case marshal c v of Ok s \<Rightarrow> s | Err e \<Rightarrow> fmt_v v))"

definition base64Body :: "codec \<Rightarrow> any \<Rightarrow> string" where
  "base64Body c v = (case v of
     ANil \<Rightarrow> [] | AStr s \<Rightarrow> s | ABytes b \<Rightarrow> StdBase64 b
   | _ \<Rightarrow> (case marshal c v of Ok s \<Rightarrow> StdBase64 s | Err e \<Rightarrow> StdBase64 (fmt_v v)))"

definition reparse :: "codec \<Rightarrow> any \<Rightarrow> any" where
  "reparse c body = (case body of
     AStr s \<Rightarrow> if looksLikeJSONString (TrimSpace s)
       then (case unmarshal c (TrimSpace s) of Ok parsed \<Rightarrow> parsed | Err e \<Rightarrow> body) else body
   | _ \<Rightarrow> body)"

definition guess_body :: "codec \<Rightarrow> string \<Rightarrow> any \<Rightarrow> responseBodyEnvelope" where
  "guess_body c ct body = (case body of
     ANil \<Rightarrow> envelope ct ''text'' (AStr [])
   | AStr s \<Rightarrow> (let t = TrimSpace s in
       if (isJSONContentType ct \<or> looksLikeJSONString t) \<and> t \<noteq> []
       then (case unmarshal c t of Ok parsed \<Rightarrow> envelope ct ''json'' parsed
             | Err e \<Rightarrow> envelope ct ''text'' (AStr s))
       else envelope ct ''text'' (AStr s))
   | ABytes b \<Rightarrow> decodeResponseBody c ct b
   | _ \<Rightarrow>
      if isJSONObjectLike body then envelope ct ''json'' body
      else (case marshal c body of
          Err e \<Rightarrow> envelope ct ''text'' (AStr (stringifyBody c body))
        | Ok payload \<Rightarrow> (case unmarshal c payload of
            Ok parsed \<Rightarrow> envelope ct ''json'' parsed
          | Err e \<Rightarrow> envelope ct ''text'' (AStr (stringifyBody c body)))))"

definition normalizeResponseBody :: "codec \<Rightarrow> string \<Rightarrow> string \<Rightarrow> any \<Rightarrow> responseBodyEnvelope" where
  "normalizeResponseBody c contentType bodyEncoding body =
     (let ct0 = TrimSpace contentType; encoding0 = ToLower (TrimSpace bodyEncoding);
          (ct, encoding, body) = (case extractBodyEnvelopeMap body of
             None \<Rightarrow> (ct0, encoding0, body)
           | Some nested \<Rightarrow> (if ct0 = [] then rbContentType nested else ct0,
               if encoding0 = [] then rbBodyEncoding nested else encoding0, rbBody nested)) in
      if encoding = ''json'' then envelope ct ''json'' (reparse c body)
      else if encoding = ''text'' then envelope ct ''text'' (AStr (stringifyBody c body))
      else if encoding = ''base64'' then envelope ct ''base64'' (AStr (base64Body c body))
      else guess_body c ct body)"

definition flattenHTTPHeaders :: "(string \<times> string list) list \<Rightarrow> strmap" where
  "flattenHTTPHeaders h = map (\<lambda>(k, vs). (k, Join vs '','')) h"

section \<open>Nothing is lost, nothing is passed off\<close>


text \<open>
  The response limit. A body within the limit is returned whole and unmarked; a
  longer one is cut at exactly the limit and marked as truncated, for every limit below the
  largest \<open>int64\<close>.
\<close>

theorem response_limit:
  assumes "0 < n" and "n < 2 ^ 63 - 1"
  shows "readResponseBodyLimited (Ok body) n
     = (if int (length body) \<le> n then Ok (body, False) else Ok (take (nat n) body, True))"
proof -
  have "wrap64 (n + 1) = n + 1" using assms by (simp add: wrap64_def)
  moreover have "nat n \<le> nat (n + 1)" by simp
  ultimately show ?thesis
    using assms by (auto simp: readResponseBodyLimited_def read_limited_def Let_def min_def)
qed

lemma response_limit_witness: "readResponseBodyLimited (Ok ''abcd'') 3 = Ok (''abc'', True)"
  using response_limit [of 3 "''abcd''"] by simp

end
