(* ===== verification/ToolRequest.thy ===== *)
theory ToolRequest
  imports ToolSchema ToolBody
begin

text \<open>
  Building and validating a concrete request (\<open>internal/tool/swagger_http_common.go\<close>): the path
  template, the target URL, headers and body, and the checks against the operation.
\<close>

section \<open>Results of tools\<close>

definition okResult :: "any \<Rightarrow> any" where
  "okResult data = AMap [(''ok'', ABool True), (''data'', data), (''error'', ANil)]"

definition errorResult :: "string \<Rightarrow> string \<Rightarrow> any \<Rightarrow> any" where
  "errorResult code message details = AMap [(''ok'', ABool False), (''data'', ANil),
     (''error'', AMap [(''code'', AStr (TrimSpace code)), (''message'', AStr (TrimSpace message)),
                       (''details'', details)])]"

section \<open>Path templates\<close>

definition brace :: "char \<Rightarrow> bool" where
  "brace c \<longleftrightarrow> c = CHR 0x7B \<or> c = CHR 0x7D"

text \<open>A parameter segment at the start of \<open>s\<close>: a non-empty run without braces between braces.\<close>

definition param_segment :: "string \<Rightarrow> (string \<times> string) option" where
  "param_segment s = (case s of [] \<Rightarrow> None | c # t \<Rightarrow>
     (let name = takeWhile (\<lambda>d. \<not> brace d) t; rest = dropWhile (\<lambda>d. \<not> brace d) t in
      if c = CHR 0x7B \<and> name \<noteq> [] \<and> rest \<noteq> [] \<and> hd rest = CHR 0x7D then Some (name, tl rest) else None))"

lemma param_segment_shorter: "param_segment s = Some (n, t) \<Longrightarrow> length t < length s"
proof -
  assume "param_segment s = Some (n, t)"
  then obtain c u where "s = c # u" "t = tl (dropWhile (\<lambda>d. \<not> brace d) u)"
    by (auto simp: param_segment_def Let_def split: list.splits if_splits)
  then show ?thesis using length_dropWhile_le [of "\<lambda>d. \<not> brace d" u] by simp
qed

definition param_value :: "strmap \<Rightarrow> string \<Rightarrow> string option" where
  "param_value params name = (case map_of params (TrimSpace name) of
     Some v \<Rightarrow> if TrimSpace v = [] then None else Some v | None \<Rightarrow> None)"

function expand_from :: "strmap \<Rightarrow> string \<Rightarrow> string \<times> string list" where
  "expand_from params s = (case s of [] \<Rightarrow> ([], []) | c # u \<Rightarrow>
     (case param_segment s of
        Some (name, t) \<Rightarrow>
          (let (out, missing) = expand_from params t in
           case param_value params name of
             None \<Rightarrow> (CHR 0x7B # name @ CHR 0x7D # out, TrimSpace name # missing)
           | Some v \<Rightarrow> (PathEscape v @ out, missing))
      | None \<Rightarrow> (let (out, missing) = expand_from params u in (c # out, missing))))"
  by pat_completeness auto

termination expand_from
  by (relation "measure (length \<circ> snd)") (auto dest: param_segment_shorter)

declare expand_from.simps [simp del]

definition expandPathTemplate :: "string \<Rightarrow> strmap \<Rightarrow> string \<times> string list" where
  "expandPathTemplate path params =
     (let (out, missing) = expand_from params path in (out, uniqueStrings missing))"

section \<open>The target URL\<close>

definition values_set :: "string \<Rightarrow> string \<Rightarrow> url_values \<Rightarrow> url_values" where
  "values_set k v m = map_set k [v] m"

definition set_all :: "strmap \<Rightarrow> url_values \<Rightarrow> url_values" where
  "set_all query q = fold (\<lambda>(k, v). values_set k v) query q"

definition joinBaseAndEndpointPath :: "string \<Rightarrow> string \<Rightarrow> string" where
  "joinBaseAndEndpointPath basePath endpointPath =
     (let b = TrimSpace basePath; e = TrimSpace endpointPath in
      if e = [] then (if b = [] then ''/'' else b)
      else (let e = (if HasPrefix e ''/'' then e else ''/'' @ e) in
        if b = [] \<or> b = ''/'' then e else TrimRight b ''/'' @ e))"

definition last_values :: "url_values \<Rightarrow> strmap" where
  "last_values m = concat (map (\<lambda>(k, vs). if vs = [] then [] else [(k, last vs)]) m)"

definition target_on :: "URL \<Rightarrow> URL \<Rightarrow> strmap \<Rightarrow> URL" where
  "target_on base pathPart query = base\<lparr>
     Path := joinBaseAndEndpointPath (Path base) (Path pathPart), RawPath := [],
     RawQuery := Encode (set_all query (set_all (last_values (Query pathPart)) (Query base))),
     Fragment := Fragment pathPart\<rparr>"

definition buildTargetURL :: "string \<Rightarrow> string \<Rightarrow> strmap \<Rightarrow> bool \<Rightarrow> (string, string) result" where
  "buildTargetURL baseURL path query allowNoBase =
     (if TrimSpace baseURL = []
      then (if allowNoBase then Ok (if query = [] then path else path @ ''?'' @ Encode (set_all query []))
            else Err ''no base URL'')
      else (case parse_url (TrimSpace baseURL) of
          Err (UrlError e) \<Rightarrow> Err (''invalid base URL: '' @ e)
        | Ok base \<Rightarrow> (case parse_url path of
            Err (UrlError e) \<Rightarrow> Err (''invalid path: '' @ e)
          | Ok pathPart \<Rightarrow>
              if Scheme pathPart \<noteq> [] \<or> URLHost pathPart \<noteq> [] then Err ''path must be relative''
              else Ok (show_url (target_on base pathPart query)))))"

definition inferBaseURLFromEndpointURL :: "ResolvedOperation \<Rightarrow> string" where
  "inferBaseURLFromEndpointURL ep =
     (if TrimSpace (BaseURL ep) \<noteq> [] then TrimSpace (BaseURL ep)
      else if TrimSpace (URLTemplate ep) = [] then []
      else (case parse_url (TrimSpace (URLTemplate ep)) of
          Err e \<Rightarrow> []
        | Ok u \<Rightarrow>
            if Scheme u = [] \<or> URLHost u = [] then []
            else Scheme u @ ''://'' @ URLHost u
              @ (if Path u \<noteq> [] \<and> PathTemplate ep \<noteq> [] \<and> HasSuffix (Path u) (PathTemplate ep)
                 then TrimSuffix (TrimSuffix (Path u) (PathTemplate ep)) ''/'' else [])))"

section \<open>Preparing a request\<close>

record preparedRequest =
  prOperationID :: string
  prMethod :: string
  prPath :: string
  prURL :: string
  prPathParams :: strmap
  prQueryParams :: strmap
  prHeaders :: strmap
  prContentType :: string
  prBodyInput :: any
  prBodyBytes :: string

record prepareOptions =
  poBaseURL :: string
  poAllowNoBase :: bool
  poMaxBodyBytes :: int
  poDefaultAgent :: string
  poDefaultAccept :: string

definition first_nonempty :: "string list \<Rightarrow> string" where
  "first_nonempty ss = (case filter (\<lambda>s. s \<noteq> []) ss of [] \<Rightarrow> [] | s # rest \<Rightarrow> s)"

definition pick_base :: "ResolvedOperation \<Rightarrow> executeInput \<Rightarrow> prepareOptions \<Rightarrow> string" where
  "pick_base ep input opts = first_nonempty
     [TrimSpace (poBaseURL opts), TrimSpace (exBaseURL input),
      (case Servers ep of [] \<Rightarrow> [] | s # ss \<Rightarrow> TrimSpace s), TrimSpace (BaseURL ep), inferBaseURLFromEndpointURL ep]"

definition header_default :: "string \<Rightarrow> string \<Rightarrow> strmap \<Rightarrow> strmap" where
  "header_default name v h = (if v \<noteq> [] \<and> findHeader h name = None then map_set name v h else h)"

definition prepareEndpointRequest :: "codec \<Rightarrow> ResolvedOperation \<Rightarrow> executeInput \<Rightarrow> prepareOptions
    \<Rightarrow> (string, preparedRequest) result" where
  "prepareEndpointRequest c ep input opts =
     (let m = ToUpper (TrimSpace (Method ep)) in
      if m = [] then Err ''endpoint method is empty''
      else (case expandPathTemplate (PathTemplate ep) (exPathParams input) of (path, missing) \<Rightarrow>
        if missing \<noteq> [] then Err (''missing path params: '' @ Join missing '', '')
        else (case buildTargetURL (pick_base ep input opts) path (exQueryParams input) (poAllowNoBase opts) of
            Err e \<Rightarrow> Err e
          | Ok finalURL \<Rightarrow> (case encodeRequestBody c (exBody input) (exContentType input) of
              Err e \<Rightarrow> Err e
            | Ok (bytes, ct, checked) \<Rightarrow>
               (let headers = header_default ''Accept'' (poDefaultAccept opts)
                      (header_default ''User-Agent'' (poDefaultAgent opts) (copyStringMap (exHeaders input)));
                    headers = (if bytes \<noteq> [] then header_default ''Content-Type'' ct headers else headers) in
                if 0 < poMaxBodyBytes opts \<and> int (length bytes) > poMaxBodyBytes opts
                then Err (''request payload exceeds MAX_REQUEST_BYTES='' @ Itoa (poMaxBodyBytes opts))
                else Ok \<lparr>prOperationID = OperationID ep, prMethod = m, prPath = path, prURL = finalURL,
                    prPathParams = copyStringMap (exPathParams input),
                    prQueryParams = copyStringMap (exQueryParams input), prHeaders = headers,
                    prContentType = ct, prBodyInput = checked, prBodyBytes = bytes\<rparr>)))))"

section \<open>Validating a request and a response\<close>

definition validateRequiredParams :: "Param list \<Rightarrow> strmap \<Rightarrow> string \<Rightarrow> string list" where
  "validateRequiredParams defs provided location =
     map (\<lambda>d. ''missing required '' @ location @ '' parameter '' @ quote (paName d))
       (filter (\<lambda>d. paRequired d \<and> (case map_of provided (paName d) of None \<Rightarrow> True | Some v \<Rightarrow> TrimSpace v = [])) defs)"

definition lower_headers :: "strmap \<Rightarrow> strmap" where
  "lower_headers provided = fold (\<lambda>(k, v). map_set (ToLower (TrimSpace k)) v) provided []"

definition validateRequiredHeaders :: "Param list \<Rightarrow> strmap \<Rightarrow> string list" where
  "validateRequiredHeaders defs provided =
     map (\<lambda>d. ''missing required header parameter '' @ quote (paName d))
       (filter (\<lambda>d. paRequired d \<and> (case map_of (lower_headers provided) (ToLower (TrimSpace (paName d))) of
            None \<Rightarrow> True | Some v \<Rightarrow> TrimSpace v = [])) defs)"

definition body_issues :: "any \<Rightarrow> any \<Rightarrow> string list" where
  "body_issues schema body =
     (if schema = ANil then (if body \<noteq> ANil
        then [''request body provided but operation does not define request body''] else [])
      else if body = ANil then [] else validateValueAgainstSchema body schema ''body'')"

definition validatePreparedRequest :: "ResolvedOperation \<Rightarrow> preparedRequest \<Rightarrow> string list" where
  "validatePreparedRequest ep req = uniqueStrings
     ((if EqualFold (TrimSpace (Method ep)) (TrimSpace (prMethod req)) then []
       else [''method mismatch: endpoint='' @ Method ep @ '' request='' @ prMethod req])
      @ validateRequiredParams (PathParams ep) (prPathParams req) ''path''
      @ validateRequiredParams (QueryParams ep) (prQueryParams req) ''query''
      @ validateRequiredHeaders (HeaderParams ep) (prHeaders req)
      @ body_issues (rqBodySchema (ApiRequest ep)) (prBodyInput req))"

definition responseSchemaForStatus :: "ResolvedOperation \<Rightarrow> int \<Rightarrow> any option" where
  "responseSchemaForStatus ep status =
     (case filter (\<lambda>r. rsStatus r = status) (rgSuccess (Responses ep))
         @ filter (\<lambda>r. rsStatus r = status) (rgErrors (Responses ep))
         @ filter (\<lambda>r. rsStatus r = 0) (rgSuccess (Responses ep))
         @ filter (\<lambda>r. rsStatus r = 0) (rgErrors (Responses ep)) of
        [] \<Rightarrow> None | r # rs \<Rightarrow> Some (rsBodySchema r))"

definition validateResponse :: "ResolvedOperation \<Rightarrow> int \<Rightarrow> any \<Rightarrow> string list" where
  "validateResponse ep status body = (case responseSchemaForStatus ep status of
     None \<Rightarrow> [''status '' @ Itoa status @ '' is not defined in operation responses'']
   | Some schema \<Rightarrow> if schema = ANil \<or> body = ANil then []
       else uniqueStrings (validateValueAgainstSchema body schema ''response.body''))"

section \<open>What expansion gives\<close>

text \<open>A template as a sequence of literal texts and parameters.\<close>

datatype segment = Lit string | Par string

fun segment_ok :: "segment \<Rightarrow> bool" where
  "segment_ok (Lit s) \<longleftrightarrow> list_all (\<lambda>c. \<not> brace c) s"
| "segment_ok (Par n) \<longleftrightarrow> n \<noteq> [] \<and> list_all (\<lambda>c. \<not> brace c) n"

fun segment_text :: "segment \<Rightarrow> string" where
  "segment_text (Lit s) = s"
| "segment_text (Par n) = [CHR 0x7B] @ n @ [CHR 0x7D]"

fun segment_out :: "strmap \<Rightarrow> segment \<Rightarrow> string" where
  "segment_out params (Lit s) = s"
| "segment_out params (Par n) = (case param_value params n of Some v \<Rightarrow> PathEscape v
     | None \<Rightarrow> segment_text (Par n))"

fun segment_missing :: "strmap \<Rightarrow> segment \<Rightarrow> string list" where
  "segment_missing params (Lit s) = []"
| "segment_missing params (Par n) = (if param_value params n = None then [TrimSpace n] else [])"

lemma param_segment_Par:
  "n \<noteq> [] \<Longrightarrow> list_all (\<lambda>c. \<not> brace c) n \<Longrightarrow> param_segment (CHR 0x7B # n @ CHR 0x7D # t) = Some (n, t)"
  by (simp add: param_segment_def list_all_iff takeWhile_append dropWhile_append brace_def Let_def)

lemma expand_Lit:
  "list_all (\<lambda>c. \<not> brace c) s \<Longrightarrow> expand_from params (s @ t) = (let (out, missing) = expand_from params t in (s @ out, missing))"
proof (induction s)
  case (Cons c s)
  have none: "param_segment (c # s @ t) = None" using Cons.prems by (simp add: param_segment_def brace_def Let_def)
  show ?case
    by (subst expand_from.simps) (use Cons none in \<open>simp add: case_prod_beta Let_def\<close>)
qed simp

lemma expand_segments:
  "list_all segment_ok segs \<Longrightarrow> expand_from params (concat (map segment_text segs))
     = (concat (map (segment_out params) segs), concat (map (segment_missing params) segs))"
proof (induction segs)
  case Nil
  show ?case by (simp add: expand_from.simps)
next
  case (Cons g segs)
  show ?case
  proof (cases g)
    case (Lit s)
    with Cons show ?thesis by (simp add: expand_Lit)
  next
    case (Par n)
    have split: "segment_text g @ concat (map segment_text segs) = CHR 0x7B # n @ CHR 0x7D # concat (map segment_text segs)"
      using Par by simp
    show ?thesis
      unfolding list.map concat.simps split
      by (subst expand_from.simps) (use Cons Par in \<open>simp add: param_segment_Par split: option.split\<close>)
  qed
qed

text \<open>
  Property C40: path expansion. A template written as literal texts and named parameters expands
  to the literals and the escaped values in place, and the reported missing names are exactly
  the parameters without a non-blank value, each once; a missing parameter leaves its segment.
\<close>

theorem expand_template:
  assumes "list_all segment_ok segs"
  shows "expandPathTemplate (concat (map segment_text segs)) params
     = (concat (map (segment_out params) segs), uniqueStrings (concat (map (segment_missing params) segs)))"
  using expand_segments [OF assms] by (simp add: expandPathTemplate_def)

lemma expand_template_witness:
  "expandPathTemplate ''/u/{id}/{k}'' [(''id'', ''a b'')] = (''/u/a%20b/{k}'', [''k''])"
proof -
  let ?segs = "[Lit ''/u/'', Par ''id'', Lit ''/'', Par ''k'']"
  have "list_all segment_ok ?segs" by (simp add: brace_def)
  from expand_template [OF this, of "[(''id'', ''a b'')]"]
  have "expandPathTemplate ''/u/{id}/{k}'' [(''id'', ''a b'')]
     = (concat (map (segment_out [(''id'', ''a b'')]) ?segs),
        uniqueStrings (concat (map (segment_missing [(''id'', ''a b'')]) ?segs)))" by simp
  also have "\<dots> = (''/u/a%20b/{k}'', [''k''])" by code_simp
  finally show ?thesis .
qed

text \<open>
  The escaping does not survive: \<open>buildTargetURL\<close> parses the expanded path, which decodes it, and
  clears the raw path, so a slash inside a parameter value ends up as a separator.
\<close>

lemma slash_escapes_segment:
  "buildTargetURL ''https://h/v1'' (fst (expandPathTemplate ''/users/{id}'' [(''id'', ''1/../admin'')])) [] False
     = Ok ''https://h/v1/users/1/../admin''"
  by code_simp

section \<open>What validation of a request decides\<close>

definition provided :: "strmap \<Rightarrow> string \<Rightarrow> bool" where
  "provided m k \<longleftrightarrow> (case map_of m k of None \<Rightarrow> False | Some v \<Rightarrow> TrimSpace v \<noteq> [])"

lemma required_params_blank:
  "blank_all (validateRequiredParams defs m location) \<longleftrightarrow> (\<forall>d \<in> set defs. paRequired d \<longrightarrow> provided m (paName d))"
proof -
  have "TrimSpace (''missing required '' @ location @ '' parameter '' @ q) \<noteq> []" for q
    by (rule not_blank [OF _ letter_not_space(3)]) simp
  then show ?thesis by (auto simp: validateRequiredParams_def provided_def split: option.splits)
qed

lemma required_headers_blank:
  "blank_all (validateRequiredHeaders defs m)
     \<longleftrightarrow> (\<forall>d \<in> set defs. paRequired d \<longrightarrow> provided (lower_headers m) (ToLower (TrimSpace (paName d))))"
proof -
  have "TrimSpace (''missing required header parameter '' @ q) \<noteq> []" for q
    by (rule not_blank [OF _ letter_not_space(3)]) simp
  then show ?thesis by (auto simp: validateRequiredHeaders_def provided_def split: option.splits)
qed

lemma body_issues_blank:
  "blank_all (body_issues schema body) \<longleftrightarrow> (if schema = ANil then body = ANil else body = ANil \<or> conforms body schema)"
proof -
  have "TrimSpace ''request body provided but operation does not define request body'' \<noteq> []"
    by (rule not_blank [OF _ letter_not_space(3)]) simp
  then show ?thesis by (simp add: body_issues_def blank_all_validated validate_iff_conforms)
qed

lemma request_valid_iff:
  "validatePreparedRequest ep req = [] \<longleftrightarrow>
     EqualFold (TrimSpace (Method ep)) (TrimSpace (prMethod req))
   \<and> (\<forall>d \<in> set (PathParams ep). paRequired d \<longrightarrow> provided (prPathParams req) (paName d))
   \<and> (\<forall>d \<in> set (QueryParams ep). paRequired d \<longrightarrow> provided (prQueryParams req) (paName d))
   \<and> (\<forall>d \<in> set (HeaderParams ep). paRequired d \<longrightarrow>
        provided (lower_headers (prHeaders req)) (ToLower (TrimSpace (paName d))))
   \<and> (if rqBodySchema (ApiRequest ep) = ANil then prBodyInput req = ANil
      else prBodyInput req = ANil \<or> conforms (prBodyInput req) (rqBodySchema (ApiRequest ep)))"
proof -
  have "TrimSpace (''method mismatch: endpoint='' @ p @ '' request='' @ q) \<noteq> []" for p q
    by (rule not_blank [OF _ letter_not_space(3)]) simp
  then have "blank_all (if c then [] else [''method mismatch: endpoint='' @ p @ '' request='' @ q]) \<longleftrightarrow> c" for c p q
    by simp
  then show ?thesis
    unfolding validatePreparedRequest_def uniqueStrings_Nil blank_all_append required_params_blank
      required_headers_blank body_issues_blank by (rule arg_cong2 [where f = conj]) simp
qed

text \<open>
  Property C24: what request validation decides. A prepared request has no issues exactly when its
  method is the operation's, every required path, query and header parameter has a non-blank
  value (headers by name without case), and its body conforms to the operation's schema; an
  operation without a body schema admits no body. A missing body is never an issue.
\<close>

theorem request_validation_decides:
  "validatePreparedRequest ep req = [] \<longleftrightarrow>
     EqualFold (TrimSpace (Method ep)) (TrimSpace (prMethod req))
   \<and> (\<forall>d \<in> set (PathParams ep). paRequired d \<longrightarrow> provided (prPathParams req) (paName d))
   \<and> (\<forall>d \<in> set (QueryParams ep). paRequired d \<longrightarrow> provided (prQueryParams req) (paName d))
   \<and> (\<forall>d \<in> set (HeaderParams ep). paRequired d \<longrightarrow>
        provided (lower_headers (prHeaders req)) (ToLower (TrimSpace (paName d))))
   \<and> (if rqBodySchema (ApiRequest ep) = ANil then prBodyInput req = ANil
      else prBodyInput req = ANil \<or> conforms (prBodyInput req) (rqBodySchema (ApiRequest ep)))"
  by (rule request_valid_iff)

definition sample_endpoint :: ResolvedOperation where
  "sample_endpoint = \<lparr>Method = ''POST'', BaseURL = ''https://api.example.com'', PathTemplate = ''/pets/{id}'',
     URLTemplate = ''https://api.example.com/pets/{id}'', ExampleURL = [], OperationID = ''addPet'', Summary = [],
     Description = [], Tags = [], Deprecated = False,
     PathParams = [\<lparr>paName = ''id'', paIn = ''path'', paRequired = True, paDescription = [], paSchema = ANil\<rparr>],
     QueryParams = [], HeaderParams = [], CookieParams = [],
     ApiRequest = \<lparr>rqContentTypes = [''application/json''],
       rqBodySchema = AMap [(''type'', AStr ''object''), (''required'', AStrs [''name''])], rqExamples = ANil\<rparr>,
     Responses = \<lparr>rgSuccess = [], rgErrors = []\<rparr>, Security = ANil, Servers = []\<rparr>"

definition sample_request :: preparedRequest where
  "sample_request = \<lparr>prOperationID = ''addPet'', prMethod = ''POST'', prPath = ''/pets/7'',
     prURL = ''https://api.example.com/pets/7'', prPathParams = [(''id'', ''7'')], prQueryParams = [], prHeaders = [],
     prContentType = ''application/json'', prBodyInput = AMap [(''name'', AStr ''rex'')], prBodyBytes = ''x''\<rparr>"

lemma sample_valid: "validatePreparedRequest sample_endpoint sample_request = []"
  by code_simp

lemma request_validation_decides_witness:
  "conforms (prBodyInput sample_request) (rqBodySchema (ApiRequest sample_endpoint))
   \<and> provided (prPathParams sample_request) ''id''"
  using iffD1 [OF request_validation_decides sample_valid]
  by (simp add: sample_endpoint_def sample_request_def)

text \<open>The URL of a request keeps scheme, user and host of the base; parameters reach only path and query.\<close>

lemma target_keeps_origin:
  assumes "buildTargetURL base path query False = Ok url"
  shows "\<exists>b u. parse_url (TrimSpace base) = Ok b \<and> url = show_url u \<and> Scheme u = Scheme b
    \<and> Userinfo u = Userinfo b \<and> URLHost u = URLHost b \<and> Opaque u = Opaque b"
  using assms by (auto simp: buildTargetURL_def target_on_def split: if_splits sum.splits url_error.splits)

end
