(* ===== verification/Correlation.thy ===== *)
theory Correlation
  imports GoPrelude "HOL-Library.Word"
begin

text \<open>
  Correlation identifiers (\<open>internal/correlation\<close>). The random bytes are an argument, None for a
  failed read of the random source.
\<close>

unbundle bit_operations_syntax

type_synonym byte = "8 word"

definition HeaderName :: "string \<Rightarrow> string" where
  "HeaderName configured = (if TrimSpace configured = [] then ''X-Correlation-Id'' else TrimSpace configured)"

text \<open>A context as its stored identifier; a blank one is not stored.\<close>

definition ContextWithID :: "string option \<Rightarrow> string \<Rightarrow> string option" where
  "ContextWithID ctx cid = (if TrimSpace cid = [] then ctx else Some (TrimSpace cid))"

definition IDFromContext :: "string option \<Rightarrow> string option" where
  "IDFromContext ctx = (case ctx of None \<Rightarrow> None
     | Some cid \<Rightarrow> if TrimSpace cid = [] then None else Some (TrimSpace cid))"

definition hex_byte :: "byte \<Rightarrow> string" where
  "hex_byte b = [hex_char (unat (drop_bit 4 b)), hex_char (unat (b AND 15))]"

definition hex_encode :: "byte list \<Rightarrow> string" where
  "hex_encode bs = concat (map hex_byte bs)"

definition randUint64 :: "byte list option \<Rightarrow> 64 word" where
  "randUint64 bytes = (case bytes of None \<Rightarrow> 0
     | Some bs \<Rightarrow> foldl (\<lambda>v b. push_bit 8 v OR ucast b) 0 bs)"

text \<open>The verb x on an unsigned number: no leading zeros.\<close>

fun hex_digits :: "nat \<Rightarrow> string" where
  "hex_digits n = (if n < 16 then [hex_char n] else hex_digits (n div 16) @ [hex_char (n mod 16)])"

declare hex_digits.simps [simp del]

definition fallbackID :: "byte list option \<Rightarrow> string" where
  "fallbackID bytes = ''cid-'' @ hex_digits (unat (randUint64 bytes))"

definition stamp :: "byte list \<Rightarrow> byte list" where
  "stamp bs = bs[6 := (bs ! 6 AND 0x0f) OR 0x40, 8 := (bs ! 8 AND 0x3f) OR 0x80]"

definition Generate :: "byte list option \<Rightarrow> byte list option \<Rightarrow> string" where
  "Generate bytes again = (case bytes of
     None \<Rightarrow> fallbackID again
   | Some bs \<Rightarrow> (let b = stamp bs in
       hex_encode (take 4 b) @ ''-'' @ hex_encode (take 2 (drop 4 b)) @ ''-'' @ hex_encode (take 2 (drop 6 b))
       @ ''-'' @ hex_encode (take 2 (drop 8 b)) @ ''-'' @ hex_encode (drop 10 b)))"

lemma length_hex_encode [simp]: "length (hex_encode bs) = 2 * length bs"
  by (induction bs) (simp_all add: hex_encode_def hex_byte_def)

text \<open>The version and variant nibbles of a stamped byte.\<close>

lemma stamped_version: "drop_bit 4 ((b AND 0x0f) OR 0x40 :: byte) = 4"
proof -
  have "drop_bit 4 (b AND 0x0f) = (0 :: byte)"
    by (rule bit_eqI) (auto simp: bit_simps)
  then show ?thesis by (simp add: drop_bit_or)
qed

lemma stamped_variant: "drop_bit 6 ((b AND 0x3f) OR 0x80 :: byte) = 2"
proof -
  have "drop_bit 6 (b AND 0x3f) = (0 :: byte)"
    by (rule bit_eqI) (auto simp: bit_simps)
  then show ?thesis by (simp add: drop_bit_or)
qed

lemma variant_nibble: "unat (drop_bit 4 ((b AND 0x3f) OR 0x80 :: byte)) \<in> {8, 9, 10, 11}"
proof -
  let ?x = "(b AND 0x3f) OR 0x80 :: byte"
  have "drop_bit 2 (drop_bit 4 ?x) = 2" using stamped_variant [of b] by simp
  then have "unat (drop_bit 2 (drop_bit 4 ?x)) = 2" by simp
  then have "unat (drop_bit 4 ?x) div 4 = 2" by (simp add: drop_bit_eq_div unat_div)
  then show ?thesis by auto
qed

lemma hex_four: "hex_char 4 = CHR ''4''" "hex_char 8 = CHR ''8''" "hex_char 9 = CHR ''9''"
  "hex_char 10 = CHR ''a''" "hex_char 11 = CHR ''b''"
  by code_simp+

lemma sixteen_bytes:
  assumes "length bs = 16"
  obtains b0 b1 b2 b3 b4 b5 b6 b7 b8 b9 b10 b11 b12 b13 b14 b15
    where "bs = [b0, b1, b2, b3, b4, b5, b6, b7, b8, b9, b10, b11, b12, b13, b14, b15]"
proof -
  have "bs = map (nth bs) [0..<16]" using assms by (metis map_nth)
  then show ?thesis using that by (simp add: upt_rec)
qed

text \<open>
  Identifiers generated from sixteen random bytes have the form of a version 4
  UUID: 36 characters, hyphens in the four places, the version digit 4 and a variant digit from
  8 to b, whatever the bytes.
\<close>

theorem generated_id_is_uuid:
  assumes "length bs = 16"
  shows "length (Generate (Some bs) again) = 36
    \<and> map (nth (Generate (Some bs) again)) [8, 13, 14, 18, 23] = ''--4--''
    \<and> Generate (Some bs) again ! 19 \<in> set ''89ab''"
proof -
  obtain b0 b1 b2 b3 b4 b5 b6 b7 b8 b9 b10 b11 b12 b13 b14 b15
    where bs: "bs = [b0, b1, b2, b3, b4, b5, b6, b7, b8, b9, b10, b11, b12, b13, b14, b15]"
    using sixteen_bytes [OF assms] by blast
  have v: "hex_char (unat (drop_bit 4 ((b6 AND 0x0f) OR 0x40))) = CHR ''4''"
    unfolding stamped_version by (simp add: hex_four)
  have w: "hex_char (unat (drop_bit 4 ((b8 AND 0x3f) OR 0x80))) \<in> set ''89ab''"
    using variant_nibble [of b8] by (auto simp: hex_four)
  show ?thesis
    using v w by (simp add: bs Generate_def stamp_def hex_encode_def hex_byte_def Let_def)
qed

lemma generated_id_is_uuid_witness: "length (Generate (Some (replicate 16 0xff)) None) = 36"
  using generated_id_is_uuid [of "replicate 16 0xff" None] by simp

end
