(* ===== verification/AuditLog.thy ===== *)
theory AuditLog
  imports ToolBody
begin

text \<open>
  The audit log (\<open>internal/audit/logger.go\<close>): what is written of a call, after redaction. The
  JSON codec is the argument \<open>c\<close>, the log sink is outside.

  A body in an entry is either a JSON value or a Go struct: the execute tool logs the response
  as its envelope struct, and the redaction looks into maps, lists and strings only.
\<close>

datatype body_value = JSONValue any | EnvelopeStruct responseBodyEnvelope

record Entry =
  enTimestamp :: time
  enPrincipal :: string
  enScopes :: "string list"
  enOperationID :: string
  enMethod :: string
  enURL :: string
  enCorrelationID :: string
  enRequestHeaders :: strmap
  enRequestBody :: body_value
  enResponseStatus :: int
  enResponseHeaders :: strmap
  enResponseBody :: body_value
  enDurationMs :: int
  enError :: string

record SlogLogger =
  lgEnabled :: bool
  lgHeaders :: "string set"
  lgFields :: "string set"

fun toLowerSet :: "string list \<Rightarrow> string set" where
  "toLowerSet [] = {}"
| "toLowerSet (i # is) = (let v = ToLower (TrimSpace i) in
     if v = [] then toLowerSet is else insert v (toLowerSet is))"

definition NewLogger :: "bool \<Rightarrow> string list \<Rightarrow> string list \<Rightarrow> SlogLogger" where
  "NewLogger enabled headers names =
     \<lparr>lgEnabled = enabled, lgHeaders = toLowerSet headers, lgFields = toLowerSet names\<rparr>"

section \<open>Redaction\<close>

definition redacted_text :: string where
  "redacted_text = ''[REDACTED]''"

definition key_in :: "string set \<Rightarrow> string \<Rightarrow> bool" where
  "key_in S key \<longleftrightarrow> ToLower (TrimSpace key) \<in> S"

definition redactHeaders :: "strmap \<Rightarrow> string set \<Rightarrow> strmap" where
  "redactHeaders headers S = map (\<lambda>(k, v). (k, if key_in S k then redacted_text else v)) headers"

definition sensitive :: "string \<Rightarrow> bool" where
  "sensitive key = (let l = ToLower (TrimSpace key) in
     Contains l ''token'' \<or> Contains l ''secret'' \<or> Contains l ''key'' \<or> Contains l ''password'')"

definition redact_query :: "url_values \<Rightarrow> url_values" where
  "redact_query q = map (\<lambda>(k, vs). (k, if sensitive k then [redacted_text] else vs)) q"

definition sanitized :: "URL \<Rightarrow> URL" where
  "sanitized u = (let u = u\<lparr>Userinfo := None\<rparr> in
     if RawQuery u \<noteq> [] then u\<lparr>RawQuery := Encode (redact_query (Query u))\<rparr> else u)"

definition sanitizeURL :: "string \<Rightarrow> string" where
  "sanitizeURL rawURL = (let raw = TrimSpace rawURL in
     if raw = [] then raw else (case parse_url raw of Err e \<Rightarrow> raw | Ok u \<Rightarrow> show_url (sanitized u)))"

text \<open>
  \<open>cloneAny\<close> of this package turns string maps into general ones. A string that looks like JSON
  is decoded, redacted and encoded again; \<open>n\<close> bounds how many times a text can be unpacked
  from inside a text.
\<close>

fun clone_audit :: "any \<Rightarrow> any" where
  "clone_audit (AMap kvs) = AMap (map (\<lambda>(k, v). (k, clone_audit v)) kvs)"
| "clone_audit (AList vs) = AList (map clone_audit vs)"
| "clone_audit (AStrMap kvs) = AMap (map (\<lambda>(k, s). (k, AStr s)) kvs)"
| "clone_audit v = v"

definition json_start :: "string \<Rightarrow> bool" where
  "json_start s = (case TrimSpace s of [] \<Rightarrow> False | c # t \<Rightarrow> c = CHR 0x7B \<or> c = CHR ''['')"

function redactNode :: "codec \<Rightarrow> string set \<Rightarrow> nat \<Rightarrow> any \<Rightarrow> any" where
  "redactNode c F n (AMap kvs) =
     AMap (map (\<lambda>(k, v). (k, if key_in F k then AStr redacted_text else redactNode c F n v)) kvs)"
| "redactNode c F n (AList vs) = AList (map (redactNode c F n) vs)"
| "redactNode c F n (AStr s) =
     (if \<not> json_start s then AStr s
      else (case n of 0 \<Rightarrow> AStr s
        | Suc m \<Rightarrow> (case unmarshal c s of
            Err e \<Rightarrow> AStr s
          | Ok parsed \<Rightarrow> (case marshal c (redactNode c F m parsed) of Ok payload \<Rightarrow> AStr payload | Err e \<Rightarrow> AStr s))))"
| "redactNode c F n ANil = ANil"
| "redactNode c F n (ABool b) = ABool b"
| "redactNode c F n (AFloat f) = AFloat f"
| "redactNode c F n (AInt i) = AInt i"
| "redactNode c F n (AUint u) = AUint u"
| "redactNode c F n (ANumber s) = ANumber s"
| "redactNode c F n (AStrs ss) = AStrs ss"
| "redactNode c F n (ABytes s) = ABytes s"
| "redactNode c F n (AStrMap m) = AStrMap m"
  by pat_completeness auto

lemma size_field [termination_simp]: "(k, v) \<in> set kvs \<Longrightarrow> size v < Suc (size_list (size_prod (\<lambda>x. 0) size) kvs)"
  by (induction kvs) auto

termination redactNode
  by (relation "(\<lambda>(c, F, n, v). n) <*mlex*> measure (\<lambda>(c, F, n, v). size v)")
     (auto simp: mlex_iff wf_mlex size_field intro: size_list_estimation' le_imp_less_Suc)

definition redactJSON :: "codec \<Rightarrow> string set \<Rightarrow> nat \<Rightarrow> body_value \<Rightarrow> body_value" where
  "redactJSON c F n b = (case b of
     JSONValue v \<Rightarrow> if v = ANil then JSONValue ANil else JSONValue (redactNode c F n (clone_audit v))
   | EnvelopeStruct e \<Rightarrow> EnvelopeStruct e)"

definition LogCall :: "codec \<Rightarrow> nat \<Rightarrow> SlogLogger option \<Rightarrow> Entry \<Rightarrow> Entry option" where
  "LogCall c n l entry = (case l of
     None \<Rightarrow> None
   | Some l \<Rightarrow>
      if \<not> lgEnabled l then None
      else Some (entry\<lparr>enURL := sanitizeURL (enURL entry),
        enRequestHeaders := redactHeaders (enRequestHeaders entry) (lgHeaders l),
        enRequestBody := redactJSON c (lgFields l) n (enRequestBody entry),
        enResponseHeaders := redactHeaders (enResponseHeaders entry) (lgHeaders l),
        enResponseBody := redactJSON c (lgFields l) n (enResponseBody entry)\<rparr>))"

section \<open>What redaction guarantees\<close>

text \<open>A field is exposed when it is under a redacted key, at any depth, with its own value.\<close>

fun exposed :: "string set \<Rightarrow> any \<Rightarrow> bool" where
  "exposed F (AMap kvs) \<longleftrightarrow> (\<exists>kv \<in> set kvs. (if key_in F (fst kv) then snd kv \<noteq> AStr redacted_text else exposed F (snd kv)))"
| "exposed F (AList vs) \<longleftrightarrow> (\<exists>v \<in> set vs. exposed F v)"
| "exposed F (AStrMap kvs) \<longleftrightarrow> (\<exists>kv \<in> set kvs. key_in F (fst kv) \<and> snd kv \<noteq> redacted_text)"
| "exposed F v \<longleftrightarrow> False"

fun no_strmap :: "any \<Rightarrow> bool" where
  "no_strmap (AMap kvs) \<longleftrightarrow> (\<forall>kv \<in> set kvs. no_strmap (snd kv))"
| "no_strmap (AList vs) \<longleftrightarrow> (\<forall>v \<in> set vs. no_strmap v)"
| "no_strmap (AStrMap kvs) \<longleftrightarrow> False"
| "no_strmap v \<longleftrightarrow> True"

lemma clone_no_strmap: "no_strmap (clone_audit v)"
  by (induction v) auto

lemma redacted_not_exposed: "no_strmap v \<Longrightarrow> \<not> exposed F (redactNode c F n v)"
proof (induction c F n v rule: redactNode.induct)
  case (1 c F n kvs)
  have IH: "key_in F k \<or> \<not> exposed F (redactNode c F n v)" if "(k, v) \<in> set kvs" for k v
    using "1.IH" [OF that refl] "1.prems" that by fastforce
  show ?case by (auto dest: IH)
next
  case (3 c F n s)
  show ?case by (auto split: nat.split sum.split)
qed auto

text \<open>
  The bound \<open>n\<close> is enough when it is the length of the longest text: a text inside a JSON text is
  shorter than that text, so deeper unpacking cannot happen. The hypothesis is what JSON does.
\<close>

fun texts :: "any \<Rightarrow> string set" where
  "texts (AStr s) = {s}"
| "texts (AMap kvs) = (\<Union>kv \<in> set kvs. texts (snd kv))"
| "texts (AList vs) = (\<Union>v \<in> set vs. texts v)"
| "texts v = {}"

definition shortening :: "codec \<Rightarrow> bool" where
  "shortening c \<longleftrightarrow> (\<forall>s v t. unmarshal c s = Ok v \<longrightarrow> t \<in> texts v \<longrightarrow> length t < length s)"

lemma redactNode_enough:
  "shortening c \<Longrightarrow> \<forall>t \<in> texts v. length t \<le> n \<Longrightarrow> redactNode c F (n + k) v = redactNode c F n v"
proof (induction c F n v rule: redactNode.induct [case_names Map List Str])
  case (Map c F n kvs)
  have "redactNode c F (n + k) v = redactNode c F n v" if "(x, v) \<in> set kvs" "\<not> key_in F x" for x v
    using Map.IH [OF that(1) refl that(2)] Map.prems that(1) by fastforce
  then show ?case by auto
next
  case (Str c F n s)
  show ?case
  proof (cases n)
    case 0
    with Str show ?thesis by (simp add: json_start_def)
  next
    case (Suc m)
    have "redactNode c F (m + k) parsed = redactNode c F m parsed" if "json_start s" "unmarshal c s = Ok parsed" for parsed
    proof -
      have "\<forall>t \<in> texts parsed. length t \<le> m"
        using Str.prems that(2) Suc by (fastforce simp: shortening_def)
      then show ?thesis using Str.IH [of m parsed] Str.prems(1) Suc that by simp
    qed
    with Suc show ?thesis by (auto split: sum.split)
  qed
qed auto


definition no_codec :: codec where
  "no_codec = \<lparr>marshal = (\<lambda>v. Ok ''null''), unmarshal = (\<lambda>s. Err ''no'')\<rparr>"

definition demo_entry :: Entry where
  "demo_entry = \<lparr>enTimestamp = Time 0, enPrincipal = [], enScopes = [], enOperationID = ''op'', enMethod = ''GET'',
     enURL = ''https://u:p@h/x?access_token=abc'', enCorrelationID = [], enRequestHeaders = [(''Authorization'', ''Bearer x'')],
     enRequestBody = JSONValue (AMap [(''a'', AList [AMap [(''Password'', AStr ''pw'')]])]), enResponseStatus = 200,
     enResponseHeaders = [], enResponseBody = JSONValue ANil, enDurationMs = 1, enError = []\<rparr>"


text \<open>A response body logged as its envelope struct passes through unredacted.\<close>

lemma envelope_not_redacted: "redactJSON c F n (EnvelopeStruct b) = EnvelopeStruct b"
  by (simp add: redactJSON_def)

end
