(* ===== verification/ToolExecute.thy ===== *)
theory ToolExecute
  imports ToolRequest AuditLog Correlation Policy Confirmation AuthClaims
begin

text \<open>
  The tool that makes real calls (\<open>internal/tool/swagger_execute.go\<close>), stage by stage in the
  order of the code. A stage either fails with a code, a message and details, or hands a value
  to the next one; the audit entry, the confirmation store, the requests handed to the HTTP
  client and the metrics are the state it threads. The store, the policy, the credentials and
  the HTTP client are interfaces in the code and arguments here.
\<close>

datatype doer_error = DoURLBlocked string | DoTooLarge string | DoRateLimited string | DoTimeout string | DoNetwork string

datatype metric = IncInflight | DecInflight | ObserveDuration | IncError string | IncRateLimited
  | IncTotal string string int

record SwaggerExecuteOptions =
  eoMode :: string
  eoUpstreamBaseURL :: string
  eoSandboxBaseURL :: string
  eoValidateRequest :: bool
  eoValidateResponse :: bool
  eoMaxRequestBytes :: int
  eoMaxResponseBytes :: int
  eoUserAgent :: string
  eoCorrelationIDHeader :: string
  eoValidateURL :: "(string \<Rightarrow> string option) option"

record SwaggerExecuteTool =
  exStore :: "(string \<Rightarrow> (swagger_error, ResolvedOperation) result) option"
  exPolicy :: "string \<Rightarrow> string \<Rightarrow> string \<Rightarrow> (string, Decision) result"
  exApply :: "HttpRequest \<Rightarrow> (string, HttpRequest) result"
  exDoer :: "(string \<Rightarrow> HttpRequest \<Rightarrow> (doer_error, HttpResponse) result) option"
  exOptions :: SwaggerExecuteOptions
  exCodec :: codec

record call_context =
  ccPrincipal :: "Principal option"
  ccCorrelation :: "string option"
  ccFresh :: string
  ccStarted :: time
  ccElapsed :: int
  ccNow :: "time \<times> time"

record call_state =
  csEntry :: Entry
  csConfirmations :: "MemoryStore option"
  csSent :: "HttpRequest list"
  csMetrics :: "metric list"

type_synonym failure = "string \<times> string \<times> any"
type_synonym 'a step = "call_state \<Rightarrow> (failure, 'a) result \<times> call_state"

definition andThen :: "'a step \<Rightarrow> ('a \<Rightarrow> 'b step) \<Rightarrow> 'b step" where
  "andThen f g s = (case f s of (Err e, s') \<Rightarrow> (Err e, s') | (Ok a, s') \<Rightarrow> g a s')"

definition fail :: "string \<Rightarrow> string \<Rightarrow> any \<Rightarrow> 'a step" where
  "fail code message details s = (Err (code, message, details), s)"

definition give :: "'a \<Rightarrow> 'a step" where
  "give a s = (Ok a, s)"

section \<open>Helpers\<close>

definition firstHeaderValue :: "strmap \<Rightarrow> string \<Rightarrow> string" where
  "firstHeaderValue headers name = (case findHeader headers name of Some v \<Rightarrow> TrimSpace v | None \<Rightarrow> [])"

definition base_from_template :: "ResolvedOperation \<Rightarrow> (string, string) result" where
  "base_from_template ep =
     (if TrimSpace (URLTemplate ep) = [] then Err ''no base URL''
      else (case parse_url (TrimSpace (URLTemplate ep)) of
          Err e \<Rightarrow> Err ''no base URL''
        | Ok u \<Rightarrow>
            if Scheme u = [] \<or> URLHost u = [] then Err ''no base URL''
            else Ok (Scheme u @ ''://'' @ URLHost u
              @ (if Path u \<noteq> [] \<and> HasSuffix (Path u) (PathTemplate ep)
                 then TrimSuffix (TrimSuffix (Path u) (PathTemplate ep)) ''/'' else []))))"

definition resolveBaseURL :: "SwaggerExecuteOptions \<Rightarrow> ResolvedOperation \<Rightarrow> (string, string) result" where
  "resolveBaseURL opts ep =
     (if ToLower (TrimSpace (eoMode opts)) = ModeSandbox
      then (let base = TrimSpace (eoSandboxBaseURL opts) in
        if base = [] then Err ''sandbox mode requires UPSTREAM_SANDBOX_BASE_URL'' else Ok base)
      else if TrimSpace (eoUpstreamBaseURL opts) \<noteq> [] then Ok (TrimSpace (eoUpstreamBaseURL opts))
      else (case filter (\<lambda>s. s \<noteq> []) (map TrimSpace (take 1 (Servers ep))) of
          server # rest \<Rightarrow> Ok server
        | [] \<Rightarrow> if TrimSpace (BaseURL ep) \<noteq> [] then Ok (TrimSpace (BaseURL ep)) else base_from_template ep))"

definition url_blocked :: "SwaggerExecuteOptions \<Rightarrow> string \<Rightarrow> string option" where
  "url_blocked opts url = (case eoValidateURL opts of None \<Rightarrow> None | Some v \<Rightarrow> v url)"

definition op_detail :: "string \<Rightarrow> any" where
  "op_detail opID = AMap [(''operationId'', AStr opID)]"

definition call_detail :: "preparedRequest \<Rightarrow> (string \<times> any) list \<Rightarrow> any" where
  "call_detail p extra = AMap ([(''operationId'', AStr (prOperationID p)), (''method'', AStr (prMethod p)),
     (''finalURL'', AStr (prURL p))] @ extra)"

section \<open>The stages\<close>

definition find_endpoint :: "SwaggerExecuteTool \<Rightarrow> any \<Rightarrow> (executeInput \<times> ResolvedOperation) step" where
  "find_endpoint t input = (case exStore t of
     None \<Rightarrow> fail ''invalid_request'' ''swagger store is not configured'' ANil
   | Some lookup \<Rightarrow>
      (case exDoer t of None \<Rightarrow> fail ''upstream_error'' ''HTTP client is not configured'' ANil
       | Some doer \<Rightarrow> (case parseExecuteInput input of
          Err e \<Rightarrow> fail ''invalid_request'' e ANil
        | Ok inp \<Rightarrow> (case lookup (exOperationID inp) of
            Err e \<Rightarrow> fail ''invalid_request'' ''operationId is not found in swagger'' (op_detail (exOperationID inp))
          | Ok ep \<Rightarrow> give (inp, ep)))))"

definition choose_base :: "SwaggerExecuteTool \<Rightarrow> executeInput \<Rightarrow> ResolvedOperation \<Rightarrow> string step" where
  "choose_base t inp ep = (case resolveBaseURL (exOptions t) ep of
     Err e \<Rightarrow> fail ''no_base_url'' e (op_detail (exOperationID inp))
   | Ok base \<Rightarrow> (case url_blocked (exOptions t) base of
       Some e \<Rightarrow> fail ''policy_denied'' ''base URL blocked by security policy''
         (AMap [(''operationId'', AStr (exOperationID inp)), (''baseURL'', AStr base), (''error'', AStr e)])
     | None \<Rightarrow> give base))"

definition execute_options :: "SwaggerExecuteOptions \<Rightarrow> string \<Rightarrow> prepareOptions" where
  "execute_options opts base = \<lparr>poBaseURL = base, poAllowNoBase = False, poMaxBodyBytes = eoMaxRequestBytes opts,
     poDefaultAgent = eoUserAgent opts, poDefaultAccept = ''application/json''\<rparr>"

definition build_call :: "SwaggerExecuteTool \<Rightarrow> executeInput \<Rightarrow> ResolvedOperation \<Rightarrow> string \<Rightarrow> preparedRequest step" where
  "build_call t inp ep base =
     (case prepareEndpointRequest (exCodec t) ep (inp\<lparr>exBaseURL := base\<rparr>) (execute_options (exOptions t) base) of
        Err e \<Rightarrow> if e = ''no base URL'' then fail ''no_base_url'' e (op_detail (exOperationID inp))
                 else fail ''invalid_request'' e ANil
      | Ok p \<Rightarrow> give p)"

definition correlation_header :: "SwaggerExecuteOptions \<Rightarrow> string" where
  "correlation_header opts = canonical_name (HeaderName (eoCorrelationIDHeader opts))"

text \<open>Give the call its correlation identifier and open its audit entry.\<close>

definition correlate :: "SwaggerExecuteTool \<Rightarrow> call_context \<Rightarrow> preparedRequest \<Rightarrow> preparedRequest step" where
  "correlate t ctx p s =
     (let header = correlation_header (exOptions t); given = firstHeaderValue (prHeaders p) header;
          cid = (if given \<noteq> [] then given
                 else (case IDFromContext (ccCorrelation ctx) of Some i \<Rightarrow> i | None \<Rightarrow> ccFresh ctx));
          p = (if given \<noteq> [] then p else p\<lparr>prHeaders := map_set header cid (prHeaders p)\<rparr>) in
      (Ok p, s\<lparr>csEntry := (csEntry s)\<lparr>enOperationID := prOperationID p, enMethod := prMethod p, enURL := prURL p,
         enCorrelationID := cid, enRequestHeaders := copyStringMap (prHeaders p),
         enRequestBody := JSONValue (prBodyInput p)\<rparr>\<rparr>))"

definition check_url :: "SwaggerExecuteTool \<Rightarrow> preparedRequest \<Rightarrow> unit step" where
  "check_url t p = (case url_blocked (exOptions t) (prURL p) of
     Some e \<Rightarrow> fail ''policy_denied'' ''request URL blocked by security policy'' (call_detail p [(''error'', AStr e)])
   | None \<Rightarrow> give ())"

definition retry_hint :: string where
  "retry_hint = ''call policy.request_confirmation then policy.confirm then retry swagger.http.execute with confirmationId''"

definition fresh_hint :: string where
  "fresh_hint = ''request and approve a fresh confirmation via policy.request_confirmation + policy.confirm''"

definition confirm_error_text :: "confirm_error \<Rightarrow> string" where
  "confirm_error_text e = (case e of
     Confirmation.ErrNotFound \<Rightarrow> ''confirmation not found'' | ErrExpired \<Rightarrow> ''confirmation expired''
   | ErrNotApproved \<Rightarrow> ''confirmation not approved'' | ErrConsumed \<Rightarrow> ''confirmation already consumed''
   | ErrMismatch \<Rightarrow> ''confirmation request mismatch'' | ErrRandom m \<Rightarrow> m)"

definition confirmation_input :: "preparedRequest \<Rightarrow> string \<Rightarrow> any" where
  "confirmation_input p reason = AMap [(''operationId'', AStr (prOperationID p)), (''reason'', AStr reason),
     (''preparedRequestSummary'', AMap [(''operationId'', AStr (prOperationID p)), (''method'', AStr (prMethod p)),
        (''finalURL'', AStr (prURL p)), (''headers'', AStrMap (prHeaders p)),
        (''queryParams'', AStrMap (prQueryParams p)), (''pathParams'', AStrMap (prPathParams p))])]"

definition check_of :: "preparedRequest \<Rightarrow> Check" where
  "check_of p = \<lparr>chkOperationID = prOperationID p, chkMethod = prMethod p, chkFinalURL = prURL p\<rparr>"

definition use_confirmation :: "call_context \<Rightarrow> executeInput \<Rightarrow> preparedRequest \<Rightarrow> string \<Rightarrow> unit step" where
  "use_confirmation ctx inp p reason s =
     (case csConfirmations s of
        None \<Rightarrow> fail ''confirmation_required'' reason
        (call_detail p [(''reason'', AStr reason), (''recommended_action'', AStr retry_hint)]) s
      | Some store0 \<Rightarrow> if TrimSpace (exConfirmationID inp) = []
      then fail ''confirmation_required'' reason
        (call_detail p [(''reason'', AStr reason), (''recommended_action'', AStr retry_hint),
           (''next_tool'', AStr ''policy.request_confirmation''), (''suggested_input'', confirmation_input p reason)]) s
      else (case ConsumeApproved (fst (ccNow ctx)) (snd (ccNow ctx)) (TrimSpace (exConfirmationID inp)) (check_of p)
              (Some store0) of
          (Ok r, store) \<Rightarrow> (Ok (), s\<lparr>csConfirmations := store\<rparr>)
        | (Err e, store) \<Rightarrow>
            fail ''confirmation_required''
              ''confirmation is missing, not approved, expired, already used, or mismatched''
              (call_detail p [(''confirmationId'', AStr (TrimSpace (exConfirmationID inp))), (''reason'', AStr reason),
                (''error'', AStr (confirm_error_text e)), (''recommended_action'', AStr fresh_hint)])
              (s\<lparr>csConfirmations := store\<rparr>)))"

definition denial_code :: "Decision \<Rightarrow> string" where
  "denial_code d = (if TrimSpace (Code d) = [] then ''policy_denied'' else TrimSpace (Code d))"

definition denial_detail :: "preparedRequest \<Rightarrow> Decision \<Rightarrow> any" where
  "denial_detail p d = AMap ([(''operationId'', AStr (prOperationID p)), (''method'', AStr (prMethod p)),
     (''url'', AStr (prURL p)), (''reason'', AStr (Reason d))]
     @ (if denial_code d = ''plan_only'' then [(''recommended_action'',
          AStr ''switch MCP_API_MODE to execute_readonly|execute_write|sandbox'')] else []))"

definition authorize :: "SwaggerExecuteTool \<Rightarrow> call_context \<Rightarrow> executeInput \<Rightarrow> preparedRequest \<Rightarrow> unit step" where
  "authorize t ctx inp p = (case exPolicy t (prOperationID p) (prMethod p) (prURL p) of
     Err e \<Rightarrow> fail ''policy_denied'' e ANil
   | Ok d \<Rightarrow>
      if Allow d then give ()
      else if RequireConfirmation d \<or> denial_code d = ''confirmation_required''
      then use_confirmation ctx inp p (Reason d)
      else fail (denial_code d) (Reason d) (denial_detail p d))"

definition check_schema :: "SwaggerExecuteTool \<Rightarrow> ResolvedOperation \<Rightarrow> preparedRequest \<Rightarrow> unit step" where
  "check_schema t ep p =
     (if eoValidateRequest (exOptions t) \<and> validatePreparedRequest ep p \<noteq> []
      then fail ''invalid_request'' ''request does not match swagger schema''
        (AMap [(''errors'', AStrs (validatePreparedRequest ep p))])
      else give ())"

definition limiter_key :: "call_context \<Rightarrow> string" where
  "limiter_key ctx = (case ccPrincipal ctx of
     Some pr \<Rightarrow> if TrimSpace (Subject pr) \<noteq> [] then TrimSpace (Subject pr) else ''anonymous''
   | None \<Rightarrow> ''anonymous'')"

definition base_request :: "preparedRequest \<Rightarrow> (string, HttpRequest) result" where
  "base_request p =
     (if prMethod p = [] \<or> \<not> list_all is_token_char (prMethod p)
      then Err (''net/http: invalid method '' @ quote (prMethod p))
      else (case NewRequest (prMethod p) (prURL p) (prBodyBytes p) of
          Err e \<Rightarrow> Err e | Ok r \<Rightarrow> Ok (fold (\<lambda>(k, v). set_header k v) (prHeaders p) r)))"

definition send_failure :: "preparedRequest \<Rightarrow> doer_error \<Rightarrow> 'a step" where
  "send_failure p e s = (case e of
     DoURLBlocked m \<Rightarrow> fail ''policy_denied'' ''request URL blocked by security policy''
        (call_detail p [(''error'', AStr m)]) s
   | DoTooLarge m \<Rightarrow> fail ''invalid_request'' m ANil s
   | DoRateLimited m \<Rightarrow> fail ''rate_limited'' ''request exceeded configured rate limit'' (call_detail p [])
        (s\<lparr>csMetrics := csMetrics s @ [IncRateLimited]\<rparr>)
   | DoTimeout m \<Rightarrow> fail ''timeout'' m ANil s
   | DoNetwork m \<Rightarrow> fail ''network_error'' m ANil s)"

definition send :: "SwaggerExecuteTool \<Rightarrow> call_context \<Rightarrow> preparedRequest \<Rightarrow> HttpResponse step" where
  "send t ctx p s = (case base_request p of
     Err e \<Rightarrow> fail ''invalid_request'' e ANil s
   | Ok r \<Rightarrow> (case exApply t r of
       Err e \<Rightarrow> fail ''upstream_error'' ''failed to apply upstream auth'' (AMap [(''error'', AStr e)]) s
     | Ok r' \<Rightarrow>
        (let s' = s\<lparr>csSent := csSent s @ [r']\<rparr> in
         case exDoer t of
           None \<Rightarrow> fail ''upstream_error'' ''HTTP client is not configured'' ANil s
         | Some doer \<Rightarrow> (case doer (limiter_key ctx) r' of
             Err e \<Rightarrow> send_failure p e s' | Ok resp \<Rightarrow> (Ok resp, s')))))"

definition validation_report :: "ResolvedOperation \<Rightarrow> codec \<Rightarrow> int \<Rightarrow> any \<Rightarrow> any" where
  "validation_report ep c status body =
     (let issues = validateResponse ep status (bodyForValidation c body) in
      AMap [(''valid'', ABool (issues = [])), (''errors'', AStrs issues)])"

definition response_limit_of :: "SwaggerExecuteOptions \<Rightarrow> int" where
  "response_limit_of opts = (if eoMaxResponseBytes opts \<le> 0 then 2 * 1024 * 1024 else eoMaxResponseBytes opts)"

definition respond :: "SwaggerExecuteTool \<Rightarrow> call_context \<Rightarrow> ResolvedOperation \<Rightarrow> preparedRequest \<Rightarrow> HttpResponse \<Rightarrow> any step" where
  "respond t ctx ep p resp s =
     (let s = s\<lparr>csEntry := (csEntry s)\<lparr>enResponseStatus := StatusCode resp,
            enResponseHeaders := flattenHTTPHeaders (rsHeader resp)\<rparr>\<rparr>;
          limit = response_limit_of (exOptions t) in
      case readResponseBodyLimited (rsBody resp) limit of
        Err e \<Rightarrow> fail ''upstream_error'' e ANil s
      | Ok (payload, truncated) \<Rightarrow>
         (let decoded = decodeResponseBody (exCodec t) (header_get ''Content-Type'' (rsHeader resp)) payload in
          (Ok (AMap ([(''operationId'', AStr (prOperationID p)), (''method'', AStr (prMethod p)),
              (''finalURL'', AStr (prURL p)), (''status'', AInt (StatusCode resp)),
              (''headers'', AStrMap (flattenHTTPHeaders (rsHeader resp))),
              (''contentType'', AStr (rbContentType decoded)), (''bodyEncoding'', AStr (rbBodyEncoding decoded)),
              (''body'', rbBody decoded), (''durationMs'', AInt (ccElapsed ctx))]
            @ (if truncated then [(''responseTruncated'', ABool True), (''warnings'', AStrs
                 [''response body exceeded MAX_RESPONSE_BYTES='' @ Itoa limit @ '' and was truncated''])] else [])
            @ (if eoValidateResponse (exOptions t)
               then [(''responseValidation'', validation_report ep (exCodec t) (StatusCode resp) (rbBody decoded))]
               else []))),
           s\<lparr>csEntry := (csEntry s)\<lparr>enResponseBody := EnvelopeStruct decoded\<rparr>,
             csMetrics := csMetrics s @ [IncTotal (prOperationID p) (prMethod p) (StatusCode resp)]\<rparr>)))"

section \<open>The whole call\<close>

definition run_call :: "SwaggerExecuteTool \<Rightarrow> call_context \<Rightarrow> any \<Rightarrow> any step" where
  "run_call t ctx input =
     andThen (find_endpoint t input) (\<lambda>(inp, ep).
     andThen (choose_base t inp ep) (\<lambda>base.
     andThen (build_call t inp ep base) (\<lambda>p0.
     andThen (correlate t ctx p0) (\<lambda>p.
     andThen (check_url t p) (\<lambda>u.
     andThen (authorize t ctx inp p) (\<lambda>u.
     andThen (check_schema t ep p) (\<lambda>u.
     andThen (send t ctx p) (\<lambda>resp.
     respond t ctx ep p resp))))))))"

definition first_entry :: "call_context \<Rightarrow> Entry" where
  "first_entry ctx = \<lparr>enTimestamp = ccStarted ctx,
     enPrincipal = (case ccPrincipal ctx of Some pr \<Rightarrow> Subject pr | None \<Rightarrow> []),
     enScopes = (case ccPrincipal ctx of Some pr \<Rightarrow> Scopes pr | None \<Rightarrow> []),
     enOperationID = [], enMethod = [], enURL = [], enCorrelationID = [], enRequestHeaders = [],
     enRequestBody = JSONValue ANil, enResponseStatus = 0, enResponseHeaders = [], enResponseBody = JSONValue ANil,
     enDurationMs = 0, enError = []\<rparr>"

text \<open>
  Every call, failed or not, writes one audit entry and counts itself in and out; the result
  is a value, never an error.
\<close>

definition Execute :: "SwaggerExecuteTool \<Rightarrow> call_context \<Rightarrow> any \<Rightarrow> MemoryStore option
    \<Rightarrow> any \<times> Entry \<times> call_state" where
  "Execute t ctx input store =
     (case run_call t ctx input \<lparr>csEntry = first_entry ctx, csConfirmations = store, csSent = [],
         csMetrics = [IncInflight]\<rparr> of
        (Ok v, s) \<Rightarrow> (okResult v, (csEntry s)\<lparr>enDurationMs := ccElapsed ctx\<rparr>,
           s\<lparr>csMetrics := csMetrics s @ [ObserveDuration, DecInflight]\<rparr>)
      | (Err (code, message, details), s) \<Rightarrow> (errorResult code message details,
           (csEntry s)\<lparr>enDurationMs := ccElapsed ctx, enError := code @ '': '' @ message\<rparr>,
           s\<lparr>csMetrics := csMetrics s @ [IncError code, ObserveDuration, DecInflight]\<rparr>))"

section \<open>Reasoning stage by stage\<close>

text \<open>A stage that does not touch what has been sent, and one that leaves the confirmations alone.\<close>

definition quiet :: "'a step \<Rightarrow> bool" where
  "quiet f \<longleftrightarrow> (\<forall>s. csSent (snd (f s)) = csSent s)"

definition spares :: "'a step \<Rightarrow> bool" where
  "spares f \<longleftrightarrow> (\<forall>s. csConfirmations (snd (f s)) = csConfirmations s)"

named_theorems stage "stages that send nothing or spare the confirmations"

lemma quiet_fail [stage]: "quiet (fail code m d)" "spares (fail code m d)"
  by (simp_all add: quiet_def spares_def fail_def)

lemma quiet_give [stage]: "quiet (give a)" "spares (give a)"
  by (simp_all add: quiet_def spares_def give_def)

lemma quiet_find_endpoint [stage]: "quiet (find_endpoint t input)" "spares (find_endpoint t input)"
  by (simp_all add: find_endpoint_def stage split: option.split sum.split)

lemma quiet_choose_base [stage]: "quiet (choose_base t inp ep)" "spares (choose_base t inp ep)"
  by (simp_all add: choose_base_def stage split: option.split sum.split)

lemma quiet_build_call [stage]: "quiet (build_call t inp ep base)" "spares (build_call t inp ep base)"
  by (simp_all add: build_call_def stage split: sum.split)

lemma quiet_correlate [stage]: "quiet (correlate t ctx p)" "spares (correlate t ctx p)"
  by (simp_all add: quiet_def spares_def correlate_def Let_def)

lemma quiet_check_url [stage]: "quiet (check_url t p)" "spares (check_url t p)"
  by (simp_all add: check_url_def stage split: option.split)

lemma quiet_use_confirmation [stage]: "quiet (use_confirmation ctx inp p reason)"
  by (simp add: quiet_def use_confirmation_def fail_def split: option.split prod.split sum.split)

lemma quiet_authorize [stage]: "quiet (authorize t ctx inp p)"
  by (simp add: authorize_def stage split: sum.split)

lemma quiet_check_schema [stage]: "quiet (check_schema t ep p)" "spares (check_schema t ep p)"
  by (simp_all add: check_schema_def stage)

lemma quiet_respond [stage]: "quiet (respond t ctx ep p resp)" "spares (respond t ctx ep p resp)"
  by (simp_all add: quiet_def spares_def respond_def fail_def Let_def split: sum.split prod.split)

lemma spares_send [stage]: "spares (send t ctx p)"
  by (simp add: spares_def send_def fail_def send_failure_def Let_def split: sum.split option.split doer_error.split)

lemma quietD: "quiet f \<Longrightarrow> f s = (r, s') \<Longrightarrow> csSent s' = csSent s"
  by (metis quiet_def snd_conv)

lemma sparesD: "spares f \<Longrightarrow> f s = (r, s') \<Longrightarrow> csConfirmations s' = csConfirmations s"
  by (metis spares_def snd_conv)

text \<open>A sequence that ends with more requests sent than before: a quiet stage in front succeeded.\<close>

lemma andThen_sent:
  assumes "andThen f g s = (r, s')" and "quiet f" and "csSent s' \<noteq> csSent s"
  obtains a s1 where "f s = (Ok a, s1)" "g a s1 = (r, s')" "csSent s1 = csSent s"
proof (cases "f s")
  case (Pair x s1)
  then show ?thesis
    using assms quietD [OF assms(2) Pair] that by (cases x) (auto simp: andThen_def)
qed

lemma send_sent:
  assumes "send t ctx p s = (r, s')" and "csSent s' \<noteq> csSent s"
  shows "\<exists>r0 q. base_request p = Ok r0 \<and> exApply t r0 = Ok q \<and> csSent s' = csSent s @ [q]"
  using assms by (auto simp: send_def fail_def send_failure_def Let_def
      split: sum.splits option.splits doer_error.splits)

lemma use_confirmation_Ok:
  assumes "use_confirmation ctx inp p reason s = (Ok u, s')"
  shows "\<exists>store0 rec. csConfirmations s = Some store0 \<and> TrimSpace (exConfirmationID inp) \<noteq> []
    \<and> ConsumeApproved (fst (ccNow ctx)) (snd (ccNow ctx)) (TrimSpace (exConfirmationID inp)) (check_of p) (Some store0)
        = (Ok rec, csConfirmations s')"
  using assms by (auto simp: use_confirmation_def fail_def split: option.splits if_splits prod.splits sum.splits)

text \<open>What the checks in front of a sent request have found.\<close>

definition granted :: "SwaggerExecuteTool \<Rightarrow> call_context \<Rightarrow> executeInput \<Rightarrow> preparedRequest
    \<Rightarrow> MemoryStore option \<Rightarrow> MemoryStore option \<Rightarrow> bool" where
  "granted t ctx inp p before after \<longleftrightarrow>
     (\<exists>d. exPolicy t (prOperationID p) (prMethod p) (prURL p) = Ok d
        \<and> (if Allow d then after = before
           else (RequireConfirmation d \<or> denial_code d = ''confirmation_required'')
             \<and> TrimSpace (exConfirmationID inp) \<noteq> []
             \<and> (\<exists>store0 rec. before = Some store0
                \<and> ConsumeApproved (fst (ccNow ctx)) (snd (ccNow ctx)) (TrimSpace (exConfirmationID inp))
                    (check_of p) (Some store0) = (Ok rec, after))))"

definition cleared :: "SwaggerExecuteTool \<Rightarrow> call_context \<Rightarrow> any \<Rightarrow> MemoryStore option \<Rightarrow> MemoryStore option
    \<Rightarrow> HttpRequest \<Rightarrow> bool" where
  "cleared t ctx input before after q \<longleftrightarrow>
     (\<exists>lookup inp ep base p r0. exStore t = Some lookup \<and> parseExecuteInput input = Ok inp
        \<and> lookup (exOperationID inp) = Ok ep \<and> resolveBaseURL (exOptions t) ep = Ok base
        \<and> url_blocked (exOptions t) base = None \<and> url_blocked (exOptions t) (prURL p) = None
        \<and> prMethod p = ToUpper (TrimSpace (Method ep)) \<and> prOperationID p = OperationID ep
        \<and> granted t ctx inp p before after
        \<and> (eoValidateRequest (exOptions t) \<longrightarrow> validatePreparedRequest ep p = [])
        \<and> base_request p = Ok r0 \<and> exApply t r0 = Ok q)"

lemma authorize_Ok:
  assumes "authorize t ctx inp p s = (Ok u, s')"
  shows "granted t ctx inp p (csConfirmations s) (csConfirmations s')"
proof -
  obtain d where d: "exPolicy t (prOperationID p) (prMethod p) (prURL p) = Ok d"
    using assms by (auto simp: authorize_def fail_def split: sum.splits)
  show ?thesis
  proof (cases "Allow d")
    case True
    with assms d show ?thesis by (simp add: authorize_def give_def granted_def)
  next
    case False
    with assms d have "RequireConfirmation d \<or> denial_code d = ''confirmation_required''"
      and "use_confirmation ctx inp p (Reason d) s = (Ok u, s')"
      by (auto simp: authorize_def fail_def split: if_splits)
    with use_confirmation_Ok [OF this(2)] d False show ?thesis by (auto simp: granted_def)
  qed
qed

lemma prepared_of:
  assumes "prepareEndpointRequest c ep inp opts = Ok p"
  shows "prMethod p = ToUpper (TrimSpace (Method ep)) \<and> prOperationID p = OperationID ep"
  using assms by (auto simp: prepareEndpointRequest_def Let_def split: if_splits prod.splits sum.splits)

lemma build_call_Ok:
  assumes "build_call t inp ep base s = (Ok p, s')"
  shows "prMethod p = ToUpper (TrimSpace (Method ep)) \<and> prOperationID p = OperationID ep"
  using assms by (auto simp: build_call_def fail_def give_def dest: prepared_of split: sum.splits if_splits)

lemma correlate_Ok:
  assumes "correlate t ctx p0 s = (Ok p, s')"
  shows "prMethod p = prMethod p0 \<and> prOperationID p = prOperationID p0 \<and> prURL p = prURL p0"
  using assms by (auto simp: correlate_def Let_def split: if_splits)

lemma find_endpoint_Ok:
  assumes "find_endpoint t input s = (Ok (inp, ep), s')"
  shows "\<exists>lookup. exStore t = Some lookup \<and> parseExecuteInput input = Ok inp \<and> lookup (exOperationID inp) = Ok ep"
  using assms by (auto simp: find_endpoint_def fail_def give_def split: option.splits sum.splits)

lemma choose_base_Ok:
  assumes "choose_base t inp ep s = (Ok base, s')"
  shows "resolveBaseURL (exOptions t) ep = Ok base \<and> url_blocked (exOptions t) base = None"
  using assms by (auto simp: choose_base_def fail_def give_def split: option.splits sum.splits)

lemma check_url_Ok: "check_url t p s = (Ok u, s') \<Longrightarrow> url_blocked (exOptions t) (prURL p) = None"
  by (auto simp: check_url_def fail_def split: option.splits)

lemma check_schema_Ok:
  "check_schema t ep p s = (Ok u, s') \<Longrightarrow> eoValidateRequest (exOptions t) \<longrightarrow> validatePreparedRequest ep p = []"
  by (auto simp: check_schema_def fail_def split: if_splits)

text \<open>A call that sends a request has run every stage before sending, each on the state of the last.\<close>

lemma andThen_sent_iff:
  assumes "quiet f"
  shows "andThen f g s = (r, s') \<and> csSent s' \<noteq> csSent s \<longleftrightarrow>
    (\<exists>a s1. f s = (Ok a, s1) \<and> csSent s1 = csSent s \<and> g a s1 = (r, s') \<and> csSent s' \<noteq> csSent s1)"
  using assms by (fastforce elim: andThen_sent simp: andThen_def)

lemma send_respond:
  assumes "andThen (send t ctx p) (\<lambda>resp. respond t ctx ep p resp) s = (r, s')"
  shows "\<exists>x s1. send t ctx p s = (x, s1) \<and> csSent s' = csSent s1 \<and> csConfirmations s' = csConfirmations s1"
proof (cases "send t ctx p s")
  case (Pair x s1)
  with assms quietD [OF quiet_respond(1)] sparesD [OF quiet_respond(2)] show ?thesis
    by (cases x) (auto simp: andThen_def)
qed

lemma run_call_stages:
  assumes "run_call t ctx input s = (r, s') \<and> csSent s' \<noteq> csSent s"
  shows "\<exists>inp ep base p0 p s1 s2 s3 s4 s5 s6 s7. find_endpoint t input s = (Ok (inp, ep), s1)
    \<and> choose_base t inp ep s1 = (Ok base, s2) \<and> build_call t inp ep base s2 = (Ok p0, s3)
    \<and> correlate t ctx p0 s3 = (Ok p, s4) \<and> check_url t p s4 = (Ok (), s5)
    \<and> authorize t ctx inp p s5 = (Ok (), s6) \<and> check_schema t ep p s6 = (Ok (), s7)
    \<and> andThen (send t ctx p) (\<lambda>resp. respond t ctx ep p resp) s7 = (r, s')
    \<and> csSent s' \<noteq> csSent s7 \<and> csSent s7 = csSent s"
  using assms
  by (auto simp: run_call_def andThen_sent_iff stage)

lemma run_call_sent:
  assumes "run_call t ctx input s = (r, s')" and "csSent s' \<noteq> csSent s"
  shows "\<exists>q. csSent s' = csSent s @ [q] \<and> cleared t ctx input (csConfirmations s) (csConfirmations s') q"
proof -
  from run_call_stages [OF conjI [OF assms]] obtain inp ep base p0 p s1 s2 s3 s4 s5 s6 s7
    where find: "find_endpoint t input s = (Ok (inp, ep), s1)" and base: "choose_base t inp ep s1 = (Ok base, s2)"
      and build: "build_call t inp ep base s2 = (Ok p0, s3)" and cor: "correlate t ctx p0 s3 = (Ok p, s4)"
      and url: "check_url t p s4 = (Ok (), s5)" and auth: "authorize t ctx inp p s5 = (Ok (), s6)"
      and schema: "check_schema t ep p s6 = (Ok (), s7)"
      and last: "andThen (send t ctx p) (\<lambda>resp. respond t ctx ep p resp) s7 = (r, s')"
      and more: "csSent s' \<noteq> csSent s7" "csSent s7 = csSent s" by blast
  from send_respond [OF last] obtain x s8 where out: "send t ctx p s7 = (x, s8)"
    and same: "csSent s' = csSent s8" "csConfirmations s' = csConfirmations s8" by blast
  from send_sent [OF out] more same obtain r0 q where q: "base_request p = Ok r0" "exApply t r0 = Ok q"
    "csSent s8 = csSent s7 @ [q]" by auto
  have "csConfirmations s5 = csConfirmations s" "csConfirmations s' = csConfirmations s6"
    using same sparesD [OF spares_send out] sparesD [OF quiet_find_endpoint(2) find]
      sparesD [OF quiet_choose_base(2) base] sparesD [OF quiet_build_call(2) build] sparesD [OF quiet_correlate(2) cor]
      sparesD [OF quiet_check_url(2) url] sparesD [OF quiet_check_schema(2) schema] by simp_all
  with authorize_Ok [OF auth] have "granted t ctx inp p (csConfirmations s) (csConfirmations s')" by simp
  moreover have "prMethod p = ToUpper (TrimSpace (Method ep))" "prOperationID p = OperationID ep"
    using build_call_Ok [OF build] correlate_Ok [OF cor] by simp_all
  ultimately have "cleared t ctx input (csConfirmations s) (csConfirmations s') q"
    unfolding cleared_def
    using find_endpoint_Ok [OF find] choose_base_Ok [OF base] check_url_Ok [OF url] check_schema_Ok [OF schema] q(1,2)
    by blast
  then show ?thesis using q(3) same(1) more(2) by auto
qed

lemma andThen_Ok: "andThen f g s = (Ok b, s') \<longleftrightarrow> (\<exists>a s1. f s = (Ok a, s1) \<and> g a s1 = (Ok b, s'))"
  by (auto simp: andThen_def split: prod.splits sum.splits)

lemma send_Ok: "send t ctx p s = (Ok resp, s') \<Longrightarrow> csSent s' \<noteq> csSent s"
  by (auto simp: send_def fail_def send_failure_def Let_def split: sum.splits option.splits doer_error.splits)

lemma run_call_Ok_sent: "run_call t ctx input s = (Ok v, s') \<Longrightarrow> csSent s' \<noteq> csSent s"
  by (auto simp: run_call_def andThen_Ok)
     (metis stage quietD send_Ok)

text \<open>Metrics are only appended.\<close>

definition counts :: "'a step \<Rightarrow> bool" where
  "counts f \<longleftrightarrow> (\<forall>s. prefix (csMetrics s) (csMetrics (snd (f s))))"

lemma counts_andThen: "counts f \<Longrightarrow> (\<And>a. counts (g a)) \<Longrightarrow> counts (andThen f g)"
  unfolding counts_def andThen_def
  by (auto split: prod.split sum.split) (metis prefix_order.trans snd_conv)+

lemma counts_basic [simp]: "counts (fail code m d)" "counts (give a)"
  by (simp_all add: counts_def fail_def give_def)

lemma counts_stages [simp]: "counts (find_endpoint t input)" "counts (choose_base t inp ep)"
  "counts (build_call t inp ep base)" "counts (check_url t p)" "counts (check_schema t ep p)"
  by (simp_all add: find_endpoint_def choose_base_def build_call_def check_url_def check_schema_def
      split: option.split sum.split)

lemma counts_effects [simp]: "counts (correlate t ctx p)" "counts (use_confirmation ctx inp p reason)"
  "counts (send t ctx p)" "counts (respond t ctx ep p resp)"
  by (simp_all add: counts_def correlate_def use_confirmation_def send_def send_failure_def respond_def fail_def Let_def
      split: option.split sum.split prod.split doer_error.split)

lemma counts_run_call: "counts (run_call t ctx input)"
  unfolding run_call_def
  by (intro counts_andThen; (simp add: case_prod_beta authorize_def split: sum.split)?; intro counts_andThen;
      simp add: authorize_def split: sum.split)

section \<open>What a call guarantees\<close>

text \<open>
  Property C4: nothing reaches the HTTP client without clearance. A call hands at most one
  request to the client, and then: the operation is in the store, its base URL and its final URL
  passed the security policy, the policy evaluated exactly this operation, method and URL and
  allowed it, or required a confirmation and an approved one was consumed for exactly this
  operation, method and URL; the schema check, when on, found no issue; and the request is built
  from that method, URL and body, with credentials as the last step.
\<close>

theorem sent_request_cleared:
  assumes "Execute t ctx input store = (res, entry, s)" and "q \<in> set (csSent s)"
  shows "csSent s = [q] \<and> cleared t ctx input store (csConfirmations s) q"
proof -
  let ?s0 = "\<lparr>csEntry = first_entry ctx, csConfirmations = store, csSent = [], csMetrics = [IncInflight]\<rparr>"
  obtain r s' where run: "run_call t ctx input ?s0 = (r, s')" by fastforce
  with assms(1) have same: "csSent s = csSent s'" "csConfirmations s = csConfirmations s'"
    by (auto simp: Execute_def split: sum.splits)
  with assms(2) have "csSent s' \<noteq> []" by auto
  with run_call_sent [OF run] assms(2) same show ?thesis by auto
qed

text \<open>
  Property C17: every call ends in one of two ways. It succeeds, after sending exactly one request,
  or it fails with a code and a message that are also in the audit entry and counted; either way
  it returns a result, writes one entry stamped with its duration, and is counted in and out.
\<close>

theorem call_outcome:
  "\<exists>res entry s ms. Execute t ctx input store = (res, entry, s)
     \<and> enDurationMs entry = ccElapsed ctx
     \<and> ((\<exists>v. res = okResult v \<and> length (csSent s) = 1 \<and> csMetrics s = IncInflight # ms @ [ObserveDuration, DecInflight])
       \<or> (\<exists>code message details. res = errorResult code message details
            \<and> enError entry = code @ '': '' @ message
            \<and> csMetrics s = IncInflight # ms @ [IncError code, ObserveDuration, DecInflight]))"
proof -
  let ?s0 = "\<lparr>csEntry = first_entry ctx, csConfirmations = store, csSent = [], csMetrics = [IncInflight]\<rparr>"
  obtain r s' where run: "run_call t ctx input ?s0 = (r, s')" by fastforce
  have "prefix [IncInflight] (csMetrics s')" using counts_run_call [of t ctx input] run
    by (metis call_state.select_convs(4) counts_def snd_conv)
  then obtain ms where ms: "csMetrics s' = IncInflight # ms" by (auto simp: prefix_def)
  show ?thesis
  proof (cases r)
    case (Inl e)
    with run ms show ?thesis by (cases e) (auto simp: Execute_def)
  next
    case (Inr v)
    with run_call_Ok_sent run have "csSent s' \<noteq> []" by fastforce
    with run_call_sent [OF run] have "length (csSent s') = 1" by auto
    with run ms Inr show ?thesis by (auto simp: Execute_def)
  qed
qed

section \<open>A call that goes through\<close>

definition echo_codec :: codec where
  "echo_codec = \<lparr>marshal = (\<lambda>v. Ok (fmt_v v)), unmarshal = (\<lambda>s. Err ''none'')\<rparr>"

definition demo_tool :: SwaggerExecuteTool where
  "demo_tool = \<lparr>exStore = Some (\<lambda>i. if i = ''addPet'' then Ok sample_endpoint else Err swagger_error.ErrNotFound),
     exPolicy = (\<lambda>op m u. Ok \<lparr>Allow = True, Reason = [], RequireConfirmation = False, Code = []\<rparr>),
     exApply = (\<lambda>r. Ok r), exDoer = Some (\<lambda>k r. Ok \<lparr>StatusCode = 200, rsHeader = [], rsBody = Ok ''done''\<rparr>),
     exOptions = \<lparr>eoMode = ''execute_write'', eoUpstreamBaseURL = ''https://api.example.com'', eoSandboxBaseURL = [],
       eoValidateRequest = False, eoValidateResponse = False, eoMaxRequestBytes = 1000, eoMaxResponseBytes = 1000,
       eoUserAgent = ''gw'', eoCorrelationIDHeader = [], eoValidateURL = Some (\<lambda>u. None)\<rparr>,
     exCodec = echo_codec\<rparr>"

definition demo_context :: call_context where
  "demo_context = \<lparr>ccPrincipal = None, ccCorrelation = Some ''c1'', ccFresh = [], ccStarted = Time 0, ccElapsed = 5,
     ccNow = (Time 0, Time 0)\<rparr>"

definition demo_input :: any where
  "demo_input = AMap [(''operationId'', AStr ''addPet''), (''params'', AMap [(''path'', AMap [(''id'', AStr ''7'')])])]"

lemma demo_call_sent: "map rqURL (csSent (snd (snd (Execute demo_tool demo_context demo_input None)))) = [''https://api.example.com/pets/7'']"
  by code_simp

lemma sent_request_cleared_witness:
  "\<exists>res entry s q. Execute demo_tool demo_context demo_input None = (res, entry, s) \<and> csSent s = [q]
     \<and> rqURL q = ''https://api.example.com/pets/7''
     \<and> cleared demo_tool demo_context demo_input None (csConfirmations s) q"
proof -
  obtain res entry s where run: "Execute demo_tool demo_context demo_input None = (res, entry, s)"
    by (metis prod_cases3)
  with demo_call_sent have urls: "map rqURL (csSent s) = [''https://api.example.com/pets/7'']" by simp
  then obtain q where q: "csSent s = [q]" "rqURL q = ''https://api.example.com/pets/7''" by auto
  from sent_request_cleared [OF run, of q] q run show ?thesis by auto
qed

end
