(* ===== verification/ToolPolicy.thy ===== *)
theory ToolPolicy
  imports ToolExecute
begin

text \<open>
  The two tools of the human in the loop (\<open>internal/tool/policy_request_confirmation.go\<close>): one
  files a pending call with the confirmation store, the other records the human's answer. The
  results carry the expiry as an RFC 3339 text; \<open>Request\<close> and \<open>Confirm\<close> are the store's
  operations of the theory Confirmation.
\<close>

section \<open>Printing an instant\<close>

text \<open>
  The civil date of a day number, counted from the first of January of the year 1: years are
  taken to begin in March, so that the leap day is the last of its year, and come in eras of 400.
\<close>

definition civil_date :: "int \<Rightarrow> int \<times> int \<times> int" where
  "civil_date day =
     (let z = day + 306; doe = z mod 146097;
          yoe = (doe - doe div 1460 + doe div 36524 - doe div 146096) div 365;
          doy = doe - (365 * yoe + yoe div 4 - yoe div 100);
          mp = (5 * doy + 2) div 153; month = (if mp < 10 then mp + 3 else mp - 9) in
      (yoe + 400 * (z div 146097) + (if month \<le> 2 then 1 else 0), month, doy - (153 * mp + 2) div 5 + 1))"

definition pad :: "nat \<Rightarrow> int \<Rightarrow> string" where
  "pad w n = (let ds = dec_digits (nat \<bar>n\<bar>) in sign_prefix n @ zeros (w - length ds) @ ds)"

definition format_rfc3339 :: "time \<Rightarrow> string" where
  "format_rfc3339 t =
     (let s = nanos t div Second; (y, m, d) = civil_date (s div 86400); r = s mod 86400 in
      pad 4 y @ ''-'' @ pad 2 m @ ''-'' @ pad 2 d @ ''T'' @ pad 2 (r div 3600) @ '':''
        @ pad 2 (r mod 3600 div 60) @ '':'' @ pad 2 (r mod 60) @ ''Z'')"

lemma format_examples:
  "format_rfc3339 (Time 0) = ''0001-01-01T00:00:00Z''"
  "format_rfc3339 (UnixTime 1709164799) = ''2024-02-28T23:59:59Z''"
  "format_rfc3339 (UnixTime 1709251200) = ''2024-03-01T00:00:00Z''"
  by code_simp+

section \<open>Requesting a confirmation\<close>

definition either_value :: "anymap \<Rightarrow> anymap \<Rightarrow> string list \<Rightarrow> any" where
  "either_value inMap params ks = firstNonNil (map (mapValue inMap) ks @ map (mapValue params) ks)"

definition trimmed_value :: "any \<Rightarrow> string" where
  "trimmed_value v = TrimSpace (valueAsString v)"

definition loose_params :: "anymap \<Rightarrow> anymap" where
  "loose_params inMap = (case toAnyMapOrNil (mapValue inMap ''params'') of Ok m \<Rightarrow> m | Err e \<Rightarrow> [])"

text \<open>What the summary adds where the input itself names no method or URL.\<close>

definition or_summary :: "string \<Rightarrow> any \<Rightarrow> string \<Rightarrow> string \<Rightarrow> string" where
  "or_summary given summary k k' = (case summary of
     AMap m \<Rightarrow> if given = [] then trimmed_value (firstNonNil [mapValue m k, mapValue m k']) else given
   | _ \<Rightarrow> given)"

definition parse_confirm_request :: "any \<Rightarrow> (string, ConfirmRequest) result" where
  "parse_confirm_request input = (case toAnyMap input of
     Err e \<Rightarrow> Err ''tool input must be an object''
   | Ok inMap \<Rightarrow>
      (let params = loose_params inMap;
           operationID = trimmed_value (either_value inMap params [''operationId'', ''operationID'']);
           summary = firstNonNil [mapValue inMap ''preparedRequestSummary'', mapValue params ''preparedRequestSummary'',
             mapValue inMap ''summary'', mapValue params ''summary''];
           method = ToUpper (trimmed_value (either_value inMap params [''method'']));
           finalURL = trimmed_value (either_value inMap params [''finalURL'', ''url'']) in
       if operationID = [] then Err ''operationId is required''
       else Ok \<lparr>reqOperationID = operationID,
         reqMethod = ToUpper (or_summary method summary ''method'' ''httpMethod''),
         reqFinalURL = or_summary finalURL summary ''finalURL'' ''url'',
         reqSummary = summary, reqReason = trimmed_value (either_value inMap params [''reason''])\<rparr>))"

definition request_report :: "Record \<Rightarrow> any" where
  "request_report r = AMap [(''confirmationId'', AStr (recID r)), (''expiresAt'', AStr (format_rfc3339 (recExpiresAt r))),
     (''summary'', AMap [(''operationId'', AStr (recOperationID r)), (''method'', AStr (recMethod r)),
        (''finalURL'', AStr (recFinalURL r)), (''reason'', AStr (recReason r)),
        (''preparedRequestSummary'', recSummary r)])]"

definition RequestConfirmation :: "time \<Rightarrow> time \<Rightarrow> (string, string) result \<Rightarrow> any \<Rightarrow> MemoryStore option
    \<Rightarrow> any \<times> MemoryStore option" where
  "RequestConfirmation t1 t2 fresh input store = (case store of
     None \<Rightarrow> (errorResult ''invalid_request'' ''confirmation store is not configured'' ANil, store)
   | Some s \<Rightarrow> (case parse_confirm_request input of
       Err e \<Rightarrow> (errorResult ''invalid_request'' e ANil, store)
     | Ok req \<Rightarrow> (case Request t1 t2 fresh req store of
         (Err e, store) \<Rightarrow> (errorResult ''upstream_error'' (confirm_error_text e) ANil, store)
       | (Ok r, store) \<Rightarrow> (okResult (request_report r), store))))"

section \<open>The answer\<close>

definition parseBoolAny :: "any \<Rightarrow> (string, bool) result" where
  "parseBoolAny v = (case v of
     ABool b \<Rightarrow> Ok b
   | AStr s \<Rightarrow> (let t = ToLower (TrimSpace s) in
       if t \<in> {''true'', ''1'', ''yes'', ''y''} then Ok True
       else if t \<in> {''false'', ''0'', ''no'', ''n''} then Ok False else Err ''approve must be boolean'')
   | ANil \<Rightarrow> Err ''approve must be provided''
   | _ \<Rightarrow> (let t = ToLower (trimmed_value v) in
       if t = ''true'' then Ok True else if t = ''false'' then Ok False else Err ''approve must be boolean''))"

definition parse_answer :: "any \<Rightarrow> (string, string \<times> bool) result" where
  "parse_answer input = (case toAnyMap input of
     Err e \<Rightarrow> Err ''tool input must be an object''
   | Ok inMap \<Rightarrow>
      (let params = loose_params inMap;
           cid = trimmed_value (either_value inMap params [''confirmationId'', ''confirmationID'']) in
       if cid = [] then Err ''confirmationId is required''
       else (case parseBoolAny (either_value inMap params [''approve'']) of
           Err e \<Rightarrow> Err e | Ok approve \<Rightarrow> Ok (cid, approve))))"

definition confirm_message :: "confirm_error \<Rightarrow> string" where
  "confirm_message e = (case e of
     Confirmation.ErrNotFound \<Rightarrow> ''confirmationId is not found''
   | ErrExpired \<Rightarrow> ''confirmation request has expired''
   | ErrConsumed \<Rightarrow> ''confirmation request is already consumed''
   | _ \<Rightarrow> confirm_error_text e)"

definition confirm_report :: "Record \<Rightarrow> any" where
  "confirm_report r = AMap [(''confirmationId'', AStr (recID r)), (''approved'', ABool (recApproved r)),
     (''expiresAt'', AStr (format_rfc3339 (recExpiresAt r)))]"

definition PolicyConfirm :: "time \<Rightarrow> time \<Rightarrow> any \<Rightarrow> MemoryStore option \<Rightarrow> any \<times> MemoryStore option" where
  "PolicyConfirm t1 t2 input store = (case store of
     None \<Rightarrow> (errorResult ''invalid_request'' ''confirmation store is not configured'' ANil, store)
   | Some s \<Rightarrow> (case parse_answer input of
       Err e \<Rightarrow> (errorResult ''invalid_request'' e ANil, store)
     | Ok (cid, approve) \<Rightarrow> (case Confirm t1 t2 cid approve store of
         (Err e, store) \<Rightarrow> (errorResult ''invalid_request'' (confirm_message e)
           (AMap [(''confirmationId'', AStr cid)]), store)
       | (Ok r, store) \<Rightarrow> (okResult (confirm_report r), store))))"

end
