(* ===== verification/ToolCalls.thy ===== *)
theory ToolCalls
  imports ToolRequest
begin

text \<open>
  The tools that prepare and check without calling (\<open>internal/tool/swagger_prepare_request.go\<close>,
  \<open>swagger_validate_request.go\<close>, \<open>swagger_validate_response.go\<close>). The store enters as its look-up
  of an operation, None where it is not configured; nothing else is reached, so a call is a
  function of its input.
\<close>

type_synonym endpoint_lookup = "(string \<Rightarrow> (swagger_error, ResolvedOperation) result) option"

definition no_store :: any where
  "no_store = errorResult ''invalid_request'' ''swagger store is not configured'' ANil"

definition unknown_operation :: "string \<Rightarrow> any" where
  "unknown_operation opID = errorResult ''invalid_request'' ''operationId is not found in swagger''
     (AMap [(''operationId'', AStr opID)])"

definition prepare_failure :: "string \<Rightarrow> string \<Rightarrow> any" where
  "prepare_failure opID e = (if e = ''no base URL''
     then errorResult ''no_base_url'' e (AMap [(''operationId'', AStr opID)]) else errorResult ''invalid_request'' e ANil)"

definition verdict :: "string list \<Rightarrow> (string \<times> any) list" where
  "verdict issues = [(''valid'', ABool (issues = [])), (''errors'', AStrs issues)]"

section \<open>Preparing a request\<close>

definition prepared_report :: "ResolvedOperation \<Rightarrow> preparedRequest \<Rightarrow> any" where
  "prepared_report ep p = AMap [(''operationId'', AStr (prOperationID p)), (''method'', AStr (prMethod p)),
     (''path'', AStr (prPath p)), (''finalURL'', AStr (prURL p)), (''headers'', AStrMap (prHeaders p)),
     (''contentType'', AStr (prContentType p)), (''body'', prBodyInput p),
     (''bodyBytes'', AInt (int (length (prBodyBytes p)))), (''validation'', AMap (verdict (validatePreparedRequest ep p)))]"

definition PrepareExecute :: "codec \<Rightarrow> int \<Rightarrow> string \<Rightarrow> endpoint_lookup \<Rightarrow> any \<Rightarrow> any" where
  "PrepareExecute c maxBytes agent store input = (case store of
     None \<Rightarrow> no_store
   | Some lookup \<Rightarrow> (case parseExecuteInput input of
       Err e \<Rightarrow> errorResult ''invalid_request'' e ANil
     | Ok inp \<Rightarrow> (case lookup (exOperationID inp) of
         Err e \<Rightarrow> unknown_operation (exOperationID inp)
       | Ok ep \<Rightarrow> (case prepareEndpointRequest c ep inp \<lparr>poBaseURL = exBaseURL inp, poAllowNoBase = True,
             poMaxBodyBytes = maxBytes, poDefaultAgent = agent, poDefaultAccept = ''application/json''\<rparr> of
           Err e \<Rightarrow> prepare_failure (exOperationID inp) e
         | Ok p \<Rightarrow> okResult (prepared_report ep p)))))"

section \<open>Validating a request\<close>

definition prepareRequestForExecution :: "codec \<Rightarrow> (string \<Rightarrow> (swagger_error, ResolvedOperation) result) \<Rightarrow> string
    \<Rightarrow> executeInput \<Rightarrow> prepareOptions \<Rightarrow> (string, ResolvedOperation \<times> preparedRequest) result" where
  "prepareRequestForExecution c lookup opID inp opts = (case lookup opID of
     Err e \<Rightarrow> Err (''operation '' @ quote opID @ '' not found'')
   | Ok ep \<Rightarrow> (case prepareEndpointRequest c ep inp opts of Err e \<Rightarrow> Err e | Ok p \<Rightarrow> Ok (ep, p)))"

definition ValidateRequestExecute :: "codec \<Rightarrow> endpoint_lookup \<Rightarrow> any \<Rightarrow> any" where
  "ValidateRequestExecute c store input = (case store of
     None \<Rightarrow> no_store
   | Some lookup \<Rightarrow> (case parseExecuteInput input of
       Err e \<Rightarrow> errorResult ''invalid_request'' e ANil
     | Ok inp \<Rightarrow> (case prepareRequestForExecution c lookup (exOperationID inp) inp \<lparr>poBaseURL = exBaseURL inp,
           poAllowNoBase = True, poMaxBodyBytes = 0, poDefaultAgent = [], poDefaultAccept = []\<rparr> of
         Err e \<Rightarrow> prepare_failure (exOperationID inp) e
       | Ok (ep, p) \<Rightarrow> okResult (AMap ((''operationId'', AStr (exOperationID inp))
           # verdict (validatePreparedRequest ep p))))))"

section \<open>Validating a response\<close>

definition ValidateResponseExecute :: "codec \<Rightarrow> endpoint_lookup \<Rightarrow> any \<Rightarrow> any" where
  "ValidateResponseExecute c store input = (case store of
     None \<Rightarrow> no_store
   | Some lookup \<Rightarrow> (case parseValidateResponseInput input of
       Err e \<Rightarrow> errorResult ''invalid_request'' e ANil
     | Ok inp \<Rightarrow> (case lookup (vrOperationID inp) of
         Err e \<Rightarrow> unknown_operation (vrOperationID inp)
       | Ok ep \<Rightarrow>
          (let n = normalizeResponseBody c (vrContentType inp) (vrBodyEncoding inp) (vrBody inp) in
           okResult (AMap ([(''operationId'', AStr (vrOperationID inp)), (''status'', AInt (vrStatus inp)),
             (''contentType'', AStr (rbContentType n)), (''bodyEncoding'', AStr (rbBodyEncoding n)), (''body'', rbBody n)]
             @ verdict (validateResponse ep (vrStatus inp) (bodyForValidation c (rbBody n)))))))))"

end
