(* ===== verification/GoFloat.thy ===== *)
theory GoFloat
  imports GoAny
begin

text \<open>
  64-bit floats in binary: a double is a pair of a mantissa below \<open>2^53\<close> and an exponent of two.
  \<open>double_of\<close> rounds a positive fraction to the nearest double, ties to the even mantissa;
  \<open>shortest\<close> names a double by the shortest decimal that reads back as it, which is how floats
  are named in the type \<open>any\<close>. Together they give the conversion of integers and of decimal
  texts. Hexadecimal texts, infinities and NaN are not read.
\<close>

function bit_length :: "int \<Rightarrow> nat" where
  "bit_length n = (if n \<le> 0 then 0 else Suc (bit_length (n div 2)))"
  by pat_completeness auto

termination bit_length
  by (relation "measure nat") auto

declare bit_length.simps [simp del]

definition half_even :: "int \<Rightarrow> int \<Rightarrow> int" where
  "half_even n d = (let q = n div d; r = n mod d in if 2 * r > d \<or> (2 * r = d \<and> odd q) then q + 1 else q)"

text \<open>A fraction divided by a power of two or of ten.\<close>

definition scaled :: "int \<Rightarrow> int \<Rightarrow> int \<Rightarrow> int \<Rightarrow> int \<times> int" where
  "scaled base num den k = (if 0 \<le> k then (num, den * base ^ nat k) else (num * base ^ nat (- k), den))"

definition double_of :: "int \<Rightarrow> int \<Rightarrow> int \<times> int" where
  "double_of num den =
     (let k0 = int (bit_length num) - int (bit_length den) - 53; (n0, d0) = scaled 2 num den k0;
          k = max (-1074) (if 2 ^ 53 \<le> n0 div d0 then k0 + 1 else k0); (n, d) = scaled 2 num den k; q = half_even n d in
      if q = 2 ^ 53 then (2 ^ 52, k + 1) else (q, k))"

definition too_big :: "int \<times> int \<Rightarrow> bool" where
  "too_big x \<longleftrightarrow> 971 < snd x"

section \<open>The shortest decimal\<close>

text \<open>The decimal exponent of the leading digit of a positive fraction.\<close>

definition leading_exp :: "int \<Rightarrow> int \<Rightarrow> int" where
  "leading_exp n d = (if d \<le> n
     then (case find (\<lambda>j. n < d * 10 ^ Suc j) [0..<310] of Some j \<Rightarrow> int j | None \<Rightarrow> 0)
     else (case find (\<lambda>j. d \<le> n * 10 ^ j) [1..<330] of Some j \<Rightarrow> - int j | None \<Rightarrow> 0))"

text \<open>
  Whether the decimal \<open>m * 10^x\<close> reads back as the double: it is less than half a gap away, or
  exactly half a gap when the mantissa is even. The gap below a power of two is half as wide.
\<close>

definition reads_back :: "int \<times> int \<Rightarrow> int \<Rightarrow> int \<Rightarrow> bool" where
  "reads_back x m e =
     (let (n, d) = scaled 2 1 1 (- snd x); (a, b) = scaled 10 m 1 (- e);
          delta = a * d - fst x * n * b; gap = (if delta < 0 \<and> fst x = 2 ^ 52 then n else 2 * n) * b in
      4 * \<bar>delta\<bar> < gap \<or> (4 * \<bar>delta\<bar> = gap \<and> even (fst x)))"

definition shortest :: "int \<times> int \<Rightarrow> f64" where
  "shortest x =
     (if fst x = 0 then F64 0 0
      else (let (n, d) = scaled 2 (fst x) 1 (- snd x); e0 = leading_exp n d;
                try = (\<lambda>p. let e = e0 - int p; (a, b) = scaled 10 n d e; m = (2 * a + b) div (2 * b) in (m, e)) in
        case find (\<lambda>p. reads_back x (fst (try p)) (snd (try p))) [0..<17] of
          Some p \<Rightarrow> canon (fst (try p)) (snd (try p)) | None \<Rightarrow> F64 0 0))"

definition negate :: "bool \<Rightarrow> f64 \<Rightarrow> f64" where
  "negate b f = (if b then F64 (- mant f) (dexp f) else f)"

definition float64_of_int :: "int \<Rightarrow> f64" where
  "float64_of_int i = (if i = 0 then F64 0 0 else negate (i < 0) (shortest (double_of \<bar>i\<bar> 1)))"

section \<open>Reading a decimal text\<close>

definition sign_split :: "string \<Rightarrow> bool \<times> string" where
  "sign_split s = (prefix ''-'' s, if prefix ''-'' s \<or> prefix ''+'' s then drop 1 s else s)"

text \<open>\<open>strconv.ParseFloat\<close> with 64 bits on a decimal text; None for a syntax or a range error.\<close>

definition ParseFloat :: "string \<Rightarrow> f64 option" where
  "ParseFloat s =
     (let (neg, s1) = sign_split s; whole = takeWhile dec_digit s1; r1 = dropWhile dec_digit s1;
          dotted = prefix ''.'' r1; part = (if dotted then takeWhile dec_digit (drop 1 r1) else []);
          r2 = (if dotted then dropWhile dec_digit (drop 1 r1) else r1);
          scientific = prefix ''e'' r2 \<or> prefix ''E'' r2; (eneg, ds) = sign_split (drop 1 r2);
          ex = (if scientific then (if eneg then - dec_value ds else dec_value ds) else 0);
          m = dec_value (whole @ part); e = ex - int (length part) in
      if whole @ part = [] \<or> (scientific \<and> (ds = [] \<or> \<not> list_all dec_digit ds)) \<or> (\<not> scientific \<and> r2 \<noteq> []) then None
      else if m = 0 then Some (F64 0 0)
      else (let (n, d) = scaled 10 m 1 (- e); x = double_of n d in
        if too_big x then None else Some (negate neg (shortest x))))"

end
