(* ===== verification/ToolSearch.thy ===== *)
theory ToolSearch
  imports ToolRequest GoFloat "HOL-Library.Product_Lexorder" "HOL-Library.Multiset"
begin

text \<open>
  Finding an operation (\<open>internal/tool/swagger_search.go\<close>, \<open>swagger_plan_call.go\<close>): the indexes
  over the listed endpoints, the filters with their scores, the ranking and the result of the
  two tools. The swagger store enters as the outcome of its listing.

  Scores are 64-bit floats in the code. Every score is a multiple of \<open>2^-54\<close>, the unit of the
  float 0.4, and is modelled as that many units, rounded to 53 significant bits after each
  addition, ties to even, as the hardware does.
\<close>

section \<open>Scores\<close>

type_synonym score = int

definition round53 :: "int \<Rightarrow> int" where
  "round53 n = (let k = bit_length n - 53 in half_even n (2 ^ k) * 2 ^ k)"

definition score_add :: "score \<Rightarrow> score \<Rightarrow> score" where
  "score_add a b = round53 (a + b)"

text \<open>A number of halves, and the float next to 0.4.\<close>

definition halves :: "int \<Rightarrow> score" where
  "halves n = n * 9007199254740992"

definition four_tenths :: score where
  "four_tenths = 7205759403792794"

definition score_value :: "score \<Rightarrow> any" where
  "score_value n = (let k = bit_length n - 53 in AFloat (shortest (n div 2 ^ k, int k - 54)))"

text \<open>One plus twice 0.4 is the float below 1.8.\<close>

lemma score_example: "score_add (score_add (halves 2) four_tenths) four_tenths = 32425917317067568"
  by code_simp

section \<open>Schema names\<close>

definition schemaNameFromRef :: "string \<Rightarrow> string option" where
  "schemaNameFromRef raw =
     (let ref = TrimSpace raw; marker = ''/components/schemas/'' in
      case Index ref marker of
        None \<Rightarrow> None
      | Some i \<Rightarrow>
         (let name = TrimSpace (drop (i + length marker) ref);
              name = takeWhile (\<lambda>c. c \<noteq> CHR ''/'') name;
              name = TrimSpace (ReplaceAll (ReplaceAll name ''~1'' ''/'') ''~0'' ''~'') in
          if name = [] then None else Some name))"

definition marker_names :: "(string \<times> any) list \<Rightarrow> string list" where
  "marker_names m = List.map_filter (\<lambda>k. schemaNameFromRef (valueAsString (mapValue m k)))
     [''x-originRef'', ''x-circularRef'', ''x-unresolvedRef'']"

lemma size_child [termination_simp]: "(k, v) \<in> set m \<Longrightarrow> size v < Suc (size_list (size_prod (\<lambda>x. 0) size) m)"
  by (induction m) auto

fun collectSchemaNamesNode :: "any \<Rightarrow> string list" where
  "collectSchemaNamesNode (AMap m) = marker_names m @ concat (map (\<lambda>(k, v). collectSchemaNamesNode v) m)"
| "collectSchemaNamesNode (AList vs) = concat (map collectSchemaNamesNode vs)"
| "collectSchemaNamesNode v = []"

definition collectSchemaNames :: "any \<Rightarrow> string list" where
  "collectSchemaNames v = sort (remdups (collectSchemaNamesNode v))"

section \<open>The indexes\<close>

type_synonym usage = "bool \<times> bool"

record searchIndexes =
  SchemaUsage :: "(string \<times> (string \<times> usage) list) list"
  SchemaNames :: strmap
  StatusUsage :: "(int \<times> (string \<times> usage) list) list"
  OperationMap :: "(string \<times> ResolvedOperation) list"

definition no_indexes :: searchIndexes where
  "no_indexes = \<lparr>SchemaUsage = [], SchemaNames = [], StatusUsage = [], OperationMap = []\<rparr>"

definition usages :: "('k \<times> (string \<times> usage) list) list \<Rightarrow> 'k \<Rightarrow> (string \<times> usage) list" where
  "usages m key = (case map_of m key of Some us \<Rightarrow> us | None \<Rightarrow> [])"

definition usage_at :: "('k \<times> (string \<times> usage) list) list \<Rightarrow> 'k \<Rightarrow> string \<Rightarrow> usage" where
  "usage_at m key opID = (case map_of (usages m key) opID of Some u \<Rightarrow> u | None \<Rightarrow> (False, False))"

definition mark :: "'k \<Rightarrow> string \<Rightarrow> usage \<Rightarrow> ('k \<times> (string \<times> usage) list) list \<Rightarrow> ('k \<times> (string \<times> usage) list) list" where
  "mark key opID u m = map_set key (map_set opID
     (fst (usage_at m key opID) \<or> fst u, snd (usage_at m key opID) \<or> snd u) (usages m key)) m"

definition name_key :: "string \<Rightarrow> string" where
  "name_key name = ToLower (TrimSpace name)"

definition addSchemaUsage :: "string \<Rightarrow> usage \<Rightarrow> string \<Rightarrow> searchIndexes \<Rightarrow> searchIndexes" where
  "addSchemaUsage opID u name idx =
     (let key = name_key name in
      if key = [] then idx
      else idx\<lparr>SchemaUsage := mark key opID u (SchemaUsage idx),
        SchemaNames := (case map_of (SchemaNames idx) key of
          Some n \<Rightarrow> SchemaNames idx | None \<Rightarrow> map_set key (TrimSpace name) (SchemaNames idx))\<rparr>)"

definition addStatusUsage :: "string \<Rightarrow> usage \<Rightarrow> int \<Rightarrow> searchIndexes \<Rightarrow> searchIndexes" where
  "addStatusUsage opID u status idx =
     (if status \<le> 0 then idx else idx\<lparr>StatusUsage := mark status opID u (StatusUsage idx)\<rparr>)"

definition add_response_usage :: "string \<Rightarrow> usage \<Rightarrow> ApiResponse \<Rightarrow> searchIndexes \<Rightarrow> searchIndexes" where
  "add_response_usage opID u r idx = fold (addSchemaUsage opID (False, True)) (collectSchemaNames (rsBodySchema r))
     (addStatusUsage opID u (rsStatus r) idx)"

definition index_endpoint :: "ResolvedOperation \<Rightarrow> searchIndexes \<Rightarrow> searchIndexes" where
  "index_endpoint ep idx =
     (let opID = TrimSpace (OperationID ep) in
      if opID = [] then idx
      else fold (add_response_usage opID (False, True)) (rgErrors (Responses ep))
        (fold (add_response_usage opID (True, False)) (rgSuccess (Responses ep))
          (fold (addSchemaUsage opID (True, False)) (collectSchemaNames (rqBodySchema (ApiRequest ep)))
            (idx\<lparr>OperationMap := map_set opID ep (OperationMap idx)\<rparr>))))"

definition buildSearchIndexes :: "ResolvedOperation list \<Rightarrow> searchIndexes" where
  "buildSearchIndexes eps = fold index_endpoint eps no_indexes"

definition schemaUsageForEndpoint :: "searchIndexes \<Rightarrow> string \<Rightarrow> string \<Rightarrow> usage option" where
  "schemaUsageForEndpoint idx schema opID = map_of (usages (SchemaUsage idx) (name_key schema)) (TrimSpace opID)"

definition statusUsageForEndpoint :: "searchIndexes \<Rightarrow> int \<Rightarrow> string \<Rightarrow> usage option" where
  "statusUsageForEndpoint idx status opID = map_of (usages (StatusUsage idx) status) (TrimSpace opID)"

section \<open>Filters\<close>

definition matchesQuery :: "ResolvedOperation \<Rightarrow> string \<Rightarrow> bool" where
  "matchesQuery ep query \<longleftrightarrow> Contains (ToLower (OperationID ep)) query \<or> Contains (ToLower (PathTemplate ep)) query
     \<or> Contains (ToLower (Summary ep)) query \<or> Contains (ToLower (Description ep)) query
     \<or> list_ex (\<lambda>tag. Contains (ToLower tag) query) (Tags ep)"

definition containsTag :: "string list \<Rightarrow> string \<Rightarrow> bool" where
  "containsTag tags tag \<longleftrightarrow> list_ex (\<lambda>item. EqualFold (TrimSpace item) tag) tags"

type_synonym scored = "score \<times> string list"

definition note_if :: "bool \<Rightarrow> score \<Rightarrow> string \<Rightarrow> scored \<Rightarrow> scored" where
  "note_if b points reason x = (if b then (score_add (fst x) points, snd x @ [reason]) else x)"

definition queryMatchScore :: "ResolvedOperation \<Rightarrow> string \<Rightarrow> scored" where
  "queryMatchScore ep query = (let (s, reasons) =
      note_if (list_ex (\<lambda>tag. Contains (ToLower tag) query) (Tags ep)) (halves 2) ''query matched tag''
     (note_if (Contains (ToLower (Description ep)) query) (halves 3) ''query matched description''
     (note_if (Contains (ToLower (Summary ep)) query) (halves 4) ''query matched summary''
     (note_if (Contains (ToLower (PathTemplate ep)) query) (halves 4) ''query matched pathTemplate''
     (note_if (Contains (ToLower (OperationID ep)) query) (halves 6) ''query matched operationId'' (0, [])))))
     in (s, uniqueStrings reasons))"

definition method_filter :: "ResolvedOperation \<Rightarrow> string \<Rightarrow> scored \<Rightarrow> scored option" where
  "method_filter ep want x = (if want = [] then Some x
     else if ToUpper (Method ep) \<noteq> want then None else Some (note_if True four_tenths ''method filter matched'' x))"

definition tag_filter :: "ResolvedOperation \<Rightarrow> string \<Rightarrow> scored \<Rightarrow> scored option" where
  "tag_filter ep want x = (if want = [] then Some x
     else if \<not> containsTag (Tags ep) want then None else Some (note_if True four_tenths ''tag filter matched'' x))"

definition query_filter :: "ResolvedOperation \<Rightarrow> string \<Rightarrow> scored \<Rightarrow> scored option" where
  "query_filter ep query x = (if query = [] then Some x
     else (let (s, reasons) = queryMatchScore ep query in
       if s = 0 then None else Some (score_add (fst x) s, snd x @ reasons)))"

definition schema_filter :: "searchIndexes \<Rightarrow> ResolvedOperation \<Rightarrow> string \<Rightarrow> scored \<Rightarrow> scored option" where
  "schema_filter idx ep schema x = (if schema = [] then Some x
     else (case schemaUsageForEndpoint idx schema (OperationID ep) of
       None \<Rightarrow> None
     | Some (request, response) \<Rightarrow> Some
        (if request \<and> response then note_if True (halves 10) ''schema used in request and response'' x
         else if request then note_if True (halves 8) ''schema used in request body'' x
         else note_if response (halves 8) ''schema used in response body'' x)))"

definition status_filter :: "searchIndexes \<Rightarrow> ResolvedOperation \<Rightarrow> int \<Rightarrow> scored \<Rightarrow> scored option" where
  "status_filter idx ep status x = (if status \<le> 0 then Some x
     else (case statusUsageForEndpoint idx status (OperationID ep) of
       None \<Rightarrow> None
     | Some (success, err) \<Rightarrow> Some
        (note_if success (halves 4) (''matches success response status '' @ Itoa status)
          (note_if err (halves 7) (''matches error response status '' @ Itoa status) x))))"

record rankedSearchResult =
  rkEndpoint :: ResolvedOperation
  rkScore :: score
  rkReason :: "string list"

definition evaluateSearchEndpoint :: "ResolvedOperation \<Rightarrow> searchInput \<Rightarrow> searchIndexes \<Rightarrow> rankedSearchResult option" where
  "evaluateSearchEndpoint ep inp idx =
     (case Option.bind (method_filter ep (siMethod inp) (halves 2, [])) (\<lambda>x.
           Option.bind (tag_filter ep (siTag inp) x) (\<lambda>x.
           Option.bind (query_filter ep (siQuery inp) x) (\<lambda>x.
           Option.bind (schema_filter idx ep (siSchema inp) x) (\<lambda>x.
           status_filter idx ep (siStatus inp) x)))) of
        None \<Rightarrow> None
      | Some (s, reasons) \<Rightarrow> Some \<lparr>rkEndpoint = ep, rkScore = s,
          rkReason = uniqueStrings (if reasons = [] then [''matched by default listing''] else reasons)\<rparr>)"

definition rank :: "rankedSearchResult list \<Rightarrow> rankedSearchResult list" where
  "rank rs = sort_key (\<lambda>r. (- rkScore r, OperationID (rkEndpoint r))) rs"

section \<open>The result of a search\<close>

text \<open>Tags are copied into a nil slice, so an operation without tags has null there.\<close>

definition result_entry :: "rankedSearchResult \<Rightarrow> any" where
  "result_entry r = (let ep = rkEndpoint r in AMap [(''operationId'', AStr (OperationID ep)),
     (''method'', AStr (Method ep)), (''pathTemplate'', AStr (PathTemplate ep)), (''urlTemplate'', AStr (URLTemplate ep)),
     (''baseURL'', AStr (BaseURL ep)), (''summary'', AStr (Summary ep)), (''tags'', if Tags ep = [] then ANil else AStrs (Tags ep)),
     (''matchReason'', AStrs (rkReason r)), (''score'', score_value (rkScore r))])"

text \<open>A nil list of endpoints prints as null, too.\<close>

definition usage_endpoints :: "string \<Rightarrow> string \<Rightarrow> (string \<times> usage) list \<Rightarrow> any" where
  "usage_endpoints one two us = (if us = [] then ANil
     else AList (map (\<lambda>(opID, a, b). AMap [(''operationId'', AStr opID), (one, ABool a), (two, ABool b)])
       (sort_key fst us)))"

definition schemaUsageEndpoints :: "(string \<times> usage) list \<Rightarrow> any" where
  "schemaUsageEndpoints us = usage_endpoints ''request'' ''response'' us"

definition statusUsageEndpoints :: "(string \<times> usage) list \<Rightarrow> any" where
  "statusUsageEndpoints us = usage_endpoints ''success'' ''error'' us"

definition schema_entry :: "searchIndexes \<Rightarrow> string \<Rightarrow> string \<Rightarrow> any" where
  "schema_entry idx key name = AMap [(''schema'', AStr name),
     (''endpoints'', schemaUsageEndpoints (usages (SchemaUsage idx) key))]"

definition display_name :: "searchIndexes \<Rightarrow> string \<Rightarrow> string" where
  "display_name idx key = (case map_of (SchemaNames idx) key of Some n \<Rightarrow> n | None \<Rightarrow> [])"

definition schemaMatchesPayload :: "searchInput \<Rightarrow> searchIndexes \<Rightarrow> any" where
  "schemaMatchesPayload inp idx =
     (if siSchema inp \<noteq> [] then
        (let key = name_key (siSchema inp) in
         if usages (SchemaUsage idx) key = [] then AList [] else AList [schema_entry idx key (display_name idx key)])
      else if siQuery inp = [] then AList []
      else AList (map (\<lambda>(key, name). schema_entry idx key name)
        (sort_key (\<lambda>(key, name). TrimSpace name)
          (filter (\<lambda>(key, name). Contains (ToLower name) (siQuery inp) \<or> Contains key (siQuery inp)) (SchemaNames idx)))))"

definition usageMatchesPayload :: "searchInput \<Rightarrow> searchIndexes \<Rightarrow> any" where
  "usageMatchesPayload inp idx = AMap
     ([(''summary'', AMap [(''indexedSchemas'', AInt (int (length (SchemaUsage idx)))),
          (''indexedStatuses'', AInt (int (length (StatusUsage idx))))])]
      @ (if siSchema inp \<noteq> [] then (let key = name_key (siSchema inp) in
           [(''schema'', AMap [(''name'', AStr (display_name idx key)),
              (''endpoints'', schemaUsageEndpoints (usages (SchemaUsage idx) key))])]) else [])
      @ (if 0 < siStatus inp then [(''status'', AMap [(''code'', AInt (siStatus inp)),
              (''endpoints'', statusUsageEndpoints (usages (StatusUsage idx) (siStatus inp)))])] else []))"

definition includeSet :: "string list \<Rightarrow> string \<Rightarrow> bool" where
  "includeSet items key = (let asked = (\<lambda>k. k \<in> set (map name_key items)) in
     if asked ''endpoints'' \<or> asked ''schemas'' \<or> asked ''usage''
     then key \<in> {''endpoints'', ''schemas'', ''usage''} \<and> asked key else key = ''endpoints'')"

definition ranked_results :: "searchInput \<Rightarrow> ResolvedOperation list \<Rightarrow> rankedSearchResult list" where
  "ranked_results inp eps =
     rank (List.map_filter (\<lambda>ep. evaluateSearchEndpoint ep inp (buildSearchIndexes eps)) eps)"

text \<open>The loop appends an entry before it compares with the limit.\<close>

definition search_payload :: "searchInput \<Rightarrow> ResolvedOperation list \<Rightarrow> any" where
  "search_payload inp eps =
     (let idx = buildSearchIndexes eps; ranked = ranked_results inp eps; includes = includeSet (siInclude inp) in
      AMap ([(''count'', AInt (int (length ranked))),
        (''filters'', AMap [(''query'', AStr (siQuery inp)), (''method'', AStr (siMethod inp)), (''tag'', AStr (siTag inp)),
           (''schema'', AStr (siSchema inp)), (''status'', AInt (siStatus inp)), (''include'', AStrs (siInclude inp)),
           (''limit'', AInt (siLimit inp))]),
        (''results'', AList (if includes ''endpoints'' then map result_entry (take (nat (max 1 (siLimit inp))) ranked) else []))]
       @ (if includes ''schemas'' then [(''schemas'', schemaMatchesPayload inp idx)] else [])
       @ (if includes ''usage'' then [(''usage'', usageMatchesPayload inp idx)] else [])))"

definition swagger_error_text :: "swagger_error \<Rightarrow> string" where
  "swagger_error_text e = (case e of ErrNotFound \<Rightarrow> ''swagger object not found''
     | ErrUnavailable s \<Rightarrow> ''swagger source is not configured'' @ (if s = [] then [] else '': '' @ s) | ErrOther s \<Rightarrow> s)"

definition load_failure :: "swagger_error \<Rightarrow> any" where
  "load_failure e = errorResult ''invalid_request'' ''failed to load swagger endpoints''
     (AMap [(''error'', AStr (swagger_error_text e))])"

definition SearchExecute :: "(swagger_error, ResolvedOperation list) result option \<Rightarrow> any \<Rightarrow> any" where
  "SearchExecute listing input = (case listing of
     None \<Rightarrow> errorResult ''invalid_request'' ''swagger store is not configured'' ANil
   | Some listed \<Rightarrow> (case parseSearchInput input of
       Err e \<Rightarrow> errorResult ''invalid_request'' e ANil
     | Ok inp \<Rightarrow> (case listed of Err e \<Rightarrow> load_failure e | Ok eps \<Rightarrow> okResult (search_payload inp eps))))"

section \<open>The plan of a call\<close>

definition plan_needle :: "planCallInput \<Rightarrow> string" where
  "plan_needle inp = ToLower (TrimSpace (plQuery inp @ '' '' @ plGoal inp))"

definition select_operation :: "string \<Rightarrow> ResolvedOperation list \<Rightarrow> ResolvedOperation option" where
  "select_operation needle eps = (case find (\<lambda>ep. needle = [] \<or> matchesQuery ep needle) eps of
     Some ep \<Rightarrow> if TrimSpace (OperationID ep) = [] then None else Some ep | None \<Rightarrow> None)"

definition plan_step :: "int \<Rightarrow> string \<Rightarrow> string \<Rightarrow> any" where
  "plan_step n tool why = AMap [(''step'', AInt n), (''tool'', AStr tool), (''why'', AStr why)]"

definition plan_payload :: "planCallInput \<Rightarrow> ResolvedOperation \<Rightarrow> any" where
  "plan_payload inp ep = AMap [(''operation'', AMap [(''operationId'', AStr (OperationID ep)), (''method'', AStr (Method ep)),
        (''pathTemplate'', AStr (PathTemplate ep)), (''urlTemplate'', AStr (URLTemplate ep)),
        (''baseURL'', AStr (BaseURL ep)), (''summary'', AStr (Summary ep))]),
     (''context'', AMap [(''operationId'', AStr (plOperationID inp)), (''query'', AStr (plQuery inp)), (''goal'', AStr (plGoal inp))]),
     (''steps'', AList
       [plan_step 1 ''swagger.http.prepare_request'' ''Resolve URL/path params/query/body into a concrete HTTP request'',
        plan_step 2 ''swagger.http.validate_request'' ''Validate request params/body against swagger contract before execution'',
        plan_step 3 ''swagger.http.execute'' ''Run the real upstream HTTP call through MCP policy/auth/limits'',
        plan_step 4 ''swagger.http.validate_response'' ''Compare actual response with swagger response schema''])]"

definition PlanExecute :: "((string \<Rightarrow> (swagger_error, ResolvedOperation) result)
    \<times> (swagger_error, ResolvedOperation list) result) option \<Rightarrow> any \<Rightarrow> any" where
  "PlanExecute store input = (case store of
     None \<Rightarrow> errorResult ''invalid_request'' ''swagger store is not configured'' ANil
   | Some (lookup, listed) \<Rightarrow> (case parsePlanCallInput input of
       Err e \<Rightarrow> errorResult ''invalid_request'' e ANil
     | Ok inp \<Rightarrow>
        if plOperationID inp \<noteq> [] then (case lookup (plOperationID inp) of
            Err e \<Rightarrow> errorResult ''invalid_request'' ''operationId is not found in swagger''
              (AMap [(''operationId'', AStr (plOperationID inp))])
          | Ok ep \<Rightarrow> okResult (plan_payload inp ep))
        else (case listed of
            Err e \<Rightarrow> load_failure e
          | Ok eps \<Rightarrow> (case select_operation (plan_needle inp) eps of
              None \<Rightarrow> errorResult ''invalid_request'' ''unable to select an operation, provide operationId or a better query'' ANil
            | Some ep \<Rightarrow> okResult (plan_payload inp ep)))))"

section \<open>What the indexes hold\<close>

text \<open>An index is built by marking; a look-up sees the marks of its key and operation, and no others.\<close>

type_synonym 'k marks = "('k \<times> string \<times> usage) list"

definition apply_marks :: "'k marks \<Rightarrow> ('k \<times> (string \<times> usage) list) list \<Rightarrow> ('k \<times> (string \<times> usage) list) list" where
  "apply_marks ms m = fold (\<lambda>(key, opID, u). mark key opID u) ms m"

definition marks_with :: "(usage \<Rightarrow> bool) \<Rightarrow> 'k marks \<Rightarrow> 'k \<Rightarrow> string \<Rightarrow> bool" where
  "marks_with P ms key opID \<longleftrightarrow> (\<exists>e \<in> set ms. fst e = key \<and> fst (snd e) = opID \<and> P (snd (snd e)))"

definition marked :: "'k marks \<Rightarrow> 'k \<Rightarrow> string \<Rightarrow> bool" where
  "marked ms key opID \<longleftrightarrow> (\<exists>e \<in> set ms. fst e = key \<and> fst (snd e) = opID)"

lemma apply_marks_simps [simp]:
  "apply_marks [] m = m"
  "apply_marks (ms @ ms') m = apply_marks ms' (apply_marks ms m)"
  "apply_marks ((key, opID, u) # ms) m = apply_marks ms (mark key opID u m)"
  by (simp_all add: apply_marks_def)

lemma usages_mark: "map_of (usages (mark key opID u m) key') opID' =
  (if key = key' \<and> opID = opID'
   then Some (fst (usage_at m key opID) \<or> fst u, snd (usage_at m key opID) \<or> snd u)
   else map_of (usages m key') opID')"
  by (auto simp: usages_def mark_def split: option.split)

lemma usage_at_mark: "usage_at (mark k i u m) key opID = (if k = key \<and> i = opID
    then (fst (usage_at m k i) \<or> fst u, snd (usage_at m k i) \<or> snd u) else usage_at m key opID)"
  by (simp add: usage_at_def usages_mark)

lemma marks_simps [simp]:
  "marks_with P ((k, i, u) # ms) key opID \<longleftrightarrow> (k = key \<and> i = opID \<and> P u) \<or> marks_with P ms key opID"
  "marked ((k, i, u) # ms) key opID \<longleftrightarrow> (k = key \<and> i = opID) \<or> marked ms key opID"
  "marked (ms @ ms') key opID \<longleftrightarrow> marked ms key opID \<or> marked ms' key opID"
  "marked (concat (map f eps)) key opID \<longleftrightarrow> (\<exists>ep \<in> set eps. marked (f ep) key opID)"
  "marked (map (\<lambda>n. (g n, i, u)) ns) key opID \<longleftrightarrow> i = opID \<and> key \<in> g ` set ns"
  "\<not> marked [] key opID" "\<not> marks_with P [] key opID"
  by (auto simp: marks_with_def marked_def)

lemma lookup_marks: "map_of (usages (apply_marks ms m) key) opID =
  (if marked ms key opID \<or> map_of (usages m key) opID \<noteq> None
   then Some (marks_with fst ms key opID \<or> fst (usage_at m key opID),
              marks_with snd ms key opID \<or> snd (usage_at m key opID))
   else None)"
proof (induction ms arbitrary: m)
  case Nil
  show ?case by (auto simp: usage_at_def split: option.split)
next
  case (Cons e ms)
  obtain k i u where e: "e = (k, i, u)" by (metis prod_cases3)
  show ?case
    unfolding e apply_marks_simps Cons.IH
    by (cases "k = key"; cases "i = opID") (simp_all add: usage_at_mark usages_mark disj_ac)
qed

definition name_marks :: "string \<Rightarrow> usage \<Rightarrow> any \<Rightarrow> string marks" where
  "name_marks opID u schema = map (\<lambda>n. (name_key n, opID, u)) (filter (\<lambda>n. name_key n \<noteq> []) (collectSchemaNames schema))"

definition status_marks :: "string \<Rightarrow> usage \<Rightarrow> ApiResponse list \<Rightarrow> int marks" where
  "status_marks opID u rs = map (\<lambda>r. (rsStatus r, opID, u)) (filter (\<lambda>r. 0 < rsStatus r) rs)"

definition endpoint_marks :: "ResolvedOperation \<Rightarrow> string marks \<times> int marks" where
  "endpoint_marks ep = (let opID = TrimSpace (OperationID ep) in
     if opID = [] then ([], [])
     else (name_marks opID (True, False) (rqBodySchema (ApiRequest ep))
             @ concat (map (\<lambda>r. name_marks opID (False, True) (rsBodySchema r)) (rgSuccess (Responses ep) @ rgErrors (Responses ep))),
           status_marks opID (True, False) (rgSuccess (Responses ep))
             @ status_marks opID (False, True) (rgErrors (Responses ep))))"

lemma fold_addSchemaUsage:
  "SchemaUsage (fold (addSchemaUsage opID u) ns idx)
     = apply_marks (map (\<lambda>n. (name_key n, opID, u)) (filter (\<lambda>n. name_key n \<noteq> []) ns)) (SchemaUsage idx)
   \<and> StatusUsage (fold (addSchemaUsage opID u) ns idx) = StatusUsage idx"
  by (induction ns arbitrary: idx) (simp_all add: addSchemaUsage_def Let_def)

lemma fold_add_response_usage:
  "SchemaUsage (fold (add_response_usage opID u) rs idx)
     = apply_marks (concat (map (\<lambda>r. name_marks opID (False, True) (rsBodySchema r)) rs)) (SchemaUsage idx)
   \<and> StatusUsage (fold (add_response_usage opID u) rs idx) = apply_marks (status_marks opID u rs) (StatusUsage idx)"
  by (induction rs arbitrary: idx)
     (simp_all add: add_response_usage_def addStatusUsage_def fold_addSchemaUsage name_marks_def status_marks_def)

lemma index_endpoint_marks:
  "SchemaUsage (index_endpoint ep idx) = apply_marks (fst (endpoint_marks ep)) (SchemaUsage idx)"
  "StatusUsage (index_endpoint ep idx) = apply_marks (snd (endpoint_marks ep)) (StatusUsage idx)"
  by (simp_all add: index_endpoint_def endpoint_marks_def fold_addSchemaUsage fold_add_response_usage name_marks_def Let_def)

lemma build_marks:
  "SchemaUsage (buildSearchIndexes eps) = apply_marks (concat (map (fst \<circ> endpoint_marks) eps)) []"
  "StatusUsage (buildSearchIndexes eps) = apply_marks (concat (map (snd \<circ> endpoint_marks) eps)) []"
proof -
  have "SchemaUsage (fold index_endpoint eps idx) = apply_marks (concat (map (fst \<circ> endpoint_marks) eps)) (SchemaUsage idx)
    \<and> StatusUsage (fold index_endpoint eps idx) = apply_marks (concat (map (snd \<circ> endpoint_marks) eps)) (StatusUsage idx)" for idx
    by (induction eps arbitrary: idx) (simp_all add: index_endpoint_marks)
  then show "SchemaUsage (buildSearchIndexes eps) = apply_marks (concat (map (fst \<circ> endpoint_marks) eps)) []"
    and "StatusUsage (buildSearchIndexes eps) = apply_marks (concat (map (snd \<circ> endpoint_marks) eps)) []"
    by (simp_all add: buildSearchIndexes_def no_indexes_def)
qed

section \<open>What a search finds\<close>

lemma bit_length_le: "0 < n \<Longrightarrow> 2 ^ (bit_length n - 1) \<le> n"
proof (induction n rule: bit_length.induct)
  case (1 n)
  show ?case
  proof (cases "n = 1")
    case True
    then show ?thesis by (simp add: bit_length.simps)
  next
    case False
    with 1 have half: "0 < n div 2" and IH: "2 ^ (bit_length (n div 2) - 1) \<le> n div 2" by auto
    obtain k where k: "bit_length (n div 2) = Suc k" using half by (subst (asm) bit_length.simps) (simp add: bit_length.simps)
    have "bit_length n = Suc (Suc k)" using 1 k by (simp add: bit_length.simps [of n])
    with IH k show ?thesis by simp
  qed
qed

lemma round53_pos: "0 < n \<Longrightarrow> 0 < round53 n"
proof -
  assume n: "0 < n"
  let ?p = "2 ^ (bit_length n - 53) :: int"
  have "?p \<le> 2 ^ (bit_length n - 1)" by (rule power_increasing) auto
  also have "\<dots> \<le> n" using n by (rule bit_length_le)
  finally have "1 \<le> n div ?p" by (metis div_self order_less_le zdiv_mono1 zero_less_numeral zero_less_power)
  then have "0 < half_even n ?p" by (auto simp: half_even_def Let_def)
  then show ?thesis by (simp add: round53_def Let_def)
qed

lemma note_if_pos:
  assumes "0 \<le> fst x" and "0 < points"
  shows "0 \<le> fst (note_if b points reason x)" and "fst (note_if b points reason x) = 0 \<longleftrightarrow> \<not> b \<and> fst x = 0"
  using assms round53_pos [of "fst x + points"] by (auto simp: note_if_def score_add_def)

lemma queryMatchScore_matches: "fst (queryMatchScore ep query) \<noteq> 0 \<longleftrightarrow> matchesQuery ep query"
proof -
  have h: "0 < halves 2" "0 < halves 3" "0 < halves 4" "0 < halves 6" by (simp_all add: halves_def)
  show ?thesis
    by (auto simp: queryMatchScore_def matchesQuery_def case_prod_beta note_if_pos h)
qed

text \<open>An operation mentions a schema or declares a status in the index when one of its own bodies or responses does.\<close>

definition bodies :: "ResolvedOperation \<Rightarrow> any list" where
  "bodies ep = rqBodySchema (ApiRequest ep) # map rsBodySchema (rgSuccess (Responses ep) @ rgErrors (Responses ep))"

definition mentions :: "ResolvedOperation \<Rightarrow> string \<Rightarrow> bool" where
  "mentions ep name \<longleftrightarrow> name_key name \<noteq> [] \<and> (\<exists>b \<in> set (bodies ep). name_key name \<in> name_key ` set (collectSchemaNames b))"

definition declares :: "ResolvedOperation \<Rightarrow> int \<Rightarrow> bool" where
  "declares ep status \<longleftrightarrow> 0 < status \<and> status \<in> rsStatus ` set (rgSuccess (Responses ep) @ rgErrors (Responses ep))"

definition same_id :: "ResolvedOperation \<Rightarrow> ResolvedOperation \<Rightarrow> bool" where
  "same_id ep ep' \<longleftrightarrow> TrimSpace (OperationID ep) = TrimSpace (OperationID ep') \<and> TrimSpace (OperationID ep) \<noteq> []"

definition selected :: "searchInput \<Rightarrow> ResolvedOperation list \<Rightarrow> ResolvedOperation \<Rightarrow> bool" where
  "selected inp eps ep \<longleftrightarrow>
     (siMethod inp = [] \<or> ToUpper (Method ep) = siMethod inp)
   \<and> (siTag inp = [] \<or> (\<exists>tag \<in> set (Tags ep). EqualFold (TrimSpace tag) (siTag inp)))
   \<and> (siQuery inp = [] \<or> matchesQuery ep (siQuery inp))
   \<and> (siSchema inp = [] \<or> (\<exists>ep' \<in> set eps. same_id ep ep' \<and> mentions ep' (siSchema inp)))
   \<and> (siStatus inp \<le> 0 \<or> (\<exists>ep' \<in> set eps. same_id ep ep' \<and> declares ep' (siStatus inp)))"

lemma marked_names: "marked (name_marks opID u schema) key i \<longleftrightarrow>
    opID = i \<and> key \<noteq> [] \<and> key \<in> name_key ` set (collectSchemaNames schema)"
  by (auto simp: name_marks_def)

lemma marked_statuses: "marked (status_marks opID u rs) status i \<longleftrightarrow> opID = i \<and> 0 < status \<and> status \<in> rsStatus ` set rs"
  by (auto simp: status_marks_def)

lemma marked_endpoint:
  "marked (fst (endpoint_marks ep')) (name_key name) (TrimSpace (OperationID ep)) \<longleftrightarrow> same_id ep ep' \<and> mentions ep' name"
  by (auto simp: endpoint_marks_def same_id_def mentions_def bodies_def marked_names Let_def simp del: map_append)

lemma marked_status:
  "marked (snd (endpoint_marks ep')) status (TrimSpace (OperationID ep)) \<longleftrightarrow> same_id ep ep' \<and> declares ep' status"
  by (auto simp: endpoint_marks_def same_id_def declares_def marked_statuses Let_def)

lemma usages_Nil [simp]: "usages [] key = []"
  by (simp add: usages_def)

lemma schema_found: "schemaUsageForEndpoint (buildSearchIndexes eps) name (OperationID ep) \<noteq> None \<longleftrightarrow>
    (\<exists>ep' \<in> set eps. same_id ep ep' \<and> mentions ep' name)"
  by (simp add: schemaUsageForEndpoint_def build_marks lookup_marks marked_endpoint)

lemma status_found: "statusUsageForEndpoint (buildSearchIndexes eps) status (OperationID ep) \<noteq> None \<longleftrightarrow>
    (\<exists>ep' \<in> set eps. same_id ep ep' \<and> declares ep' status)"
  by (simp add: statusUsageForEndpoint_def build_marks lookup_marks marked_status)

lemma filters_pass:
  "method_filter ep m x \<noteq> None \<longleftrightarrow> m = [] \<or> ToUpper (Method ep) = m"
  "tag_filter ep tg x \<noteq> None \<longleftrightarrow> tg = [] \<or> (\<exists>tag \<in> set (Tags ep). EqualFold (TrimSpace tag) tg)"
  "query_filter ep q x \<noteq> None \<longleftrightarrow> q = [] \<or> matchesQuery ep q"
  "schema_filter idx ep sc x \<noteq> None \<longleftrightarrow> sc = [] \<or> schemaUsageForEndpoint idx sc (OperationID ep) \<noteq> None"
  "status_filter idx ep st x \<noteq> None \<longleftrightarrow> st \<le> 0 \<or> statusUsageForEndpoint idx st (OperationID ep) \<noteq> None"
  using queryMatchScore_matches [of ep q]
  by (auto simp: method_filter_def tag_filter_def query_filter_def schema_filter_def status_filter_def
      containsTag_def list_ex_iff split: option.split prod.split)

lemma bind_passes: "(\<And>x. f x \<noteq> None \<longleftrightarrow> Q) \<Longrightarrow> Option.bind o1 f \<noteq> None \<longleftrightarrow> o1 \<noteq> None \<and> Q"
  by (cases o1) auto

lemma evaluate_passes: "evaluateSearchEndpoint ep inp (buildSearchIndexes eps) \<noteq> None \<longleftrightarrow> selected inp eps ep"
proof -
  let ?idx = "buildSearchIndexes eps"
  have "evaluateSearchEndpoint ep inp ?idx \<noteq> None \<longleftrightarrow>
    Option.bind (method_filter ep (siMethod inp) (halves 2, [])) (\<lambda>x. Option.bind (tag_filter ep (siTag inp) x) (\<lambda>x.
      Option.bind (query_filter ep (siQuery inp) x) (\<lambda>x. Option.bind (schema_filter ?idx ep (siSchema inp) x) (\<lambda>x.
        status_filter ?idx ep (siStatus inp) x)))) \<noteq> None"
    by (simp add: evaluateSearchEndpoint_def split: option.split)
  also have "\<dots> \<longleftrightarrow> selected inp eps ep"
    unfolding selected_def schema_found [symmetric] status_found [symmetric]
    by (intro bind_passes [THEN trans] conj_cong filters_pass) (simp_all only: filters_pass)
  finally show ?thesis .
qed

lemma rank_props:
  "mset (rank rs) = mset rs"
  "sorted_wrt (\<lambda>r r'. (- rkScore r, OperationID (rkEndpoint r)) \<le> (- rkScore r', OperationID (rkEndpoint r'))) (rank rs)"
  using sorted_sort_key [of "\<lambda>r. (- rkScore r, OperationID (rkEndpoint r))" rs]
  by (simp_all add: rank_def sorted_map)

lemma mset_map_filter: "(\<And>x y. f x = Some y \<Longrightarrow> g y = x) \<Longrightarrow>
    mset (map g (List.map_filter f xs)) = mset (filter (\<lambda>x. f x \<noteq> None) xs)"
  by (induction xs) (auto simp: map_filter_simps split: option.split)

lemma evaluated_endpoint: "evaluateSearchEndpoint ep inp idx = Some r \<Longrightarrow> rkEndpoint r = ep"
  by (auto simp: evaluateSearchEndpoint_def split: option.splits)


text \<open>
  A plan is sought with the query and the goal joined into one needle, so an operation that
  matches each of them is not found by both.
\<close>

lemma plan_needs_both_adjacent:
  "matchesQuery sample_endpoint ''addpet'' \<and> matchesQuery sample_endpoint ''pets''
   \<and> select_operation (plan_needle \<lparr>plOperationID = [], plQuery = ''addpet'', plGoal = ''pets''\<rparr>) [sample_endpoint] = None"
  by code_simp

end
