(* ===== verification/ToolGenerate.thy ===== *)
theory ToolGenerate
  imports ToolCalls GoFloat Correlation
begin

text \<open>
  Synthesis of request bodies from schemas (\<open>internal/tool/swagger_generate_payload.go\<close>). The
  seeded generator of \<open>math/rand\<close> is an argument: the answer to the k-th request for a number
  below a bound. The generator's state is the number of requests so far and the warnings.

  The code recurses on the schema and counts its depth, giving up beyond 32; the model runs a
  step function on a bounded number of rounds, and \<open>generate_unfold\<close> shows that the bound is
  never reached.
\<close>

section \<open>Copies through JSON\<close>

text \<open>The grammar of JSON numbers, which \<open>json.Number\<close> is checked against.\<close>

definition json_exponent :: "string \<Rightarrow> bool" where
  "json_exponent r \<longleftrightarrow> r = [] \<or> ((prefix ''e'' r \<or> prefix ''E'' r)
     \<and> (let ds = (if prefix ''-'' (drop 1 r) \<or> prefix ''+'' (drop 1 r) then drop 2 r else drop 1 r) in
        ds \<noteq> [] \<and> list_all dec_digit ds))"

definition json_fraction :: "string \<Rightarrow> bool" where
  "json_fraction r = (if prefix ''.'' r
     then takeWhile dec_digit (drop 1 r) \<noteq> [] \<and> json_exponent (dropWhile dec_digit (drop 1 r)) else json_exponent r)"

definition json_number :: "string \<Rightarrow> bool" where
  "json_number s \<longleftrightarrow> (let r = (if prefix ''-'' s then drop 1 s else s); w = takeWhile dec_digit r in
     w \<noteq> [] \<and> (length w = 1 \<or> hd w \<noteq> CHR ''0'') \<and> json_fraction (dropWhile dec_digit r))"

definition number_value :: "string \<Rightarrow> f64 option" where
  "number_value s = (let t = (if s = [] then ''0'' else s) in if json_number t then ParseFloat t else None)"

text \<open>
  What comes back from encoding and decoding: numbers as floats, bytes in base64, lists and maps
  of the general kind. Texts are taken to be valid UTF-8, as decoded JSON and YAML is. A number
  that is not one makes the code keep the value as it was.
\<close>

fun json_fine :: "any \<Rightarrow> bool" where
  "json_fine (ANumber s) = (number_value s \<noteq> None)"
| "json_fine (AList vs) = list_all json_fine vs"
| "json_fine (AMap m) = list_all (\<lambda>(k, v). json_fine v) m"
| "json_fine v = True"

fun json_copy :: "any \<Rightarrow> any" where
  "json_copy (AInt i) = AFloat (float64_of_int i)"
| "json_copy (AUint n) = AFloat (float64_of_int (int n))"
| "json_copy (ANumber s) = (case number_value s of Some f \<Rightarrow> AFloat f | None \<Rightarrow> ANumber s)"
| "json_copy (AStrs ss) = AList (map AStr ss)"
| "json_copy (ABytes s) = AStr (StdBase64 s)"
| "json_copy (AList vs) = AList (map json_copy vs)"
| "json_copy (AMap m) = AMap (map (\<lambda>(k, v). (k, json_copy v)) m)"
| "json_copy (AStrMap m) = AMap (map (\<lambda>(k, s). (k, AStr s)) m)"
| "json_copy v = v"

definition cloneJSONValue :: "any \<Rightarrow> any" where
  "cloneJSONValue v = (if json_fine v then json_copy v else v)"

text \<open>Other values are encoded and decoded as the kind asked for; only string maps and lists of strings pass.\<close>

definition schemaAsMap :: "any \<Rightarrow> anymap option" where
  "schemaAsMap v = (case v of AMap m \<Rightarrow> Some m | AStrMap m \<Rightarrow> Some (map (\<lambda>(k, s). (k, AStr s)) m) | _ \<Rightarrow> None)"

definition schemaArray :: "any \<Rightarrow> any list option" where
  "schemaArray v = (case v of AList vs \<Rightarrow> Some vs | AStrs ss \<Rightarrow> Some (map AStr ss) | _ \<Rightarrow> None)"

definition array_at :: "anymap \<Rightarrow> string \<Rightarrow> any list" where
  "array_at m key = (case schemaArray (mapValue m key) of Some vs \<Rightarrow> vs | None \<Rightarrow> [])"

section \<open>Reading a schema\<close>

definition first_non_nil :: "any list \<Rightarrow> any option" where
  "first_non_nil vs = map_option cloneJSONValue (find (\<lambda>v. v \<noteq> ANil) vs)"

definition map_values_sorted :: "anymap \<Rightarrow> any list" where
  "map_values_sorted m = map snd (sort_key fst m)"

definition firstSchemaExample :: "anymap \<Rightarrow> any option" where
  "firstSchemaExample m =
     (case first_non_nil [mapValue m ''example''] of
        Some e \<Rightarrow> Some e
      | None \<Rightarrow> (case map_of m ''examples'' of
          None \<Rightarrow> None
        | Some raw \<Rightarrow> (case first_non_nil (case schemaArray raw of Some vs \<Rightarrow> vs | None \<Rightarrow> []) of
            Some e \<Rightarrow> Some e
          | None \<Rightarrow> first_non_nil (case schemaAsMap raw of Some ex \<Rightarrow> map_values_sorted ex | None \<Rightarrow> []))))"

definition schemaEnum :: "anymap \<Rightarrow> any list" where
  "schemaEnum m = (case mapValue m ''enum'' of AList vs \<Rightarrow> vs | AStrs ss \<Rightarrow> map AStr ss | _ \<Rightarrow> [])"

definition schemaTypeOrInfer :: "anymap \<Rightarrow> string" where
  "schemaTypeOrInfer m = (if schemaType m \<noteq> [] then schemaType m
     else if map_of m ''properties'' \<noteq> None then ''object'' else if map_of m ''items'' \<noteq> None then ''array'' else [])"

definition numberAsFloat :: "any \<Rightarrow> f64 option" where
  "numberAsFloat v = (case v of AFloat f \<Rightarrow> Some f | AInt i \<Rightarrow> Some (float64_of_int i)
     | AUint n \<Rightarrow> Some (float64_of_int (int n)) | ANumber s \<Rightarrow> ParseFloat s
     | AStr s \<Rightarrow> ParseFloat (TrimSpace s) | _ \<Rightarrow> None)"

definition numberAsInt :: "any \<Rightarrow> int option" where
  "numberAsInt v = map_option (\<lambda>f. to_int64 (f64_round f)) (numberAsFloat v)"

section \<open>The generator\<close>

record payloadGenerator =
  pgStrategy :: string
  pgRandom :: "nat \<Rightarrow> int \<Rightarrow> int"

record gen_state =
  gsDraws :: nat
  gsWarnings :: "string list"

type_synonym 'a gen = "gen_state \<Rightarrow> 'a \<times> gen_state"

definition payloadStrategyMinimal :: string where "payloadStrategyMinimal = ''minimal''"
definition payloadStrategyExample :: string where "payloadStrategyExample = ''example''"
definition payloadStrategyMaximal :: string where "payloadStrategyMaximal = ''maximal''"

definition newPayloadGenerator :: "(int \<Rightarrow> nat \<Rightarrow> int \<Rightarrow> int) \<Rightarrow> string \<Rightarrow> int \<Rightarrow> payloadGenerator \<times> gen_state" where
  "newPayloadGenerator source strategy seed =
     (\<lparr>pgStrategy = strategy, pgRandom = source (if seed = 0 then 1 else seed)\<rparr>, \<lparr>gsDraws = 0, gsWarnings = []\<rparr>)"

definition maximal :: "payloadGenerator \<Rightarrow> bool" where
  "maximal g \<longleftrightarrow> pgStrategy g = payloadStrategyMaximal"

definition warn :: "string \<Rightarrow> gen_state \<Rightarrow> gen_state" where
  "warn message s = (if TrimSpace message = [] then s else s\<lparr>gsWarnings := gsWarnings s @ [message]\<rparr>)"

definition draw :: "payloadGenerator \<Rightarrow> int \<Rightarrow> int gen" where
  "draw g bound s = (pgRandom g (gsDraws s) bound, s\<lparr>gsDraws := Suc (gsDraws s)\<rparr>)"

fun each :: "('a \<Rightarrow> 'b gen) \<Rightarrow> 'a list \<Rightarrow> 'b list gen" where
  "each f [] s = ([], s)"
| "each f (x # xs) s = (let (y, s) = f x s; (ys, s) = each f xs s in (y # ys, s))"

definition chooseCompositeOption :: "payloadGenerator \<Rightarrow> nat \<Rightarrow> nat" where
  "chooseCompositeOption g count = (if count \<le> 1 then 0 else if maximal g then count - 1 else 0)"

definition hex_padded :: "nat \<Rightarrow> nat \<Rightarrow> string" where
  "hex_padded w n = (let h = hex_digits n in zeros (w - length h) @ h)"

definition uuid_text :: "payloadGenerator \<Rightarrow> string gen" where
  "uuid_text g s = (let (a, s) = draw g (2 ^ 32) s; (b, s) = draw g (2 ^ 32) s; (c, s) = draw g (2 ^ 64) s in
     (hex_padded 8 (nat a) @ ''-'' @ hex_padded 4 (nat (b mod 2 ^ 16)) @ ''-4000-8000-'' @ hex_padded 12 (nat (c mod 2 ^ 48)), s))"

definition format_text :: "payloadGenerator \<Rightarrow> string \<Rightarrow> string gen" where
  "format_text g format s =
     (if format = ''email'' then (''user@example.com'', s)
      else if format = ''uuid'' then uuid_text g s
      else if format = ''date'' then (''2025-01-01'', s)
      else if format = ''date-time'' then (''2025-01-01T00:00:00Z'', s)
      else if format \<in> {''uri'', ''url''} then (''https://example.com/resource'', s)
      else if format = ''ipv4'' then (''203.0.113.10'', s)
      else if format = ''ipv6'' then (''2001:db8::1'', s)
      else (let (n, s) = draw g 100000 s in (''value-'' @ Itoa n, s)))"

definition fit_length :: "anymap \<Rightarrow> string \<Rightarrow> string" where
  "fit_length m v =
     (let lo = (case numberAsInt (mapValue m ''minLength'') of Some n \<Rightarrow> n | None \<Rightarrow> 0);
          v = (if 0 < lo \<and> int (length v) < lo then v @ replicate (nat lo - length v) (CHR ''x'') else v) in
      case numberAsInt (mapValue m ''maxLength'') of
        Some hi \<Rightarrow> if 0 < hi \<and> int (length v) > hi then take (nat hi) v else v
      | None \<Rightarrow> v)"

definition generateString :: "payloadGenerator \<Rightarrow> anymap \<Rightarrow> string gen" where
  "generateString g m s =
     (let (v, s) = format_text g (ToLower (TrimSpace (valueAsString (mapValue m ''format'')))) s in
      (fit_length m v, if TrimSpace (valueAsString (mapValue m ''pattern'')) = [] then s
        else warn ''pattern constraint is not fully synthesized; generated fallback string'' s))"

definition bound_of :: "payloadGenerator \<Rightarrow> anymap \<Rightarrow> (f64 \<times> bool) option" where
  "bound_of g m =
     (case (if maximal g then numberAsFloat (mapValue m ''maximum'') else None) of
        Some f \<Rightarrow> Some (f, True)
      | None \<Rightarrow> map_option (\<lambda>f. (f, False)) (numberAsFloat (mapValue m ''minimum'')))"

definition generateInteger :: "payloadGenerator \<Rightarrow> anymap \<Rightarrow> int gen" where
  "generateInteger g m s = (case bound_of g m of
     Some (f, upper) \<Rightarrow> (to_int64 (if upper then f64_floor f else f64_ceil f), s)
   | None \<Rightarrow> (let (n, s) = draw g 100 s in (n, s)))"

definition generateNumber :: "payloadGenerator \<Rightarrow> anymap \<Rightarrow> f64 gen" where
  "generateNumber g m s = (case bound_of g m of
     Some (f, upper) \<Rightarrow> (f, s)
   | None \<Rightarrow> (let (n, s) = draw g 100 s in (canon (10 * n + 5) (-1), s)))"

section \<open>Merging\<close>

lemma size_entry_any [termination_simp]: "(k, v) \<in> set m \<Longrightarrow> size v < Suc (size_list (size_prod (\<lambda>x. 0) size) m)"
  by (induction m) auto

lemma size_entry_map [termination_simp]:
  "(k, AMap p) \<in> set m \<Longrightarrow> size_list (size_prod (\<lambda>x. 0) size) p < size_list (size_prod (\<lambda>x. 0) size) m"
  by (induction m) auto

definition clone_entries :: "anymap \<Rightarrow> anymap" where
  "clone_entries m = (case cloneJSONValue (AMap m) of AMap m' \<Rightarrow> m' | _ \<Rightarrow> m)"

fun deepMergeMaps :: "anymap \<Rightarrow> anymap \<Rightarrow> anymap" where
  "deepMergeMaps base patch = fold (\<lambda>(k, v) out. map_set k
     (case v of
        AMap p \<Rightarrow> (case map_of out k of Some (AMap cur) \<Rightarrow> AMap (deepMergeMaps cur p) | _ \<Rightarrow> cloneJSONValue v)
      | _ \<Rightarrow> cloneJSONValue v) out) patch (clone_entries base)"

declare deepMergeMaps.simps [simp del]

definition mergePayloadOverrides :: "any \<Rightarrow> anymap \<Rightarrow> any gen" where
  "mergePayloadOverrides generated overrides s =
     (if overrides = [] then (generated, s)
      else (case generated of
          AMap base \<Rightarrow> (AMap (deepMergeMaps base overrides), s)
        | _ \<Rightarrow> (cloneJSONValue (AMap overrides), warn ''generated body is not object; overrides replaced body entirely'' s)))"

section \<open>One step of the generator\<close>

text \<open>The argument \<open>gen\<close> is the generator itself, applied to the parts of the schema.\<close>

type_synonym generator = "any \<Rightarrow> string \<Rightarrow> nat \<Rightarrow> any gen"

definition generateAllOf :: "generator \<Rightarrow> any list \<Rightarrow> string \<Rightarrow> nat \<Rightarrow> any gen" where
  "generateAllOf gen options path depth s =
     (let (parts, s) = each (\<lambda>(i, option) s.
            (case gen option (path @ ''/allOf/'' @ Itoa (int i)) (depth + 1) s of
               (AMap part, s) \<Rightarrow> ([part], s)
             | (v, s) \<Rightarrow> ([], warn (''allOf at '' @ path @ '' contains non-object option '' @ Itoa (int i)) s)))
          (enumerate 0 options) s;
        parts = concat parts in
      (if parts = [] then ANil else AMap (foldl deepMergeMaps [] parts), s))"

definition chosen_keys :: "payloadGenerator \<Rightarrow> anymap \<Rightarrow> anymap \<Rightarrow> string list" where
  "chosen_keys g m props = filter (\<lambda>k. maximal g \<or> k \<in> set (schemaRequired m)) (sort (map_keys props))"

definition undefined_keys :: "anymap \<Rightarrow> anymap \<Rightarrow> string list" where
  "undefined_keys m props = filter (\<lambda>k. k \<notin> set (map_keys props)) (schemaRequired m)"

text \<open>
  Required names without a definition come in map order in the code; here in the order of the
  schema, which only orders their warnings.
\<close>

definition generateObject :: "payloadGenerator \<Rightarrow> generator \<Rightarrow> anymap \<Rightarrow> string \<Rightarrow> nat \<Rightarrow> any gen" where
  "generateObject g gen m path depth s =
     (let props = (case schemaAsMap (mapValue m ''properties'') of Some p \<Rightarrow> p | None \<Rightarrow> []) in
      if props = [] then (AMap [], s)
      else (let (fields, s) = each (\<lambda>k s. let (v, s) = gen (mapValue props k) (path @ ''/'' @ k) (depth + 1) s in ((k, v), s))
                (chosen_keys g m props) s;
              (rest, s) = each (\<lambda>k s. ((k, AStr ''value''),
                  warn (''required property '' @ quote k @ '' at '' @ path @ '' is not defined in properties'') s))
                (undefined_keys m props) s in
            (AMap (fields @ rest), s)))"

definition array_length :: "payloadGenerator \<Rightarrow> anymap \<Rightarrow> int" where
  "array_length g m =
     (let lo = numberAsInt (mapValue m ''minItems''); at_least = (\<lambda>n. case lo of Some k \<Rightarrow> max n k | None \<Rightarrow> n) in
      if maximal g
      then at_least (min 8 (case numberAsInt (mapValue m ''maxItems'') of Some k \<Rightarrow> if 0 < k then k else 3 | None \<Rightarrow> 3))
      else at_least 1)"

definition generateArray :: "payloadGenerator \<Rightarrow> generator \<Rightarrow> anymap \<Rightarrow> string \<Rightarrow> nat \<Rightarrow> any gen" where
  "generateArray g gen m path depth s =
     (let (vs, s) = each (\<lambda>i. gen (mapValue m ''items'') (path @ ''/items/'' @ Itoa (int i)) (depth + 1))
        [0..<nat (array_length g m)] s in (AList vs, s))"

definition generateOption :: "payloadGenerator \<Rightarrow> generator \<Rightarrow> string \<Rightarrow> any list \<Rightarrow> string \<Rightarrow> nat \<Rightarrow> any gen" where
  "generateOption g gen kind options path depth s =
     (let i = chooseCompositeOption g (length options) in
      gen (options ! i) (path @ ''/'' @ kind @ ''/'' @ Itoa (int i)) (depth + 1)
        (warn (kind @ '' at '' @ path @ '': selected option '' @ Itoa (int i) @ '', other options are conditional'') s))"

definition generateTyped :: "payloadGenerator \<Rightarrow> generator \<Rightarrow> anymap \<Rightarrow> string \<Rightarrow> nat \<Rightarrow> any gen" where
  "generateTyped g gen m path depth s =
     (let t = schemaTypeOrInfer m in
      if t = ''object'' then generateObject g gen m path (depth + 1) s
      else if t = ''array'' then generateArray g gen m path (depth + 1) s
      else if t = ''integer'' then (let (i, s) = generateInteger g m s in (AInt i, s))
      else if t = ''number'' then (let (f, s) = generateNumber g m s in (AFloat f, s))
      else if t = ''boolean'' then (ABool True, s)
      else if t = ''null'' then (ANil, s)
      else (let (v, s) = generateString g m s in (AStr v, s)))"

definition generate_step :: "payloadGenerator \<Rightarrow> generator \<Rightarrow> generator" where
  "generate_step g gen schema path depth s =
     (if 32 < depth then (ANil, warn (''max schema nesting depth reached at '' @ path) s)
      else (case schemaAsMap schema of
        None \<Rightarrow> (ANil, s)
      | Some m \<Rightarrow>
         if m = [] then (ANil, s)
         else (case firstSchemaExample m of
             Some e \<Rightarrow> (cloneJSONValue e, s)
           | None \<Rightarrow>
              if schemaEnum m \<noteq> [] then (cloneJSONValue (hd (schemaEnum m)), s)
              else if array_at m ''oneOf'' \<noteq> [] then generateOption g gen ''oneOf'' (array_at m ''oneOf'') path depth s
              else if array_at m ''anyOf'' \<noteq> [] then generateOption g gen ''anyOf'' (array_at m ''anyOf'') path depth s
              else if array_at m ''allOf'' \<noteq> [] then generateAllOf gen (array_at m ''allOf'') path (depth + 1) s
              else generateTyped g gen m path depth s)))"

fun generate_upto :: "payloadGenerator \<Rightarrow> nat \<Rightarrow> generator" where
  "generate_upto g 0 = (\<lambda>schema path depth s. (ANil, s))"
| "generate_upto g (Suc n) = generate_step g (generate_upto g n)"

definition generate :: "payloadGenerator \<Rightarrow> generator" where
  "generate g = generate_upto g 34"

section \<open>The bound is never reached\<close>

lemma each_cong: "(\<And>x s. x \<in> set xs \<Longrightarrow> f x s = h x s) \<Longrightarrow> each f xs s = each h xs s"
  by (induction xs arbitrary: s) (auto simp: Let_def split: prod.split)

definition agree_from :: "nat \<Rightarrow> generator \<Rightarrow> generator \<Rightarrow> bool" where
  "agree_from d gen gen' \<longleftrightarrow> (\<forall>schema path depth s. d \<le> depth \<longrightarrow> gen schema path depth s = gen' schema path depth s)"

lemma agreeD: "agree_from d gen gen' \<Longrightarrow> d \<le> depth \<Longrightarrow> gen schema path depth s = gen' schema path depth s"
  by (simp add: agree_from_def)

lemma step_agrees:
  assumes agree: "agree_from (Suc depth) gen gen'"
  shows "generate_step g gen schema path depth s = generate_step g gen' schema path depth s"
proof -
  have a: "gen x p d s = gen' x p d s" if "depth < d" for x p d s
    using agreeD [OF agree] that by simp
  have option: "generateOption g gen kind os path depth s = generateOption g gen' kind os path depth s" for kind os s
    by (simp add: generateOption_def a Let_def)
  have allof: "generateAllOf gen os path (depth + 1) s = generateAllOf gen' os path (depth + 1) s" for os s
    by (simp add: generateAllOf_def a)
  have obj: "generateObject g gen m path (depth + 1) s = generateObject g gen' m path (depth + 1) s" for m s
    by (simp add: generateObject_def a cong: if_cong)
  have arr: "generateArray g gen m path (depth + 1) s = generateArray g gen' m path (depth + 1) s" for m s
    using each_cong [of "[0..<nat (array_length g m)]"
        "\<lambda>i. gen (mapValue m ''items'') (path @ ''/items/'' @ Itoa (int i)) (depth + 1 + 1)"
        "\<lambda>i. gen' (mapValue m ''items'') (path @ ''/items/'' @ Itoa (int i)) (depth + 1 + 1)" s]
    by (simp add: generateArray_def a)
  show ?thesis
    unfolding generate_step_def generateTyped_def option allof obj arr ..
qed

lemma enough_rounds: "0 < n \<Longrightarrow> 0 < k \<Longrightarrow> 33 < depth + n \<Longrightarrow> 33 < depth + k \<Longrightarrow>
    generate_upto g n schema path depth s = generate_upto g k schema path depth s"
proof (induction n arbitrary: k schema path depth s)
  case (Suc n)
  obtain k' where k: "k = Suc k'" using Suc.prems by (cases k) auto
  show ?case
  proof (cases "32 < depth")
    case True
    then show ?thesis by (simp add: k generate_step_def)
  next
    case False
    with Suc.IH Suc.prems k have "agree_from (Suc depth) (generate_upto g n) (generate_upto g k')"
      by (auto simp: agree_from_def)
    from step_agrees [OF this] show ?thesis by (simp add: k)
  qed
qed simp

text \<open>The generator satisfies the recursive equation of the code.\<close>

lemma generate_unfold: "generate g schema path depth s = generate_step g (generate g) schema path depth s"
proof -
  have "generate g schema path depth s = generate_upto g 35 schema path depth s"
    unfolding generate_def by (rule enough_rounds) auto
  then show ?thesis by (simp add: generate_def eval_nat_numeral)
qed

section \<open>Generated payloads are valid\<close>

text \<open>
  Plain schemas, to a nesting of n: no examples, enumerations or alternatives, properties with
  distinct names, and no required names where no property is declared.
\<close>

definition simple_shape :: "anymap \<Rightarrow> bool" where
  "simple_shape m \<longleftrightarrow> firstSchemaExample m = None \<and> schemaEnum m = []
     \<and> list_all (\<lambda>k. array_at m k = []) [''oneOf'', ''anyOf'', ''allOf'']
     \<and> (case map_of m ''properties'' of None \<Rightarrow> True | Some (AMap ps) \<Rightarrow> map_ok ps | Some v \<Rightarrow> False)
     \<and> (schema_props m = [] \<longrightarrow> schemaRequired m = [])"

fun plain :: "nat \<Rightarrow> any \<Rightarrow> bool" where
  "plain 0 (AMap m) = (m = [])"
| "plain (Suc n) (AMap m) = (simple_shape m \<and> list_all (\<lambda>(k, s). plain n s) (schema_props m)
     \<and> (case map_of m ''items'' of None \<Rightarrow> True | Some s \<Rightarrow> plain n s))"
| "plain n v = True"

lemma each_all2: "(\<And>x s. x \<in> set xs \<Longrightarrow> P x (fst (f x s))) \<Longrightarrow> list_all2 P xs (fst (each f xs s))"
proof (induction xs arbitrary: s)
  case (Cons x xs)
  have "P x (fst (f x s))" and "list_all2 P xs (fst (each f xs (snd (f x s))))"
    using Cons by auto
  then show ?case by (simp add: case_prod_beta Let_def)
qed simp

lemma schema_list_Nil:
  "array_at m k = [] \<Longrightarrow> schema_list m k = []"
  "schemaEnum m = [] \<Longrightarrow> schema_list m ''enum'' = []"
  by (cases "map_of m k"; cases "the (map_of m k)"; simp add: array_at_def schemaArray_def schema_list_def mapValue_def)
     (cases "map_of m ''enum''"; cases "the (map_of m ''enum'')"; simp add: schemaEnum_def schema_list_def mapValue_def)

lemma no_alternatives:
  assumes "simple_shape m"
  shows "schema_list m ''oneOf'' = []" "schema_list m ''anyOf'' = []" "schema_list m ''allOf'' = []" "schema_list m ''enum'' = []"
  using assms schema_list_Nil by (simp_all add: simple_shape_def)

lemma simple_props:
  assumes "simple_shape m"
  shows "(case schemaAsMap (mapValue m ''properties'') of Some p \<Rightarrow> p | None \<Rightarrow> []) = schema_props m"
    and "map_ok (schema_props m)"
  using assms
  by (auto simp: simple_shape_def schemaAsMap_def schema_props_def mapValue_def split: option.splits any.splits)

lemma mapValue_entry: "map_ok ps \<Longrightarrow> (k, v) \<in> set ps \<Longrightarrow> mapValue ps k = v"
  by (simp add: mapValue_def)

lemma object_fields:
  assumes shape: "simple_shape m" and gen: "\<And>k p s. k \<in> set (map_keys (schema_props m)) \<Longrightarrow>
      conforms (fst (gen (mapValue (schema_props m) k) p (Suc depth) s)) (mapValue (schema_props m) k)"
  shows "\<exists>obj. fst (generateObject g gen m path depth s) = AMap obj
    \<and> (\<forall>k \<in> set (schemaRequired m). map_of obj k \<noteq> None)
    \<and> (\<forall>(k, sch) \<in> set (schema_props m). case map_of obj k of None \<Rightarrow> True | Some child \<Rightarrow> conforms child sch)"
proof (cases "schema_props m = []")
  case True
  with shape show ?thesis by (auto simp: generateObject_def simple_props simple_shape_def)
next
  case False
  let ?props = "schema_props m" and ?keys = "chosen_keys g m (schema_props m)"
  let ?f = "\<lambda>k s. let (v, s) = gen (mapValue ?props k) (path @ ''/'' @ k) (depth + 1) s in ((k, v), s)"
  let ?h = "\<lambda>k s. ((k, AStr ''value''),
      warn (''required property '' @ quote k @ '' at '' @ path @ '' is not defined in properties'') s)"
  obtain fields s1 where fields: "each ?f ?keys s = (fields, s1)" by fastforce
  obtain rest s2 where rest: "each ?h (undefined_keys m ?props) s1 = (rest, s2)" by fastforce
  have obj: "fst (generateObject g gen m path depth s) = AMap (fields @ rest)"
    using False fields rest by (simp add: generateObject_def simple_props [OF shape])
  have keys: "set ?keys \<subseteq> set (map_keys ?props)" by (auto simp: chosen_keys_def)
  have "list_all2 (\<lambda>k kv. fst kv = k \<and> conforms (snd kv) (mapValue ?props k)) ?keys (fst (each ?f ?keys s))"
    by (rule each_all2) (use gen keys in \<open>simp add: case_prod_beta Let_def subset_iff\<close>)
  then have f2: "list_all2 (\<lambda>k kv. fst kv = k \<and> conforms (snd kv) (mapValue ?props k)) ?keys fields"
    unfolding fields by simp
  have "list_all2 (\<lambda>k kv. fst kv = k) (undefined_keys m ?props) (fst (each ?h (undefined_keys m ?props) s1))"
    by (rule each_all2) simp
  then have r2: "list_all2 (\<lambda>k kv. fst kv = k) (undefined_keys m ?props) rest"
    unfolding rest by simp
  have mf: "map fst fields = ?keys" and mr: "map fst rest = undefined_keys m ?props"
    using f2 r2 by (auto simp: list_all2_conv_all_nth intro: nth_equalityI)
  have cf: "conforms v (mapValue ?props k)" if "(k, v) \<in> set fields" for k v
    using f2 that by (auto simp: list_all2_conv_all_nth in_set_conv_nth)
  have req: "map_of (fields @ rest) k \<noteq> None" if "k \<in> set (schemaRequired m)" for k
  proof -
    have "k \<in> set (map fst (fields @ rest))"
      using that mf mr by (auto simp: chosen_keys_def undefined_keys_def)
    then show ?thesis by (metis map_of_eq_None_iff list.set_map)
  qed
  have child: "conforms v sch" if "(k, sch) \<in> set ?props" "map_of (fields @ rest) k = Some v" for k sch v
  proof -
    have "k \<notin> set (map fst rest)" using that(1) mr by (force simp: undefined_keys_def)
    then have "map_of rest k = None" by (metis map_of_eq_None_iff list.set_map)
    with that(2) have "(k, v) \<in> set fields" by (auto simp: map_add_Some_iff dest: map_of_SomeD)
    from cf [OF this] show ?thesis using mapValue_entry [OF simple_props(2) [OF shape] that(1)] by simp
  qed
  have "\<forall>(k, sch) \<in> set ?props. case map_of (fields @ rest) k of None \<Rightarrow> True | Some v \<Rightarrow> conforms v sch"
    using child by (auto split: option.split simp del: map_of_append)
  with obj req show ?thesis by blast
qed

lemma array_items:
  assumes "\<And>p s. conforms (fst (gen (mapValue m ''items'') p (Suc depth) s)) (mapValue m ''items'')"
  shows "\<exists>vs. fst (generateArray g gen m path depth s) = AList vs \<and> (\<forall>v \<in> set vs. conforms v (mapValue m ''items''))"
proof -
  let ?f = "\<lambda>i. gen (mapValue m ''items'') (path @ ''/items/'' @ Itoa (int i)) (depth + 1)"
  have "list_all2 (\<lambda>i v. conforms v (mapValue m ''items'')) [0..<nat (array_length g m)]
      (fst (each ?f [0..<nat (array_length g m)] s))"
    by (rule each_all2) (use assms in auto)
  then show ?thesis
    by (auto simp: generateArray_def case_prod_beta Let_def list_all2_conv_all_nth in_set_conv_nth)
qed

lemma typed_conforms:
  assumes shape: "simple_shape m"
    and props: "\<And>k p s. k \<in> set (map_keys (schema_props m)) \<Longrightarrow>
      conforms (fst (gen (mapValue (schema_props m) k) p (depth + 2) s)) (mapValue (schema_props m) k)"
    and elems: "\<And>p s. map_of m ''items'' \<noteq> None \<Longrightarrow> conforms (fst (gen (mapValue m ''items'') p (depth + 2) s)) (mapValue m ''items'')"
  shows "conforms (fst (generateTyped g gen m path depth s)) (AMap m)"
proof -
  note alt = no_alternatives [OF shape]
  have base: "conforms v (AMap m) \<longleftrightarrow> type_ok (schemaType m) v
      \<and> (schemaType m = ''object'' \<longrightarrow> list_all (\<lambda>k. map_of (fields_of v) k \<noteq> None) (schemaRequired m)
         \<and> list_all (\<lambda>(k, s). case map_of (fields_of v) k of None \<Rightarrow> True | Some child \<Rightarrow> conforms child s) (schema_props m))
      \<and> (schemaType m = ''array'' \<longrightarrow> (case map_of m ''items'' of None \<Rightarrow> True
         | Some s \<Rightarrow> list_all (\<lambda>item. conforms item s) (elements_of v)))" for v
    by (subst conforms.simps) (simp add: alt)
  consider "schemaType m = ''object''" | "schemaType m = ''array''"
    | "schemaType m \<noteq> ''object''" "schemaType m \<noteq> ''array''" "schemaType m \<noteq> []" | "schemaType m = []"
    by blast
  then show ?thesis
  proof cases
    case 1
    have "conforms (fst (gen (mapValue (schema_props m) k) p (Suc (Suc depth)) s)) (mapValue (schema_props m) k)"
      if "k \<in> set (map_keys (schema_props m))" for k p s using props [OF that] by simp
    from object_fields [where gen = gen and depth = "Suc depth" and g = g and path = path and s = s, OF shape this]
    obtain obj where "fst (generateObject g gen m path (Suc depth) s) = AMap obj"
      "\<forall>k \<in> set (schemaRequired m). map_of obj k \<noteq> None"
      "\<forall>(k, sch) \<in> set (schema_props m). case map_of obj k of None \<Rightarrow> True | Some child \<Rightarrow> conforms child sch"
      by blast
    with 1 show ?thesis
      by (simp add: base generateTyped_def schemaTypeOrInfer_def fields_of_def type_ok_def list_all_iff)
  next
    case 2
    show ?thesis
    proof (cases "map_of m ''items''")
      case None
      with 2 show ?thesis
        by (simp add: base generateTyped_def schemaTypeOrInfer_def generateArray_def type_ok_def case_prod_beta Let_def)
    next
      case (Some sch)
      then have "conforms (fst (gen (mapValue m ''items'') p (Suc (Suc depth)) s)) (mapValue m ''items'')" for p s
        using elems by simp
      from array_items [where gen = gen and depth = "Suc depth" and g = g and path = path and s = s and m = m, OF this] Some
      obtain vs where "fst (generateArray g gen m path (Suc depth) s) = AList vs" "\<forall>v \<in> set vs. conforms v sch"
        by (auto simp: mapValue_def)
      with 2 Some show ?thesis
        by (simp add: base generateTyped_def schemaTypeOrInfer_def elements_of_def type_ok_def list_all_iff)
    qed
  next
    case 3
    then show ?thesis
      by (simp add: base generateTyped_def schemaTypeOrInfer_def type_ok_def isInteger_def isNumber_def case_prod_beta Let_def)
  next
    case 4
    then show ?thesis by (simp add: base type_ok_def)
  qed
qed

lemma generated_conforms: "plain n schema \<Longrightarrow> depth + 2 * n \<le> 34 \<Longrightarrow> conforms (fst (generate g schema path depth s)) schema"
proof (induction n arbitrary: schema path depth s)
  case 0
  then show ?case
    by (cases schema) (simp_all add: conforms.simps schema_list_def schemaType_def type_ok_def)
next
  case (Suc n)
  show ?case
  proof (cases schema)
    case (AMap m)
    show ?thesis
    proof (cases "m = []")
      case True
      with AMap show ?thesis by (simp add: conforms.simps schema_list_def schemaType_def type_ok_def)
    next
      case False
      from Suc.prems AMap have shape: "simple_shape m" and deep: "depth \<le> 32" by auto
      have props: "plain n (mapValue (schema_props m) k)" if "k \<in> set (map_keys (schema_props m))" for k
        using that Suc.prems(1) AMap mapValue_entry [OF simple_props(2) [OF shape]] by (fastforce simp: list_all_iff)
      have elems: "plain n (mapValue m ''items'')" if "map_of m ''items'' \<noteq> None"
        using that Suc.prems(1) AMap by (auto simp: mapValue_def)
      have "generate g schema path depth s = generateTyped g (generate g) m path depth s"
        using shape deep False
        by (subst generate_unfold) (simp add: AMap generate_step_def schemaAsMap_def simple_shape_def)
      moreover have "conforms (fst (generateTyped g (generate g) m path depth s)) (AMap m)"
        using Suc.prems(2) props elems by (intro typed_conforms [OF shape] Suc.IH) auto
      ultimately show ?thesis by (simp add: AMap)
    qed
  qed (simp_all add: conforms.simps)
qed

section \<open>The tool\<close>

record generatePayloadInput =
  giOperationID :: string
  giSeed :: int
  giStrategy :: string
  giOverrides :: anymap

definition go_type :: "any \<Rightarrow> string" where
  "go_type v = (case v of ANil \<Rightarrow> ''<nil>'' | ABool b \<Rightarrow> ''bool'' | AFloat f \<Rightarrow> ''float64'' | AInt i \<Rightarrow> ''int64''
     | AUint n \<Rightarrow> ''uint64'' | ANumber s \<Rightarrow> ''json.Number'' | AStr s \<Rightarrow> ''string'' | AStrs ss \<Rightarrow> ''[]string''
     | ABytes s \<Rightarrow> ''[]uint8'' | AList vs \<Rightarrow> ''[]interface {}'' | AMap m \<Rightarrow> ''map[string]interface {}''
     | AStrMap m \<Rightarrow> ''map[string]string'')"

definition int_text :: "string \<Rightarrow> (string, int) result" where
  "int_text s = (case ParseInt s of
     Some i \<Rightarrow> Ok i
   | None \<Rightarrow>
      (let ds = snd (sign_split s) in Err (''strconv.ParseInt: parsing '' @ quote s @
        (if ds = [] \<or> \<not> list_all dec_digit ds then '': invalid syntax'' else '': value out of range''))))"

definition parseInt64Any :: "any \<Rightarrow> (string, int) result" where
  "parseInt64Any v = (case v of
     AInt i \<Rightarrow> Ok i
   | AFloat f \<Rightarrow> Ok (to_int64 (f64_trunc f))
   | ANumber s \<Rightarrow> int_text s
   | AStr s \<Rightarrow> int_text (TrimSpace s)
   | _ \<Rightarrow> Err (''unsupported type '' @ go_type v))"

definition strategies :: "string list" where
  "strategies = [payloadStrategyMinimal, payloadStrategyExample, payloadStrategyMaximal]"

definition parse_seed :: "any \<Rightarrow> (string, int) result" where
  "parse_seed raw = (if raw = ANil then Ok 1 else located ''seed must be an integer'' (parseInt64Any raw))"

definition parseGeneratePayloadInput :: "any \<Rightarrow> (string, generatePayloadInput) result" where
  "parseGeneratePayloadInput input = (case parseToolInputEnvelope input True of
     Err e \<Rightarrow> Err e
   | Ok env \<Rightarrow> (case toAnyMap input of
       Err e \<Rightarrow> Err e
     | Ok inMap \<Rightarrow>
        (let query = query_or_legacy inMap (envQuery env); pick = (\<lambda>k. firstNonNil [mapValue query k, mapValue inMap k]);
             named = ToLower (TrimSpace (valueAsString (pick ''strategy'')));
             strategy = (if named = [] then payloadStrategyMinimal else named) in
         if strategy \<notin> set strategies
         then Err (''strategy must be one of '' @ Join (map quote strategies) ''|'')
         else (case parse_seed (pick ''seed'') of
             Err e \<Rightarrow> Err e
           | Ok seed \<Rightarrow> (case located ''overrides must be an object'' (toAnyMapOrNil (pick ''overrides'')) of
               Err e \<Rightarrow> Err e
             | Ok overrides \<Rightarrow> Ok \<lparr>giOperationID = TrimSpace (envOperationID env), giSeed = seed,
                 giStrategy = strategy, giOverrides = overrides\<rparr>)))))"

text \<open>
  Examples by name give the first one by name when it is an object; otherwise the whole map is
  taken as the example.
\<close>

definition pickRequestExample :: "any \<Rightarrow> any option" where
  "pickRequestExample v =
     (if v = ANil then None
      else (case first_non_nil (case schemaArray v of Some vs \<Rightarrow> vs | None \<Rightarrow> []) of
          Some e \<Rightarrow> Some e
        | None \<Rightarrow> (case schemaAsMap v of
            None \<Rightarrow> Some (cloneJSONValue v)
          | Some m \<Rightarrow> (case map_values_sorted m of
              [] \<Rightarrow> None
            | AMap e # vs \<Rightarrow> Some (cloneJSONValue (AMap e))
            | _ \<Rightarrow> Some (cloneJSONValue (AMap m))))))"

definition use_example :: "generatePayloadInput \<Rightarrow> any \<Rightarrow> any \<Rightarrow> any gen" where
  "use_example inp examples body s =
     (if giStrategy inp = payloadStrategyExample
      then (case pickRequestExample examples of
          Some e \<Rightarrow> (cloneJSONValue e, warn ''used requestBody example from OpenAPI media examples'' s)
        | None \<Rightarrow> (body, s))
      else (body, s))"

definition payload_report :: "generatePayloadInput \<Rightarrow> any \<Rightarrow> any \<Rightarrow> string list \<Rightarrow> any" where
  "payload_report inp contentTypes body warnings = okResult (AMap [(''operationId'', AStr (giOperationID inp)),
     (''strategy'', AStr (giStrategy inp)), (''seed'', AInt (giSeed inp)), (''contentTypes'', contentTypes),
     (''body'', body), (''warnings'', AStrs warnings)])"

text \<open>A nil list of content types prints as null.\<close>

definition GenerateExecute :: "(int \<Rightarrow> nat \<Rightarrow> int \<Rightarrow> int) \<Rightarrow> endpoint_lookup \<Rightarrow> any \<Rightarrow> any" where
  "GenerateExecute source store input = (case store of
     None \<Rightarrow> no_store
   | Some lookup \<Rightarrow> (case parseGeneratePayloadInput input of
       Err e \<Rightarrow> errorResult ''invalid_request'' e ANil
     | Ok inp \<Rightarrow> (case lookup (giOperationID inp) of
         Err e \<Rightarrow> unknown_operation (giOperationID inp)
       | Ok ep \<Rightarrow>
          (let rq = ApiRequest ep in
           if rqBodySchema rq = ANil \<and> rqExamples rq = ANil
           then payload_report inp (AStrs (rqContentTypes rq)) ANil
             [''operation does not define request body schema; returning null body'']
           else (let (g, s) = newPayloadGenerator source (giStrategy inp) (giSeed inp);
                     (body, s) = generate g (rqBodySchema rq) ''$'' 0 s;
                     (body, s) = use_example inp (rqExamples rq) body s;
                     (body, s) = mergePayloadOverrides body (giOverrides inp) s in
             payload_report inp (if rqContentTypes rq = [] then ANil else AStrs (rqContentTypes rq)) body
               (uniqueStrings (gsWarnings s)))))))"

text \<open>
  Property C25: what the generator makes passes the validator. For a plain schema nested at most
  17 levels deep, whatever the strategy, the seed and the random numbers, the generated body has
  no validation issues against that schema, and so is accepted as a request body by the tools
  that validate and execute.
\<close>

theorem generated_payload_valid:
  assumes "plain 17 schema"
  shows "validateValueAgainstSchema (fst (generate g schema path 0 s)) schema at = []"
  using generated_conforms [OF assms, of 0] by (simp add: validate_iff_conforms)

definition pet_schema :: any where
  "pet_schema = AMap [(''type'', AStr ''object''), (''required'', AStrs [''name'', ''tags'']),
     (''properties'', AMap [(''name'', AMap [(''type'', AStr ''string'')]),
        (''tags'', AMap [(''type'', AStr ''array''), (''items'', AMap [(''type'', AStr ''integer'')])])])]"

lemma pet_plain: "plain 17 pet_schema"
  by code_simp

lemma generated_payload_valid_witness:
  "validateValueAgainstSchema (fst (generate \<lparr>pgStrategy = ''minimal'', pgRandom = \<lambda>k b. 7\<rparr> pet_schema ''$'' 0
     \<lparr>gsDraws = 0, gsWarnings = []\<rparr>)) pet_schema ''body'' = []"
  by (rule generated_payload_valid [OF pet_plain])

lemma pet_payload:
  "fst (generate \<lparr>pgStrategy = ''minimal'', pgRandom = \<lambda>k b. 7\<rparr> pet_schema ''$'' 0 \<lparr>gsDraws = 0, gsWarnings = []\<rparr>)
   = AMap [(''name'', AStr ''value-7''), (''tags'', AList [AInt 7])]"
  by code_simp

text \<open>
  The restriction on required names is needed: an object with required names but no declared
  properties is generated empty, and fails its own schema.
\<close>

lemma required_without_properties_invalid:
  "\<not> conforms (fst (generate \<lparr>pgStrategy = ''minimal'', pgRandom = \<lambda>k b. 0\<rparr>
      (AMap [(''type'', AStr ''object''), (''required'', AStrs [''a''])]) ''$'' 0 \<lparr>gsDraws = 0, gsWarnings = []\<rparr>))
    (AMap [(''type'', AStr ''object''), (''required'', AStrs [''a''])])"
  by code_simp

end
