(* ===== verification/PublishedSchemas.thy ===== *)
theory PublishedSchemas
  imports ToolGenerate ToolPolicy ToolSearch
begin

text \<open>
  The JSON schemas the tools publish (\<open>internal/tool/schemas.go\<close>), as data. \<open>toolResultSchema\<close>
  wraps the schema of a tool's data into that of its result; what is published has been through
  JSON. The second half shows that the tools keep to their schemas, in the sense of the
  validator's reading in the theory ToolSchema: results are compared as the JSON the transport
  makes of them.
\<close>

section \<open>Pieces\<close>

definition typed :: "string \<Rightarrow> any" where
  "typed t = AMap [(''type'', AStr t)]"

definition open_object :: any where
  "open_object = AMap [(''type'', AStr ''object''), (''additionalProperties'', ABool True)]"

definition list_of :: "any \<Rightarrow> any" where
  "list_of item = AMap [(''type'', AStr ''array''), (''items'', item)]"

definition one_of_texts :: "string list \<Rightarrow> any" where
  "one_of_texts ss = AMap [(''type'', AStr ''string''), (''enum'', AStrs ss)]"

definition at_least :: "int \<Rightarrow> any" where
  "at_least n = AMap [(''type'', AStr ''integer''), (''minimum'', AInt n)]"

definition status_schema :: any where
  "status_schema = AMap [(''type'', AStr ''integer''), (''minimum'', AInt 100), (''maximum'', AInt 599)]"

definition object_with :: "string list \<Rightarrow> anymap \<Rightarrow> any" where
  "object_with required props = AMap ([(''type'', AStr ''object''), (''properties'', AMap props)]
     @ (if required = [] then [] else [(''required'', AStrs required)]) @ [(''additionalProperties'', ABool True)])"

definition verdict_schema :: any where
  "verdict_schema = object_with [''valid'', ''errors''] [(''valid'', typed ''boolean''), (''errors'', list_of (typed ''string''))]"

definition headers_schema :: any where
  "headers_schema = AMap [(''type'', AStr ''object''), (''additionalProperties'', typed ''string'')]"

definition encoding_schema :: any where
  "encoding_schema = one_of_texts [''json'', ''text'', ''base64'']"

definition nullable :: "any \<Rightarrow> any" where
  "nullable s = AMap [(''anyOf'', AList [typed ''null'', s])]"

definition error_schema :: any where
  "error_schema = object_with [''code'', ''message'']
     [(''code'', typed ''string''), (''message'', typed ''string''), (''details'', AMap [])]"

definition toolResultSchema :: "any \<Rightarrow> any" where
  "toolResultSchema data = AMap [(''type'', AStr ''object''), (''required'', AStrs [''ok'', ''data'', ''error'']),
     (''properties'', AMap [(''ok'', typed ''boolean''), (''data'', nullable (if data = ANil then AMap [] else data)),
        (''error'', nullable error_schema)]), (''additionalProperties'', ABool False)]"

section \<open>Inputs\<close>

definition include_schema :: any where
  "include_schema = list_of (one_of_texts [''endpoints'', ''schemas'', ''usage''])"

definition search_input_schema :: any where
  "search_input_schema = (let filters = [(''method'', typed ''string''), (''tag'', typed ''string''), (''include'', include_schema),
       (''schema'', typed ''string''), (''status'', status_schema), (''limit'', at_least 1)] in
     object_with [] ([(''operationId'', typed ''string''),
       (''params'', object_with [] [(''query'', object_with []
          ([(''query'', typed ''string''), (''q'', typed ''string'')] @ filters))]),
       (''query'', typed ''string'')] @ filters))"

definition plan_input_schema :: any where
  "plan_input_schema = object_with [] [(''operationId'', typed ''string''),
     (''params'', object_with [] [(''query'', object_with []
        [(''query'', typed ''string''), (''q'', typed ''string''), (''goal'', typed ''string'')]), (''body'', AMap [])]),
     (''query'', typed ''string''), (''goal'', typed ''string'')]"

definition request_properties :: anymap where
  "request_properties = [(''operationId'', typed ''string''),
     (''params'', object_with [] [(''path'', open_object), (''query'', open_object), (''headers'', open_object), (''body'', AMap [])]),
     (''contentType'', typed ''string''), (''baseURL'', typed ''string''), (''pathParams'', open_object),
     (''queryParams'', open_object), (''headers'', open_object), (''body'', AMap [])]"

definition prepareRequestInputSchema :: any where
  "prepareRequestInputSchema = object_with [''operationId''] request_properties"

definition executeInputSchema :: any where
  "executeInputSchema = object_with [''operationId'']
     (request_properties @ [(''confirmationId'', typed ''string''), (''confirmationToken'', typed ''string'')])"

definition strategy_schema :: any where
  "strategy_schema = one_of_texts [''minimal'', ''example'', ''maximal'']"

definition generate_input_schema :: any where
  "generate_input_schema = (let props = [(''seed'', typed ''integer''), (''strategy'', strategy_schema), (''overrides'', open_object)] in
     object_with [''operationId''] ([(''operationId'', typed ''string''),
       (''params'', object_with [] [(''query'', object_with [] props)])] @ props))"

definition validate_response_input_schema :: any where
  "validate_response_input_schema = object_with [''operationId''] [(''operationId'', typed ''string''),
     (''contentType'', typed ''string''), (''bodyEncoding'', encoding_schema),
     (''params'', object_with [''query''] [(''query'', open_object), (''headers'', open_object), (''body'', AMap [])]),
     (''status'', typed ''integer''), (''headers'', open_object), (''body'', AMap [])]"

definition request_confirmation_input_schema :: any where
  "request_confirmation_input_schema = object_with [''operationId''] [(''operationId'', typed ''string''),
     (''preparedRequestSummary'', AMap []), (''reason'', typed ''string''), (''params'', open_object)]"

definition confirm_input_schema :: any where
  "confirm_input_schema = object_with [''confirmationId'', ''approve''] [(''confirmationId'', typed ''string''),
     (''approve'', typed ''boolean''), (''params'', open_object)]"

section \<open>Data of the results\<close>

definition search_item_schema :: any where
  "search_item_schema = object_with [''operationId'', ''method'', ''pathTemplate'', ''urlTemplate'', ''baseURL'',
       ''summary'', ''tags'', ''matchReason'', ''score'']
     [(''operationId'', typed ''string''), (''method'', typed ''string''), (''pathTemplate'', typed ''string''),
      (''urlTemplate'', typed ''string''), (''baseURL'', typed ''string''), (''summary'', typed ''string''),
      (''tags'', list_of (typed ''string'')), (''matchReason'', list_of (typed ''string'')), (''score'', typed ''number'')]"

definition search_data_schema :: any where
  "search_data_schema = object_with [''count'', ''filters'', ''results'']
     [(''count'', at_least 0), (''filters'', open_object), (''results'', list_of search_item_schema),
      (''schemas'', list_of open_object), (''usage'', open_object)]"

definition plan_data_schema :: any where
  "plan_data_schema = object_with [''operation'', ''context'', ''steps''] [(''operation'', open_object), (''context'', open_object),
     (''steps'', list_of (object_with [''step'', ''tool'', ''why'']
        [(''step'', typed ''integer''), (''tool'', typed ''string''), (''why'', typed ''string'')]))]"

definition prepare_data_schema :: any where
  "prepare_data_schema = object_with [''operationId'', ''method'', ''path'', ''finalURL'', ''headers'', ''contentType'', ''body'',
       ''bodyBytes'', ''validation'']
     [(''operationId'', typed ''string''), (''method'', typed ''string''), (''path'', typed ''string''),
      (''finalURL'', typed ''string''), (''headers'', headers_schema), (''contentType'', typed ''string''), (''body'', AMap []),
      (''bodyBytes'', at_least 0), (''validation'', verdict_schema)]"

definition generate_data_schema :: any where
  "generate_data_schema = object_with [''operationId'', ''strategy'', ''seed'', ''contentTypes'', ''body'', ''warnings'']
     [(''operationId'', typed ''string''), (''strategy'', strategy_schema), (''seed'', typed ''integer''),
      (''contentTypes'', list_of (typed ''string'')), (''body'', AMap []), (''warnings'', list_of (typed ''string''))]"

definition validate_request_data_schema :: any where
  "validate_request_data_schema = object_with [''operationId'', ''valid'', ''errors'']
     [(''operationId'', typed ''string''), (''valid'', typed ''boolean''), (''errors'', list_of (typed ''string''))]"

definition execute_data_schema :: any where
  "execute_data_schema = object_with [''operationId'', ''method'', ''finalURL'', ''status'', ''headers'', ''contentType'',
       ''bodyEncoding'', ''body'', ''durationMs'']
     [(''operationId'', typed ''string''), (''method'', typed ''string''), (''finalURL'', typed ''string''),
      (''status'', typed ''integer''), (''headers'', headers_schema), (''contentType'', typed ''string''),
      (''bodyEncoding'', encoding_schema), (''body'', AMap []), (''durationMs'', at_least 0),
      (''responseTruncated'', typed ''boolean''), (''warnings'', list_of (typed ''string'')),
      (''responseValidation'', verdict_schema)]"

definition validate_response_data_schema :: any where
  "validate_response_data_schema = object_with [''operationId'', ''status'', ''contentType'', ''bodyEncoding'', ''body'', ''valid'', ''errors'']
     [(''operationId'', typed ''string''), (''status'', typed ''integer''), (''contentType'', typed ''string''),
      (''bodyEncoding'', encoding_schema), (''body'', AMap []), (''valid'', typed ''boolean''),
      (''errors'', list_of (typed ''string''))]"

definition request_confirmation_data_schema :: any where
  "request_confirmation_data_schema = object_with [''confirmationId'', ''expiresAt'', ''summary'']
     [(''confirmationId'', typed ''string''), (''expiresAt'', typed ''string''), (''summary'', open_object)]"

definition confirm_data_schema :: any where
  "confirm_data_schema = object_with [''confirmationId'', ''approved'', ''expiresAt'']
     [(''confirmationId'', typed ''string''), (''approved'', typed ''boolean''), (''expiresAt'', typed ''string'')]"

section \<open>The catalogue\<close>

record SchemaBundle =
  InputSchema :: any
  OutputSchema :: any

definition schemas_of :: "any \<Rightarrow> any \<Rightarrow> SchemaBundle" where
  "schemas_of i data = \<lparr>InputSchema = i, OutputSchema = toolResultSchema data\<rparr>"

definition toolSchemas :: "(string \<times> SchemaBundle) list" where
  "toolSchemas =
     [(''swagger.search'', schemas_of search_input_schema search_data_schema),
      (''swagger.plan_call'', schemas_of plan_input_schema plan_data_schema),
      (''swagger.http.prepare_request'', schemas_of prepareRequestInputSchema prepare_data_schema),
      (''swagger.http.generate_payload'', schemas_of generate_input_schema generate_data_schema),
      (''swagger.http.validate_request'', schemas_of prepareRequestInputSchema validate_request_data_schema),
      (''swagger.http.execute'', schemas_of executeInputSchema execute_data_schema),
      (''swagger.http.validate_response'', schemas_of validate_response_input_schema validate_response_data_schema),
      (''policy.request_confirmation'', schemas_of request_confirmation_input_schema request_confirmation_data_schema),
      (''policy.confirm'', schemas_of confirm_input_schema confirm_data_schema)]"

definition cloneSchema :: "any \<Rightarrow> any" where
  "cloneSchema v = (if v = ANil then ANil else cloneJSONValue v)"

definition toolInputSchema :: "string \<Rightarrow> any" where
  "toolInputSchema name = (case map_of toolSchemas name of
     Some b \<Rightarrow> cloneSchema (InputSchema b)
   | None \<Rightarrow> AMap [(''type'', AStr ''object''), (''properties'', AMap []), (''additionalProperties'', ABool True)])"

definition toolOutputSchema :: "string \<Rightarrow> any" where
  "toolOutputSchema name = (case map_of toolSchemas name of
     Some b \<Rightarrow> cloneSchema (OutputSchema b) | None \<Rightarrow> toolResultSchema open_object)"

definition SchemasCatalog :: "(string \<times> SchemaBundle) list" where
  "SchemasCatalog = map (\<lambda>(name, b). (name, \<lparr>InputSchema = cloneSchema (InputSchema b),
     OutputSchema = cloneSchema (OutputSchema b)\<rparr>)) toolSchemas"

definition SchemasDocument :: any where
  "SchemasDocument = AMap [(''$schema'', AStr ''https://json-schema.org/draft/2020-12/schema''),
     (''title'', AStr ''MCP Swagger Gateway Tool Schemas''), (''type'', AStr ''object''),
     (''properties'', AMap [(''tools'', open_object)]), (''required'', AStrs [''tools'']),
     (''tools'', AMap (map (\<lambda>(name, b). (name, AMap [(''inputSchema'', cloneSchema (InputSchema b)),
        (''outputSchema'', cloneSchema (OutputSchema b))])) toolSchemas))]"

section \<open>Reading the pieces\<close>

text \<open>A value as JSON: lists and maps of the general kind, bytes in base64; integers stay integers.\<close>

fun wire :: "any \<Rightarrow> any" where
  "wire (AStrs ss) = AList (map AStr ss)"
| "wire (AStrMap m) = AMap (map (\<lambda>(k, s). (k, AStr s)) m)"
| "wire (ABytes s) = AStr (StdBase64 s)"
| "wire (AList vs) = AList (map wire vs)"
| "wire (AMap m) = AMap (map (\<lambda>(k, v). (k, wire v)) m)"
| "wire v = v"

named_theorems pieces "how a value conforms to a published piece"

lemma type_texts:
  "TrimSpace ''object'' = ''object''" "TrimSpace ''array'' = ''array''" "TrimSpace ''string'' = ''string''"
  "TrimSpace ''integer'' = ''integer''" "TrimSpace ''boolean'' = ''boolean''" "TrimSpace ''number'' = ''number''"
  "ToLower ''object'' = ''object''" "ToLower ''array'' = ''array''" "ToLower ''string'' = ''string''"
  "ToLower ''integer'' = ''integer''" "ToLower ''boolean'' = ''boolean''" "ToLower ''number'' = ''number''"
  by code_simp+

lemma conforms_any [pieces]: "conforms v (AMap [])"
  by (simp add: conforms.simps schema_list_def schemaType_def type_ok_def)

lemma conforms_typed [pieces]:
  "conforms v (json_copy (typed ''string'')) \<longleftrightarrow> (\<exists>s. v = AStr s)"
  "conforms v (json_copy (typed ''boolean'')) \<longleftrightarrow> (\<exists>b. v = ABool b)"
  "conforms v (json_copy (typed ''integer'')) \<longleftrightarrow> isInteger v"
  "conforms v (json_copy (typed ''number'')) \<longleftrightarrow> isNumber v"
  by (cases v; simp add: typed_def conforms.simps schema_list_def schemaType_def type_ok_def type_texts)+

lemma conforms_at_least [pieces]: "conforms v (json_copy (at_least n)) \<longleftrightarrow> isInteger v"
  by (simp add: at_least_def conforms.simps schema_list_def schemaType_def type_ok_def type_texts)

lemma conforms_open [pieces]:
  "conforms v (json_copy open_object) \<longleftrightarrow> (\<exists>m. v = AMap m)" "conforms v (json_copy headers_schema) \<longleftrightarrow> (\<exists>m. v = AMap m)"
  by (cases v; simp add: open_object_def headers_schema_def conforms.simps schema_list_def schemaType_def type_ok_def
      type_texts schemaRequired_def uniqueStrings_def schema_props_def)+

lemma conforms_list [pieces]: "conforms v (json_copy (list_of s)) \<longleftrightarrow> (\<exists>vs. v = AList vs \<and> (\<forall>x \<in> set vs. conforms x (json_copy s)))"
  by (cases v; simp add: list_of_def conforms.simps schema_list_def schemaType_def type_ok_def type_texts elements_of_def list_all_iff)

lemma conforms_texts [pieces]: "ss \<noteq> [] \<Longrightarrow>
    conforms v (json_copy (one_of_texts ss)) \<longleftrightarrow> (\<exists>s. v = AStr s \<and> s \<in> set ss)"
  by (cases v; simp add: one_of_texts_def conforms.simps schema_list_def schemaType_def type_ok_def type_texts
      enumContains_def list_ex_iff; blast)

lemma field_names [pieces]:
  "TrimSpace ''ok'' = ''ok''" "TrimSpace ''data'' = ''data''" "TrimSpace ''error'' = ''error''"
  "TrimSpace ''code'' = ''code''" "TrimSpace ''message'' = ''message''" "TrimSpace ''details'' = ''details''"
  "TrimSpace ''operationId'' = ''operationId''" "TrimSpace ''method'' = ''method''"
  "TrimSpace ''path'' = ''path''" "TrimSpace ''pathTemplate'' = ''pathTemplate''"
  "TrimSpace ''urlTemplate'' = ''urlTemplate''" "TrimSpace ''baseURL'' = ''baseURL''"
  "TrimSpace ''finalURL'' = ''finalURL''" "TrimSpace ''summary'' = ''summary''" "TrimSpace ''tags'' = ''tags''"
  "TrimSpace ''matchReason'' = ''matchReason''" "TrimSpace ''score'' = ''score''"
  "TrimSpace ''count'' = ''count''" "TrimSpace ''filters'' = ''filters''" "TrimSpace ''results'' = ''results''"
  "TrimSpace ''schemas'' = ''schemas''" "TrimSpace ''usage'' = ''usage''"
  "TrimSpace ''operation'' = ''operation''" "TrimSpace ''context'' = ''context''"
  "TrimSpace ''steps'' = ''steps''" "TrimSpace ''step'' = ''step''" "TrimSpace ''tool'' = ''tool''"
  "TrimSpace ''why'' = ''why''" "TrimSpace ''headers'' = ''headers''"
  "TrimSpace ''contentType'' = ''contentType''" "TrimSpace ''body'' = ''body''"
  "TrimSpace ''bodyBytes'' = ''bodyBytes''" "TrimSpace ''validation'' = ''validation''"
  "TrimSpace ''valid'' = ''valid''" "TrimSpace ''errors'' = ''errors''" "TrimSpace ''strategy'' = ''strategy''"
  "TrimSpace ''seed'' = ''seed''" "TrimSpace ''contentTypes'' = ''contentTypes''"
  "TrimSpace ''warnings'' = ''warnings''" "TrimSpace ''status'' = ''status''"
  "TrimSpace ''bodyEncoding'' = ''bodyEncoding''" "TrimSpace ''durationMs'' = ''durationMs''"
  "TrimSpace ''confirmationId'' = ''confirmationId''" "TrimSpace ''expiresAt'' = ''expiresAt''"
  "TrimSpace ''approved'' = ''approved''"
  by code_simp+

lemma object_copy:
  fixes req props
  defines "S \<equiv> (case json_copy (object_with req props) of AMap S \<Rightarrow> S | _ \<Rightarrow> [])"
  shows "json_copy (object_with req props) = AMap S"
    and "schema_list S ''allOf'' = []" "schema_list S ''anyOf'' = []" "schema_list S ''oneOf'' = []" "schema_list S ''enum'' = []"
    and "schemaType S = ''object''" "schema_props S = map (\<lambda>(k, s). (k, json_copy s)) props"
    and "schemaRequired S = uniqueStrings (filter (\<lambda>k. k \<noteq> []) (map TrimSpace req))"
proof -
  have texts: "List.map_filter item_text (map AStr req) = filter (\<lambda>k. k \<noteq> []) (map TrimSpace req)"
    by (induction req) (simp_all add: map_filter_simps item_text_def)
  have S: "S = [(''type'', AStr ''object''), (''properties'', AMap (map (\<lambda>(k, s). (k, json_copy s)) props))]
      @ (if req = [] then [] else [(''required'', AList (map AStr req))]) @ [(''additionalProperties'', ABool True)]"
    by (simp add: S_def object_with_def)
  show "json_copy (object_with req props) = AMap S" by (simp add: S object_with_def)
  show "schema_list S ''allOf'' = []" "schema_list S ''anyOf'' = []" "schema_list S ''oneOf'' = []" "schema_list S ''enum'' = []"
    by (simp_all add: S schema_list_def)
  show "schemaType S = ''object''" by (simp add: S schemaType_def type_texts)
  show "schema_props S = map (\<lambda>(k, s). (k, json_copy s)) props" by (simp add: S schema_props_def)
  show "schemaRequired S = uniqueStrings (filter (\<lambda>k. k \<noteq> []) (map TrimSpace req))"
    by (simp add: S schemaRequired_def texts uniqueStrings_def)
qed

lemma required_set: "set (uniqueStrings (filter (\<lambda>k. k \<noteq> []) (map TrimSpace req))) = TrimSpace ` set req - {[]}"
proof -
  have "x \<in> TrimSpace ` {y \<in> TrimSpace ` set req. y \<noteq> []}" if "x \<in> TrimSpace ` set req" "x \<noteq> []" for x
    using that by (intro image_eqI [of _ _ x]) auto
  then show ?thesis by (auto simp: uniqueStrings_def set_trim_unique)
qed

lemma conforms_object [pieces]: "conforms v (json_copy (object_with req props)) \<longleftrightarrow>
    (\<exists>m. v = AMap m \<and> list_all (\<lambda>k. TrimSpace k = [] \<or> map_of m (TrimSpace k) \<noteq> None) req
       \<and> list_all (\<lambda>(k, s). case map_of m k of None \<Rightarrow> True | Some c \<Rightarrow> conforms c (json_copy s)) props)"
proof -
  have keys: "list_all P (uniqueStrings (filter (\<lambda>k. k \<noteq> []) (map TrimSpace req))) \<longleftrightarrow> list_all (\<lambda>k. TrimSpace k = [] \<or> P (TrimSpace k)) req"
    for P by (auto simp: list_all_iff required_set)
  have props: "list_all (\<lambda>(k, s). case map_of f k of None \<Rightarrow> True | Some c \<Rightarrow> conforms c s) (map (\<lambda>(k, s). (k, json_copy s)) props)
      \<longleftrightarrow> list_all (\<lambda>(k, s). case map_of f k of None \<Rightarrow> True | Some c \<Rightarrow> conforms c (json_copy s)) props" for f
    by (induction props) (auto split: option.split)
  have "type_ok ''object'' v \<longleftrightarrow> (\<exists>m. v = AMap m)"
    by (cases v) (simp_all add: type_ok_def)
  moreover obtain S where S: "json_copy (object_with req props) = AMap S" "S = (case json_copy (object_with req props) of AMap S \<Rightarrow> S | _ \<Rightarrow> [])"
    using object_copy(1) [of req props] by auto
  ultimately show ?thesis
    using object_copy(2-8) [of req props, folded S(2)]
    unfolding S(1) by (subst conforms.simps) (auto simp: keys props fields_of_def)
qed

lemma fine_pieces [simp]:
  "json_fine (typed t)" "json_fine open_object" "json_fine (at_least n)" "json_fine status_schema"
  "json_fine (one_of_texts ss)" "json_fine encoding_schema" "json_fine headers_schema" "json_fine strategy_schema"
  "json_fine (list_of s) = json_fine s"
  "json_fine (object_with req props) = list_all (\<lambda>(k, s). json_fine s) props"
  "json_fine verdict_schema"
  by (simp_all add: typed_def open_object_def at_least_def status_schema_def one_of_texts_def encoding_schema_def
      headers_schema_def strategy_schema_def list_of_def object_with_def verdict_schema_def)

lemma cloned: "json_fine s \<Longrightarrow> s \<noteq> ANil \<Longrightarrow> cloneSchema s = json_copy s"
  by (simp add: cloneSchema_def cloneJSONValue_def)

lemma pieces_not_nil [simp]: "object_with req props \<noteq> ANil"
  by (simp add: object_with_def)

lemma copied_empty [pieces]: "json_copy (AMap []) = AMap []"
  by simp

section \<open>Results keep to their schemas\<close>

definition error_object :: "string \<Rightarrow> string \<Rightarrow> any \<Rightarrow> any" where
  "error_object code message details =
     AMap [(''code'', AStr (TrimSpace code)), (''message'', AStr (TrimSpace message)), (''details'', details)]"

text \<open>A result of a tool: data of the published schema without an error, or an error object without data.\<close>

definition keeps_schema :: "any \<Rightarrow> any \<Rightarrow> bool" where
  "keeps_schema data res \<longleftrightarrow>
     (\<exists>v. res = AMap [(''ok'', ABool True), (''data'', v), (''error'', ANil)] \<and> conforms (wire v) (cloneSchema data))
   \<or> (\<exists>code message details. res = AMap [(''ok'', ABool False), (''data'', ANil), (''error'', error_object code message details)]
        \<and> conforms (wire (error_object code message details)) (cloneSchema error_schema))"

lemma error_conforms: "conforms (wire (error_object code message details)) (cloneSchema error_schema)"
  by (simp add: error_schema_def cloned pieces error_object_def type_texts)

lemma keeps_error [simp]: "keeps_schema data (errorResult code message details)"
  using error_conforms by (auto simp: keeps_schema_def errorResult_def error_object_def)

lemma keeps_ok: "keeps_schema data (okResult v) \<longleftrightarrow> conforms (wire v) (cloneSchema data)"
  by (simp add: keeps_schema_def okResult_def)

lemma confirm_keeps: "keeps_schema confirm_data_schema (fst (PolicyConfirm t1 t2 input store))"
  by (auto simp: PolicyConfirm_def keeps_ok confirm_data_schema_def cloned pieces confirm_report_def
      split: option.split sum.split prod.split)

lemma request_confirmation_keeps:
  "keeps_schema request_confirmation_data_schema (fst (RequestConfirmation t1 t2 fresh input store))"
  by (auto simp: RequestConfirmation_def keeps_ok request_confirmation_data_schema_def cloned pieces request_report_def
      split: option.split sum.split prod.split)

lemma plan_payload_conforms: "conforms (wire (plan_payload inp ep)) (cloneSchema plan_data_schema)"
  by (simp add: plan_data_schema_def cloned pieces plan_payload_def plan_step_def isInteger_def)

lemma plan_keeps: "keeps_schema plan_data_schema (PlanExecute store input)"
  by (auto simp: PlanExecute_def keeps_ok plan_payload_conforms load_failure_def split: option.split sum.split prod.split)

lemma keeps_failures [simp]:
  "keeps_schema data no_store" "keeps_schema data (unknown_operation opID)" "keeps_schema data (prepare_failure opID e)"
  by (simp_all add: no_store_def unknown_operation_def prepare_failure_def)

lemma verdict_conforms: "conforms (wire (AMap (verdict issues))) (json_copy verdict_schema)"
  by (auto simp: verdict_def verdict_schema_def pieces)

lemma prepared_conforms: "conforms (wire (prepared_report ep p)) (cloneSchema prepare_data_schema)"
  using verdict_conforms [of "validatePreparedRequest ep p"]
  by (simp add: prepare_data_schema_def cloned pieces prepared_report_def isInteger_def)

lemma prepare_keeps: "keeps_schema prepare_data_schema (PrepareExecute c n agent store input)"
  by (auto simp: PrepareExecute_def keeps_ok prepared_conforms split: option.split sum.split)

lemma validate_request_keeps: "keeps_schema validate_request_data_schema (ValidateRequestExecute c store input)"
  by (auto simp: ValidateRequestExecute_def keeps_ok validate_request_data_schema_def cloned pieces verdict_def
      split: option.split sum.split prod.split)

lemma decoded_encoding: "rbBodyEncoding (decodeResponseBody c ct payload) \<in> {''json'', ''text'', ''base64''}"
  by (auto simp: decodeResponseBody_def envelope_def Let_def split: option.split)

lemma normalized_encoding: "rbBodyEncoding (normalizeResponseBody c ct enc body) \<in> {''json'', ''text'', ''base64''}"
proof -
  have "rbBodyEncoding (guess_body c ct' b) \<in> {''json'', ''text'', ''base64''}" for ct' b
    using decoded_encoding [of c ct'] by (cases b; auto simp: guess_body_def envelope_def Let_def split: sum.split)
  then show ?thesis by (auto simp: normalizeResponseBody_def envelope_def Let_def split: prod.split)
qed

lemma validate_response_keeps: "keeps_schema validate_response_data_schema (ValidateResponseExecute c store input)"
proof -
  have "conforms (wire (AMap ((''operationId'', AStr (vrOperationID inp)) # (''status'', AInt (vrStatus inp))
      # (''contentType'', AStr ct) # (''bodyEncoding'', AStr enc) # (''body'', body) # verdict issues)))
      (cloneSchema validate_response_data_schema)"
    if "enc \<in> {''json'', ''text'', ''base64''}" for inp ct enc body issues
    using that by (auto simp: validate_response_data_schema_def cloned pieces verdict_def isInteger_def encoding_schema_def)
  from this [OF normalized_encoding] show ?thesis
    by (auto simp: ValidateResponseExecute_def keeps_ok Let_def simp del: wire.simps split: option.split sum.split)
qed

lemma respond_conforms:
  assumes "respond t ctx ep p resp s = (Ok v, s')"
  shows "conforms (wire v) (cloneSchema execute_data_schema)"
proof -
  have report: "\<exists>m. wire (validation_report ep c st b) = AMap m \<and> conforms (AMap m) (json_copy verdict_schema)" for c st b
    by (auto simp: validation_report_def verdict_schema_def pieces Let_def)
  have body: "conforms (wire (AMap ([(''operationId'', AStr a), (''method'', AStr m), (''finalURL'', AStr u), (''status'', AInt st),
        (''headers'', AStrMap h), (''contentType'', AStr ct), (''bodyEncoding'', AStr enc), (''body'', b), (''durationMs'', AInt d)]
      @ (if tr then [(''responseTruncated'', ABool True), (''warnings'', AStrs w)] else [])
      @ (if vr then [(''responseValidation'', validation_report ep c st2 b2)] else [])))) (cloneSchema execute_data_schema)"
    if "enc \<in> {''json'', ''text'', ''base64''}" for a m u st h ct enc b d tr w vr c st2 b2
    using that report [of c st2 b2]
    by (cases tr; cases vr; auto simp: execute_data_schema_def cloned pieces isInteger_def encoding_schema_def)
  note shapes = body [OF decoded_encoding, where tr = True and vr = True, simplified if_True if_False append.simps]
    body [OF decoded_encoding, where tr = True and vr = False, simplified if_True if_False append.simps]
    body [OF decoded_encoding, where tr = False and vr = True, simplified if_True if_False append.simps]
    body [OF decoded_encoding, where tr = False and vr = False, simplified if_True if_False append.simps]
  from assms show ?thesis
    by (auto simp: respond_def fail_def Let_def simp del: wire.simps intro!: shapes split: sum.splits prod.splits)
qed

lemma execute_keeps:
  assumes "Execute t ctx input store = (res, entry, s)"
  shows "keeps_schema execute_data_schema res"
proof -
  let ?s0 = "\<lparr>csEntry = first_entry ctx, csConfirmations = store, csSent = [], csMetrics = [IncInflight]\<rparr>"
  obtain r s' where run: "run_call t ctx input ?s0 = (r, s')" by fastforce
  show ?thesis
  proof (cases r)
    case (Inl e)
    with run assms show ?thesis by (cases e) (auto simp: Execute_def)
  next
    case (Inr v)
    with run have "\<exists>ep p resp s1. respond t ctx ep p resp s1 = (Ok v, s')"
      by (auto simp: run_call_def andThen_Ok)
    with respond_conforms run assms Inr show ?thesis by (auto simp: Execute_def keeps_ok)
  qed
qed

lemma item_conforms: "conforms (wire (result_entry r)) (json_copy search_item_schema) \<longleftrightarrow> Tags (rkEndpoint r) \<noteq> []"
  by (auto simp: search_item_schema_def pieces result_entry_def score_value_def isNumber_def Let_def)

lemma item_fine [simp]: "json_fine search_item_schema"
  by (simp add: search_item_schema_def)

lemma ranked_listed: "r \<in> set (ranked_results inp eps) \<Longrightarrow> rkEndpoint r \<in> set eps"
proof -
  assume "r \<in> set (ranked_results inp eps)"
  then have "r \<in> set (List.map_filter (\<lambda>ep. evaluateSearchEndpoint ep inp (buildSearchIndexes eps)) eps)"
    by (simp add: ranked_results_def rank_def)
  then show ?thesis by (auto simp: List.map_filter_def dest: evaluated_endpoint)
qed

text \<open>An array of objects, as the schema part of a search gives it.\<close>

lemma schemas_list: "\<exists>vs. wire (schemaMatchesPayload inp idx) = AList vs \<and> (\<forall>x \<in> set vs. \<exists>m. x = AMap m)"
  by (auto simp: schemaMatchesPayload_def schema_entry_def Let_def)

lemma search_conforms:
  assumes "\<forall>ep \<in> set eps. Tags ep \<noteq> []"
  shows "conforms (wire (search_payload inp eps)) (cloneSchema search_data_schema)"
proof -
  let ?rs = "ranked_results inp eps"
  have items: "conforms (wire (result_entry r)) (json_copy search_item_schema)" if "r \<in> set (take n ?rs)" for r n
    using that ranked_listed assms in_set_takeD item_conforms by metis
  have usage: "\<exists>m. wire (usageMatchesPayload inp idx) = AMap m" for idx
    by (simp add: usageMatchesPayload_def)
  obtain vs where vs: "wire (schemaMatchesPayload inp (buildSearchIndexes eps)) = AList vs" "\<forall>x \<in> set vs. \<exists>m. x = AMap m"
    using schemas_list by blast
  show ?thesis
    using items usage vs
    by (auto simp: search_data_schema_def cloned pieces search_payload_def isInteger_def Let_def)
qed

text \<open>
  An operation without tags breaks the published schema of the search: its tags are null where
  the schema has an array.
\<close>

lemma untagged_breaks_schema: "Tags (rkEndpoint r) = [] \<Longrightarrow> \<not> conforms (wire (result_entry r)) (json_copy search_item_schema)"
  by (simp add: item_conforms)

lemma parsed_strategy: "parseGeneratePayloadInput input = Ok inp \<Longrightarrow> giStrategy inp \<in> set strategies"
  by (auto simp: parseGeneratePayloadInput_def Let_def split: sum.splits if_splits)

lemma report_keeps:
  assumes "giStrategy inp \<in> set strategies" and "cts = AStrs ss"
  shows "keeps_schema generate_data_schema (payload_report inp cts body warnings)"
  using assms
  by (auto simp: payload_report_def keeps_ok generate_data_schema_def cloned pieces isInteger_def strategy_schema_def
      strategies_def payloadStrategyMinimal_def payloadStrategyExample_def payloadStrategyMaximal_def)

lemma generate_keeps:
  assumes "\<forall>opID ep. lookup opID = Ok ep \<longrightarrow> rqContentTypes (ApiRequest ep) \<noteq> []"
  shows "keeps_schema generate_data_schema (GenerateExecute source (Some lookup) input)"
proof -
  have "keeps_schema generate_data_schema (GenerateExecute source (Some lookup) input)"
    if "parseGeneratePayloadInput input = Ok inp" "lookup (giOperationID inp) = Ok ep" for inp ep
    using that assms report_keeps [OF parsed_strategy [OF that(1)]]
    by (auto simp: GenerateExecute_def Let_def case_prod_beta)
  then show ?thesis
    by (cases "parseGeneratePayloadInput input"; cases "lookup (giOperationID (projr (parseGeneratePayloadInput input)))")
       (auto simp: GenerateExecute_def)
qed


text \<open>
  The validator knows no type null: a schema of that type accepts every value, so the alternative
  for a missing part in the schema of a result accepts everything, too.
\<close>

lemma null_type_accepts: "validateValueAgainstSchema v (typed ''null'') path = []"
proof -
  have "ToLower (TrimSpace ''null'') = ''null''"
    by code_simp
  then show ?thesis
    by (cases v; simp add: validate_iff_conforms typed_def conforms.simps schema_list_def schemaType_def type_ok_def)
qed

end
