(* ===== verification/Gateway.thy ===== *)
theory Gateway
  imports ToolPolicy ConfirmationRuns
begin

text \<open>
  The gateway as a whole: the three tools that share the confirmation store, called in any
  order. A state is the store; the history is the list of audit entries of the calls that sent
  a request, newest first. Between calls everything but the policy may change: the loaded
  specification, the credentials, and what the network answers. The theory shows that every such history is one of the store's own
  (theory ConfirmationRuns), and what the policy and the store together guarantee of the
  requests sent.
\<close>

section \<open>Construction of the execute tool\<close>

record SwaggerExecuteDependencies =
  dpStore :: "(string \<Rightarrow> (swagger_error, ResolvedOperation) result) option"
  dpPolicy :: "(string \<Rightarrow> string \<Rightarrow> string \<Rightarrow> (string, Decision) result) option"
  dpAuthProvider :: "(HttpRequest \<Rightarrow> (string, HttpRequest) result) option"
  dpHTTPDoer :: "(string \<Rightarrow> HttpRequest \<Rightarrow> (doer_error, HttpResponse) result) option"
  dpOptions :: SwaggerExecuteOptions

definition plan_only_config :: PolicyConfig where
  "plan_only_config = \<lparr>cfgMode = ModePlanOnly, cfgAllowedMethods = [], cfgDeniedMethods = [], cfgAllowedOperationIDs = [],
     cfgDeniedOperationIDs = [], cfgRequireConfirmationForWrite = False\<rparr>"

text \<open>The default provider of credentials changes nothing; a nil policy becomes one that refuses every call.\<close>

definition NewSwaggerExecuteTool :: "codec \<Rightarrow> SwaggerExecuteDependencies \<Rightarrow> SwaggerExecuteTool" where
  "NewSwaggerExecuteTool c deps = \<lparr>exStore = dpStore deps,
     exPolicy = (case dpPolicy deps of Some e \<Rightarrow> e | None \<Rightarrow> Evaluate (NewEvaluator plan_only_config)),
     exApply = (case dpAuthProvider deps of Some f \<Rightarrow> f | None \<Rightarrow> Ok),
     exDoer = dpHTTPDoer deps, exOptions = dpOptions deps, exCodec = c\<rparr>"

section \<open>Histories\<close>

inductive gateway_run :: "SwaggerExecuteTool \<Rightarrow> MemoryStore option \<Rightarrow> Entry list \<Rightarrow> MemoryStore option \<Rightarrow> bool" for t s0 where
  opened: "gateway_run t s0 [] s0"
| asked: "gateway_run t s0 log s \<Longrightarrow> RequestConfirmation t1 t2 fresh input s = (res, s') \<Longrightarrow> gateway_run t s0 log s'"
| answered: "gateway_run t s0 log s \<Longrightarrow> PolicyConfirm t1 t2 input s = (res, s') \<Longrightarrow> gateway_run t s0 log s'"
| called: "gateway_run t s0 log s \<Longrightarrow> exPolicy u = exPolicy t \<Longrightarrow> Execute u ctx input s = (res, entry, st) \<Longrightarrow>
    gateway_run t s0 (if csSent st = [] then log else entry # log) (csConfirmations st)"

inductive_cases gateway_openedE: "gateway_run t s0 [] s0"

definition asked_check :: "Entry \<Rightarrow> Check" where
  "asked_check e = \<lparr>chkOperationID = enOperationID e, chkMethod = enMethod e, chkFinalURL = enURL e\<rparr>"

text \<open>The policy of the tool lets the call of an entry pass without a confirmation.\<close>

definition outright :: "SwaggerExecuteTool \<Rightarrow> Entry \<Rightarrow> bool" where
  "outright t e = (case exPolicy t (enOperationID e) (enMethod e) (enURL e) of Ok d \<Rightarrow> Allow d | Err m \<Rightarrow> False)"

primrec consumed_checks :: "event list \<Rightarrow> Check list" where
  "consumed_checks [] = []"
| "consumed_checks (ev # es) = (case ev of EConsume k c t \<Rightarrow> c # consumed_checks es | _ \<Rightarrow> consumed_checks es)"

section \<open>What one call does to the store\<close>

text \<open>A stage leaves the confirmations alone or consults them once.\<close>

definition consults :: "call_context \<Rightarrow> 'a ToolExecute.step \<Rightarrow> bool" where
  "consults ctx f \<longleftrightarrow> (\<forall>s. csConfirmations (snd (f s)) = csConfirmations s
     \<or> (\<exists>k c res. ConsumeApproved (fst (ccNow ctx)) (snd (ccNow ctx)) k c (csConfirmations s) = (res, csConfirmations (snd (f s)))))"

lemma consults_first: "spares f \<Longrightarrow> (\<And>a. consults ctx (g a)) \<Longrightarrow> consults ctx (andThen f g)"
  unfolding consults_def spares_def andThen_def by (auto split: prod.split sum.split) (metis snd_conv)+

lemma consults_last: "consults ctx f \<Longrightarrow> (\<And>a. spares (g a)) \<Longrightarrow> consults ctx (andThen f g)"
  unfolding consults_def spares_def andThen_def by (auto split: prod.split sum.split) (metis snd_conv)+

lemma spares_andThen: "spares f \<Longrightarrow> (\<And>a. spares (g a)) \<Longrightarrow> spares (andThen f g)"
  unfolding spares_def andThen_def by (auto split: prod.split sum.split) (metis snd_conv)+

lemma consults_use: "consults ctx (use_confirmation ctx inp p reason)"
  unfolding consults_def use_confirmation_def fail_def by (auto split: option.split prod.split sum.split)

lemma consults_authorize: "consults ctx (authorize t ctx inp p)"
  using consults_use [of ctx inp p] by (auto simp: consults_def authorize_def fail_def give_def split: sum.split)

lemma consults_run_call: "consults ctx (run_call t ctx input)"
  unfolding run_call_def case_prod_beta
  by (intro consults_first consults_last consults_authorize spares_andThen stage)

text \<open>The audit entry names the operation, the method and the URL of the prepared request to the end.\<close>

definition names :: "call_state \<Rightarrow> Check" where
  "names s = asked_check (csEntry s)"

definition renames :: "'a ToolExecute.step \<Rightarrow> bool" where
  "renames f \<longleftrightarrow> (\<forall>s. names (snd (f s)) = names s)"

lemma renames_late: "renames (check_url t p)" "renames (authorize t ctx inp p)" "renames (check_schema t ep p)"
    "renames (send t ctx p)" "renames (respond t ctx ep p resp)"
  by (simp_all add: renames_def names_def asked_check_def check_url_def authorize_def use_confirmation_def check_schema_def
      send_def send_failure_def respond_def fail_def give_def Let_def
      split: option.split sum.split prod.split doer_error.split)

lemma renamesD: "renames f \<Longrightarrow> f s = (r, s') \<Longrightarrow> names s' = names s"
  by (metis renames_def snd_conv)

lemma renames_andThen: "renames f \<Longrightarrow> (\<And>a. renames (g a)) \<Longrightarrow> renames (andThen f g)"
  unfolding renames_def andThen_def by (auto split: prod.split sum.split) (metis snd_conv)+

lemma names_correlate: "correlate t ctx p0 s = (Ok p, s') \<Longrightarrow> names s' = check_of p"
  by (auto simp: correlate_def names_def asked_check_def check_of_def Let_def split: if_splits)

lemma sent_granted:
  assumes "run_call t ctx input s = (r, s')" and "csSent s' \<noteq> csSent s"
  shows "\<exists>inp p. granted t ctx inp p (csConfirmations s) (csConfirmations s') \<and> names s' = check_of p"
proof -
  from run_call_stages [OF conjI [OF assms]] obtain inp ep base p0 p s1 s2 s3 s4 s5 s6 s7
    where find: "find_endpoint t input s = (Ok (inp, ep), s1)" and base: "choose_base t inp ep s1 = (Ok base, s2)"
      and build: "build_call t inp ep base s2 = (Ok p0, s3)" and cor: "correlate t ctx p0 s3 = (Ok p, s4)"
      and url: "check_url t p s4 = (Ok (), s5)" and auth: "authorize t ctx inp p s5 = (Ok (), s6)"
      and schema: "check_schema t ep p s6 = (Ok (), s7)"
      and last: "andThen (send t ctx p) (\<lambda>resp. respond t ctx ep p resp) s7 = (r, s')" by blast
  have "csConfirmations s5 = csConfirmations s" "csConfirmations s' = csConfirmations s6"
    using sparesD [OF spares_andThen [OF spares_send quiet_respond(2)] last]
      sparesD [OF quiet_find_endpoint(2) find] sparesD [OF quiet_choose_base(2) base] sparesD [OF quiet_build_call(2) build]
      sparesD [OF quiet_correlate(2) cor] sparesD [OF quiet_check_url(2) url] sparesD [OF quiet_check_schema(2) schema]
    by simp_all
  moreover have "names s' = check_of p"
    using renamesD [OF renames_andThen [OF renames_late(4,5)] last] renamesD [OF renames_late(1) url]
      renamesD [OF renames_late(2) auth] renamesD [OF renames_late(3) schema] names_correlate [OF cor] by simp
  ultimately show ?thesis using authorize_Ok [OF auth] by auto
qed

text \<open>The request itself: built from what the entry names, cleared by the URL policy, credentials last.\<close>

lemma sent_as_named:
  assumes "run_call t ctx input s = (r, s')" and "csSent s' \<noteq> csSent s"
  shows "\<exists>p r0 q. csSent s' = csSent s @ [q] \<and> names s' = check_of p \<and> url_blocked (exOptions t) (prURL p) = None
    \<and> base_request p = Ok r0 \<and> exApply t r0 = Ok q"
proof -
  from run_call_stages [OF conjI [OF assms]] obtain inp ep base p0 p s1 s2 s3 s4 s5 s6 s7
    where cor: "correlate t ctx p0 s3 = (Ok p, s4)"
      and url: "check_url t p s4 = (Ok (), s5)" and auth: "authorize t ctx inp p s5 = (Ok (), s6)"
      and schema: "check_schema t ep p s6 = (Ok (), s7)"
      and last: "andThen (send t ctx p) (\<lambda>resp. respond t ctx ep p resp) s7 = (r, s')"
      and more: "csSent s' \<noteq> csSent s7" "csSent s7 = csSent s" by blast
  from send_respond [OF last] obtain x s8 where out: "send t ctx p s7 = (x, s8)" "csSent s' = csSent s8" by blast
  from send_sent [OF out(1)] out(2) more obtain r0 q where "base_request p = Ok r0" "exApply t r0 = Ok q"
    "csSent s' = csSent s @ [q]" by auto
  moreover have "names s' = check_of p"
    using renamesD [OF renames_andThen [OF renames_late(4,5)] last] renamesD [OF renames_late(1) url]
      renamesD [OF renames_late(2) auth] renamesD [OF renames_late(3) schema] names_correlate [OF cor] by simp
  ultimately show ?thesis using check_url_Ok [OF url] by blast
qed

lemma Execute_call:
  assumes "Execute t ctx input store = (res, entry, st)"
  obtains s s' r where "run_call t ctx input s = (r, s')" "csConfirmations s = store" "csSent s = []"
    "csSent s' = csSent st" "csConfirmations s' = csConfirmations st" "names s' = asked_check entry"
  using assms
  by (cases "run_call t ctx input \<lparr>csEntry = first_entry ctx, csConfirmations = store, csSent = [], csMetrics = [IncInflight]\<rparr>")
     (fastforce simp: Execute_def names_def asked_check_def split: sum.splits)

section \<open>Every history of the gateway is one of the store\<close>

lemma store_steps:
  assumes "run s0 es s"
  shows "Request t1 t2 f q s = (r, s1) \<Longrightarrow> \<exists>es'. run s0 es' s1 \<and> consumed_checks es' = consumed_checks es"
    and "Confirm t1 t2 k b s = (r, s1) \<Longrightarrow> \<exists>es'. run s0 es' s1 \<and> consumed_checks es' = consumed_checks es"
    and "ConsumeApproved t1 t2 k c s = (r, s1) \<Longrightarrow> \<exists>es'. run s0 es' s1
      \<and> consumed_checks es' = (case r of Ok x \<Rightarrow> c # consumed_checks es | Err e \<Rightarrow> consumed_checks es)"
proof -
  have more: "consumed_checks (EIssue x # es) = consumed_checks es" "consumed_checks (EConfirm i b # es) = consumed_checks es"
    "consumed_checks (EConsume i c t # es) = c # consumed_checks es" for x i b c t by simp_all
  show "Request t1 t2 f q s = (r, s1) \<Longrightarrow> \<exists>es'. run s0 es' s1 \<and> consumed_checks es' = consumed_checks es"
    using run_request [OF assms] run_fail_request [OF assms] more by (cases r) metis+
  show "Confirm t1 t2 k b s = (r, s1) \<Longrightarrow> \<exists>es'. run s0 es' s1 \<and> consumed_checks es' = consumed_checks es"
    using run_confirm [OF assms] run_fail_confirm [OF assms] more by (cases r) metis+
  assume step: "ConsumeApproved t1 t2 k c s = (r, s1)"
  show "\<exists>es'. run s0 es' s1 \<and> consumed_checks es' = (case r of Ok x \<Rightarrow> c # consumed_checks es | Err e \<Rightarrow> consumed_checks es)"
  proof (cases r)
    case (Inl e)
    with run_fail_consume [OF assms, of t1 t2 k c e s1] step show ?thesis by auto
  next
    case (Inr x)
    with run_consume [OF assms, of t1 t2 k c x s1] step more(3) show ?thesis by (auto intro: exI [of _ "EConsume (recID x) c t2 # es"])
  qed
qed

lemma tool_steps:
  assumes "run s0 es s"
  shows "RequestConfirmation t1 t2 fresh input s = (res, s') \<Longrightarrow> \<exists>es'. run s0 es' s' \<and> consumed_checks es' = consumed_checks es"
    and "PolicyConfirm t1 t2 input s = (res, s') \<Longrightarrow> \<exists>es'. run s0 es' s' \<and> consumed_checks es' = consumed_checks es"
  using assms
  by (auto simp: RequestConfirmation_def PolicyConfirm_def split: option.splits sum.splits prod.splits
      intro: store_steps(1,2) [OF assms])

lemma call_step:
  assumes "run s0 es s" and "Execute t ctx input s = (res, entry, st)"
  shows "\<exists>es'. run s0 es' (csConfirmations st) \<and> suffix (consumed_checks es) (consumed_checks es')
    \<and> (csSent st \<noteq> [] \<and> \<not> outright t entry \<longrightarrow> consumed_checks es' = asked_check entry # consumed_checks es)"
proof -
  from Execute_call [OF assms(2)] obtain b a r where call: "run_call t ctx input b = (r, a)"
    and eqs: "csConfirmations b = s" "csSent b = []" "csSent a = csSent st" "csConfirmations a = csConfirmations st"
      "names a = asked_check entry" by blast
  show ?thesis
  proof (cases "csSent st \<noteq> [] \<and> \<not> outright t entry")
    case True
    with sent_granted [OF call] eqs obtain inp p where g: "granted t ctx inp p s (csConfirmations st)"
      and p: "asked_check entry = check_of p" by auto
    from p True have "\<not> (case exPolicy t (prOperationID p) (prMethod p) (prURL p) of Ok d \<Rightarrow> Allow d | Err m \<Rightarrow> False)"
      by (simp add: outright_def asked_check_def check_of_def)
    with g obtain store0 rec where "s = Some store0"
      "ConsumeApproved (fst (ccNow ctx)) (snd (ccNow ctx)) (TrimSpace (exConfirmationID inp)) (check_of p) s
        = (Ok rec, csConfirmations st)" by (auto simp: granted_def)
    from store_steps(3) [OF assms(1) this(2)] p show ?thesis by (auto simp: suffix_def)
  next
    case False
    have "csConfirmations st = s \<or> (\<exists>k c res. ConsumeApproved (fst (ccNow ctx)) (snd (ccNow ctx)) k c s = (res, csConfirmations st))"
      using consults_run_call [of ctx t input] call eqs by (auto simp: consults_def dest!: spec [of _ b])
    then consider "csConfirmations st = s" | k c r where "ConsumeApproved (fst (ccNow ctx)) (snd (ccNow ctx)) k c s = (r, csConfirmations st)"
      by blast
    then show ?thesis
    proof cases
      case 2
      from store_steps(3) [OF assms(1) 2] False show ?thesis by (auto simp: suffix_def split: sum.splits)
    qed (use assms(1) False in auto)
  qed
qed

lemma gateway_history:
  "gateway_run t s0 log s \<Longrightarrow>
     \<exists>es. run s0 es s \<and> subseq (map asked_check (filter (\<lambda>e. \<not> outright t e) log)) (consumed_checks es)"
proof (induction rule: gateway_run.induct)
  case opened
  show ?case using run_start by force
next
  case (asked log s t1 t2 fresh input res s')
  then show ?case using tool_steps(1) by metis
next
  case (answered log s t1 t2 input res s')
  then show ?case using tool_steps(2) by metis
next
  case (called log s u ctx input res entry st)
  then obtain es where run: "run s0 es s"
    and sub: "subseq (map asked_check (filter (\<lambda>e. \<not> outright t e) log)) (consumed_checks es)" by blast
  have same: "outright u e = outright t e" for e using called.hyps(2) by (simp add: outright_def)
  from call_step [OF run called.hyps(3)] obtain es' where es': "run s0 es' (csConfirmations st)"
    "suffix (consumed_checks es) (consumed_checks es')"
    "csSent st \<noteq> [] \<and> \<not> outright t entry \<longrightarrow> consumed_checks es' = asked_check entry # consumed_checks es"
    unfolding same by blast
  have "subseq (consumed_checks es) (consumed_checks es')"
    using es'(2) by (auto simp: suffix_def)
  with sub have "subseq (map asked_check (filter (\<lambda>e. \<not> outright t e) log)) (consumed_checks es')"
    by (rule subseq_order.trans)
  with es' sub show ?case by (intro exI [of _ es']) auto
qed

section \<open>What the gateway guarantees\<close>

text \<open>Every entry of the history was let through by the policy, outright or with a confirmation.\<close>

lemma granted_decision:
  "granted t ctx inp p before after \<Longrightarrow> \<exists>d. exPolicy t (prOperationID p) (prMethod p) (prURL p) = Ok d
     \<and> (Allow d \<or> RequireConfirmation d \<or> denial_code d = ''confirmation_required'')"
  unfolding granted_def by meson

lemma logged_let_through:
  "gateway_run t s0 log s \<Longrightarrow> e \<in> set log \<Longrightarrow>
     \<exists>d. exPolicy t (enOperationID e) (enMethod e) (enURL e) = Ok d
       \<and> (Allow d \<or> RequireConfirmation d \<or> denial_code d = ''confirmation_required'')"
proof (induction rule: gateway_run.induct)
  case (called log s u ctx input res entry st)
  show ?case
  proof (cases "e \<in> set log")
    case False
    with called.prems have new: "e = entry" "csSent st \<noteq> []" by (auto split: if_splits)
    from Execute_call [OF called.hyps(3)] obtain b r a where call: "run_call u ctx input b = (r, a)"
      and eqs: "csSent b = []" "csSent a = csSent st" "names a = asked_check entry" .
    with sent_granted [OF call] new obtain inp p where "granted u ctx inp p (csConfirmations b) (csConfirmations a)"
      "asked_check e = check_of p" by auto
    then show ?thesis using granted_decision called.hyps(2) by (metis asked_check_def check_of_def Check.ext_inject)
  qed (use called in auto)
qed auto


text \<open>What the policy alone says of the history.\<close>

lemma logged_within_policy:
  assumes "gateway_run t s0 log s" and "exPolicy t = Evaluate (NewEvaluator cfg)" and "e \<in> set log"
  shows "lists_pass cfg (enOperationID e) (enMethod e)
    \<and> (reading_mode cfg \<and> isReadonlyMethod (enMethod e) \<or> writing_mode cfg)
    \<and> (outright t e \<longleftrightarrow> \<not> (cfgRequireConfirmationForWrite cfg \<and> isWriteMethod (enMethod e)))"
proof -
  from logged_let_through [OF assms(1,3)] assms(2) obtain d
    where d: "Evaluate (NewEvaluator cfg) (enOperationID e) (enMethod e) (enURL e) = Ok d"
      "Allow d \<or> RequireConfirmation d \<or> denial_code d = ''confirmation_required''" by auto
  have "Allow d \<or> RequireConfirmation d"
  proof (cases "Allow d")
    case False
    with pol.confirmation_code [OF d(1)] pol.refusal_has_code [OF d(1)] d(2) show ?thesis
      by (simp add: denial_code_def)
  qed simp
  from let_through [OF d(1) this] d(1) assms(2) show ?thesis by (simp add: outright_def)
qed


lemma other_modes_send_nothing:
  assumes "gateway_run (NewSwaggerExecuteTool c (deps\<lparr>dpPolicy := None\<rparr>)) s0 log s"
  shows "log = []"
proof (rule ccontr)
  assume "log \<noteq> []"
  then obtain e where "e \<in> set log" by (meson last_in_set)
  from logged_let_through [OF assms this] obtain d
    where "Evaluate (NewEvaluator plan_only_config) (enOperationID e) (enMethod e) (enURL e) = Ok d"
      "Allow d \<or> RequireConfirmation d \<or> denial_code d = ''confirmation_required''"
    by (auto simp: NewSwaggerExecuteTool_def)
  moreover have "Evaluate (NewEvaluator plan_only_config) op m u
      = Ok (deny ''plan_only'' ''execution is disabled in PLAN_ONLY mode'')" for op m u
    by (simp add: Evaluate_def Let_def listsDecision_def modeDecision_def NewEvaluator_def plan_only_config_def
        ids_def verbs_def) code_simp
  ultimately show False by (auto simp: deny_def denial_code_def)
qed

section \<open>A confirmed write\<close>

definition guarded_config :: PolicyConfig where
  "guarded_config = \<lparr>cfgMode = ''execute_write'', cfgAllowedMethods = [], cfgDeniedMethods = [], cfgAllowedOperationIDs = [],
     cfgDeniedOperationIDs = [], cfgRequireConfirmationForWrite = True\<rparr>"

definition guarded_tool :: SwaggerExecuteTool where
  "guarded_tool = demo_tool\<lparr>exPolicy := Evaluate (NewEvaluator guarded_config)\<rparr>"

definition first_store :: "MemoryStore option" where
  "first_store = Some (NewMemoryStore 100)"

definition ask_input :: any where
  "ask_input = AMap [(''operationId'', AStr ''addPet''), (''method'', AStr ''post''), (''url'', AStr ''https://api.example.com/pets/7'')]"

definition answer_input :: any where
  "answer_input = AMap [(''confirmationId'', AStr ''k1''), (''approve'', ABool True)]"

definition confirmed_input :: any where
  "confirmed_input = AMap [(''operationId'', AStr ''addPet''), (''confirmationId'', AStr ''k1''),
     (''params'', AMap [(''path'', AMap [(''id'', AStr ''7'')])])]"

definition asked_store :: "MemoryStore option" where
  "asked_store = snd (RequestConfirmation (Time 1) (Time 2) (Ok ''k1'') ask_input first_store)"

definition answered_store :: "MemoryStore option" where
  "answered_store = snd (PolicyConfirm (Time 3) (Time 4) answer_input asked_store)"

definition confirmed_call :: "any \<times> Entry \<times> call_state" where
  "confirmed_call = Execute guarded_tool (demo_context\<lparr>ccNow := (Time 5, Time 6)\<rparr>) confirmed_input answered_store"

lemma confirmed_call_sends:
  "map rqMethod (csSent (snd (snd confirmed_call))) = [''POST'']"
  "enMethod (fst (snd confirmed_call)) = ''POST''"
  by code_simp+

lemma confirmed_run:
  "gateway_run guarded_tool (Some (NewMemoryStore 100)) [fst (snd confirmed_call)] (csConfirmations (snd (snd confirmed_call)))"
proof -
  have "gateway_run guarded_tool first_store [] answered_store"
    using answered [OF asked [OF opened]] unfolding asked_store_def answered_store_def by (metis prod.collapse)
  from called [OF this refl, of "demo_context\<lparr>ccNow := (Time 5, Time 6)\<rparr>" confirmed_input "fst confirmed_call"
      "fst (snd confirmed_call)" "snd (snd confirmed_call)"] confirmed_call_sends(1)
  show ?thesis by (cases "csSent (snd (snd confirmed_call))") (auto simp: confirmed_call_def first_store_def)
qed

lemma confirmed_not_outright: "\<not> outright guarded_tool (fst (snd confirmed_call))"
proof -
  have "Evaluate (NewEvaluator guarded_config) op ''POST'' u = Ok (confirmDecision ''POST'')" for op u
    by (simp add: Evaluate_def Let_def listsDecision_def modeDecision_def NewEvaluator_def guarded_config_def
        ids_def verbs_def) code_simp
  with confirmed_call_sends(2) show ?thesis by (simp add: outright_def guarded_tool_def confirmDecision_def)
qed



end
