(* ===== verification/GoDuration.thy ===== *)
theory GoDuration
  imports GoFloat GoTime
begin

text \<open>
  \<open>time.ParseDuration\<close> and \<open>strconv.ParseBool\<close>. A duration is a signed sequence of decimal
  numbers with units; the code counts in unsigned 64-bit nanoseconds with explicit overflow
  tests, and a fractional part is multiplied in double precision, as here.
\<close>

definition int_limit :: int where
  "int_limit = 2 ^ 63"

text \<open>The integer in front of a text, None where it passes \<open>2^63\<close>.\<close>

fun leading_int :: "string \<Rightarrow> int \<Rightarrow> (int \<times> string) option" where
  "leading_int (c # cs) x =
     (if \<not> dec_digit c then Some (x, c # cs)
      else if x > int_limit div 10 then None
      else (let y = 10 * x + (int (of_char c) - 48) in if y > int_limit then None else leading_int cs y))"
| "leading_int [] x = Some (x, [])"

type_synonym double = "int \<times> int"

definition fraction_of :: "double \<Rightarrow> int \<times> int" where
  "fraction_of x = scaled 2 (fst x) 1 (- snd x)"

definition times :: "double \<Rightarrow> double \<Rightarrow> double" where
  "times x y = (let (a, b) = fraction_of x; (c, d) = fraction_of y in double_of (a * c) (b * d))"

definition divided_by :: "double \<Rightarrow> double \<Rightarrow> double" where
  "divided_by x y = (let (a, b) = fraction_of x; (c, d) = fraction_of y in double_of (a * d) (b * c))"

text \<open>The fraction in front of a text with its scale; digits that no longer fit are dropped.\<close>

fun leading_fraction :: "string \<Rightarrow> bool \<Rightarrow> int \<Rightarrow> double \<Rightarrow> int \<times> double \<times> string" where
  "leading_fraction (c # cs) full x scale =
     (if \<not> dec_digit c then (x, scale, c # cs)
      else if full \<or> x > (int_limit - 1) div 10 then leading_fraction cs True x scale
      else (let y = 10 * x + (int (of_char c) - 48) in
        if y > int_limit then leading_fraction cs True x scale
        else leading_fraction cs False y (times scale (double_of 10 1))))"
| "leading_fraction [] full x scale = (x, scale, [])"

lemma leading_int_length: "leading_int s x = Some (v, r) \<Longrightarrow> length r \<le> length s"
  by (induction s x arbitrary: v r rule: leading_int.induct) (fastforce simp: Let_def split: if_splits)+

lemma leading_fraction_length: "leading_fraction s full x sc = (f, sc', r) \<Longrightarrow> length r \<le> length s"
  by (induction s full x sc arbitrary: f sc' r rule: leading_fraction.induct) (fastforce simp: Let_def split: if_splits)+

definition unit_nanos :: "string \<Rightarrow> int option" where
  "unit_nanos u = map_of [(''ns'', 1), (''us'', 1000), ([CHR 0xC2, CHR 0xB5, CHR ''s''], 1000),
     ([CHR 0xCE, CHR 0xBC, CHR ''s''], 1000), (''ms'', 1000000), (''s'', Second), (''m'', Minute), (''h'', 60 * Minute)] u"

definition numeric :: "char \<Rightarrow> bool" where
  "numeric c \<longleftrightarrow> c = CHR ''.'' \<or> dec_digit c"

definition whole_nanos :: "double \<Rightarrow> int" where
  "whole_nanos x = (let (n, d) = fraction_of x in n div d)"

text \<open>The digits after a point, if there is one.\<close>

definition fraction_part :: "string \<Rightarrow> int \<times> double \<times> string" where
  "fraction_part s = (if prefix ''.'' s then leading_fraction (drop 1 s) False 0 (double_of 1 1) else (0, double_of 1 1, s))"

lemma fraction_part_length: "fraction_part s = (f, scale, r) \<Longrightarrow> length r \<le> length s"
  using leading_fraction_length [of "drop 1 s"] by (fastforce simp: fraction_part_def split: if_splits)

text \<open>One number with its unit: its nanoseconds and the rest of the text.\<close>

definition duration_part :: "string \<Rightarrow> (int \<times> string) option" where
  "duration_part s =
     (if s = [] \<or> \<not> numeric (hd s) then None
      else (case leading_int s 0 of
        None \<Rightarrow> None
      | Some (v, s1) \<Rightarrow>
         (let pre = length s1 \<noteq> length s; (f, scale, s2) = fraction_part s1;
              post = prefix ''.'' s1 \<and> length s2 \<noteq> length (drop 1 s1);
              u = takeWhile (\<lambda>c. \<not> numeric c) s2; s3 = dropWhile (\<lambda>c. \<not> numeric c) s2 in
          if \<not> pre \<and> \<not> post \<or> u = [] then None
          else (case unit_nanos u of
            None \<Rightarrow> None
          | Some unit \<Rightarrow>
             if v > int_limit div unit then None
             else (let n = v * unit + (if 0 < f
                     then whole_nanos (times (double_of f 1) (divided_by (double_of unit 1) scale)) else 0) in
               if 0 < f \<and> n > int_limit then None else Some (n, s3))))))"

lemma duration_part_shorter: "duration_part s = Some (n, r) \<Longrightarrow> length r < length s"
proof -
  assume part: "duration_part s = Some (n, r)"
  then obtain v s1 where s1: "leading_int s 0 = Some (v, s1)"
    by (auto simp: duration_part_def split: option.splits if_splits)
  obtain f scale s2 where s2: "fraction_part s1 = (f, scale, s2)" by (metis prod_cases3)
  from part s1 s2 have r: "r = dropWhile (\<lambda>c. \<not> numeric c) s2" and u: "takeWhile (\<lambda>c. \<not> numeric c) s2 \<noteq> []"
    by (simp_all add: duration_part_def Let_def split: option.splits if_splits)
  note le = fraction_part_length [OF s2]
  have "length (takeWhile (\<lambda>c. \<not> numeric c) s2) + length r = length s2"
    unfolding r by (metis length_append takeWhile_dropWhile_id)
  with leading_int_length [OF s1] le u show "length r < length s" by (cases "takeWhile (\<lambda>c. \<not> numeric c) s2") auto
qed

function duration_parts :: "string \<Rightarrow> int \<Rightarrow> int option" where
  "duration_parts s d =
     (if s = [] then Some d
      else (case duration_part s of
        None \<Rightarrow> None
      | Some (n, r) \<Rightarrow> if d + n > int_limit then None else duration_parts r (d + n)))"
  by pat_completeness auto

termination duration_parts
  by (relation "measure (length \<circ> fst)") (auto dest: duration_part_shorter)

declare duration_parts.simps [simp del]

definition ParseDuration :: "string \<Rightarrow> duration option" where
  "ParseDuration s =
     (let (neg, t) = sign_split s in
      if t = ''0'' then Some 0
      else if t = [] then None
      else (case duration_parts t 0 of
        None \<Rightarrow> None
      | Some d \<Rightarrow> if neg then Some (- d) else if d > int_limit - 1 then None else Some d))"

definition ParseBool :: "string \<Rightarrow> bool option" where
  "ParseBool s =
     (if s \<in> {''1'', ''t'', ''T'', ''true'', ''TRUE'', ''True''} then Some True
      else if s \<in> {''0'', ''f'', ''F'', ''false'', ''FALSE'', ''False''} then Some False else None)"

lemma duration_examples:
  "ParseDuration ''1h15m30.918s'' = Some 4530918000000" "ParseDuration ''-2m'' = Some (-120000000000)"
  "ParseDuration ''45'' = None" "ParseDuration ''.5s'' = Some 500000000"
  by code_simp+

end
