(* ===== verification/Config.thy ===== *)
theory Config
  imports GoDuration NetGuard SwaggerLoader
begin

text \<open>
  The configuration (\<open>config/config.go\<close>, \<open>config/validate.go\<close>): read from the environment,
  an association list here, with defaults for what is missing or malformed, and checked before
  the start. The file repeats \<open>parseURLSource\<close> of the swagger loader word for word; the theory
  uses the loader's. Durations are read by the model in the theory GoDuration.
\<close>

type_synonym env = "(string \<times> string) list"

record Config =
  cfTransport :: string
  cfHTTPAddr :: string
  cfVersion :: string
  cfLogLevel :: string
  cfCorrelationIDHeader :: string
  cfMetricsAuthRequired :: bool
  cfSwaggerPath :: string
  cfSwaggerFormat :: string
  cfSwaggerBaseURL :: string
  cfSwaggerReload :: bool
  cfSwaggerCacheTTL :: duration
  cfSwaggerHTTPTimeout :: duration
  cfSwaggerMaxBytes :: int
  cfSwaggerUserAgent :: string
  cfCORSAllowedOrigins :: "string list"
  cfInboundOAuthIssuer :: string
  cfInboundOAuthAudience :: string
  cfInboundOAuthJWKSURL :: string
  cfInboundOAuthJWKSCacheTTL :: duration
  cfInboundOAuthIntrospectionURL :: string
  cfInboundOAuthClientID :: string
  cfInboundOAuthClientSecret :: string
  cfInboundOAuthRequiredScopes :: "string list"
  cfInboundOAuthIntrospectionCacheTTL :: duration
  cfHTTPReadTimeout :: duration
  cfHTTPReadHeaderTimeout :: duration
  cfHTTPWriteTimeout :: duration
  cfHTTPIdleTimeout :: duration
  cfHTTPShutdownTimeout :: duration
  cfHTTPSessionTimeout :: duration
  cfHTTPMaxBodyBytes :: int
  cfMCPAPIMode :: string
  cfUpstreamBaseURL :: string
  cfUpstreamSandboxBaseURL :: string
  cfAllowedMethods :: "string list"
  cfDeniedMethods :: "string list"
  cfAllowedOperationIDs :: "string list"
  cfDeniedOperationIDs :: "string list"
  cfRequireConfirmationForWrite :: bool
  cfMaxCallsPerMinute :: int
  cfMaxConcurrentCalls :: int
  cfMaxCallsPerMinutePerPrincipal :: int
  cfMaxConcurrentCallsPerPrincipal :: int
  cfHTTPTimeout :: duration
  cfMaxRequestBytes :: int
  cfMaxResponseBytes :: int
  cfUserAgent :: string
  cfAuditLog :: bool
  cfRedactHeaders :: "string list"
  cfRedactJSONFields :: "string list"
  cfUpstreamAuthMode :: string
  cfUpstreamBearerToken :: string
  cfUpstreamAPIKeyHeader :: string
  cfUpstreamAPIKeyValue :: string
  cfUpstreamOAuthTokenURL :: string
  cfUpstreamOAuthClientID :: string
  cfUpstreamOAuthClientSecret :: string
  cfUpstreamOAuthScopes :: string
  cfUpstreamOAuthAudience :: string
  cfUpstreamOAuthTokenCacheTTL :: duration
  cfValidateRequest :: bool
  cfValidateResponse :: bool
  cfConfirmationTTL :: duration
  cfUpstreamAllowedHosts :: "string list"
  cfSwaggerAllowedHosts :: "string list"
  cfBlockPrivateNetworks :: bool
  cfCompatibilityWarnings :: "string list"

section \<open>Reading the environment\<close>

definition Getenv :: "env \<Rightarrow> string \<Rightarrow> string" where
  "Getenv env key = (case map_of env key of Some v \<Rightarrow> v | None \<Rightarrow> [])"

definition getEnv :: "env \<Rightarrow> string \<Rightarrow> string \<Rightarrow> string" where
  "getEnv env key fallback = (let v = TrimSpace (Getenv env key) in if v = [] then fallback else v)"

text \<open>A value that does not parse counts as missing.\<close>

definition parsed_env :: "(string \<Rightarrow> 'a option) \<Rightarrow> env \<Rightarrow> string \<Rightarrow> 'a \<Rightarrow> 'a" where
  "parsed_env parse env key fallback = (let v = TrimSpace (Getenv env key) in
     if v = [] then fallback else (case parse v of Some x \<Rightarrow> x | None \<Rightarrow> fallback))"

definition getDurationEnv :: "env \<Rightarrow> string \<Rightarrow> duration \<Rightarrow> duration" where
  "getDurationEnv = parsed_env ParseDuration"

definition getInt64Env :: "env \<Rightarrow> string \<Rightarrow> int \<Rightarrow> int" where
  "getInt64Env = parsed_env ParseInt"

definition getIntEnv :: "env \<Rightarrow> string \<Rightarrow> int \<Rightarrow> int" where
  "getIntEnv = parsed_env ParseInt"

definition getBoolEnv :: "env \<Rightarrow> string \<Rightarrow> bool \<Rightarrow> bool" where
  "getBoolEnv = parsed_env ParseBool"

definition addLegacyWarning :: "string \<Rightarrow> string \<Rightarrow> string list \<Rightarrow> string list" where
  "addLegacyWarning legacyKey newKey warnings =
     (let message = ''deprecated env '' @ legacyKey @ '' is in use; migrate to '' @ newKey in
      if message \<in> set warnings then warnings else warnings @ [message])"

definition getEnvWithLegacy :: "env \<Rightarrow> string \<Rightarrow> string \<Rightarrow> string \<Rightarrow> string list \<Rightarrow> string \<times> string list" where
  "getEnvWithLegacy env newKey legacyKey fallback warnings =
     (let v = TrimSpace (Getenv env newKey); old = TrimSpace (Getenv env legacyKey) in
      if v \<noteq> [] then (v, warnings)
      else if old \<noteq> [] then (old, addLegacyWarning legacyKey newKey warnings) else (fallback, warnings))"

definition getDurationEnvWithLegacy :: "env \<Rightarrow> string \<Rightarrow> string \<Rightarrow> duration \<Rightarrow> string list \<Rightarrow> duration \<times> string list" where
  "getDurationEnvWithLegacy env newKey legacyKey fallback warnings =
     (let v = TrimSpace (Getenv env newKey); old = TrimSpace (Getenv env legacyKey) in
      if v \<noteq> [] then (case ParseDuration v of Some d \<Rightarrow> (d, warnings) | None \<Rightarrow> (fallback, warnings))
      else if old = [] then (fallback, warnings)
      else (case ParseDuration old of Some d \<Rightarrow> (d, addLegacyWarning legacyKey newKey warnings) | None \<Rightarrow> (fallback, warnings)))"

definition separator :: "char \<Rightarrow> bool" where
  "separator c \<longleftrightarrow> c \<in> {CHR '','', CHR '' '', CHR 9, CHR 10, CHR 13}"

text \<open>Trimmed, without blanks and repetitions.\<close>

definition splitList :: "string \<Rightarrow> string list" where
  "splitList v = trim_unique {} (FieldsFunc (TrimSpace v) separator)"

definition normalizeUpperList :: "string list \<Rightarrow> string list" where
  "normalizeUpperList items = trim_unique {} (map (\<lambda>s. ToUpper (TrimSpace s)) items)"

text \<open>\<open>path.Ext\<close>: from the last point of the last segment on.\<close>

definition Ext :: "string \<Rightarrow> string" where
  "Ext p = (let r = takeWhile (\<lambda>c. c \<noteq> CHR ''/'') (rev p) in
     if CHR ''.'' \<in> set r then CHR ''.'' # rev (takeWhile (\<lambda>c. c \<noteq> CHR ''.'') r) else [])"

definition ResolveSwaggerFormat :: "Config \<Rightarrow> string" where
  "ResolveSwaggerFormat c =
     (let mode = ToLower (TrimSpace (cfSwaggerFormat c)) in
      if mode = ''json'' \<or> mode = ''yaml'' then mode
      else (let ext = (case SwaggerLoader.parseURLSource (cfSwaggerPath c) of
              Some u \<Rightarrow> ToLower (TrimSpace (Ext (Path u))) | None \<Rightarrow> ToLower (TrimSpace (Ext (cfSwaggerPath c)))) in
        if ext = ''.json'' then ''json'' else if ext = ''.yaml'' \<or> ext = ''.yml'' then ''yaml'' else ''auto''))"

definition OAuthMode :: "Config \<Rightarrow> string" where
  "OAuthMode c = (if cfInboundOAuthIntrospectionURL c \<noteq> [] then ''introspection''
     else if cfInboundOAuthJWKSURL c \<noteq> [] then ''jwks'' else ''none'')"

section \<open>Loading\<close>

definition legacy_text :: "env \<Rightarrow> string \<Rightarrow> string \<Rightarrow> string" where
  "legacy_text env newKey legacyKey = fst (getEnvWithLegacy env newKey legacyKey [] [])"

definition legacy_duration :: "env \<Rightarrow> string \<Rightarrow> string \<Rightarrow> duration \<Rightarrow> duration" where
  "legacy_duration env newKey legacyKey fallback = fst (getDurationEnvWithLegacy env newKey legacyKey fallback [])"

text \<open>The variables with an older name, in the order they are read; the first mark is for durations.\<close>

definition legacy_keys :: "(bool \<times> string \<times> string) list" where
  "legacy_keys =
    [(False, ''INBOUND_OAUTH_ISSUER'', ''OAUTH_ISSUER''),
     (False, ''INBOUND_OAUTH_AUDIENCE'', ''OAUTH_AUDIENCE''),
     (False, ''INBOUND_OAUTH_JWKS_URL'', ''OAUTH_JWKS_URL''),
     (True, ''INBOUND_OAUTH_JWKS_CACHE_TTL'', ''OAUTH_JWKS_CACHE_TTL''),
     (False, ''INBOUND_OAUTH_INTROSPECTION_URL'', ''OAUTH_INTROSPECTION_URL''),
     (False, ''INBOUND_OAUTH_CLIENT_ID'', ''OAUTH_CLIENT_ID''),
     (False, ''INBOUND_OAUTH_CLIENT_SECRET'', ''OAUTH_CLIENT_SECRET''),
     (False, ''INBOUND_OAUTH_REQUIRED_SCOPES'', ''OAUTH_REQUIRED_SCOPES''),
     (True, ''INBOUND_OAUTH_INTROSPECTION_CACHE_TTL'', ''OAUTH_INTROSPECTION_CACHE_TTL''),
     (False, ''UPSTREAM_OAUTH_TOKEN_URL'', ''OAUTH_TOKEN_URL''),
     (False, ''UPSTREAM_OAUTH_CLIENT_ID'', ''OAUTH_CLIENT_ID''),
     (False, ''UPSTREAM_OAUTH_CLIENT_SECRET'', ''OAUTH_CLIENT_SECRET''),
     (False, ''UPSTREAM_OAUTH_SCOPES'', ''OAUTH_SCOPES''),
     (False, ''UPSTREAM_OAUTH_AUDIENCE'', ''OAUTH_AUDIENCE''),
     (True, ''UPSTREAM_OAUTH_TOKEN_CACHE_TTL'', ''OAUTH_TOKEN_CACHE_TTL'')]"

definition compatibility_warnings :: "env \<Rightarrow> string list" where
  "compatibility_warnings env = fold (\<lambda>(timed, newKey, legacyKey) warnings.
     if timed then snd (getDurationEnvWithLegacy env newKey legacyKey 0 warnings)
     else snd (getEnvWithLegacy env newKey legacyKey [] warnings)) legacy_keys []"

definition Load :: "env \<Rightarrow> Config" where
  "Load env =
     (let maxCallsPerMinute = getIntEnv env ''MAX_CALLS_PER_MINUTE'' 60;
          maxConcurrentCalls = getIntEnv env ''MAX_CONCURRENT_CALLS'' 10;
          cfg = \<lparr>cfTransport = ToLower (getEnv env ''TRANSPORT'' ''stdio''),
        cfHTTPAddr = getEnv env ''HTTP_ADDR'' '':8080'',
        cfVersion = getEnv env ''VERSION'' ''dev'',
        cfLogLevel = ToLower (getEnv env ''LOG_LEVEL'' ''info''),
        cfCorrelationIDHeader = TrimSpace (getEnv env ''CORRELATION_ID_HEADER'' ''X-Correlation-Id''),
        cfMetricsAuthRequired = getBoolEnv env ''METRICS_AUTH_REQUIRED'' False,
        cfSwaggerPath = TrimSpace (Getenv env ''SWAGGER_PATH''),
        cfSwaggerFormat = ToLower (getEnv env ''SWAGGER_FORMAT'' ''auto''),
        cfSwaggerBaseURL = TrimSpace (Getenv env ''SWAGGER_BASE_URL''),
        cfSwaggerReload = getBoolEnv env ''SWAGGER_RELOAD'' False,
        cfSwaggerCacheTTL = getDurationEnv env ''SWAGGER_CACHE_TTL'' (5 * Minute),
        cfSwaggerHTTPTimeout = getDurationEnv env ''SWAGGER_HTTP_TIMEOUT'' (10 * Second),
        cfSwaggerMaxBytes = getInt64Env env ''SWAGGER_MAX_BYTES'' (5 * 1024 * 1024),
        cfSwaggerUserAgent = getEnv env ''SWAGGER_USER_AGENT'' ''MCP-Swagger-Loader/1.0'',
        cfCORSAllowedOrigins = splitList (Getenv env ''CORS_ALLOWED_ORIGINS''),
        cfInboundOAuthIssuer = legacy_text env ''INBOUND_OAUTH_ISSUER'' ''OAUTH_ISSUER'',
        cfInboundOAuthAudience = legacy_text env ''INBOUND_OAUTH_AUDIENCE'' ''OAUTH_AUDIENCE'',
        cfInboundOAuthJWKSURL = legacy_text env ''INBOUND_OAUTH_JWKS_URL'' ''OAUTH_JWKS_URL'',
        cfInboundOAuthJWKSCacheTTL = legacy_duration env ''INBOUND_OAUTH_JWKS_CACHE_TTL'' ''OAUTH_JWKS_CACHE_TTL'' (5 * Minute),
        cfInboundOAuthIntrospectionURL = legacy_text env ''INBOUND_OAUTH_INTROSPECTION_URL'' ''OAUTH_INTROSPECTION_URL'',
        cfInboundOAuthClientID = legacy_text env ''INBOUND_OAUTH_CLIENT_ID'' ''OAUTH_CLIENT_ID'',
        cfInboundOAuthClientSecret = legacy_text env ''INBOUND_OAUTH_CLIENT_SECRET'' ''OAUTH_CLIENT_SECRET'',
        cfInboundOAuthRequiredScopes = splitList (legacy_text env ''INBOUND_OAUTH_REQUIRED_SCOPES'' ''OAUTH_REQUIRED_SCOPES''),
        cfInboundOAuthIntrospectionCacheTTL = legacy_duration env ''INBOUND_OAUTH_INTROSPECTION_CACHE_TTL'' ''OAUTH_INTROSPECTION_CACHE_TTL'' (45 * Second),
        cfHTTPReadTimeout = getDurationEnv env ''HTTP_READ_TIMEOUT'' (15 * Second),
        cfHTTPReadHeaderTimeout = getDurationEnv env ''HTTP_READ_HEADER_TIMEOUT'' (5 * Second),
        cfHTTPWriteTimeout = getDurationEnv env ''HTTP_WRITE_TIMEOUT'' (30 * Second),
        cfHTTPIdleTimeout = getDurationEnv env ''HTTP_IDLE_TIMEOUT'' (60 * Second),
        cfHTTPShutdownTimeout = getDurationEnv env ''HTTP_SHUTDOWN_TIMEOUT'' (10 * Second),
        cfHTTPSessionTimeout = getDurationEnv env ''HTTP_SESSION_TIMEOUT'' (2 * Minute),
        cfHTTPMaxBodyBytes = getInt64Env env ''HTTP_MAX_BODY_BYTES'' (2 ^ 20),
        cfMCPAPIMode = ToLower (getEnv env ''MCP_API_MODE'' ''plan_only''),
        cfUpstreamBaseURL = TrimSpace (Getenv env ''UPSTREAM_BASE_URL''),
        cfUpstreamSandboxBaseURL = TrimSpace (Getenv env ''UPSTREAM_SANDBOX_BASE_URL''),
        cfAllowedMethods = normalizeUpperList (splitList (getEnv env ''ALLOWED_METHODS'' ''GET,HEAD,OPTIONS'')),
        cfDeniedMethods = normalizeUpperList (splitList (getEnv env ''DENIED_METHODS'' ''DELETE'')),
        cfAllowedOperationIDs = splitList (Getenv env ''ALLOWED_OPERATION_IDS''),
        cfDeniedOperationIDs = splitList (Getenv env ''DENIED_OPERATION_IDS''),
        cfRequireConfirmationForWrite = getBoolEnv env ''REQUIRE_CONFIRMATION_FOR_WRITE'' False,
        cfMaxCallsPerMinute = maxCallsPerMinute,
        cfMaxConcurrentCalls = maxConcurrentCalls,
        cfMaxCallsPerMinutePerPrincipal = getIntEnv env ''MAX_CALLS_PER_MINUTE_PER_PRINCIPAL'' maxCallsPerMinute,
        cfMaxConcurrentCallsPerPrincipal = getIntEnv env ''MAX_CONCURRENT_CALLS_PER_PRINCIPAL'' maxConcurrentCalls,
        cfHTTPTimeout = getDurationEnv env ''HTTP_TIMEOUT'' (30 * Second),
        cfMaxRequestBytes = getInt64Env env ''MAX_REQUEST_BYTES'' (2 ^ 20),
        cfMaxResponseBytes = getInt64Env env ''MAX_RESPONSE_BYTES'' (2 * 2 ^ 20),
        cfUserAgent = getEnv env ''USER_AGENT'' ''MCP-Swagger-Agent/1.0'',
        cfAuditLog = getBoolEnv env ''AUDIT_LOG'' True,
        cfRedactHeaders = splitList (getEnv env ''REDACT_HEADERS'' ''Authorization,Cookie,X-API-Key''),
        cfRedactJSONFields = splitList (getEnv env ''REDACT_JSON_FIELDS'' ''password,token,secret,apiKey,access_token,refresh_token''),
        cfUpstreamAuthMode = ToLower (getEnv env ''UPSTREAM_AUTH_MODE'' ''none''),
        cfUpstreamBearerToken = TrimSpace (Getenv env ''UPSTREAM_BEARER_TOKEN''),
        cfUpstreamAPIKeyHeader = TrimSpace (getEnv env ''UPSTREAM_API_KEY_HEADER'' ''X-API-Key''),
        cfUpstreamAPIKeyValue = TrimSpace (Getenv env ''UPSTREAM_API_KEY_VALUE''),
        cfUpstreamOAuthTokenURL = legacy_text env ''UPSTREAM_OAUTH_TOKEN_URL'' ''OAUTH_TOKEN_URL'',
        cfUpstreamOAuthClientID = legacy_text env ''UPSTREAM_OAUTH_CLIENT_ID'' ''OAUTH_CLIENT_ID'',
        cfUpstreamOAuthClientSecret = legacy_text env ''UPSTREAM_OAUTH_CLIENT_SECRET'' ''OAUTH_CLIENT_SECRET'',
        cfUpstreamOAuthScopes = legacy_text env ''UPSTREAM_OAUTH_SCOPES'' ''OAUTH_SCOPES'',
        cfUpstreamOAuthAudience = legacy_text env ''UPSTREAM_OAUTH_AUDIENCE'' ''OAUTH_AUDIENCE'',
        cfUpstreamOAuthTokenCacheTTL = legacy_duration env ''UPSTREAM_OAUTH_TOKEN_CACHE_TTL'' ''OAUTH_TOKEN_CACHE_TTL'' 0,
        cfValidateRequest = getBoolEnv env ''VALIDATE_REQUEST'' True,
        cfValidateResponse = getBoolEnv env ''VALIDATE_RESPONSE'' True,
        cfConfirmationTTL = getDurationEnv env ''CONFIRMATION_TTL'' (10 * Minute),
        cfUpstreamAllowedHosts = splitList (Getenv env ''UPSTREAM_ALLOWED_HOSTS''),
        cfSwaggerAllowedHosts = splitList (Getenv env ''SWAGGER_ALLOWED_HOSTS''),
        cfBlockPrivateNetworks = getBoolEnv env ''BLOCK_PRIVATE_NETWORKS'' True,
        cfCompatibilityWarnings = compatibility_warnings env\<rparr>;
          cfg = (if cfTransport cfg = [] then cfg\<lparr>cfTransport := ''stdio''\<rparr> else cfg) in
      cfg\<lparr>cfSwaggerFormat := ResolveSwaggerFormat cfg\<rparr>)"

section \<open>Checking the configuration\<close>

definition validHTTPMethods :: "string list" where
  "validHTTPMethods = [''GET'', ''HEAD'', ''OPTIONS'', ''POST'', ''PUT'', ''PATCH'', ''DELETE'', ''TRACE'', ''CONNECT'']"

definition invalidMethods :: "string list \<Rightarrow> string list" where
  "invalidMethods methods = sort (filter (\<lambda>v. v \<noteq> [] \<and> v \<notin> set validHTTPMethods) (map (\<lambda>m. ToUpper (TrimSpace m)) methods))"

definition isHTTPURL :: "string \<Rightarrow> bool" where
  "isHTTPURL source = (case SwaggerLoader.parseURLSource source of None \<Rightarrow> False | Some u \<Rightarrow> http_scheme (Scheme u))"

definition selectedUpstreamBaseURL :: "Config \<Rightarrow> string \<times> string" where
  "selectedUpstreamBaseURL c =
     (if ToLower (TrimSpace (cfMCPAPIMode c)) = ''sandbox''
      then (TrimSpace (cfUpstreamSandboxBaseURL c), ''UPSTREAM_SANDBOX_BASE_URL'')
      else if TrimSpace (cfUpstreamBaseURL c) \<noteq> [] then (TrimSpace (cfUpstreamBaseURL c), ''UPSTREAM_BASE_URL'')
      else if TrimSpace (cfSwaggerBaseURL c) \<noteq> [] then (TrimSpace (cfSwaggerBaseURL c), ''SWAGGER_BASE_URL'')
      else ([], []))"

text \<open>The address a host name resolved to is left out of the text of a guard's error.\<close>

definition guard_error_text :: "guard_error \<Rightarrow> string" where
  "guard_error_text e = (case e of
     ErrInvalidURL s \<Rightarrow> ''invalid url: '' @ s | ErrHostNotAllowed s \<Rightarrow> ''host is not allowlisted: '' @ s
   | ErrPrivateNetwork s \<Rightarrow> ''host resolves to private network: '' @ s | ErrHostResolution s \<Rightarrow> ''host resolution failed: '' @ s)"

definition swagger_guard :: "Config \<Rightarrow> Guard" where
  "swagger_guard c = NewGuard \<lparr>AllowedHosts = cfSwaggerAllowedHosts c, BlockPrivateNetworks = cfBlockPrivateNetworks c\<rparr>"

definition upstream_guard :: "Config \<Rightarrow> Guard" where
  "upstream_guard c = NewGuard \<lparr>AllowedHosts = cfUpstreamAllowedHosts c, BlockPrivateNetworks = cfBlockPrivateNetworks c\<rparr>"

definition complain :: "bool \<Rightarrow> string \<Rightarrow> string list" where
  "complain b message = (if b then [message] else [])"

definition blocked_by :: "Guard \<Rightarrow> resolver \<Rightarrow> string \<Rightarrow> string \<Rightarrow> string list" where
  "blocked_by g resolve what url = (case ValidateURL g resolve url of
     Ok u \<Rightarrow> [] | Err e \<Rightarrow> [what @ guard_error_text e])"

definition base_urls :: "Config \<Rightarrow> (string \<times> string) list" where
  "base_urls c = [(''UPSTREAM_BASE_URL'', cfUpstreamBaseURL c), (''UPSTREAM_SANDBOX_BASE_URL'', cfUpstreamSandboxBaseURL c),
     (''SWAGGER_BASE_URL'', cfSwaggerBaseURL c)]"

definition config_issues :: "Config \<Rightarrow> resolver \<Rightarrow> string list" where
  "config_issues c resolve =
     (let transport = ToLower (TrimSpace (cfTransport c)); mode = ToLower (TrimSpace (cfMCPAPIMode c));
          selected = selectedUpstreamBaseURL c in
      complain (TrimSpace (cfSwaggerPath c) = []) ''SWAGGER_PATH is required''
    @ complain (cfSwaggerHTTPTimeout c \<le> 0) ''SWAGGER_HTTP_TIMEOUT must be > 0''
    @ complain (cfSwaggerMaxBytes c \<le> 0) ''SWAGGER_MAX_BYTES must be > 0''
    @ complain (transport \<notin> {[], ''stdio'', ''streamable''})
        (''TRANSPORT '' @ quote (cfTransport c) @ '' is unsupported (use stdio|streamable)'')
    @ complain (mode \<notin> {[], ''plan_only'', ''execute_readonly'', ''execute_write'', ''sandbox''})
        (''MCP_API_MODE '' @ quote (cfMCPAPIMode c) @ '' is invalid'')
    @ complain (transport = ''streamable'' \<and> OAuthMode c = ''none'')
        ''TRANSPORT=streamable requires inbound OAuth config (INBOUND_OAUTH_JWKS_URL or INBOUND_OAUTH_INTROSPECTION_URL)''
    @ complain (mode = ''sandbox'' \<and> TrimSpace (cfUpstreamSandboxBaseURL c) = [])
        ''MCP_API_MODE=sandbox requires UPSTREAM_SANDBOX_BASE_URL''
    @ complain (invalidMethods (cfAllowedMethods c) \<noteq> [])
        (''ALLOWED_METHODS contains invalid verbs: '' @ Join (invalidMethods (cfAllowedMethods c)) '', '')
    @ complain (invalidMethods (cfDeniedMethods c) \<noteq> [])
        (''DENIED_METHODS contains invalid verbs: '' @ Join (invalidMethods (cfDeniedMethods c)) '', '')
    @ (case SwaggerLoader.parseURLSource (cfSwaggerPath c) of None \<Rightarrow> []
       | Some u \<Rightarrow> complain (\<not> http_scheme (Scheme u))
           (''SWAGGER_PATH URL scheme '' @ quote (Scheme u) @ '' is unsupported (only http/https are allowed)''))
    @ (if isHTTPURL (cfSwaggerPath c)
       then blocked_by (swagger_guard c) resolve ''SWAGGER_PATH is blocked by host policy: '' (cfSwaggerPath c) else [])
    @ concat (map (\<lambda>(name, url). if TrimSpace url = [] then []
         else blocked_by (upstream_guard c) resolve (name @ '' is blocked by host policy: '') url) (base_urls c))
    @ (if fst selected \<noteq> [] \<and> cfUpstreamAllowedHosts c \<noteq> []
       then blocked_by (upstream_guard c) resolve
         (''selected upstream host ('' @ snd selected @ '') is blocked by allowlist/policy: '') (fst selected) else []))"

definition ValidateConfig :: "Config \<Rightarrow> resolver \<Rightarrow> (string, unit) result" where
  "ValidateConfig c resolve = (let errs = config_issues c resolve in
     if errs = [] then Ok () else Err (''invalid configuration: '' @ Join errs ''; ''))"

section \<open>What a valid configuration is\<close>

definition passes :: "Guard \<Rightarrow> resolver \<Rightarrow> string \<Rightarrow> bool" where
  "passes g resolve url \<longleftrightarrow> ValidateURL g resolve url = Ok ()"

lemma complain_Nil [simp]: "complain b m = [] \<longleftrightarrow> \<not> b"
  by (simp add: complain_def)

lemma blocked_by_Nil [simp]: "blocked_by g resolve what url = [] \<longleftrightarrow> passes g resolve url"
  by (simp add: blocked_by_def passes_def split: sum.split)

lemma ValidateURL_trims: "passes g resolve (TrimSpace url) = passes g resolve url"
  by (simp add: passes_def ValidateURL_def)

lemma invalidMethods_Nil: "invalidMethods ms = [] \<longleftrightarrow> (\<forall>m \<in> set ms. TrimSpace m = [] \<or> ToUpper (TrimSpace m) \<in> set validHTTPMethods)"
proof -
  have "sort xs = [] \<longleftrightarrow> xs = []" for xs :: "string list"
    by (metis length_0_conv length_sort)
  then show ?thesis by (auto simp: invalidMethods_def filter_empty_conv ToUpper_def)
qed

text \<open>A source of the specification that may be read: a file, or an http URL the guard lets through.\<close>

definition source_ok :: "Config \<Rightarrow> resolver \<Rightarrow> bool" where
  "source_ok c resolve \<longleftrightarrow> TrimSpace (cfSwaggerPath c) \<noteq> [] \<and> (case SwaggerLoader.parseURLSource (cfSwaggerPath c) of None \<Rightarrow> True
     | Some u \<Rightarrow> http_scheme (Scheme u) \<and> passes (swagger_guard c) resolve (cfSwaggerPath c))"

lemma if_Nil_iff: "(if b then xs else []) = [] \<longleftrightarrow> \<not> b \<or> xs = []" "(if b then [] else xs) = [] \<longleftrightarrow> b \<or> xs = []"
  by auto

lemma source_Nil:
  "(case SwaggerLoader.parseURLSource (cfSwaggerPath c) of None \<Rightarrow> [] | Some u \<Rightarrow> complain (\<not> http_scheme (Scheme u)) (m u)) = []
   \<longleftrightarrow> (case SwaggerLoader.parseURLSource (cfSwaggerPath c) of None \<Rightarrow> True | Some u \<Rightarrow> http_scheme (Scheme u))"
  by (simp split: option.split)

lemma source_parts: "source_ok c resolve \<longleftrightarrow> TrimSpace (cfSwaggerPath c) \<noteq> []
    \<and> (case SwaggerLoader.parseURLSource (cfSwaggerPath c) of None \<Rightarrow> True | Some u \<Rightarrow> http_scheme (Scheme u))
    \<and> (\<not> isHTTPURL (cfSwaggerPath c) \<or> passes (swagger_guard c) resolve (cfSwaggerPath c))"
  by (auto simp: source_ok_def isHTTPURL_def split: option.split)

text \<open>
  Property C31: the check accepts exactly the coherent configurations. The specification is a
  file or an http URL that the guard lets through, with a positive timeout and size limit; the
  transport and the mode are known ones; a streamable transport has a way to check tokens and
  sandbox mode has its URL; the method lists name HTTP methods; and every base URL given passes
  the guard of the upstream.
\<close>

theorem config_accepted_iff:
  "ValidateConfig c resolve = Ok () \<longleftrightarrow>
     source_ok c resolve \<and> 0 < cfSwaggerHTTPTimeout c \<and> 0 < cfSwaggerMaxBytes c
   \<and> ToLower (TrimSpace (cfTransport c)) \<in> {[], ''stdio'', ''streamable''}
   \<and> ToLower (TrimSpace (cfMCPAPIMode c)) \<in> {[], ''plan_only'', ''execute_readonly'', ''execute_write'', ''sandbox''}
   \<and> \<not> (ToLower (TrimSpace (cfTransport c)) = ''streamable'' \<and> OAuthMode c = ''none'')
   \<and> \<not> (ToLower (TrimSpace (cfMCPAPIMode c)) = ''sandbox'' \<and> TrimSpace (cfUpstreamSandboxBaseURL c) = [])
   \<and> invalidMethods (cfAllowedMethods c) = [] \<and> invalidMethods (cfDeniedMethods c) = []
   \<and> list_all (\<lambda>(name, url). TrimSpace url = [] \<or> passes (upstream_guard c) resolve url) (base_urls c)"
  (is "_ \<longleftrightarrow> ?ok")
proof -
  have selected: "fst (selectedUpstreamBaseURL c) \<noteq> [] \<Longrightarrow> list_all (\<lambda>(name, url). TrimSpace url = [] \<or> passes (upstream_guard c) resolve url) (base_urls c)
      \<Longrightarrow> passes (upstream_guard c) resolve (fst (selectedUpstreamBaseURL c))"
    by (auto simp: selectedUpstreamBaseURL_def base_urls_def ValidateURL_trims split: if_splits)
  have urls: "concat (map (\<lambda>(name, url). if TrimSpace url = [] then []
      else blocked_by (upstream_guard c) resolve (name @ '' is blocked by host policy: '') url) (base_urls c)) = []
    \<longleftrightarrow> list_all (\<lambda>(name, url). TrimSpace url = [] \<or> passes (upstream_guard c) resolve url) (base_urls c)"
    by (simp add: base_urls_def)
  have "config_issues c resolve = [] \<longleftrightarrow> ?ok"
    unfolding config_issues_def Let_def append_is_Nil_conv urls complain_Nil if_Nil_iff blocked_by_Nil source_Nil
    using selected source_parts [of c resolve] by (simp only: not_le not_not) argo
  then show ?thesis by (simp add: ValidateConfig_def Let_def)
qed

section \<open>Defaults\<close>

lemma default_config:
  "cfMCPAPIMode (Load []) = ''plan_only''" "cfTransport (Load []) = ''stdio''" "cfSwaggerFormat (Load []) = ''auto''"
  "cfAllowedMethods (Load []) = [''GET'', ''HEAD'', ''OPTIONS'']" "cfDeniedMethods (Load []) = [''DELETE'']"
  "cfBlockPrivateNetworks (Load [])" "cfUpstreamOAuthTokenCacheTTL (Load []) = 0"
  by code_simp+

text \<open>One older name serves the audiences of both directions.\<close>

lemma audience_shared:
  "cfInboundOAuthAudience (Load [(''OAUTH_AUDIENCE'', ''api'')]) = ''api''"
  "cfUpstreamOAuthAudience (Load [(''OAUTH_AUDIENCE'', ''api'')]) = ''api''"
  by code_simp+

lemma unset_mode: "TrimSpace (Getenv env ''MCP_API_MODE'') = [] \<Longrightarrow> cfMCPAPIMode (Load env) = ''plan_only''"
proof -
  assume "TrimSpace (Getenv env ''MCP_API_MODE'') = []"
  moreover have "ToLower ''plan_only'' = ''plan_only''" by code_simp
  ultimately show ?thesis by (simp add: Load_def Let_def getEnv_def)
qed

end
