(* ===== verification/Cli.thy ===== *)
theory Cli
  imports Config
begin

text \<open>
  The command line (\<open>cmd/mcp-server/cli.go\<close>). The process environment is the state: values
  given with \<open>--set\<close> are put into it while the configuration is loaded and taken out again.
  Go's \<open>flag\<close> package is modelled as far as the code uses it; the usage text is left out.
\<close>

section \<open>Assignments\<close>

definition parseEnvAssignment :: "string \<Rightarrow> (string, string \<times> string) result" where
  "parseEnvAssignment raw =
     (let assignment = TrimSpace raw; (k, v, found) = Cut assignment CHR ''=''; key = TrimSpace k in
      if assignment = [] \<or> \<not> found then Err (''invalid --set value '' @ quote raw @ '': expected KEY=VALUE'')
      else if key = [] then Err (''invalid --set value '' @ quote raw @ '': key is empty'')
      else Ok (key, v))"

text \<open>\<open>os.Setenv\<close> refuses NUL bytes, and \<open>=\<close> in a name.\<close>

definition Setenv :: "string \<Rightarrow> string \<Rightarrow> env \<Rightarrow> (string, env) result" where
  "Setenv key v env = (if key = [] \<or> CHR ''='' \<in> set key \<or> CHR 0x00 \<in> set key \<or> CHR 0x00 \<in> set v
     then Err ''setenv: invalid argument'' else Ok (map_set key v env))"

record envSnapshot =
  esKey :: string
  esValue :: string
  esExists :: bool

definition snapshot_of :: "env \<Rightarrow> string \<Rightarrow> envSnapshot" where
  "snapshot_of env key = (case map_of env key of
     Some v \<Rightarrow> \<lparr>esKey = key, esValue = v, esExists = True\<rparr> | None \<Rightarrow> \<lparr>esKey = key, esValue = [], esExists = False\<rparr>)"

text \<open>An error leaves the environment as it is at that moment: earlier assignments stay.\<close>

fun apply_assignments :: "string list \<Rightarrow> envSnapshot list \<Rightarrow> env \<Rightarrow> (string, envSnapshot list) result \<times> env" where
  "apply_assignments [] snaps env = (Ok snaps, env)"
| "apply_assignments (a # as) snaps env = (case parseEnvAssignment a of
     Err e \<Rightarrow> (Err e, env)
   | Ok (key, v) \<Rightarrow>
      (let snaps = (if key \<in> set (map esKey snaps) then snaps else snaps @ [snapshot_of env key]) in
       case Setenv key v env of
         Err e \<Rightarrow> (Err (''failed to apply --set for '' @ key @ '': '' @ e), env)
       | Ok env \<Rightarrow> apply_assignments as snaps env))"

definition applySetEnvOverrides :: "string list \<Rightarrow> env \<Rightarrow> (string, envSnapshot list) result \<times> env" where
  "applySetEnvOverrides as env = apply_assignments as [] env"

text \<open>The closure that undoes the assignments; errors of \<open>Setenv\<close> are ignored.\<close>

definition restore_one :: "envSnapshot \<Rightarrow> env \<Rightarrow> env" where
  "restore_one s env = (if esExists s then (case Setenv (esKey s) (esValue s) env of Ok env' \<Rightarrow> env' | Err e \<Rightarrow> env)
     else map_del (esKey s) env)"

definition restore :: "envSnapshot list \<Rightarrow> env \<Rightarrow> env" where
  "restore snaps env = fold restore_one snaps env"

section \<open>Flags\<close>

text \<open>The flags with a text, the one with a truth value, and the repeatable one.\<close>

definition text_flags :: "string list" where
  "text_flags = [''transport'', ''http-addr'', ''version'', ''log-level'', ''swagger-path'', ''swagger-format'', ''swagger-base-url'',
     ''mcp-api-mode'', ''upstream-base-url'', ''upstream-sandbox-base-url'', ''set'']"

definition bool_flag :: string where
  "bool_flag = ''swagger-reload''"

datatype flag_error = ErrHelp | FlagError string

text \<open>What was given, in order: names with their values.\<close>

type_synonym given_flags = "(string \<times> string) list"

definition undefined_flag :: "string \<Rightarrow> flag_error" where
  "undefined_flag name = (if name = ''help'' \<or> name = ''h'' then ErrHelp
     else FlagError (''flag provided but not defined: -'' @ name))"

text \<open>The name and the value of an argument with a hyphen or two; the value follows the first \<open>=\<close> after the first byte.\<close>

definition flag_body :: "string \<Rightarrow> string" where
  "flag_body a = drop (if prefix ''--'' a then 2 else 1) a"

definition split_flag :: "string \<Rightarrow> string \<times> string option" where
  "split_flag body = (let name = hd body # takeWhile (\<lambda>c. c \<noteq> CHR ''='') (tl body); rest = dropWhile (\<lambda>c. c \<noteq> CHR ''='') (tl body) in
     (name, if rest = [] then None else Some (drop 1 rest)))"

fun parse_flags :: "string list \<Rightarrow> given_flags \<Rightarrow> (flag_error, given_flags \<times> string list) result" where
  "parse_flags [] got = Ok (got, [])"
| "parse_flags (a # as) got =
     (if length a < 2 \<or> hd a \<noteq> CHR ''-'' then Ok (got, a # as)
      else if a = ''--'' then Ok (got, as)
      else (let body = flag_body a; (name, given) = split_flag body in
        if body = [] \<or> hd body = CHR ''-'' \<or> hd body = CHR ''='' then Err (FlagError (''bad flag syntax: '' @ a))
        else if name = bool_flag then (case given of
            None \<Rightarrow> parse_flags as (got @ [(name, ''true'')])
          | Some v \<Rightarrow> if ParseBool v = None
              then Err (FlagError (''invalid boolean value '' @ quote v @ '' for -'' @ name @ '': parse error''))
              else parse_flags as (got @ [(name, v)]))
        else if name \<notin> set text_flags then Err (undefined_flag name)
        else (case (given, as) of
            (Some v, _) \<Rightarrow> parse_flags as (got @ [(name, v)])
          | (None, v # as') \<Rightarrow> parse_flags as' (got @ [(name, v)])
          | (None, []) \<Rightarrow> Err (FlagError (''flag needs an argument: -'' @ name)))))"

section \<open>Loading with the command line\<close>

definition flag_given :: "given_flags \<Rightarrow> string \<Rightarrow> string option" where
  "flag_given got name = map_of (rev got) name"

definition set_values :: "given_flags \<Rightarrow> string list" where
  "set_values got = map (\<lambda>(k, v). TrimSpace v) (filter (\<lambda>(k, v). k = ''set'') got)"

definition override :: "given_flags \<Rightarrow> string \<Rightarrow> (string \<Rightarrow> Config \<Rightarrow> Config) \<Rightarrow> Config \<Rightarrow> Config" where
  "override got name change cfg = (case flag_given got name of Some v \<Rightarrow> change v cfg | None \<Rightarrow> cfg)"

definition apply_flags :: "given_flags \<Rightarrow> Config \<Rightarrow> Config" where
  "apply_flags got cfg =
     override got ''upstream-sandbox-base-url'' (\<lambda>v c. c\<lparr>cfUpstreamSandboxBaseURL := TrimSpace v\<rparr>)
    (override got ''upstream-base-url'' (\<lambda>v c. c\<lparr>cfUpstreamBaseURL := TrimSpace v\<rparr>)
    (override got ''mcp-api-mode'' (\<lambda>v c. c\<lparr>cfMCPAPIMode := ToLower (TrimSpace v)\<rparr>)
    (override got bool_flag (\<lambda>v c. c\<lparr>cfSwaggerReload := (ParseBool v = Some True)\<rparr>)
    (override got ''swagger-base-url'' (\<lambda>v c. c\<lparr>cfSwaggerBaseURL := TrimSpace v\<rparr>)
    (override got ''swagger-format'' (\<lambda>v c. c\<lparr>cfSwaggerFormat := ToLower (TrimSpace v)\<rparr>)
    (override got ''swagger-path'' (\<lambda>v c. c\<lparr>cfSwaggerPath := TrimSpace v\<rparr>)
    (override got ''log-level'' (\<lambda>v c. c\<lparr>cfLogLevel := ToLower (TrimSpace v)\<rparr>)
    (override got ''version'' (\<lambda>v c. c\<lparr>cfVersion := TrimSpace v\<rparr>)
    (override got ''http-addr'' (\<lambda>v c. c\<lparr>cfHTTPAddr := TrimSpace v\<rparr>)
    (override got ''transport'' (\<lambda>v c. c\<lparr>cfTransport := ToLower (TrimSpace v)\<rparr>) cfg))))))))))"

definition resolved_format :: "Config \<Rightarrow> Config" where
  "resolved_format cfg = cfg\<lparr>cfSwaggerFormat := ResolveSwaggerFormat cfg\<rparr>"

definition loadConfigFromArgs :: "string list \<Rightarrow> env \<Rightarrow> (flag_error, Config) result \<times> env" where
  "loadConfigFromArgs args env = (case parse_flags args [] of
     Err e \<Rightarrow> (Err e, env)
   | Ok (got, rest) \<Rightarrow>
      if rest \<noteq> [] then (Err (FlagError (''unexpected positional arguments: '' @ Join rest '' '')), env)
      else if set_values got = [] then (Ok (resolved_format (apply_flags got (Load env))), env)
      else (case applySetEnvOverrides (set_values got) env of
          (Err e, env') \<Rightarrow> (Err (FlagError e), env')
        | (Ok snaps, env') \<Rightarrow> (Ok (resolved_format (apply_flags got (Load env'))), restore snaps env')))"

section \<open>The environment is given back\<close>

definition settable :: "string \<Rightarrow> bool" where
  "settable key \<longleftrightarrow> key \<noteq> [] \<and> CHR ''='' \<notin> set key \<and> CHR 0x00 \<notin> set key"

definition env_ok :: "env \<Rightarrow> bool" where
  "env_ok env \<longleftrightarrow> list_all (\<lambda>(k, v). CHR 0x00 \<notin> set v) env"

lemma Setenv_Ok: "Setenv key v env = Ok env' \<longleftrightarrow> settable key \<and> CHR 0x00 \<notin> set v \<and> env' = map_set key v env"
  by (auto simp: Setenv_def settable_def)

lemma snapshot_key [simp]: "esKey (snapshot_of env key) = key"
  by (simp add: snapshot_of_def split: option.split)

lemma restore_one_snapshot:
  assumes "env_ok env0" and "settable key"
  shows "map_of (restore_one (snapshot_of env0 key) env) k = (if k = key then map_of env0 key else map_of env k)"
proof (cases "map_of env0 key")
  case (Some v)
  with assms(1) have "CHR 0x00 \<notin> set v" by (auto simp: env_ok_def list_all_iff dest: map_of_SomeD)
  with assms(2) Some show ?thesis by (auto simp: restore_one_def snapshot_of_def Setenv_def settable_def)
qed (auto simp: restore_one_def snapshot_of_def)

lemma restore_snapshots:
  assumes "env_ok env0" and "\<forall>s \<in> set snaps. s = snapshot_of env0 (esKey s) \<and> settable (esKey s)"
  shows "map_of (restore snaps env) k = (if k \<in> esKey ` set snaps then map_of env0 k else map_of env k)"
  using assms(2)
proof (induction snaps arbitrary: env)
  case (Cons s snaps)
  then have "map_of (restore_one s env) k = (if k = esKey s then map_of env0 k else map_of env k)"
    using restore_one_snapshot [OF assms(1), of "esKey s" env k] by fastforce
  with Cons show ?case by (auto simp: restore_def)
qed (simp add: restore_def)

text \<open>While the assignments are applied, every changed variable has its snapshot.\<close>

definition snapped :: "env \<Rightarrow> envSnapshot list \<Rightarrow> env \<Rightarrow> bool" where
  "snapped env0 snaps env \<longleftrightarrow> (\<forall>s \<in> set snaps. s = snapshot_of env0 (esKey s) \<and> settable (esKey s))
     \<and> (\<forall>k. k \<notin> esKey ` set snaps \<longrightarrow> map_of env k = map_of env0 k)"

lemma snapped_step:
  assumes "snapped env0 snaps env" and "Setenv key v env = Ok env'"
  shows "snapped env0 (if key \<in> set (map esKey snaps) then snaps else snaps @ [snapshot_of env key]) env'"
proof -
  have "snapshot_of env key = snapshot_of env0 key" if "key \<notin> esKey ` set snaps"
    using assms(1) that by (simp add: snapped_def snapshot_of_def)
  with assms show ?thesis by (auto simp: snapped_def Setenv_Ok)
qed

lemma apply_snapped:
  "apply_assignments as snaps env = (Ok snaps', env') \<Longrightarrow> snapped env0 snaps env \<Longrightarrow> snapped env0 snaps' env'"
proof (induction as snaps env rule: apply_assignments.induct)
  case (2 a as snaps env)
  then obtain key v env1 where "parseEnvAssignment a = Ok (key, v)" "Setenv key v env = Ok env1"
    by (auto simp: Let_def split: sum.splits prod.splits)
  with 2 snapped_step [OF 2(3)] show ?case by (simp add: Let_def)
qed simp


definition demo_args :: "string list" where
  "demo_args = [''--set'', ''MCP_API_MODE=sandbox'', ''-set=HTTP_TIMEOUT=2s'']"

definition demo_env :: env where
  "demo_env = [(''MCP_API_MODE'', ''plan_only'')]"

lemma demo_parts:
  "parse_flags demo_args [] = Ok ([(''set'', ''MCP_API_MODE=sandbox''), (''set'', ''HTTP_TIMEOUT=2s'')], [])"
  "set_values [(''set'', ''MCP_API_MODE=sandbox''), (''set'', ''HTTP_TIMEOUT=2s'')] = [''MCP_API_MODE=sandbox'', ''HTTP_TIMEOUT=2s'']"
  "applySetEnvOverrides [''MCP_API_MODE=sandbox'', ''HTTP_TIMEOUT=2s''] demo_env
     = (Ok [snapshot_of demo_env ''MCP_API_MODE'', snapshot_of demo_env ''HTTP_TIMEOUT''],
        [(''MCP_API_MODE'', ''sandbox''), (''HTTP_TIMEOUT'', ''2s'')])"
  "ToLower (getEnv [(''MCP_API_MODE'', ''sandbox''), (''HTTP_TIMEOUT'', ''2s'')] ''MCP_API_MODE'' ''plan_only'') = ''sandbox''"
  by code_simp+

lemma Load_mode: "cfMCPAPIMode (Load env) = ToLower (getEnv env ''MCP_API_MODE'' ''plan_only'')"
  by (simp add: Load_def Let_def)

lemma demo_load:
  "\<exists>cfg env'. loadConfigFromArgs demo_args demo_env = (Ok cfg, env') \<and> cfMCPAPIMode cfg = ''sandbox''"
  by (simp add: loadConfigFromArgs_def demo_parts apply_flags_def override_def flag_given_def resolved_format_def
      Load_mode bool_flag_def)


text \<open>A malformed assignment after a good one: the error leaves the good one in the environment.\<close>

lemma failed_override_stays:
  "applySetEnvOverrides [''A=1'', ''B''] [] = (Err (''invalid --set value '' @ quote ''B'' @ '': expected KEY=VALUE''), [(''A'', ''1'')])"
  by code_simp

end
