(* ===== verification/GoJson.thy ===== *)
theory GoJson
  imports ToolGenerate
begin

text \<open>
  \<open>encoding/json\<close> as far as the resources use it: values and resolved operations as JSON, printed
  compactly (\<open>json.Marshal\<close>) or with two blanks per level (\<open>json.MarshalIndent\<close>). The encoder
  sorts the keys of a map, keeps the order of the members of a struct, leaves out the empty
  members marked so, writes \<open>&\<close>, \<open><\<close> and \<open>>\<close> as escapes and replaces bytes that are not UTF-8.
\<close>

section \<open>Texts\<close>

text \<open>The length of the UTF-8 sequence at the start of a text, 0 when it is broken.\<close>

definition rune_len :: "string \<Rightarrow> nat" where
  "rune_len s = (case s of [] \<Rightarrow> 0 | c # t \<Rightarrow> (case extra_bytes (of_char c) of None \<Rightarrow> 0
     | Some k \<Rightarrow> if k \<le> length t \<and> (k = 0 \<or> second_ok (of_char c) (hd t) \<and> list_all (byte_in 0x80 0xBF) (take (k - 1) (tl t)))
         then Suc k else 0))"

definition backslash :: "string \<Rightarrow> string" where
  "backslash s = CHR 0x5C # s"

definition unicode_escape :: "char \<Rightarrow> string" where
  "unicode_escape c = backslash ''u00'' @ [hex_char (of_char c div 16), hex_char (of_char c mod 16)]"

definition json_char :: "char \<Rightarrow> string" where
  "json_char c =
     (if c = CHR 0x22 \<or> c = CHR 0x5C then [CHR 0x5C, c]
      else if c = CHR 8 then backslash ''b'' else if c = CHR 12 then backslash ''f'' else if c = CHR 10 then backslash ''n''
      else if c = CHR 13 then backslash ''r'' else if c = CHR 9 then backslash ''t''
      else if (of_char c :: nat) < 32 \<or> c \<in> set ''<>&'' then unicode_escape c else [c])"

text \<open>The separators U+2028 and U+2029 are escaped too.\<close>

definition json_rune :: "string \<Rightarrow> string" where
  "json_rune r = (if r = [CHR 0xE2, CHR 0x80, CHR 0xA8] then backslash ''u2028''
     else if r = [CHR 0xE2, CHR 0x80, CHR 0xA9] then backslash ''u2029'' else r)"

function json_chars :: "string \<Rightarrow> string" where
  "json_chars [] = []"
| "json_chars (c # s) =
     (if (of_char c :: nat) < 0x80 then json_char c @ json_chars s
      else if rune_len (c # s) = 0 then backslash ''ufffd'' @ json_chars s
      else json_rune (take (rune_len (c # s)) (c # s)) @ json_chars (drop (rune_len (c # s) - 1) s))"
  by pat_completeness auto

termination by (relation "measure length") auto

definition json_string :: "string \<Rightarrow> string" where
  "json_string s = CHR 0x22 # json_chars s @ [CHR 0x22]"

section \<open>Values\<close>

datatype json = JAtom string | JArr "json list" | JObj "(string \<times> json) list"

definition JText :: "string \<Rightarrow> json" where
  "JText s = JAtom (json_string s)"

definition JBool :: "bool \<Rightarrow> json" where
  "JBool b = JAtom (format_bool b)"

text \<open>The encoder checks the syntax of a \<open>json.Number\<close>; the empty one is written as 0.\<close>

definition number_json :: "string \<Rightarrow> json option" where
  "number_json s = (if s = [] then Some (JAtom ''0'') else if json_number s then Some (JAtom s) else None)"

text \<open>None stands for the only error there is on these values, a number that is none.\<close>

fun all_some :: "'a option list \<Rightarrow> 'a list option" where
  "all_some [] = Some []"
| "all_some (x # xs) = (case (x, all_some xs) of (Some y, Some ys) \<Rightarrow> Some (y # ys) | _ \<Rightarrow> None)"

definition members :: "(string \<times> json option) list \<Rightarrow> json option" where
  "members kvs = map_option (\<lambda>vs. JObj (zip (map fst kvs) vs)) (all_some (map snd kvs))"

fun any_json :: "any \<Rightarrow> json option" where
  "any_json ANil = Some (JAtom ''null'')"
| "any_json (ABool b) = Some (JBool b)"
| "any_json (AFloat f) = Some (JAtom (format_json f))"
| "any_json (AInt i) = Some (JAtom (Itoa i))"
| "any_json (AUint n) = Some (JAtom (Itoa (int n)))"
| "any_json (ANumber s) = number_json s"
| "any_json (AStr s) = Some (JText s)"
| "any_json (AStrs ss) = Some (JArr (map JText ss))"
| "any_json (ABytes s) = Some (JText (StdBase64 s))"
| "any_json (AList vs) = map_option JArr (all_some (map any_json vs))"
| "any_json (AMap kvs) = members (sort_key fst (map (\<lambda>(k, v). (k, any_json v)) kvs))"
| "any_json (AStrMap kvs) = Some (JObj (sort_key fst (map (\<lambda>(k, s). (k, JText s)) kvs)))"

section \<open>Printing\<close>

fun compact :: "json \<Rightarrow> string" where
  "compact (JAtom s) = s"
| "compact (JArr vs) = ''['' @ Join (map compact vs) '','' @ '']''"
| "compact (JObj kvs) = ''{'' @ Join (map (\<lambda>(k, v). json_string k @ '':'' @ compact v) kvs) '','' @ ''}''"

definition new_line :: "nat \<Rightarrow> string" where
  "new_line n = CHR 10 # replicate (2 * n) (CHR '' '')"

fun indented :: "nat \<Rightarrow> json \<Rightarrow> string" where
  "indented n (JAtom s) = s"
| "indented n (JArr vs) = (if vs = [] then ''[]'' else
     ''['' @ new_line (n + 1) @ Join (map (indented (n + 1)) vs) ('','' @ new_line (n + 1)) @ new_line n @ '']'')"
| "indented n (JObj kvs) = (if kvs = [] then ''{}'' else
     ''{'' @ new_line (n + 1) @ Join (map (\<lambda>(k, v). json_string k @ '': '' @ indented (n + 1) v) kvs) ('','' @ new_line (n + 1))
       @ new_line n @ ''}'')"

definition printed :: "(json \<Rightarrow> string) \<Rightarrow> json option \<Rightarrow> (string, string) result" where
  "printed show j = (case j of Some v \<Rightarrow> Ok (show v) | None \<Rightarrow> Err ''json: invalid number literal'')"

definition Marshal :: "any \<Rightarrow> (string, string) result" where
  "Marshal v = printed compact (any_json v)"

definition MarshalIndent :: "json option \<Rightarrow> (string, string) result" where
  "MarshalIndent j = printed (indented 0) j"

section \<open>Resolved operations\<close>

text \<open>A member that is left out when empty.\<close>

definition unless_empty :: "bool \<Rightarrow> string \<Rightarrow> json option \<Rightarrow> (string \<times> json option) list" where
  "unless_empty none name j = (if none then [] else [(name, j)])"

definition text_member :: "string \<Rightarrow> string \<Rightarrow> (string \<times> json option) list" where
  "text_member name s = unless_empty (s = []) name (Some (JText s))"

definition texts_member :: "string \<Rightarrow> string list \<Rightarrow> (string \<times> json option) list" where
  "texts_member name ss = unless_empty (ss = []) name (Some (JArr (map JText ss)))"

definition any_member :: "string \<Rightarrow> any \<Rightarrow> (string \<times> json option) list" where
  "any_member name v = unless_empty (v = ANil) name (any_json v)"

definition list_member :: "string \<Rightarrow> ('a \<Rightarrow> json option) \<Rightarrow> 'a list \<Rightarrow> (string \<times> json option) list" where
  "list_member name f xs = unless_empty (xs = []) name (map_option JArr (all_some (map f xs)))"

definition param_json :: "Param \<Rightarrow> json option" where
  "param_json p = members ([(''name'', Some (JText (paName p))), (''in'', Some (JText (paIn p))),
     (''required'', Some (JBool (paRequired p)))] @ text_member ''description'' (paDescription p)
     @ any_member ''schema'' (paSchema p))"

definition request_json :: "ApiRequest \<Rightarrow> json option" where
  "request_json r = members (texts_member ''contentTypes'' (rqContentTypes r) @ any_member ''bodySchema'' (rqBodySchema r)
     @ any_member ''examples'' (rqExamples r))"

definition response_json :: "ApiResponse \<Rightarrow> json option" where
  "response_json r = members ([(''status'', Some (JAtom (Itoa (rsStatus r))))] @ text_member ''description'' (rsDescription r)
     @ texts_member ''contentTypes'' (rsContentTypes r) @ any_member ''bodySchema'' (rsBodySchema r))"

definition responses_json :: "ResponseGroups \<Rightarrow> json option" where
  "responses_json g = members (list_member ''success'' response_json (rgSuccess g) @ list_member ''errors'' response_json (rgErrors g))"

definition operation_json :: "ResolvedOperation \<Rightarrow> json option" where
  "operation_json op = members
     ([(''method'', Some (JText (Method op)))] @ text_member ''baseURL'' (BaseURL op)
      @ [(''pathTemplate'', Some (JText (PathTemplate op)))] @ text_member ''urlTemplate'' (URLTemplate op)
      @ text_member ''exampleURL'' (ExampleURL op) @ [(''operationId'', Some (JText (OperationID op)))]
      @ text_member ''summary'' (Summary op) @ text_member ''description'' (Description op) @ texts_member ''tags'' (Tags op)
      @ [(''deprecated'', Some (JBool (Deprecated op)))]
      @ list_member ''pathParams'' param_json (PathParams op) @ list_member ''queryParams'' param_json (QueryParams op)
      @ list_member ''headerParams'' param_json (HeaderParams op) @ list_member ''cookieParams'' param_json (CookieParams op)
      @ [(''request'', request_json (ApiRequest op)), (''responses'', responses_json (Responses op))]
      @ any_member ''security'' (Security op) @ texts_member ''servers'' (Servers op))"

text \<open>\<open>copyOperations\<close> of the store returns a nil slice for no operations, which prints as null.\<close>

definition operations_json :: "ResolvedOperation list \<Rightarrow> json option" where
  "operations_json ops = (if ops = [] then Some (JAtom ''null'') else map_option JArr (all_some (map operation_json ops)))"

lemma no_operations_print_null: "MarshalIndent (operations_json []) = Ok ''null''"
  by code_simp

lemma json_examples:
  "Marshal (AMap [(''b'', AList [AInt 1, AFloat (F64 15 (-1))]), (''a'', AStr ''x<y'')])
     = Ok (''{'' @ json_string ''a'' @ '':'' @ [CHR 0x22] @ ''x'' @ backslash ''u003cy'' @ [CHR 0x22] @ '','' @ json_string ''b'' @ '':[1,1.5]}'')"
  "MarshalIndent (any_json (AList [])) = Ok ''[]''"
  "MarshalIndent (any_json (AList [ANil, ABool True])) = Ok (''['' @ [CHR 10] @ ''  null,'' @ [CHR 10] @ ''  true'' @ [CHR 10] @ '']'')"
  "json_chars [CHR 0xFF, CHR 0xC3, CHR 0xA9, CHR 0xE2, CHR 0x80, CHR 0xA8] = backslash ''ufffd'' @ [CHR 0xC3, CHR 0xA9] @ backslash ''u2028''"
  by code_simp+

end
