(* ===== verification/Resources.thy ===== *)
theory Resources
  imports GoJson SwaggerStore PublishedSchemas
begin

text \<open>
  The resources of the server (\<open>internal/resouce\<close>): the interface \<open>Store\<close> as a record of two
  operations on a state of the world, and its four implementations: documentation, memory,
  the API document, and the union of several stores. \<open>swagger.Store\<close> is such a record too, with
  the cached store over a world in which time passes and the source may change.
\<close>

section \<open>Where operations come from\<close>

record 'w swagger_api =
  apListEndpoints :: "'w \<Rightarrow> (swagger_error, ResolvedOperation list) result \<times> 'w"
  apListByMethod :: "string \<Rightarrow> 'w \<Rightarrow> (swagger_error, ResolvedOperation list) result \<times> 'w"
  apGetOperation :: "string \<Rightarrow> 'w \<Rightarrow> (swagger_error, ResolvedOperation) result \<times> 'w"
  apGetSchema :: "string \<Rightarrow> 'w \<Rightarrow> (swagger_error, any) result \<times> 'w"
  apLookup :: "string \<Rightarrow> 'w \<Rightarrow> (swagger_error, any) result \<times> 'w"

text \<open>
  The cached store with the number of queries so far. Query \<open>n\<close> reads the clock up to three times,
  and a load during it would give \<open>swLoads n\<close>.
\<close>

record source_world =
  swStore :: CachedStore
  swStep :: nat
  swLoads :: "nat \<Rightarrow> (swagger_error, Document option) result"
  swClock :: "nat \<Rightarrow> time"

definition consult :: "source_world \<Rightarrow> (swagger_error, cacheState) result \<times> source_world" where
  "consult w = (let n = swStep w in
     (case snapshot (swLoads w n) (swClock w (3 * n)) (swClock w (3 * n + 1)) (swClock w (3 * n + 2)) (swStore w) of
        (r, s) \<Rightarrow> (r, w\<lparr>swStore := s, swStep := n + 1\<rparr>)))"

definition queried :: "((swagger_error, cacheState) result \<Rightarrow> 'a) \<Rightarrow> source_world \<Rightarrow> 'a \<times> source_world" where
  "queried q w = (case consult w of (snap, w') \<Rightarrow> (q snap, w'))"

definition cached_api :: "source_world swagger_api" where
  "cached_api = \<lparr>apListEndpoints = queried ListEndpoints,
     apListByMethod = (\<lambda>m. queried (\<lambda>snap. ListEndpointsByMethod snap m)),
     apGetOperation = (\<lambda>i. queried (\<lambda>snap. GetEndpointByOperationID snap i)),
     apGetSchema = (\<lambda>n. queried (\<lambda>snap. GetSchemaByName snap n)),
     apLookup = (\<lambda>p. queried (\<lambda>snap. Lookup snap p))\<rparr>"

definition noop_api :: "'w swagger_api" where
  "noop_api = \<lparr>apListEndpoints = (\<lambda>w. (NoopListEndpoints (), w)),
     apListByMethod = (\<lambda>m w. (NoopListEndpointsByMethod () m, w)),
     apGetOperation = (\<lambda>i w. (NoopGetEndpointByOperationID () i, w)),
     apGetSchema = (\<lambda>n w. (NoopGetSchemaByName () n, w)),
     apLookup = (\<lambda>p w. (NoopLookup () p, w))\<rparr>"

section \<open>Resources and their stores\<close>

record ResourceDescriptor =
  rdID :: string
  rdName :: string
  rdDescription :: string
  rdURI :: string
  rdURITemplate :: string
  rdMIMEType :: string

definition IsTemplate :: "ResourceDescriptor \<Rightarrow> bool" where
  "IsTemplate d \<longleftrightarrow> rdURITemplate d \<noteq> []"

record ResourceItem =
  riDescriptor :: ResourceDescriptor
  riText :: string

datatype resource_error = ResourceNotFound | FromSwagger swagger_error | BadResourceKey url_error | ResourceText string

record 'w resource_store =
  rsList :: "'w \<Rightarrow> (resource_error, ResourceDescriptor list) result \<times> 'w"
  rsGet :: "string \<Rightarrow> 'w \<Rightarrow> (resource_error, ResourceItem) result \<times> 'w"

text \<open>What most descriptors look like: the identifier is the name, the content is JSON.\<close>

definition json_resource :: "string \<Rightarrow> string \<Rightarrow> string \<Rightarrow> string \<Rightarrow> ResourceDescriptor" where
  "json_resource name description uri template = \<lparr>rdID = name, rdName = name, rdDescription = description,
     rdURI = uri, rdURITemplate = template, rdMIMEType = ''application/json''\<rparr>"

section \<open>The union of stores\<close>

definition NewCompositeStore :: "'w resource_store option list \<Rightarrow> 'w resource_store list" where
  "NewCompositeStore stores = map the (filter (\<lambda>s. s \<noteq> None) stores)"

definition descriptor_key :: "ResourceDescriptor \<Rightarrow> string" where
  "descriptor_key d = (let key = (if rdURITemplate d \<noteq> [] then rdURITemplate d else rdURI d) in
     if key = [] then rdID d else key)"

text \<open>The keys seen so far are those of the descriptors taken so far.\<close>

definition add_descriptor :: "ResourceDescriptor \<Rightarrow> ResourceDescriptor list \<Rightarrow> ResourceDescriptor list" where
  "add_descriptor d out = (if descriptor_key d = [] \<or> descriptor_key d \<in> set (map descriptor_key out) then out else out @ [d])"

fun composite_list :: "'w resource_store list \<Rightarrow> ResourceDescriptor list \<Rightarrow> 'w
    \<Rightarrow> (resource_error, ResourceDescriptor list) result \<times> 'w" where
  "composite_list [] out w = (Ok out, w)"
| "composite_list (s # ss) out w = (case rsList s w of
     (Err e, w1) \<Rightarrow> (Err e, w1) | (Ok ds, w1) \<Rightarrow> composite_list ss (fold add_descriptor ds out) w1)"

fun composite_get :: "'w resource_store list \<Rightarrow> string \<Rightarrow> 'w \<Rightarrow> (resource_error, ResourceItem) result \<times> 'w" where
  "composite_get [] i w = (Err ResourceNotFound, w)"
| "composite_get (s # ss) i w = (case rsGet s i w of
     (Ok item, w1) \<Rightarrow> (Ok item, w1)
   | (Err e, w1) \<Rightarrow> if e = ResourceNotFound then composite_get ss i w1 else (Err e, w1))"

definition composite :: "'w resource_store list \<Rightarrow> 'w resource_store" where
  "composite ss = \<lparr>rsList = composite_list ss [], rsGet = composite_get ss\<rparr>"

section \<open>Documentation\<close>

definition docsToolSchemasDescriptor :: ResourceDescriptor where
  "docsToolSchemasDescriptor = json_resource ''docs:tool-schemas''
     ''Formal JSON Schemas for MCP tool input/output contracts'' ''docs://tool-schemas'' []"

definition docs_get :: "string \<Rightarrow> (resource_error, ResourceItem) result" where
  "docs_get i = (if TrimSpace i \<noteq> ''docs:tool-schemas'' \<and> TrimSpace i \<noteq> ''docs://tool-schemas'' then Err ResourceNotFound
     else (case MarshalIndent (any_json SchemasDocument) of Err e \<Rightarrow> Err (ResourceText e)
       | Ok payload \<Rightarrow> Ok \<lparr>riDescriptor = docsToolSchemasDescriptor, riText = payload\<rparr>))"

definition docs_store :: "'w resource_store" where
  "docs_store = \<lparr>rsList = (\<lambda>w. (Ok [docsToolSchemasDescriptor], w)), rsGet = (\<lambda>i w. (docs_get i, w))\<rparr>"

section \<open>Memory\<close>

text \<open>The items by identifier. Several items may share a URI; which of them a map gives first is left open in Go, the oldest one here.\<close>

type_synonym resource_items = "(string \<times> ResourceItem) list"

definition status_item :: ResourceItem where
  "status_item = \<lparr>riDescriptor = \<lparr>rdID = ''status'', rdName = ''status'', rdDescription = ''Server status resource'',
     rdURI = ''resource://status'', rdURITemplate = [], rdMIMEType = ''text/plain''\<rparr>, riText = ''ok''\<rparr>"

definition add_resource :: "ResourceItem \<Rightarrow> resource_items \<Rightarrow> resource_items" where
  "add_resource item m = (let d = riDescriptor item; i = (if rdID d = [] then rdURI d else rdID d) in
     map_set i (item\<lparr>riDescriptor := d\<lparr>rdID := i\<rparr>\<rparr>) m)"

definition new_resources :: "ResourceItem list \<Rightarrow> resource_items" where
  "new_resources initial = fold add_resource (if initial = [] then [status_item] else initial) []"

definition list_resources :: "resource_items \<Rightarrow> ResourceDescriptor list" where
  "list_resources m = sort_key rdID (map (\<lambda>(i, item). riDescriptor item) m)"

definition get_resource :: "resource_items \<Rightarrow> string \<Rightarrow> (resource_error, ResourceItem) result" where
  "get_resource m i = (case map_of m i of Some item \<Rightarrow> Ok item
     | None \<Rightarrow> (case find (\<lambda>item. rdURI (riDescriptor item) = i) (map snd m) of
         Some item \<Rightarrow> Ok item | None \<Rightarrow> Err ResourceNotFound))"

definition memory_resources :: "resource_items \<Rightarrow> 'w resource_store" where
  "memory_resources m = \<lparr>rsList = (\<lambda>w. (Ok (list_resources m), w)), rsGet = (\<lambda>i w. (get_resource m i, w))\<rparr>"

section \<open>The API document\<close>

datatype swagger_kind = AllEndpoints | ByMethod | ByOperationID | SchemaNamed | LookupAt

record parsedSwaggerKey =
  skKind :: swagger_kind
  skArg :: string

definition key_of :: "swagger_kind \<Rightarrow> string \<Rightarrow> (resource_error, parsedSwaggerKey) result" where
  "key_of kind arg = Ok \<lparr>skKind = kind, skArg = arg\<rparr>"

definition nonblank_key :: "swagger_kind \<Rightarrow> string \<Rightarrow> (resource_error, parsedSwaggerKey) result" where
  "nonblank_key kind arg = (if arg = [] then Err ResourceNotFound else key_of kind arg)"

definition pointer_key :: "string \<Rightarrow> (resource_error, parsedSwaggerKey) result" where
  "pointer_key p = nonblank_key LookupAt (if p = [] \<or> HasPrefix p ''/'' then p else CHR ''/'' # p)"

definition unescaped :: "string \<Rightarrow> string" where
  "unescaped path = TrimSpace (case PathUnescape path of Ok s \<Rightarrow> s | Err e \<Rightarrow> path)"

definition parseSwaggerURI :: "string \<Rightarrow> (resource_error, parsedSwaggerKey) result" where
  "parseSwaggerURI raw = (case parse_url raw of
     Err e \<Rightarrow> Err (BadResourceKey e)
   | Ok u \<Rightarrow>
      (let host = TrimSpace (URLHost u); path = TrimPrefix (EscapedPath u) ''/'' in
       if Scheme u \<noteq> ''swagger'' then Err ResourceNotFound
       else if host = ''endpoints'' then
         (if path = [] then key_of AllEndpoints [] else key_of ByMethod (ToUpper (unescaped path)))
       else if host = ''endpointByOperationId'' then nonblank_key ByOperationID (unescaped path)
       else if host = ''schema'' then nonblank_key SchemaNamed (unescaped path)
       else if host = ''lookup'' then pointer_key (unescaped path)
       else Err ResourceNotFound))"

definition parseSwaggerName :: "string \<Rightarrow> (resource_error, parsedSwaggerKey) result" where
  "parseSwaggerName raw =
     (if raw = ''swagger:endpoints'' then key_of AllEndpoints []
      else if HasPrefix raw ''swagger:endpoints:'' then key_of ByMethod (TrimPrefix raw ''swagger:endpoints:'')
      else if HasPrefix raw ''swagger:endpointByOperationId:''
        then nonblank_key ByOperationID (TrimPrefix raw ''swagger:endpointByOperationId:'')
      else if HasPrefix raw ''swagger:schema:'' then nonblank_key SchemaNamed (TrimPrefix raw ''swagger:schema:'')
      else if HasPrefix raw ''swagger:lookup:'' then pointer_key (TrimPrefix raw ''swagger:lookup:'')
      else Err ResourceNotFound)"

definition parseSwaggerResourceKey :: "string \<Rightarrow> (resource_error, parsedSwaggerKey) result" where
  "parseSwaggerResourceKey raw = (let raw = TrimSpace raw in
     if raw = [] then Err ResourceNotFound
     else if HasPrefix raw ''swagger://'' then parseSwaggerURI raw
     else if HasPrefix raw ''swagger:'' then parseSwaggerName raw else Err ResourceNotFound)"

definition supportedMethods :: "string list" where
  "supportedMethods = [''GET'', ''POST'', ''PUT'', ''DELETE'', ''PATCH'', ''OPTIONS'', ''HEAD'']"

text \<open>The descriptors, with the description the code gives each.\<close>

definition all_resource :: ResourceDescriptor where
  "all_resource = json_resource ''swagger:endpoints'' ''All resolved endpoints from the loaded OpenAPI document'' ''swagger://endpoints'' []"

definition method_resource :: "string \<Rightarrow> ResourceDescriptor" where
  "method_resource m = json_resource (''swagger:endpoints:'' @ m) ''Resolved endpoints filtered by HTTP method'' (''swagger://endpoints/'' @ m) []"

definition operation_resource :: "string \<Rightarrow> string \<Rightarrow> ResourceDescriptor" where
  "operation_resource description i = json_resource (''swagger:endpointByOperationId:'' @ i) description
     (''swagger://endpointByOperationId/'' @ PathEscape i) []"

definition schema_resource :: "string \<Rightarrow> string \<Rightarrow> ResourceDescriptor" where
  "schema_resource description n = json_resource (''swagger:schema:'' @ n) description (''swagger://schema/'' @ PathEscape n) []"

definition lookup_text :: string where
  "lookup_text = ''Generic lookup by JSON pointer/path-like expression''"

definition lookup_resource :: "string \<Rightarrow> ResourceDescriptor" where
  "lookup_resource p = json_resource (''swagger:lookup:'' @ p) lookup_text (''swagger://lookup/'' @ PathEscape p) []"

definition resource_templates :: "ResourceDescriptor list" where
  "resource_templates =
    [json_resource ''swagger:endpointByOperationId:{operationId}'' ''Single endpoint resolved by operationId'' []
       ''swagger://endpointByOperationId/{operationId}'',
     json_resource ''swagger:schema:{name}'' ''Schema component by name'' [] ''swagger://schema/{name}'',
     json_resource ''swagger:lookup:{pointer}'' lookup_text [] ''swagger://lookup/{pointer}'']"

definition listSchemaNames :: "(swagger_error, any) result \<Rightarrow> string list" where
  "listSchemaNames r = (case r of Ok (AMap m) \<Rightarrow> sort (map_keys m) | _ \<Rightarrow> [])"

definition swagger_descriptors :: "ResolvedOperation list \<Rightarrow> string list \<Rightarrow> ResourceDescriptor list" where
  "swagger_descriptors ops names = sort_key (\<lambda>d. if rdURITemplate d \<noteq> [] then rdURITemplate d else rdURI d)
     (all_resource # map method_resource supportedMethods @ resource_templates
      @ map (operation_resource ''Resolved endpoint for operationId'')
          (filter (\<lambda>i. TrimSpace i \<noteq> []) (map OperationID ops))
      @ map (schema_resource ''Schema component'') names)"

definition swagger_list :: "'w swagger_api option \<Rightarrow> 'w \<Rightarrow> (resource_error, ResourceDescriptor list) result \<times> 'w" where
  "swagger_list api w = (case api of None \<Rightarrow> (Ok [], w)
     | Some a \<Rightarrow> (case apListEndpoints a w of
         (Err e, w1) \<Rightarrow> (Err (FromSwagger e), w1)
       | (Ok ops, w1) \<Rightarrow> (case apLookup a ''/components/schemas'' w1 of
           (names, w2) \<Rightarrow> (Ok (swagger_descriptors ops (listSchemaNames names)), w2))))"

text \<open>The error of a query, or the JSON of its value.\<close>

definition shown :: "('a \<Rightarrow> json option) \<Rightarrow> (swagger_error, 'a) result \<Rightarrow> (resource_error, string) result" where
  "shown to_json r = (case r of
     Err e \<Rightarrow> Err (if e = swagger_error.ErrNotFound then ResourceNotFound else FromSwagger e)
   | Ok v \<Rightarrow> (case MarshalIndent (to_json v) of
       Ok payload \<Rightarrow> Ok payload | Err e \<Rightarrow> Err (ResourceText (''marshal swagger resource payload: '' @ e))))"

definition fetch_resource :: "'w swagger_api \<Rightarrow> parsedSwaggerKey \<Rightarrow> 'w
    \<Rightarrow> ((resource_error, string) result \<times> 'w) \<times> ResourceDescriptor" where
  "fetch_resource a k w = (case skKind k of
     AllEndpoints \<Rightarrow> (map_prod (shown operations_json) id (apListEndpoints a w), all_resource)
   | ByMethod \<Rightarrow> (let m = ToUpper (TrimSpace (skArg k)) in
       (map_prod (shown operations_json) id (apListByMethod a m w), method_resource m))
   | ByOperationID \<Rightarrow> (map_prod (shown operation_json) id (apGetOperation a (skArg k) w),
       operation_resource ''Single endpoint resolved by operationId'' (skArg k))
   | SchemaNamed \<Rightarrow> (map_prod (shown any_json) id (apGetSchema a (skArg k) w),
       schema_resource ''Schema component by name'' (skArg k))
   | LookupAt \<Rightarrow> (map_prod (shown any_json) id (apLookup a (skArg k) w), lookup_resource (skArg k)))"

definition swagger_get :: "'w swagger_api option \<Rightarrow> string \<Rightarrow> 'w \<Rightarrow> (resource_error, ResourceItem) result \<times> 'w" where
  "swagger_get api i w = (case api of None \<Rightarrow> (Err ResourceNotFound, w)
     | Some a \<Rightarrow> (case parseSwaggerResourceKey i of
         Err e \<Rightarrow> (Err e, w)
       | Ok k \<Rightarrow> (case fetch_resource a k w of ((r, w'), d) \<Rightarrow>
           (case r of Err e \<Rightarrow> (Err e, w') | Ok payload \<Rightarrow> (Ok \<lparr>riDescriptor = d, riText = payload\<rparr>, w')))))"

definition swagger_resources :: "'w swagger_api option \<Rightarrow> 'w resource_store" where
  "swagger_resources api = \<lparr>rsList = swagger_list api, rsGet = swagger_get api\<rparr>"

section \<open>The keys of the API document are read back\<close>

definition visible :: "char \<Rightarrow> bool" where
  "visible c \<longleftrightarrow> 33 \<le> (of_char c :: nat) \<and> (of_char c :: nat) \<le> 126"

lemma space_runes_invisible:
  assumes "w \<in> set space_runes"
  shows "w \<noteq> []" "c \<in> set w \<Longrightarrow> \<not> visible c"
proof -
  have "list_all (\<lambda>w. w \<noteq> [] \<and> list_all (\<lambda>c. \<not> visible c) w) space_runes" by code_simp
  with assms show "w \<noteq> []" "c \<in> set w \<Longrightarrow> \<not> visible c" by (auto simp: list_all_iff)
qed

text \<open>Visible characters in front keep a text trimmed.\<close>

lemma rune_at_visible: "s \<noteq> [] \<Longrightarrow> visible (hd s) \<Longrightarrow> rune_at space_runes s = 0"
  using space_runes_invisible by (fastforce simp: rune_at_0_iff prefix_def neq_Nil_conv)

lemma TrimSpace_after_visible:
  assumes "list_all visible p" "p \<noteq> []" and "TrimSpace s = s"
  shows "TrimSpace (p @ s) = p @ s"
proof -
  have "visible (hd p)" using assms(1,2) by (cases p) simp_all
  then have left: "trim_left (p @ s) = p @ s" using assms(2) by (simp add: trim_left_def strip_stop rune_at_visible)
  have "rev s = strip (map rev space_runes) (rev (trim_left s))"
    using assms(3) by (metis TrimSpace_def trim_right_def rev_rev_ident)
  then have ends: "rune_at (map rev space_runes) (rev s) = 0" by (metis rune_at_strip)
  have "rune_at (map rev space_runes) (rev s @ rev p) = 0"
    unfolding rune_at_0_iff
  proof (intro ballI impI notI)
    fix w assume w: "w \<in> set (map rev space_runes)" "w \<noteq> []" "prefix w (rev s @ rev p)"
    with ends have "\<not> prefix w (rev s)" by (auto simp: rune_at_0_iff)
    with w(3) obtain t where t: "w = rev s @ t" "t \<noteq> []" "prefix t (rev p)" by (auto simp: prefix_append)
    then have "hd t \<in> set w" "hd t \<in> set p" by (auto simp: prefix_def) (metis hd_append2 hd_in_set rev_is_Nil_conv set_rev Un_iff set_append)
    with w(1) assms(1) show False using space_runes_invisible(2) by (auto simp: list_all_iff)
  qed
  then show ?thesis by (simp add: TrimSpace_def left trim_right_def strip_stop)
qed

lemma TrimSpace_visible: "list_all visible s \<Longrightarrow> TrimSpace s = s"
  using TrimSpace_after_visible [of s "[]"] by (cases "s = []") simp_all

lemma hex_alnum: "ishex c \<Longrightarrow> is_alnum c"
  by (auto simp: ishex_def is_alnum_def is_alpha_def is_digit_def Let_def)

lemma escaped_char:
  assumes "c \<in> set (PathEscape s)"
  shows "visible c \<and> c \<notin> set ''/?#'' \<and> (c = CHR ''%'' \<or> \<not> shouldEscape c EncPathSegment)"
proof -
  from assms obtain d where "c \<in> set (escape_char EncPathSegment d)" by (auto simp: PathEscape_def escape_def)
  moreover have "\<not> shouldEscape CHR ''+'' EncPathSegment" by code_simp
  moreover have "ishex c \<Longrightarrow> \<not> shouldEscape c EncPathSegment"
    by (simp add: shouldEscape_def hex_alnum)
  ultimately have "c = CHR ''%'' \<or> \<not> shouldEscape c EncPathSegment" using escape_char_set by blast
  then have "c = CHR ''%'' \<or> is_alnum c \<or> c \<in> set ''-_.~$&+:=@''"
    by (auto simp: shouldEscape_def split: if_splits)
  then have "visible c" by (auto simp: visible_def is_alnum_def is_alpha_def is_digit_def Let_def)
  with PathEscape_clean [of s] assms \<open>c = CHR ''%'' \<or> \<not> shouldEscape c EncPathSegment\<close> show ?thesis by auto
qed

lemma escaped_valid: "validEncoded (CHR ''/'' # PathEscape s) EncPath"
proof -
  have "c \<in> set ''!$&()*+,;=:@[]%'' \<or> \<not> shouldEscape c EncPath" if "c \<in> set (PathEscape s)" for c
    using escaped_char [OF that] by (auto simp: shouldEscape_def split: if_splits)
  moreover have "\<not> shouldEscape CHR ''/'' EncPath" by code_simp
  ultimately show ?thesis by (auto simp: validEncoded_def list_all_iff)
qed

lemma unescape_paths: "unescape s EncPath = unescape s EncPathSegment"
  by (induction s EncPathSegment rule: unescape.induct) (auto split: list.split sum.split)

lemma unescape_slashed: "unescape (CHR ''/'' # PathEscape s) EncPath = Ok (CHR ''/'' # s)"
  using PathUnescape_PathEscape [of s] by (simp add: PathUnescape_def unescape_paths)

lemma EscapedPath_kept:
  assumes "setPath p u = Ok u'" and "prefix ''/'' p" and "validEncoded p EncPath"
  shows "EscapedPath u' = p"
proof -
  from assms(1) obtain path where path: "unescape p EncPath = Ok path"
    and u': "u' = u\<lparr>Path := path, RawPath := (if p = escape path EncPath then [] else p)\<rparr>"
    by (cases "unescape p EncPath") (auto simp: setPath_def)
  from path assms(2) have "path \<noteq> ''*''" by (auto simp: prefix_def split: sum.splits)
  with assms(2,3) path u' show ?thesis by (auto simp: EscapedPath_def)
qed

lemma Cut_absent: "c \<notin> set s \<Longrightarrow> Cut s c = (s, [], False)"
proof -
  assume "c \<notin> set s"
  then have parts: "takeWhile (\<lambda>d. d \<noteq> c) s = s" "dropWhile (\<lambda>d. d \<noteq> c) s = []"
    by (auto simp: takeWhile_eq_all_conv dropWhile_eq_Nil_conv)
  show ?thesis unfolding Cut_def parts using \<open>c \<notin> set s\<close> by simp
qed

text \<open>A URI of the scheme with a host of the four, and an escaped argument.\<close>

definition resource_hosts :: "string list" where
  "resource_hosts = [''endpoints'', ''endpointByOperationId'', ''schema'', ''lookup'']"

lemma host_facts:
  assumes "host \<in> set resource_hosts"
  shows "list_all (\<lambda>c. visible c \<and> c \<notin> set ''/?#'') host" "parseAuthority host = Ok (None, host)" "TrimSpace host = host" "host \<noteq> []"
proof -
  have "list_all (\<lambda>h. list_all (\<lambda>c. visible c \<and> c \<notin> set ''/?#'') h \<and> parseAuthority h = Ok (None, h) \<and> TrimSpace h = h \<and> h \<noteq> []) resource_hosts"
    by code_simp
  with assms show "list_all (\<lambda>c. visible c \<and> c \<notin> set ''/?#'') host" "parseAuthority host = Ok (None, host)" "TrimSpace host = host" "host \<noteq> []"
    by (auto simp: list_all_iff)
qed

definition resource_uri :: "string \<Rightarrow> string \<Rightarrow> string" where
  "resource_uri host arg = ''swagger://'' @ host @ CHR ''/'' # PathEscape arg"

lemma resource_uri_chars:
  assumes "host \<in> set resource_hosts"
  shows "list_all visible (resource_uri host arg)" "CHR ''#'' \<notin> set (resource_uri host arg)"
    "CHR ''?'' \<notin> set (resource_uri host arg)" "has_ctl (resource_uri host arg) = False"
proof -
  have "list_all visible ''swagger://''" "visible CHR ''/''" by code_simp+
  then show vis: "list_all visible (resource_uri host arg)"
    using host_facts(1) [OF assms] escaped_char [of _ arg] by (auto simp: resource_uri_def list_all_iff)
  show "CHR ''#'' \<notin> set (resource_uri host arg)" "CHR ''?'' \<notin> set (resource_uri host arg)"
    using host_facts(1) [OF assms] escaped_char [of _ arg] by (auto simp: resource_uri_def list_all_iff)
  show "has_ctl (resource_uri host arg) = False"
    using vis by (auto simp: has_ctl_def list_ex_iff list_all_iff visible_def)
qed

lemma resource_scheme: "getScheme (resource_uri host arg) = Ok (''swagger'', ''//'' @ host @ CHR ''/'' # PathEscape arg)"
  by (simp add: getScheme_def resource_uri_def is_alpha_def is_digit_def)

lemma parse_resource_uri:
  assumes "host \<in> set resource_hosts"
  shows "\<exists>u. parse_url (resource_uri host arg) = Ok u \<and> Scheme u = ''swagger'' \<and> URLHost u = host
     \<and> EscapedPath u = CHR ''/'' # PathEscape arg"
proof -
  define rest where "rest = ''//'' @ host @ CHR ''/'' # PathEscape arg"
  have quest: "CHR ''?'' \<notin> set rest" using resource_uri_chars(3) [OF assms, of arg] by (simp add: resource_uri_def rest_def)
  then have cut: "cut_query rest = (rest, False, [])" by (auto simp: cut_query_def Cut_absent suffix_def)
  have slash: "CHR ''/'' \<notin> set host" using host_facts(1) [OF assms] by (auto simp: list_all_iff)
  have parts: "takeWhile (\<lambda>c. c \<noteq> CHR ''/'') (drop 2 rest) = host"
    "dropWhile (\<lambda>c. c \<noteq> CHR ''/'') (drop 2 rest) = CHR ''/'' # PathEscape arg"
    using slash by (auto simp: rest_def takeWhile_append dropWhile_append)
  define u where "u = empty_url\<lparr>Scheme := ''swagger'', ForceQuery := False, RawQuery := [], Userinfo := None, URLHost := host\<rparr>"
  obtain u' where u': "setPath (CHR ''/'' # PathEscape arg) u = Ok u'" unfolding setPath_def unescape_slashed by simp
  have low: "ToLower ''swagger'' = ''swagger''" by code_simp
  have scheme: "getScheme (resource_uri host arg) = Ok (''swagger'', rest)" by (simp add: resource_scheme rest_def)
  have start: "prefix ''/'' rest" "prefix ''//'' rest" "resource_uri host arg \<noteq> ''*''" by (simp_all add: rest_def resource_uri_def)
  have u_upd: "empty_url\<lparr>Scheme := ''swagger'', ForceQuery := False, RawQuery := []\<rparr>\<lparr>Userinfo := None, URLHost := host\<rparr> = u"
    by (simp add: u_def)
  have "parse_no_fragment (resource_uri host arg) = Ok u'"
    unfolding parse_no_fragment_def scheme bindE_simps case_prod_conv cut Let_def low parts
    using resource_uri_chars(4) [OF assms, of arg] host_facts(2) [OF assms] start u' by (simp add: u_def)
  then have "parse_url (resource_uri host arg) = Ok u'"
    using resource_uri_chars(2) [OF assms, of arg] by (simp add: parse_url_def Cut_absent in_parse_def)
  moreover have "Scheme u' = ''swagger''" "URLHost u' = host"
    using u' unfolding setPath_def unescape_slashed by (auto simp: u_def)
  moreover have "EscapedPath u' = CHR ''/'' # PathEscape arg"
    using EscapedPath_kept [OF u' _ escaped_valid] by simp
  ultimately show ?thesis by blast
qed

section \<open>Addresses are read back\<close>

lemma uri_trimmed: "host \<in> set resource_hosts \<Longrightarrow> TrimSpace (resource_uri host arg) = resource_uri host arg"
  by (rule TrimSpace_visible) (rule resource_uri_chars(1))

lemma unescaped_escaped [simp]: "unescaped (PathEscape s) = TrimSpace s"
  by (simp add: unescaped_def)

lemma PathEscape_Nil_iff [simp]: "PathEscape s = [] \<longleftrightarrow> s = []"
  by (cases s) (auto simp: PathEscape_def escape_def escape_char_def Let_def)

lemma uri_key:
  assumes "host \<in> set resource_hosts"
  shows "parseSwaggerResourceKey (resource_uri host arg) =
     (if host = ''endpoints'' then (if arg = [] then key_of AllEndpoints [] else key_of ByMethod (ToUpper (TrimSpace arg)))
      else if host = ''endpointByOperationId'' then nonblank_key ByOperationID (TrimSpace arg)
      else if host = ''schema'' then nonblank_key SchemaNamed (TrimSpace arg) else pointer_key (TrimSpace arg))"
proof -
  from parse_resource_uri [OF assms, of arg] obtain u where u: "parse_url (resource_uri host arg) = Ok u"
    "Scheme u = ''swagger''" "URLHost u = host" "EscapedPath u = CHR ''/'' # PathEscape arg" by blast
  have "parseSwaggerURI (resource_uri host arg) = (if host = ''endpoints'' then (if arg = [] then key_of AllEndpoints [] else key_of ByMethod (ToUpper (TrimSpace arg)))
      else if host = ''endpointByOperationId'' then nonblank_key ByOperationID (TrimSpace arg)
      else if host = ''schema'' then nonblank_key SchemaNamed (TrimSpace arg) else pointer_key (TrimSpace arg))"
    using host_facts(3) [OF assms] assms
    by (simp add: parseSwaggerURI_def u TrimPrefix_def Let_def resource_hosts_def) auto
  moreover have "resource_uri host arg \<noteq> []" "HasPrefix (resource_uri host arg) ''swagger://''"
    by (simp_all add: resource_uri_def HasPrefix_def)
  ultimately show ?thesis by (simp add: parseSwaggerResourceKey_def uri_trimmed [OF assms])
qed

lemma name_trimmed: "TrimSpace arg = arg \<Longrightarrow> list_all visible p \<Longrightarrow> p \<noteq> [] \<Longrightarrow> TrimSpace (p @ arg) = p @ arg"
  by (rule TrimSpace_after_visible)

lemma name_prefixes: "list_all (list_all visible) [''swagger:endpointByOperationId:'', ''swagger:schema:'', ''swagger:lookup:'']"
  by code_simp

lemma name_key:
  assumes "TrimSpace arg = arg"
  shows "parseSwaggerResourceKey (''swagger:endpointByOperationId:'' @ arg) = nonblank_key ByOperationID arg"
    and "parseSwaggerResourceKey (''swagger:schema:'' @ arg) = nonblank_key SchemaNamed arg"
    and "parseSwaggerResourceKey (''swagger:lookup:'' @ arg) = pointer_key arg"
  using name_prefixes name_trimmed [OF assms, of "''swagger:endpointByOperationId:''"]
    name_trimmed [OF assms, of "''swagger:schema:''"] name_trimmed [OF assms, of "''swagger:lookup:''"]
  by (simp_all add: parseSwaggerResourceKey_def parseSwaggerName_def HasPrefix_def TrimPrefix_def)

lemma uri_of:
  "rdURI (operation_resource t i) = resource_uri ''endpointByOperationId'' i"
  "rdURI (schema_resource t i) = resource_uri ''schema'' i" "rdURI (lookup_resource i) = resource_uri ''lookup'' i"
  by (simp_all add: operation_resource_def schema_resource_def lookup_resource_def json_resource_def resource_uri_def)

lemma id_of:
  "rdID (operation_resource t i) = ''swagger:endpointByOperationId:'' @ i"
  "rdID (schema_resource t i) = ''swagger:schema:'' @ i" "rdID (lookup_resource i) = ''swagger:lookup:'' @ i"
  by (simp_all add: operation_resource_def schema_resource_def lookup_resource_def json_resource_def)



section \<open>The contract of a store\<close>

text \<open>
  What the server relies on. \<open>steady v w\<close> says that the source keeps serving the data \<open>v\<close> from the
  world \<open>w\<close> on. A store answers not found outside of the identifiers it owns, and what it
  lists can be read as long as the source is steady.
\<close>

text \<open>The world after reading some resources.\<close>

fun after_reads :: "'w resource_store \<Rightarrow> string list \<Rightarrow> 'w \<Rightarrow> 'w" where
  "after_reads store [] w = w"
| "after_reads store (i # is) w = after_reads store is (snd (rsGet store i w))"

locale resource_source =
  fixes steady :: "'v \<Rightarrow> 'w \<Rightarrow> bool"
    and store :: "'w resource_store"
    and owns :: "string \<Rightarrow> bool"
  assumes lists: "steady v w \<Longrightarrow> \<exists>ds w'. rsList store w = (Ok ds, w')"
    and steady_list: "steady v w \<Longrightarrow> rsList store w = (r, w') \<Longrightarrow> steady v w'"
    and steady_get: "steady v w \<Longrightarrow> rsGet store i w = (g, w') \<Longrightarrow> steady v w'"
    and foreign: "steady v w \<Longrightarrow> \<not> owns i \<Longrightarrow> fst (rsGet store i w) = Err ResourceNotFound"
    and listed_owned: "steady v w \<Longrightarrow> rsList store w = (Ok ds, w') \<Longrightarrow> d \<in> set ds \<Longrightarrow> \<not> IsTemplate d \<Longrightarrow> owns (rdURI d)"
    and readable: "steady v w \<Longrightarrow> rsList store w = (Ok ds, w') \<Longrightarrow> d \<in> set ds \<Longrightarrow> \<not> IsTemplate d \<Longrightarrow> steady v w2 \<Longrightarrow>
      \<exists>item. fst (rsGet store (rdURI d) w2) = Ok item \<and> rdURI (riDescriptor item) = rdURI d"
begin

lemma steady_after_reads: "steady v w \<Longrightarrow> steady v (after_reads store is w)"
  by (induction "is" arbitrary: w) (auto intro: steady_get prod.collapse [symmetric])

lemma readable_after_reads:
  assumes "steady v w" and "rsList store w = (Ok ds, w')" and "d \<in> set ds" and "\<not> IsTemplate d"
  shows "\<exists>item. fst (rsGet store (rdURI d) (after_reads store is w')) = Ok item \<and> rdURI (riDescriptor item) = rdURI d"
  using readable [OF assms steady_after_reads [OF steady_list [OF assms(1,2)]]] .

end

section \<open>The union keeps the contract\<close>

definition apart :: "(string \<Rightarrow> bool) list \<Rightarrow> bool" where
  "apart ps \<longleftrightarrow> sorted_wrt (\<lambda>p q. \<forall>i. \<not> (p i \<and> q i)) ps"

definition listed_by :: "('v \<Rightarrow> 'w \<Rightarrow> bool) \<Rightarrow> 'v \<Rightarrow> 'w resource_store \<Rightarrow> ResourceDescriptor \<Rightarrow> bool" where
  "listed_by steady v s d \<longleftrightarrow> (\<exists>w ds w'. steady v w \<and> rsList s w = (Ok ds, w') \<and> d \<in> set ds \<and> \<not> IsTemplate d)"

lemma set_add_descriptors: "set (fold add_descriptor ds out) \<subseteq> set out \<union> set ds"
proof (induction ds arbitrary: out)
  case (Cons d ds)
  have "set (add_descriptor d out) \<subseteq> insert d (set out)" by (auto simp: add_descriptor_def)
  with Cons [of "add_descriptor d out"] show ?case by auto
qed simp

lemma composite_list_from:
  assumes "list_all2 (resource_source steady) ss ps" and "steady v w" and "composite_list ss out w = (r, w')"
  shows "steady v w' \<and> (\<forall>ds d. r = Ok ds \<longrightarrow> d \<in> set ds \<longrightarrow> \<not> IsTemplate d \<longrightarrow> d \<in> set out \<or> (\<exists>s \<in> set ss. listed_by steady v s d))"
  using assms
proof (induction arbitrary: out w rule: list_all2_induct)
  case (Cons s ss p ps)
  obtain l w1 where l: "rsList s w = (l, w1)" by fastforce
  have w1: "steady v w1" using resource_source.steady_list [OF Cons.hyps(1) Cons.prems(1) l] .
  show ?case
  proof (cases l)
    case (Inr new)
    with Cons.prems(2) l have run: "composite_list ss (fold add_descriptor new out) w1 = (r, w')" by simp
    have "listed_by steady v s d" if "d \<in> set new" "\<not> IsTemplate d" for d
      using that l Inr Cons.prems(1) by (auto simp: listed_by_def)
    with Cons.IH [OF w1 run] set_add_descriptors [of new out] show ?thesis by (auto 4 3)
  qed (use Cons.prems(2) l w1 in auto)
qed auto

lemma list_all2_left: "list_all2 P xs ys \<Longrightarrow> x \<in> set xs \<Longrightarrow> \<exists>y \<in> set ys. P x y"
  by (induction rule: list_all2_induct) auto

lemma composite_lists:
  "list_all2 (resource_source steady) ss ps \<Longrightarrow> steady v w \<Longrightarrow> \<exists>ds w'. composite_list ss out w = (Ok ds, w')"
proof (induction arbitrary: out w rule: list_all2_induct)
  case (Cons s ss p ps)
  from resource_source.lists [OF Cons.hyps(1) Cons.prems] obtain ds w1 where l: "rsList s w = (Ok ds, w1)" by blast
  from Cons.IH [OF resource_source.steady_list [OF Cons.hyps(1) Cons.prems l]] l show ?case by simp
qed simp

lemma listed_by_read:
  assumes "resource_source steady s p" and "listed_by steady v s d"
  shows "p (rdURI d)" and "steady v w \<Longrightarrow> \<exists>item. fst (rsGet s (rdURI d) w) = Ok item \<and> rdURI (riDescriptor item) = rdURI d"
  using assms(2) resource_source.listed_owned [OF assms(1)] resource_source.readable [OF assms(1)]
  by (auto simp: listed_by_def)

lemma composite_get_steady:
  "list_all2 (resource_source steady) ss ps \<Longrightarrow> steady v w \<Longrightarrow> steady v (snd (composite_get ss i w))"
proof (induction arbitrary: w rule: list_all2_induct)
  case (Cons s ss p ps)
  obtain r w1 where r: "rsGet s i w = (r, w1)" by fastforce
  from resource_source.steady_get [OF Cons.hyps(1) Cons.prems r] Cons.IH r show ?case by (cases r) auto
qed simp

lemma composite_get_foreign:
  "list_all2 (resource_source steady) ss ps \<Longrightarrow> steady v w \<Longrightarrow> \<not> list_ex (\<lambda>p. p i) ps
    \<Longrightarrow> fst (composite_get ss i w) = Err ResourceNotFound"
proof (induction arbitrary: w rule: list_all2_induct)
  case (Cons s ss p ps)
  obtain r w1 where r: "rsGet s i w = (r, w1)" by fastforce
  from resource_source.foreign [OF Cons.hyps(1) Cons.prems(1), of i] Cons.prems(2) r have "r = Err ResourceNotFound" by simp
  with r Cons.IH [OF resource_source.steady_get [OF Cons.hyps(1) Cons.prems(1) r]] Cons.prems(2) show ?case by simp
qed simp

lemma composite_get_listed:
  "list_all2 (resource_source steady) ss ps \<Longrightarrow> apart ps \<Longrightarrow> steady v w \<Longrightarrow> s \<in> set ss \<Longrightarrow> listed_by steady v s d
    \<Longrightarrow> \<exists>item. fst (composite_get ss (rdURI d) w) = Ok item \<and> rdURI (riDescriptor item) = rdURI d"
proof (induction arbitrary: w rule: list_all2_induct)
  case (Cons s0 ss p ps)
  show ?case
  proof (cases "s = s0")
    case True
    obtain item w1 where "rsGet s0 (rdURI d) w = (Ok item, w1)" "rdURI (riDescriptor item) = rdURI d"
      using listed_by_read(2) [OF Cons.hyps(1) Cons.prems(4) [unfolded True] Cons.prems(2)]
      by (cases "rsGet s0 (rdURI d) w") auto
    then show ?thesis by simp
  next
    case False
    with Cons.prems(3) have s: "s \<in> set ss" by simp
    from list_all2_left [OF Cons.hyps(2) this] obtain q where q: "q \<in> set ps" "resource_source steady s q" by blast
    with Cons.prems(1) listed_by_read(1) [OF q(2) Cons.prems(4)] have "\<not> p (rdURI d)" by (auto simp: apart_def)
    obtain r w1 where r: "rsGet s0 (rdURI d) w = (r, w1)" by fastforce
    from resource_source.foreign [OF Cons.hyps(1) Cons.prems(2) \<open>\<not> p (rdURI d)\<close>] r have "r = Err ResourceNotFound" by simp
    with r Cons.IH [OF _ resource_source.steady_get [OF Cons.hyps(1) Cons.prems(2) r] s Cons.prems(4)] Cons.prems(1)
    show ?thesis by (simp add: apart_def)
  qed
qed simp

lemma composite_source:
  assumes "list_all2 (resource_source steady) ss ps" and "apart ps"
  shows "resource_source steady (composite ss) (\<lambda>i. list_ex (\<lambda>p. p i) ps)"
proof
  fix v w assume "steady v w"
  with composite_lists [OF assms(1)] show "\<exists>ds w'. rsList (composite ss) w = (Ok ds, w')" by (simp add: composite_def)
next
  fix v w r w' assume "steady v w" "rsList (composite ss) w = (r, w')"
  with composite_list_from [OF assms(1), of v w "[]" r w'] show "steady v w'" by (simp add: composite_def)
next
  fix v w i g w' assume "steady v w" "rsGet (composite ss) i w = (g, w')"
  with composite_get_steady [OF assms(1), of v w i] show "steady v w'" by (simp add: composite_def)
next
  fix v w i assume "steady v w" "\<not> list_ex (\<lambda>p. p i) ps"
  with composite_get_foreign [OF assms(1)] show "fst (rsGet (composite ss) i w) = Err ResourceNotFound" by (simp add: composite_def)
next
  fix v w ds w' d assume l: "steady v w" "rsList (composite ss) w = (Ok ds, w')" "d \<in> set ds" "\<not> IsTemplate d"
  with composite_list_from [OF assms(1), of v w "[]" "Ok ds" w'] obtain s where s: "s \<in> set ss" "listed_by steady v s d"
    by (auto simp: composite_def)
  from list_all2_left [OF assms(1) s(1)] obtain q where q: "q \<in> set ps" "resource_source steady s q" by blast
  from listed_by_read(1) [OF q(2) s(2)] q(1) show "list_ex (\<lambda>p. p (rdURI d)) ps" by (auto simp: list_ex_iff)
  fix w2 assume "steady v w2"
  with composite_get_listed [OF assms this s]
  show "\<exists>item. fst (rsGet (composite ss) (rdURI d) w2) = Ok item \<and> rdURI (riDescriptor item) = rdURI d" by (simp add: composite_def)
qed

section \<open>The stores keep it\<close>

lemma all_some_total: "\<forall>x \<in> set xs. x \<noteq> None \<Longrightarrow> \<exists>ys. all_some xs = Some ys"
  by (induction xs) auto

lemma members_total: "\<forall>(k, v) \<in> set kvs. v \<noteq> None \<Longrightarrow> \<exists>j. members kvs = Some j"
proof -
  assume "\<forall>(k, v) \<in> set kvs. v \<noteq> None"
  then have "\<forall>x \<in> set (map snd kvs). x \<noteq> None" by auto
  from all_some_total [OF this] show ?thesis by (auto simp: members_def)
qed

text \<open>Values without broken numbers have a JSON form.\<close>

lemma any_json_total: "json_fine v \<Longrightarrow> \<exists>j. any_json v = Some j"
proof (induction v)
  case (AList vs)
  then have "\<forall>x \<in> set (map any_json vs). x \<noteq> None" by (fastforce simp: list_all_iff)
  from all_some_total [OF this] show ?case by auto
next
  case (AMap kvs)
  then have "\<forall>(k, v) \<in> set (sort_key fst (map (\<lambda>(k, v). (k, any_json v)) kvs)). v \<noteq> None"
    by (fastforce simp: list_all_iff)
  from members_total [OF this] show ?case by simp
qed (auto simp: number_json_def number_value_def Let_def split: if_splits)

lemma json_fine_copy: "json_fine v \<Longrightarrow> json_fine (json_copy v)"
  by (induction v) (auto simp: list_all_iff)

lemma json_fine_clone: "json_fine v \<Longrightarrow> json_fine (cloneSchema v)"
  by (simp add: cloneSchema_def cloneJSONValue_def json_fine_copy)

lemma json_fine_result: "json_fine d \<Longrightarrow> json_fine (toolResultSchema d)"
  by (simp add: toolResultSchema_def nullable_def error_schema_def)

lemmas schema_defs = search_input_schema_def search_data_schema_def plan_input_schema_def plan_data_schema_def
  prepareRequestInputSchema_def prepare_data_schema_def generate_input_schema_def generate_data_schema_def
  validate_request_data_schema_def executeInputSchema_def execute_data_schema_def validate_response_input_schema_def
  validate_response_data_schema_def request_confirmation_input_schema_def request_confirmation_data_schema_def
  confirm_input_schema_def confirm_data_schema_def request_properties_def include_schema_def

lemma schemas_fine: "(name, b) \<in> set toolSchemas \<Longrightarrow> json_fine (InputSchema b) \<and> json_fine (OutputSchema b)"
  by (auto simp: toolSchemas_def schemas_of_def schema_defs Let_def intro!: json_fine_result)

lemma schemas_printable: "\<exists>j. any_json SchemasDocument = Some j"
  by (rule any_json_total)
     (auto simp: SchemasDocument_def list_all_iff open_object_def intro!: json_fine_clone dest: schemas_fine)

text \<open>The cached store serves a snapshot: it is there, and the clock stays before its expiry.\<close>

definition serving :: "cacheState \<Rightarrow> source_world \<Rightarrow> bool" where
  "serving st w \<longleftrightarrow> state (swStore w) = Some st \<and> \<not> reload (swStore w)
     \<and> (\<forall>n \<ge> 3 * swStep w. Before (swClock w n) (expiresAt st))"

text \<open>
  A document whose resources can be read: identifiers and schema names are not surrounded by
  blanks, a schema of the document is one of the parsed schemas, and no value has a broken number.
\<close>

definition schema_names :: "cacheState \<Rightarrow> string list" where
  "schema_names st = listSchemaNames (Lookup (Ok st) ''/components/schemas'')"

definition coherent :: "cacheState \<Rightarrow> bool" where
  "coherent st \<longleftrightarrow> built (Ok st)
     \<and> list_all (\<lambda>op. TrimSpace (OperationID op) = OperationID op \<and> operation_json op \<noteq> None) (endpoints st)
     \<and> list_all (\<lambda>n. n \<noteq> [] \<and> TrimSpace n = n
         \<and> (case map_of (schemaByName st) n of None \<Rightarrow> False | Some v \<Rightarrow> any_json v \<noteq> None)) (schema_names st)"

definition steady_source :: "cacheState \<Rightarrow> source_world \<Rightarrow> bool" where
  "steady_source st w \<longleftrightarrow> coherent st \<and> serving st w"

lemma consult_serving:
  assumes "serving st w"
  shows "consult w = (Ok st, w\<lparr>swStep := Suc (swStep w)\<rparr>)" and "serving st (w\<lparr>swStep := Suc (swStep w)\<rparr>)"
  using assms by (auto simp: consult_def serving_def snapshot_def usable_def Let_def)

lemma queried_serving: "serving st w \<Longrightarrow> queried q w = (q (Ok st), w\<lparr>swStep := Suc (swStep w)\<rparr>)"
  by (simp add: queried_def consult_serving)

interpretation docs: resource_source steady_source docs_store
    "\<lambda>i. TrimSpace i = ''docs:tool-schemas'' \<or> TrimSpace i = ''docs://tool-schemas''"
proof -
  obtain j where "any_json SchemasDocument = Some j" using schemas_printable by blast
  moreover have "TrimSpace ''docs://tool-schemas'' = ''docs://tool-schemas''" by code_simp
  ultimately show "resource_source steady_source docs_store
      (\<lambda>i. TrimSpace i = ''docs:tool-schemas'' \<or> TrimSpace i = ''docs://tool-schemas'')"
    by unfold_locales (auto simp: docs_store_def docs_get_def docsToolSchemasDescriptor_def json_resource_def MarshalIndent_def printed_def)
qed

lemma default_resources: "new_resources [] = [(''status'', status_item)]"
  by code_simp

interpretation memory: resource_source steady_source "memory_resources (new_resources [])"
    "\<lambda>i. i = ''status'' \<or> i = ''resource://status''"
  by unfold_locales
     (auto simp: default_resources memory_resources_def list_resources_def get_resource_def status_item_def split: if_splits)

lemma serving_step: "serving st w \<Longrightarrow> serving st (snd (queried q w))"
  by (simp add: queried_serving consult_serving(2))

lemma swagger_list_serving:
  assumes "serving st w"
  shows "\<exists>w'. swagger_list (Some cached_api) w = (Ok (swagger_descriptors (endpoints st) (schema_names st)), w') \<and> serving st w'"
  using consult_serving(2) [OF assms] consult_serving(2) [OF consult_serving(2) [OF assms]]
  by (simp add: swagger_list_def cached_api_def queried_serving [OF assms] queried_serving [OF consult_serving(2) [OF assms]]
      schema_names_def)

lemma swagger_get_serving:
  assumes "serving st w"
  shows "serving st (snd (swagger_get (Some cached_api) i w))"
  using assms by (auto simp: swagger_get_def fetch_resource_def cached_api_def Let_def queried_serving consult_serving(2)
      split: sum.split prod.split swagger_kind.split)

text \<open>What a query of each kind gives on a snapshot, when its value can be printed.\<close>

lemma shown_Ok: "to_json v = Some j \<Longrightarrow> shown to_json (Ok v) = Ok (indented 0 j)"
  by (simp add: shown_def MarshalIndent_def printed_def)

lemma swagger_get_Ok:
  assumes "serving st w" and "parseSwaggerResourceKey i = Ok k"
    and "fst (fst (fetch_resource cached_api k w)) = Ok payload"
  shows "\<exists>item. fst (swagger_get (Some cached_api) i w) = Ok item \<and> riDescriptor item = snd (fetch_resource cached_api k w)"
  using assms(2,3) by (auto simp: swagger_get_def split: prod.split)

lemma operations_printable: "list_all (\<lambda>op. operation_json op \<noteq> None) ops \<Longrightarrow> \<exists>j. operations_json ops = Some j"
  using all_some_total [of "map operation_json ops"] by (cases ops) (auto simp: operations_json_def list_all_iff)

lemma uri_key_simps:
  "parseSwaggerResourceKey ''swagger://endpoints'' = key_of AllEndpoints []"
  "m \<in> set supportedMethods \<Longrightarrow> parseSwaggerResourceKey (rdURI (method_resource m)) = key_of ByMethod m \<and> ToUpper (TrimSpace m) = m"
proof -
  have "list_all (\<lambda>m. parseSwaggerResourceKey (rdURI (method_resource m)) = key_of ByMethod m \<and> ToUpper (TrimSpace m) = m) supportedMethods"
    by code_simp
  then show "m \<in> set supportedMethods \<Longrightarrow>
    parseSwaggerResourceKey (rdURI (method_resource m)) = key_of ByMethod m \<and> ToUpper (TrimSpace m) = m" by (simp add: list_all_iff)
qed code_simp

lemma uri_descriptions:
  "rdURI (operation_resource t i) = rdURI (operation_resource t' i)" "rdURI (schema_resource t i) = rdURI (schema_resource t' i)"
  by (simp_all add: uri_of)

lemma method_listing:
  assumes "coherent st"
  shows "\<exists>ops j. ListEndpointsByMethod (Ok st) m = Ok ops \<and> operations_json ops = Some j"
proof -
  from assms have "built (Ok st)" by (simp add: coherent_def)
  then obtain ops where ops: "endpoints st = sortOperations ops" "endpointsByMethod st = index_by_method ops"
    by (elim built_cases) auto
  from assms ops(1) have "list_all (\<lambda>op. operation_json op \<noteq> None) ops" by (auto simp: coherent_def list_all_iff)
  then have "list_all (\<lambda>op. operation_json op \<noteq> None) (sortOperations (filter (\<lambda>op. method_key op = ToUpper (TrimSpace m)) ops))"
    by (auto simp: list_all_iff)
  with operations_printable list_method_cached [OF ops(2)] show ?thesis by blast
qed

lemma operation_found:
  assumes "coherent st" and "op \<in> set (endpoints st)"
  shows "\<exists>op' j. GetEndpointByOperationID (Ok st) (OperationID op) = Ok op' \<and> operation_json op' = Some j"
proof -
  from assms(1) have built: "built (Ok st)" and clean: "TrimSpace (OperationID op) = OperationID op"
    and printed: "list_all (\<lambda>op. operation_json op \<noteq> None) (endpoints st)"
    using assms(2) by (auto simp: coherent_def list_all_iff)
  from cst.listed_found [OF built list_cached assms(2) clean] obtain op'
    where op': "GetEndpointByOperationID (Ok st) (OperationID op) = Ok op'" by blast
  with cst.by_id_listed [OF built op'] printed show ?thesis by (auto simp: list_all_iff)
qed

lemma named_schema_found:
  assumes "coherent st" and "n \<in> set (schema_names st)"
  shows "\<exists>v j. GetSchemaByName (Ok st) n = Ok v \<and> any_json v = Some j"
  using assms by (auto simp: coherent_def list_all_iff GetSchemaByName_def split: option.splits dest!: bspec)

text \<open>What is listed, apart from templates.\<close>

lemma listed_cases:
  assumes "d \<in> set (swagger_descriptors ops names)" and "\<not> IsTemplate d"
  shows "d = all_resource \<or> (\<exists>m \<in> set supportedMethods. d = method_resource m)
     \<or> (\<exists>op \<in> set ops. TrimSpace (OperationID op) \<noteq> [] \<and> d = operation_resource ''Resolved endpoint for operationId'' (OperationID op))
     \<or> (\<exists>n \<in> set names. d = schema_resource ''Schema component'' n)"
proof -
  have "list_all IsTemplate resource_templates" by code_simp
  with assms show ?thesis unfolding swagger_descriptors_def set_sort by (auto simp: list_all_iff)
qed

lemma listed_readable:
  assumes "coherent st" and "d \<in> set (swagger_descriptors (endpoints st) (schema_names st))" and "\<not> IsTemplate d"
    and w: "serving st w"
  shows "\<exists>item. fst (swagger_get (Some cached_api) (rdURI d) w) = Ok item \<and> rdURI (riDescriptor item) = rdURI d"
proof -
  have fetch: "\<exists>item. fst (swagger_get (Some cached_api) (rdURI d) w) = Ok item \<and> rdURI (riDescriptor item) = rdURI d"
    if "parseSwaggerResourceKey (rdURI d) = key_of kind arg"
      "fst (fst (fetch_resource cached_api \<lparr>skKind = kind, skArg = arg\<rparr> w)) = Ok payload"
      "rdURI (snd (fetch_resource cached_api \<lparr>skKind = kind, skArg = arg\<rparr> w)) = rdURI d" for kind arg payload
    using swagger_get_Ok [OF w that(1) [unfolded key_of_def] that(2)] that(3) by auto
  consider "d = all_resource" | m where "m \<in> set supportedMethods" "d = method_resource m"
    | op t where "op \<in> set (endpoints st)" "TrimSpace (OperationID op) \<noteq> []" "d = operation_resource t (OperationID op)"
    | n t where "n \<in> set (schema_names st)" "d = schema_resource t n"
    using listed_cases [OF assms(2,3)] by blast
  then show ?thesis
  proof cases
    case 1
    moreover from assms(1) have "\<exists>j. operations_json (endpoints st) = Some j"
      by (intro operations_printable) (auto simp: coherent_def list_all_iff)
    ultimately show ?thesis
      using fetch [of AllEndpoints "[]"] uri_key_simps(1)
      by (auto simp: fetch_resource_def cached_api_def queried_serving [OF w] shown_Ok all_resource_def json_resource_def)
  next
    case 2
    with method_listing [OF assms(1), of m] fetch [of ByMethod m] uri_key_simps(2) [OF 2(1)] show ?thesis
      by (auto simp: fetch_resource_def cached_api_def queried_serving [OF w] shown_Ok)
  next
    case 3
    with assms(1) have "TrimSpace (OperationID op) = OperationID op" by (auto simp: coherent_def list_all_iff)
    with 3 have "parseSwaggerResourceKey (rdURI d) = key_of ByOperationID (OperationID op)"
      by (simp add: uri_of uri_key resource_hosts_def nonblank_key_def)
    with operation_found [OF assms(1) 3(1)] 3(3) fetch [of ByOperationID "OperationID op"] show ?thesis
      by (auto simp: fetch_resource_def cached_api_def queried_serving [OF w] shown_Ok uri_of)
  next
    case 4
    with assms(1) have "TrimSpace n = n" "n \<noteq> []" by (auto simp: coherent_def list_all_iff)
    with 4 have "parseSwaggerResourceKey (rdURI d) = key_of SchemaNamed n"
      by (simp add: uri_of uri_key resource_hosts_def nonblank_key_def)
    with named_schema_found [OF assms(1) 4(1)] 4(2) fetch [of SchemaNamed n] show ?thesis
      by (auto simp: fetch_resource_def cached_api_def queried_serving [OF w] shown_Ok uri_of)
  qed
qed

lemma resource_uri_owned: "host \<in> set resource_hosts \<Longrightarrow> HasPrefix (TrimSpace (resource_uri host arg)) ''swagger:''"
  by (simp add: uri_trimmed) (simp add: resource_uri_def HasPrefix_def)

lemma swagger_owned: "d \<in> set (swagger_descriptors ops names) \<Longrightarrow> \<not> IsTemplate d \<Longrightarrow> HasPrefix (TrimSpace (rdURI d)) ''swagger:''"
proof -
  assume l: "d \<in> set (swagger_descriptors ops names)" "\<not> IsTemplate d"
  have "list_all (\<lambda>d. HasPrefix (TrimSpace (rdURI d)) ''swagger:'') (all_resource # map method_resource supportedMethods)" by code_simp
  with listed_cases [OF l] resource_uri_owned show ?thesis by (auto simp: list_all_iff uri_of resource_hosts_def)
qed

lemma foreign_key: "\<not> HasPrefix (TrimSpace i) ''swagger:'' \<Longrightarrow> parseSwaggerResourceKey i = Err ResourceNotFound"
proof -
  assume "\<not> HasPrefix (TrimSpace i) ''swagger:''"
  moreover have "prefix ''swagger:'' ''swagger://''" by simp
  ultimately have "\<not> HasPrefix (TrimSpace i) ''swagger://''" using prefix_order.trans unfolding HasPrefix_def by blast
  with \<open>\<not> HasPrefix (TrimSpace i) ''swagger:''\<close> show ?thesis by (simp add: parseSwaggerResourceKey_def Let_def)
qed

interpretation swag: resource_source steady_source "swagger_resources (Some cached_api)" "\<lambda>i. HasPrefix (TrimSpace i) ''swagger:''"
proof
  fix v w assume "steady_source v w"
  with swagger_list_serving [of v w] show "\<exists>ds w'. rsList (swagger_resources (Some cached_api)) w = (Ok ds, w')"
    by (auto simp: steady_source_def swagger_resources_def)
next
  fix v w r w' assume "steady_source v w" "rsList (swagger_resources (Some cached_api)) w = (r, w')"
  with swagger_list_serving [of v w] show "steady_source v w'" by (auto simp: steady_source_def swagger_resources_def)
next
  fix v w i g w' assume "steady_source v w" "rsGet (swagger_resources (Some cached_api)) i w = (g, w')"
  with swagger_get_serving [of v w i] show "steady_source v w'" by (auto simp: steady_source_def swagger_resources_def)
next
  fix v w i assume "\<not> HasPrefix (TrimSpace i) ''swagger:''"
  then show "fst (rsGet (swagger_resources (Some cached_api)) i w) = Err ResourceNotFound"
    by (simp add: swagger_resources_def swagger_get_def foreign_key)
next
  fix v w ds w' d assume l: "steady_source v w" "rsList (swagger_resources (Some cached_api)) w = (Ok ds, w')" "d \<in> set ds" "\<not> IsTemplate d"
  with swagger_list_serving [of v w] have ds: "d \<in> set (swagger_descriptors (endpoints v) (schema_names v))"
    by (auto simp: steady_source_def swagger_resources_def)
  from swagger_owned [OF this l(4)] show "HasPrefix (TrimSpace (rdURI d)) ''swagger:''" .
  fix w2 assume "steady_source v w2"
  with listed_readable [OF _ ds l(4)]
  show "\<exists>item. fst (rsGet (swagger_resources (Some cached_api)) (rdURI d) w2) = Ok item \<and> rdURI (riDescriptor item) = rdURI d"
    by (simp add: steady_source_def swagger_resources_def)
qed

section \<open>The resources of the gateway\<close>

definition buildResourceStore :: "string \<Rightarrow> 'w swagger_api \<Rightarrow> 'w resource_store" where
  "buildResourceStore swaggerPath api = composite (NewCompositeStore
     ((if TrimSpace swaggerPath \<noteq> [] then [Some (swagger_resources (Some api))] else [])
      @ [Some docs_store, Some (memory_resources (new_resources []))]))"

definition gateway_owners :: "(string \<Rightarrow> bool) list" where
  "gateway_owners = [\<lambda>i. HasPrefix (TrimSpace i) ''swagger:'',
     \<lambda>i. TrimSpace i = ''docs:tool-schemas'' \<or> TrimSpace i = ''docs://tool-schemas'', \<lambda>i. i = ''status'' \<or> i = ''resource://status'']"

lemma gateway_owners_apart: "apart gateway_owners"
proof -
  have "TrimSpace ''status'' = ''status''" "TrimSpace ''resource://status'' = ''resource://status''" by code_simp+
  then show ?thesis by (auto simp: apart_def gateway_owners_def HasPrefix_def)
qed

interpretation gate: resource_source steady_source "composite [swagger_resources (Some cached_api), docs_store, memory_resources (new_resources [])]"
    "\<lambda>i. list_ex (\<lambda>p. p i) gateway_owners"
  by (rule composite_source [OF _ gateway_owners_apart])
     (simp add: gateway_owners_def swag.resource_source_axioms docs.resource_source_axioms memory.resource_source_axioms)

lemma add_descriptor_distinct: "distinct (map descriptor_key out) \<Longrightarrow> distinct (map descriptor_key (fold add_descriptor ds out))"
  by (induction ds arbitrary: out) (auto simp: add_descriptor_def)

lemma composite_list_distinct:
  "composite_list ss out w = (Ok ds, w') \<Longrightarrow> distinct (map descriptor_key out) \<Longrightarrow> distinct (map descriptor_key ds)"
  by (induction ss arbitrary: out w) (auto intro: add_descriptor_distinct split: prod.splits sum.splits)

text \<open>
  Every listed resource can be read. While the cached store serves a document, the
  listing of the gateway's resources succeeds, lists no address twice, and each resource on it
  that is not a template can be read at its URI, whatever was read in between, and is then the
  resource of that URI.
\<close>

lemma listed_resources_readable:
  assumes "TrimSpace path \<noteq> []" and "coherent st" and "serving st w"
  shows "\<exists>ds w'. rsList (buildResourceStore path cached_api) w = (Ok ds, w') \<and> distinct (map descriptor_key ds)
    \<and> (\<forall>d \<in> set ds. IsTemplate d \<or> (\<exists>item. fst (rsGet (buildResourceStore path cached_api) (rdURI d)
          (after_reads (buildResourceStore path cached_api) is w')) = Ok item \<and> rdURI (riDescriptor item) = rdURI d))"
proof -
  have store: "buildResourceStore path cached_api
      = composite [swagger_resources (Some cached_api), docs_store, memory_resources (new_resources [])]"
    using assms(1) by (simp add: buildResourceStore_def NewCompositeStore_def)
  have steady: "steady_source st w" using assms by (simp add: steady_source_def)
  from gate.lists [OF this] obtain ds w'
    where l: "rsList (composite [swagger_resources (Some cached_api), docs_store, memory_resources (new_resources [])]) w = (Ok ds, w')"
    by blast
  moreover have "distinct (map descriptor_key ds)"
    using l unfolding composite_def resource_store.select_convs by (rule composite_list_distinct) simp
  ultimately show ?thesis unfolding store using gate.readable_after_reads [OF steady l] by blast
qed

definition served_document :: Document where
  "served_document = \<lparr>dSpec = map_option (\<lambda>sp. sp\<lparr>spSchemas := Some [(''Pet'', Some \<lparr>srRef = [], srValue = None\<rparr>)]\<rparr>)
       (dSpec one_operation_document),
     dRaw = AMap [(''components'', AMap [(''schemas'', AMap [(''Pet'', AMap [(''type'', AStr ''object'')])])])]\<rparr>"

definition served_state :: cacheState where
  "served_state = projr (buildState (NewCachedStore ''http://h'' False 1) (Ok (Some served_document)) (Time 0))"

lemma served_built: "buildState (NewCachedStore ''http://h'' False 1) (Ok (Some served_document)) (Time 0) = Ok served_state"
proof -
  have "\<not> isl (buildState (NewCachedStore ''http://h'' False 1) (Ok (Some served_document)) (Time 0))" by code_simp
  then show ?thesis by (auto simp: served_state_def)
qed

lemma served_coherent: "coherent served_state"
proof -
  have "list_all (\<lambda>op. TrimSpace (OperationID op) = OperationID op \<and> operation_json op \<noteq> None) (endpoints served_state)" by code_simp
  moreover have "list_all (\<lambda>n. n \<noteq> [] \<and> TrimSpace n = n
      \<and> (case map_of (schemaByName served_state) n of None \<Rightarrow> False | Some v \<Rightarrow> any_json v \<noteq> None)) (schema_names served_state)" by code_simp
  ultimately show ?thesis using served_built by (auto simp: coherent_def built_def)
qed

definition served_world :: source_world where
  "served_world = \<lparr>swStore = (NewCachedStore ''http://h'' False 1)\<lparr>state := Some served_state\<rparr>, swStep = 0,
     swLoads = (\<lambda>n. Err (ErrOther ''down'')), swClock = (\<lambda>n. Time 0)\<rparr>"

lemma served_serving: "serving served_state served_world"
proof -
  have "Before (Time 0) (expiresAt served_state)" by code_simp
  then show ?thesis by (simp add: serving_def served_world_def NewCachedStore_def)
qed

lemma served_names: "rdURI ` set (swagger_descriptors (endpoints served_state) (schema_names served_state))
    \<supseteq> {''swagger://endpointByOperationId/ping'', ''swagger://schema/Pet''}"
  by code_simp

lemma served_listing:
  "\<exists>ds w'. rsList (buildResourceStore ''api.yaml'' cached_api) served_world = (Ok ds, w')"
proof -
  have "TrimSpace ''api.yaml'' \<noteq> []" by code_simp
  from listed_resources_readable [OF this served_coherent served_serving, of "[]"] show ?thesis by blast
qed

end
