(* ===== verification/Service.thy ===== *)
theory Service
  imports Resources
begin

text \<open>
  The use cases of the server (\<open>internal/usecase\<close>), the registry of tools (\<open>internal/tool/registry.go\<close>),
  the store of prompts (\<open>internal/prompt\<close>) and the two tools that touch nothing, echo and health.
  A tool is a record with its published description and its \<open>Execute\<close> on a state of the world.
\<close>

section \<open>Tools and their registry\<close>

record 'w Tool =
  tlName :: string
  tlDescription :: string
  tlInputSchema :: any
  tlOutputSchema :: any
  tlExecute :: "any \<Rightarrow> 'w \<Rightarrow> (string, any) result \<times> 'w"

record ToolDescriptor =
  tdName :: string
  tdDescription :: string
  tdInputSchema :: any
  tdOutputSchema :: any

type_synonym 'w registry = "(string \<times> 'w Tool) list"

definition Register :: "'w Tool option \<Rightarrow> 'w registry \<Rightarrow> 'w registry" where
  "Register t r = (case t of None \<Rightarrow> r | Some t \<Rightarrow> map_set (tlName t) t r)"

definition NewRegistry :: "'w Tool option list \<Rightarrow> 'w registry" where
  "NewRegistry tools = fold Register tools []"

definition RegistryList :: "'w registry \<Rightarrow> 'w Tool list" where
  "RegistryList r = map (\<lambda>name. the (map_of r name)) (sort (map_keys r))"

definition RegistryGet :: "'w registry \<Rightarrow> string \<Rightarrow> 'w Tool option" where
  "RegistryGet r name = map_of r name"

section \<open>Echo and health\<close>

definition inputMessage :: "any \<Rightarrow> (string, string) result" where
  "inputMessage input = (case input of
     AMap m \<Rightarrow> (case map_of m ''message'' of
         None \<Rightarrow> Err ''message is required''
       | Some (AStr s) \<Rightarrow> if s = [] then Err ''message cannot be empty'' else Ok s
       | Some v \<Rightarrow> Err ''message must be string'')
   | AStrMap m \<Rightarrow> (case map_of m ''message'' of
         None \<Rightarrow> Err ''message is required'' | Some s \<Rightarrow> if s = [] then Err ''message is required'' else Ok s)
   | AStr s \<Rightarrow> if s = [] then Err ''message cannot be empty'' else Ok s
   | v \<Rightarrow> Err (''unsupported input type '' @ go_type v))"

definition EchoExecute :: "any \<Rightarrow> (string, any) result" where
  "EchoExecute input = (case inputMessage input of Err e \<Rightarrow> Err e | Ok s \<Rightarrow> Ok (AMap [(''message'', AStr s)]))"

definition echo_input_schema :: any where
  "echo_input_schema = AMap [(''type'', AStr ''object''),
     (''properties'', AMap [(''message'', AMap [(''type'', AStr ''string''), (''description'', AStr ''Message to echo'')])]),
     (''required'', AStrs [''message'']), (''additionalProperties'', ABool False)]"

definition echo_output_schema :: any where
  "echo_output_schema = AMap [(''type'', AStr ''object''), (''properties'', AMap [(''message'', typed ''string'')]),
     (''required'', AStrs [''message'']), (''additionalProperties'', ABool True)]"

definition EchoTool :: "'w Tool" where
  "EchoTool = \<lparr>tlName = ''echo'', tlDescription = ''Echoes the provided message'', tlInputSchema = echo_input_schema,
     tlOutputSchema = echo_output_schema, tlExecute = (\<lambda>input w. (EchoExecute input, w))\<rparr>"

definition health_input_schema :: any where
  "health_input_schema = AMap [(''type'', AStr ''object''), (''properties'', AMap []), (''additionalProperties'', ABool False)]"

definition health_output_schema :: any where
  "health_output_schema = AMap [(''type'', AStr ''object''),
     (''properties'', AMap [(''status'', typed ''string''), (''version'', typed ''string'')]),
     (''required'', AStrs [''status'', ''version'']), (''additionalProperties'', ABool True)]"

definition HealthExecute :: "string \<Rightarrow> any \<Rightarrow> any" where
  "HealthExecute version input = AMap [(''status'', AStr ''ok''), (''version'', AStr version)]"

definition HealthTool :: "string \<Rightarrow> 'w Tool" where
  "HealthTool version = \<lparr>tlName = ''health'', tlDescription = ''Returns service health status and version'',
     tlInputSchema = health_input_schema, tlOutputSchema = health_output_schema,
     tlExecute = (\<lambda>input w. (Ok (HealthExecute version input), w))\<rparr>"

section \<open>Prompts\<close>

record PromptDescriptor =
  pmName :: string
  pmDescription :: string
  pmArguments :: "string list"

record PromptItem =
  piDescriptor :: PromptDescriptor
  piTemplate :: string

type_synonym prompt_store = "(string \<times> PromptItem) list"

definition lines_text :: "string list \<Rightarrow> string" where
  "lines_text ls = Join ls [CHR 10]"

definition call_agent_template :: string where
  "call_agent_template = lines_text
    [''Goal: {{.goal}}'', ''Operation: {{.operationId}}'', [], ''Workflow:'',
     ''1) Use swagger.plan_call to identify/confirm operation.'',
     ''2) Use swagger.http.generate_payload if request body is needed.'',
     ''3) Use swagger.http.prepare_request with params.path/params.query/params.headers/params.body.'',
     ''4) Use swagger.http.validate_request before execute.'',
     ''5) Use swagger.http.execute (real call through MCP gateway).'',
     ''6) Use swagger.http.validate_response to detect contract drift.'', [],
     ''Never call upstream APIs directly outside MCP.'']"

definition default_prompts :: "PromptItem list" where
  "default_prompts =
    [\<lparr>piDescriptor = \<lparr>pmName = ''welcome'', pmDescription = ''Simple greeting prompt'', pmArguments = [''name'']\<rparr>,
      piTemplate = ''Hello, {{.name}}!''\<rparr>,
     \<lparr>piDescriptor = \<lparr>pmName = ''swagger.call_agent'',
        pmDescription = ''Guides agent to safely plan and execute swagger API calls via MCP tools'',
        pmArguments = [''goal'', ''operationId'']\<rparr>, piTemplate = call_agent_template\<rparr>]"

definition add_prompt :: "PromptItem \<Rightarrow> prompt_store \<Rightarrow> prompt_store" where
  "add_prompt item m = map_set (pmName (piDescriptor item)) item m"

definition NewPromptStore :: "PromptItem list \<Rightarrow> prompt_store" where
  "NewPromptStore given = fold add_prompt (if given = [] then default_prompts else given) []"

definition prompt_not_found :: string where
  "prompt_not_found = ''prompt not found''"

definition PromptGet :: "prompt_store \<Rightarrow> string \<Rightarrow> (string, string) result" where
  "PromptGet m name = (case map_of m name of Some item \<Rightarrow> Ok (piTemplate item) | None \<Rightarrow> Err prompt_not_found)"

definition PromptList :: "prompt_store \<Rightarrow> PromptDescriptor list" where
  "PromptList m = sort_key pmName (map (\<lambda>(name, item). piDescriptor item) m)"

text \<open>
  \<open>text/template\<close> on the templates the store has: text and fields in double braces, a missing
  field being empty. Templates with anything else in double braces go to \<open>engine\<close>.
\<close>

definition plain_field :: "string \<Rightarrow> string option" where
  "plain_field action = (let a = Trim action '' '' in
     if prefix ''.'' a \<and> drop 1 a \<noteq> [] \<and> \<not> is_digit (hd (drop 1 a)) \<and> list_all (\<lambda>c. is_alnum c \<or> c = CHR ''_'') (drop 1 a)
     then Some (drop 1 a) else None)"

function fill_template :: "(string \<times> string) list \<Rightarrow> string \<Rightarrow> string option" where
  "fill_template vars s = (case Index s ''{{'' of
     None \<Rightarrow> Some s
   | Some i \<Rightarrow> (case Index (drop (i + 2) s) ''}}'' of
       None \<Rightarrow> None
     | Some j \<Rightarrow> (case (plain_field (take j (drop (i + 2) s)), fill_template vars (drop (i + 2 + j + 2) s)) of
         (Some name, Some rest) \<Rightarrow> Some (take i s @ (case map_of vars name of Some v \<Rightarrow> v | None \<Rightarrow> []) @ rest)
       | _ \<Rightarrow> None)))"
  by pat_completeness auto

lemma Index_bound: "Index s t = Some i \<Longrightarrow> i \<le> length s"
  by (induction s t arbitrary: i rule: Index.induct) (auto split: if_splits option.splits)

termination fill_template
proof (relation "measure (length \<circ> snd)")
  fix vars s i j assume "Index s ''{{'' = Some i"
  moreover have "s \<noteq> []" using \<open>Index s ''{{'' = Some i\<close> by (cases s) auto
  ultimately show "((vars, drop (i + 2 + j + 2) s), vars, s) \<in> measure (length \<circ> snd)" by auto
qed auto

declare fill_template.simps [simp del]

type_synonym template_engine = "string \<Rightarrow> string \<Rightarrow> (string \<times> string) list \<Rightarrow> (string, string) result"

definition renderTemplate :: "template_engine \<Rightarrow> string \<Rightarrow> string \<Rightarrow> (string \<times> string) list \<Rightarrow> (string, string) result" where
  "renderTemplate engine name tpl vars = (case fill_template vars tpl of Some text \<Rightarrow> Ok text | None \<Rightarrow> engine name tpl vars)"

section \<open>The service\<close>

record 'w service =
  toolRegistry :: "'w registry"
  promptStore :: prompt_store
  resourceStore :: "'w resource_store"

definition ListTools :: "'w service \<Rightarrow> ToolDescriptor list" where
  "ListTools s = map (\<lambda>t. \<lparr>tdName = tlName t, tdDescription = tlDescription t, tdInputSchema = tlInputSchema t,
     tdOutputSchema = tlOutputSchema t\<rparr>) (RegistryList (toolRegistry s))"

definition CallTool :: "'w service \<Rightarrow> string \<Rightarrow> any \<Rightarrow> 'w \<Rightarrow> (string, any) result \<times> 'w" where
  "CallTool s name input w = (case RegistryGet (toolRegistry s) name of
     None \<Rightarrow> (Err (''tool '' @ quote name @ '' is not registered''), w)
   | Some t \<Rightarrow> tlExecute t (if input = ANil then AMap [] else input) w)"

definition ListResources :: "'w service \<Rightarrow> 'w \<Rightarrow> (resource_error, ResourceDescriptor list) result \<times> 'w" where
  "ListResources s = rsList (resourceStore s)"

definition GetResource :: "'w service \<Rightarrow> string \<Rightarrow> 'w \<Rightarrow> (resource_error, ResourceItem) result \<times> 'w" where
  "GetResource s = rsGet (resourceStore s)"

definition GetPrompt :: "template_engine \<Rightarrow> 'w service \<Rightarrow> string \<Rightarrow> (string \<times> string) list \<Rightarrow> (string, string) result" where
  "GetPrompt engine s name vars = (case PromptGet (promptStore s) name of
     Err e \<Rightarrow> Err e | Ok tpl \<Rightarrow> renderTemplate engine name tpl vars)"

section \<open>What the service relies on\<close>

text \<open>
  A registry gives tools by name and lists each of them once, by name. The service built on it
  can call exactly what it lists.
\<close>

locale tool_registry =
  fixes tools :: "'w Tool list"
    and get :: "string \<Rightarrow> 'w Tool option"
  assumes get_listed: "get name = Some t \<longleftrightarrow> t \<in> set tools \<and> tlName t = name"
    and sorted_names: "sorted (map tlName tools)"
    and distinct_names: "distinct (map tlName tools)"
begin

lemma get_None: "get name = None \<longleftrightarrow> name \<notin> tlName ` set tools"
  by (metis get_listed imageE imageI not_None_eq)

lemma unique: "t \<in> set tools \<Longrightarrow> u \<in> set tools \<Longrightarrow> tlName t = tlName u \<Longrightarrow> t = u"
  using get_listed [of "tlName t" t] get_listed [of "tlName t" u] by simp

end

definition registry_ok :: "'w registry \<Rightarrow> bool" where
  "registry_ok r \<longleftrightarrow> map_ok r \<and> (\<forall>(name, t) \<in> set r. tlName t = name)"

lemma registry_ok_Nil [simp]: "registry_ok []"
  by (simp add: registry_ok_def)

lemma set_map_set: "p \<in> set (map_set k v m) \<Longrightarrow> p = (k, v) \<or> p \<in> set m"
  by (induction m) (auto split: if_splits)

lemma registry_ok_Register: "registry_ok r \<Longrightarrow> registry_ok (Register t r)"
  by (cases t) (auto simp: registry_ok_def Register_def dest!: set_map_set)

lemma registry_ok_New: "registry_ok (NewRegistry tools)"
proof -
  have "registry_ok r \<Longrightarrow> registry_ok (fold Register ts r)" for ts and r :: "'a registry"
    by (induction ts arbitrary: r) (simp_all add: registry_ok_Register)
  then show ?thesis by (simp add: NewRegistry_def)
qed

lemma registry_names: "registry_ok r \<Longrightarrow> name \<in> set (map_keys r) \<Longrightarrow> tlName (the (map_of r name)) = name"
  by (fastforce simp: registry_ok_def)

lemma map_names_of_list: "registry_ok r \<Longrightarrow> map tlName (RegistryList r) = sort (map_keys r)"
  unfolding RegistryList_def map_map by (rule map_idI) (simp add: registry_names)

lemma tools_of_registry:
  assumes "registry_ok r"
  shows "tool_registry (RegistryList r) (RegistryGet r)"
proof
  fix name t
  show "RegistryGet r name = Some t \<longleftrightarrow> t \<in> set (RegistryList r) \<and> tlName t = name"
  proof
    assume get: "RegistryGet r name = Some t"
    then have "(name, t) \<in> set r" by (simp add: RegistryGet_def map_of_SomeD)
    with assms have "name \<in> set (map_keys r)" "tlName t = name" by (force simp: registry_ok_def)+
    with get show "t \<in> set (RegistryList r) \<and> tlName t = name" by (force simp: RegistryGet_def RegistryList_def)
  next
    assume "t \<in> set (RegistryList r) \<and> tlName t = name"
    then obtain n where "n \<in> set (map_keys r)" "t = the (map_of r n)" "tlName t = name" by (auto simp: RegistryList_def)
    with registry_names [OF assms, of n] show "RegistryGet r name = Some t"
      by (metis RegistryGet_def map_of_eq_None_iff option.collapse set_map)
  qed
  show "sorted (map tlName (RegistryList r))" by (simp add: map_names_of_list [OF assms])
  show "distinct (map tlName (RegistryList r))" using assms by (simp add: map_names_of_list [OF assms] registry_ok_def)
qed

interpretation reg: tool_registry "RegistryList (NewRegistry ts)" "RegistryGet (NewRegistry ts)" for ts :: "'w Tool option list"
  by (rule tools_of_registry [OF registry_ok_New])

text \<open>The last tool of a name wins.\<close>

lemma NewRegistry_get: "RegistryGet (NewRegistry ts) name = find (\<lambda>t. tlName t = name) (rev (List.map_filter id ts))"
proof (induction ts rule: rev_induct)
  case (snoc t ts)
  then show ?case by (cases t) (auto simp: NewRegistry_def RegistryGet_def Register_def List.map_filter_def)
qed (simp add: NewRegistry_def RegistryGet_def List.map_filter_def)

lemma CallTool_unregistered: "name \<notin> set (map tdName (ListTools s)) \<Longrightarrow> toolRegistry s = NewRegistry ts \<Longrightarrow>
    CallTool s name input w = (Err (''tool '' @ quote name @ '' is not registered''), w)"
  using reg.get_None [of ts name] by (auto simp: CallTool_def ListTools_def)

lemma default_prompts_render:
  "GetPrompt engine s ''welcome'' [(''name'', who)] = Ok (''Hello, '' @ who @ ''!'')" if "promptStore s = NewPromptStore []"
proof -
  have "PromptGet (NewPromptStore []) ''welcome'' = Ok ''Hello, {{.name}}!''" by code_simp
  with that show ?thesis by (simp add: GetPrompt_def renderTemplate_def) (simp add: fill_template.simps plain_field_def Trim_def TrimRight_def is_digit_def is_alnum_def is_alpha_def)
qed

end
