(* ===== verification/McpServer.thy ===== *)
theory McpServer
  imports Service
begin

text \<open>
  The MCP servers (\<open>internal/server/stdio\<close> and \<open>internal/server/streamable/server.go\<close>). The SDK is
  modelled by what the code asks of it: a server keeps what was added under its name or URI
  (adding again replaces), with the handler given. How the SDK frames messages, and which
  handler it calls for a message, is not part of the model. Both packages build the same server
  from the same text; it is modelled once, with the life cycle of each transport.
\<close>

section \<open>The server the SDK keeps\<close>

record CallToolResult =
  crIsError :: bool
  crText :: string
  crStructured :: "string option"

record 'w McpTool =
  mtDescription :: string
  mtInputSchema :: any
  mtOutputSchema :: any
  mtHandler :: "string option \<Rightarrow> 'w \<Rightarrow> (string, CallToolResult) result \<times> 'w"

record GetPromptResult =
  gpDescription :: string
  gpRole :: string
  gpText :: string

record McpPrompt =
  mpDescription :: string
  mpArguments :: "string list"
  mpHandler :: "(string \<times> string) list option \<Rightarrow> (string, GetPromptResult) result"

record ReadResourceResult =
  rrURI :: string
  rrMIMEType :: string
  rrText :: string

datatype read_error = NoSuchResource string | ReadFailed resource_error

record 'w McpResource =
  mrName :: string
  mrDescription :: string
  mrMIMEType :: string
  mrHandler :: "string option \<Rightarrow> 'w \<Rightarrow> (read_error, ReadResourceResult) result \<times> 'w"

record 'w McpServer =
  msVersion :: string
  msTools :: "(string \<times> 'w McpTool) list"
  msPrompts :: "(string \<times> McpPrompt) list"
  msResources :: "(string \<times> 'w McpResource) list"
  msTemplates :: "(string \<times> 'w McpResource) list"

section \<open>Tools\<close>

text \<open>\<open>encoding/json\<close>, with \<open>json.Valid\<close>.\<close>

record json_io =
  ioCodec :: codec
  ioValid :: "string \<Rightarrow> bool"

definition tool_result :: "json_io \<Rightarrow> any \<Rightarrow> (string, CallToolResult) result" where
  "tool_result io out = (case marshal (ioCodec io) out of
     Err e \<Rightarrow> Err (''marshal tool output: '' @ e)
   | Ok payload \<Rightarrow> Ok \<lparr>crIsError = False, crText = payload, crStructured = (if ioValid io payload then Some payload else None)\<rparr>)"

definition tool_input :: "json_io \<Rightarrow> string option \<Rightarrow> (string, any) result" where
  "tool_input io args = (case args of None \<Rightarrow> Ok (AMap [])
     | Some raw \<Rightarrow> if raw = [] then Ok (AMap []) else unmarshal (ioCodec io) raw)"

definition tool_handler :: "json_io \<Rightarrow> 'w service \<Rightarrow> string \<Rightarrow> string option \<Rightarrow> 'w
    \<Rightarrow> (string, CallToolResult) result \<times> 'w" where
  "tool_handler io s name args w = (case tool_input io args of
     Err e \<Rightarrow> (Err (''invalid tool input: '' @ e), w)
   | Ok input \<Rightarrow> (case CallTool s name input w of
       (Err e, w') \<Rightarrow> (Ok \<lparr>crIsError = True, crText = e, crStructured = None\<rparr>, w')
     | (Ok out, w') \<Rightarrow> (tool_result io out, w')))"

definition any_input :: any where
  "any_input = AMap [(''type'', AStr ''object''), (''properties'', AMap []), (''additionalProperties'', ABool True)]"

definition add_tool :: "json_io \<Rightarrow> 'w service \<Rightarrow> ToolDescriptor \<Rightarrow> 'w McpServer \<Rightarrow> 'w McpServer" where
  "add_tool io s d srv = srv\<lparr>msTools := map_set (tdName d) \<lparr>mtDescription = tdDescription d,
     mtInputSchema = (if tdInputSchema d = ANil then any_input else tdInputSchema d),
     mtOutputSchema = tdOutputSchema d, mtHandler = tool_handler io s (tdName d)\<rparr> (msTools srv)\<rparr>"

definition registerTools :: "json_io \<Rightarrow> 'w service \<Rightarrow> 'w McpServer \<Rightarrow> 'w McpServer" where
  "registerTools io s srv = fold (add_tool io s) (ListTools s) srv"

section \<open>Prompts\<close>

definition prompt_handler :: "template_engine \<Rightarrow> 'w service \<Rightarrow> PromptDescriptor \<Rightarrow> (string \<times> string) list option
    \<Rightarrow> (string, GetPromptResult) result" where
  "prompt_handler engine s d args = (case GetPrompt engine s (pmName d) (case args of Some vars \<Rightarrow> vars | None \<Rightarrow> []) of
     Err e \<Rightarrow> Err e | Ok text \<Rightarrow> Ok \<lparr>gpDescription = pmDescription d, gpRole = ''user'', gpText = text\<rparr>)"

definition add_server_prompt :: "template_engine \<Rightarrow> 'w service \<Rightarrow> PromptDescriptor \<Rightarrow> 'w McpServer \<Rightarrow> 'w McpServer" where
  "add_server_prompt engine s d srv = srv\<lparr>msPrompts := map_set (pmName d) \<lparr>mpDescription = pmDescription d,
     mpArguments = pmArguments d, mpHandler = prompt_handler engine s d\<rparr> (msPrompts srv)\<rparr>"

definition registerPrompts :: "template_engine \<Rightarrow> 'w service \<Rightarrow> 'w McpServer \<Rightarrow> 'w McpServer" where
  "registerPrompts engine s srv = fold (add_server_prompt engine s) (PromptList (promptStore s)) srv"

section \<open>Resources\<close>

text \<open>The URI of the request; a request without one reads the descriptor's own.\<close>

definition asked_uri :: "ResourceDescriptor \<Rightarrow> string option \<Rightarrow> string" where
  "asked_uri d req = (case req of Some uri \<Rightarrow> if uri \<noteq> [] then uri else rdURI d | None \<Rightarrow> rdURI d)"

definition readResource :: "'w service \<Rightarrow> ResourceDescriptor \<Rightarrow> string option \<Rightarrow> 'w
    \<Rightarrow> (read_error, ReadResourceResult) result \<times> 'w" where
  "readResource s d req w =
     (let i = (if asked_uri d req = [] then rdID d else asked_uri d req);
          uri = (if asked_uri d req = [] then i else asked_uri d req) in
      case GetResource s i w of
        (Err e, w') \<Rightarrow> (Err (if e = ResourceNotFound then NoSuchResource uri else ReadFailed e), w')
      | (Ok item, w') \<Rightarrow> (Ok \<lparr>rrURI = uri,
          rrMIMEType = (if rdMIMEType (riDescriptor item) \<noteq> [] then rdMIMEType (riDescriptor item) else rdMIMEType d),
          rrText = riText item\<rparr>, w'))"

definition add_server_resource :: "'w service \<Rightarrow> ResourceDescriptor \<Rightarrow> 'w McpServer \<Rightarrow> 'w McpServer" where
  "add_server_resource s d srv =
     (let r = \<lparr>mrName = rdName d, mrDescription = rdDescription d, mrMIMEType = rdMIMEType d, mrHandler = readResource s d\<rparr> in
      if IsTemplate d then srv\<lparr>msTemplates := map_set (rdURITemplate d) r (msTemplates srv)\<rparr>
      else srv\<lparr>msResources := map_set (rdURI d) r (msResources srv)\<rparr>)"

definition registerResources :: "'w service \<Rightarrow> 'w McpServer \<Rightarrow> 'w \<Rightarrow> (resource_error, 'w McpServer) result \<times> 'w" where
  "registerResources s srv w = (case ListResources s w of
     (Err e, w') \<Rightarrow> (Err e, w') | (Ok ds, w') \<Rightarrow> (Ok (fold (add_server_resource s) ds srv), w'))"

section \<open>Building and running\<close>

definition empty_server :: "string \<Rightarrow> 'w McpServer" where
  "empty_server version = \<lparr>msVersion = version, msTools = [], msPrompts = [], msResources = [], msTemplates = []\<rparr>"

definition buildMCPServer :: "json_io \<Rightarrow> template_engine \<Rightarrow> string \<Rightarrow> 'w service \<Rightarrow> 'w
    \<Rightarrow> (resource_error, 'w McpServer) result \<times> 'w" where
  "buildMCPServer io engine version s w =
     registerResources s (registerPrompts engine s (registerTools io s (empty_server version))) w"

text \<open>
  The stdio transport: \<open>Start\<close> builds the server and runs it until it ends; \<open>Stop\<close> cancels the
  context that \<open>Start\<close> stored, when there is one.
\<close>

record StdioServer =
  sdCancel :: bool
  sdCancelled :: bool

definition NewStdio :: StdioServer where
  "NewStdio = \<lparr>sdCancel = False, sdCancelled = False\<rparr>"

datatype start_error = BuildFailed resource_error | RunFailed string

definition StdioStart :: "('w McpServer \<Rightarrow> (string, unit) result) \<Rightarrow> (resource_error, 'w McpServer) result
    \<Rightarrow> StdioServer \<Rightarrow> (start_error, unit) result \<times> StdioServer" where
  "StdioStart run outcome st = (let st = st\<lparr>sdCancel := True\<rparr> in
     case outcome of Err e \<Rightarrow> (Err (BuildFailed e), st)
     | Ok srv \<Rightarrow> (case run srv of Err e \<Rightarrow> (Err (RunFailed e), st) | Ok u \<Rightarrow> (Ok (), st)))"

definition StdioStop :: "StdioServer \<Rightarrow> StdioServer" where
  "StdioStop st = (if sdCancel st then st\<lparr>sdCancelled := True\<rparr> else st)"

text \<open>
  The streamable transport: \<open>Start\<close> serves until the context ends, which shuts the server down, or
  until serving ends, with an error unless it was a shutdown.
\<close>

record StreamableServer =
  stServing :: bool
  stShutdown :: bool

datatype serve_end = ContextDone | ServeError string | ServerClosed

definition NewStreamable :: StreamableServer where
  "NewStreamable = \<lparr>stServing = False, stShutdown = False\<rparr>"

definition StreamableStop :: "StreamableServer \<Rightarrow> StreamableServer" where
  "StreamableStop st = (if stServing st then st\<lparr>stShutdown := True\<rparr> else st)"

definition StreamableStart :: "serve_end \<Rightarrow> (resource_error, 'w McpServer) result \<Rightarrow> StreamableServer
    \<Rightarrow> (start_error, unit) result \<times> StreamableServer" where
  "StreamableStart ending outcome st = (case outcome of
     Err e \<Rightarrow> (Err (BuildFailed e), st)
   | Ok srv \<Rightarrow> (let st = st\<lparr>stServing := True\<rparr> in
      case ending of
        ContextDone \<Rightarrow> (Ok (), StreamableStop st)
      | ServeError e \<Rightarrow> (Err (RunFailed e), st)
      | ServerClosed \<Rightarrow> (Ok (), st)))"

section \<open>What is registered\<close>

lemma registered_tools: "msTools (fold (add_tool io s) ds srv) = fold (\<lambda>d. map_set (tdName d) \<lparr>mtDescription = tdDescription d,
     mtInputSchema = (if tdInputSchema d = ANil then any_input else tdInputSchema d),
     mtOutputSchema = tdOutputSchema d, mtHandler = tool_handler io s (tdName d)\<rparr>) ds (msTools srv)"
  by (induction ds arbitrary: srv) (simp_all add: add_tool_def)

lemma tools_kept:
  "msTools (fold (add_server_prompt engine s) ps srv) = msTools srv" "msTools (fold (add_server_resource s) ds srv) = msTools srv"
  by (induction ps arbitrary: srv; simp add: add_server_prompt_def)
     (induction ds arbitrary: srv; simp add: add_server_resource_def Let_def)

lemma built_tools:
  assumes "buildMCPServer io engine version s w = (Ok srv, w')"
  shows "msTools srv = msTools (registerTools io s (empty_server version))"
  using assms by (auto simp: buildMCPServer_def registerResources_def registerPrompts_def tools_kept split: prod.splits sum.splits)

lemma map_of_fold_set:
  "distinct (map key xs) \<Longrightarrow> map_of (fold (\<lambda>x. map_set (key x) (f x)) xs m) k
     = (case find (\<lambda>x. key x = k) xs of Some x \<Rightarrow> Some (f x) | None \<Rightarrow> map_of m k)"
proof (induction xs arbitrary: m)
  case (Cons x xs)
  show ?case
  proof (cases "key x = k")
    case True
    with Cons.prems have "find (\<lambda>x. key x = k) xs = None" by (simp add: find_None_iff) (metis image_eqI)
    with Cons True show ?thesis by simp
  qed (use Cons in \<open>simp split: option.split\<close>)
qed simp

text \<open>
  Property C11: the server publishes the tools of the registry and runs them. The tools of a
  server that was built are those of the registry, under their names and with their schemas. A
  call runs the tool once on the decoded arguments, none counting as an empty object: what the
  tool returns becomes the text of the result, what it refuses becomes the text of an error
  result, and only arguments that are not JSON make the call itself fail, without running it.
\<close>

theorem server_runs_tools:
  assumes "buildMCPServer io engine version s w = (Ok srv, w')" and "toolRegistry s = NewRegistry ts"
  shows "case (RegistryGet (NewRegistry ts) name, map_of (msTools srv) name) of
     (Some t, Some mt) \<Rightarrow> mtDescription mt = tlDescription t \<and> mtOutputSchema mt = tlOutputSchema t
       \<and> (tlInputSchema t \<noteq> ANil \<longrightarrow> mtInputSchema mt = tlInputSchema t)
       \<and> mtHandler mt args w2 = (case tool_input io args of
           Err e \<Rightarrow> (Err (''invalid tool input: '' @ e), w2)
         | Ok input \<Rightarrow> (case tlExecute t (if input = ANil then AMap [] else input) w2 of
             (Err e, w1) \<Rightarrow> (Ok \<lparr>crIsError = True, crText = e, crStructured = None\<rparr>, w1)
           | (Ok out, w1) \<Rightarrow> (tool_result io out, w1)))
   | (None, None) \<Rightarrow> True
   | _ \<Rightarrow> False"
proof -
  have names: "distinct (map tdName (ListTools s))"
    using reg.distinct_names [of ts] assms(2) by (simp add: ListTools_def comp_def)
  have tools: "map_of (msTools srv) name = map_option (\<lambda>d. \<lparr>mtDescription = tdDescription d,
      mtInputSchema = (if tdInputSchema d = ANil then any_input else tdInputSchema d), mtOutputSchema = tdOutputSchema d,
      mtHandler = tool_handler io s (tdName d)\<rparr>) (find (\<lambda>d. tdName d = name) (ListTools s))"
    by (simp add: built_tools [OF assms(1)] registerTools_def registered_tools map_of_fold_set [OF names] empty_server_def
        split: option.split)
  show ?thesis
  proof (cases "RegistryGet (NewRegistry ts) name")
    case None
    with reg.get_None [of ts name] have "find (\<lambda>d. tdName d = name) (ListTools s) = None"
      using assms(2) by (auto simp: find_None_iff ListTools_def)
    with tools None show ?thesis by simp
  next
    case (Some t)
    obtain d where d: "find (\<lambda>d. tdName d = name) (ListTools s) = Some d"
      using Some reg.get_listed [of ts name t] assms(2)
      by (cases "find (\<lambda>d. tdName d = name) (ListTools s)") (auto simp: find_None_iff ListTools_def)
    then have "tdName d = name" "d \<in> set (ListTools s)" by (auto dest: find_SomeD)
    then obtain u where u: "u \<in> set (RegistryList (NewRegistry ts))" "tlName u = name"
      "d = \<lparr>tdName = tlName u, tdDescription = tlDescription u, tdInputSchema = tlInputSchema u, tdOutputSchema = tlOutputSchema u\<rparr>"
      using assms(2) by (auto simp: ListTools_def)
    have "u = t" using reg.unique [of u ts t] u(1,2) Some reg.get_listed [of ts name t] by simp
    moreover have "tlName t = name" using Some reg.get_listed [of ts name t] by simp
    ultimately show ?thesis using u(3) d tools Some assms(2)
      by (simp add: tool_handler_def CallTool_def split: sum.split)
  qed
qed

lemma build_Ok: "rsList (resourceStore s) w = (Ok ds, w') \<Longrightarrow>
    buildMCPServer io engine version s w = (Ok (fold (add_server_resource s) ds
      (registerPrompts engine s (registerTools io s (empty_server version)))), w')"
  by (simp add: buildMCPServer_def registerResources_def ListResources_def)

definition echo_service :: "unit service" where
  "echo_service = \<lparr>toolRegistry = NewRegistry [Some EchoTool], promptStore = NewPromptStore [], resourceStore = docs_store\<rparr>"

definition no_engine :: template_engine where
  "no_engine name tpl vars = Err ''unsupported template''"

definition echo_io :: json_io where
  "echo_io = \<lparr>ioCodec = \<lparr>marshal = Marshal, unmarshal = (\<lambda>s. Err ''none'')\<rparr>, ioValid = (\<lambda>s. True)\<rparr>"

lemma server_runs_tools_witness:
  "\<exists>srv mt. buildMCPServer echo_io no_engine ''1'' echo_service () = (Ok srv, ()) \<and> map_of (msTools srv) ''echo'' = Some mt
     \<and> mtHandler mt None () = (Ok \<lparr>crIsError = True, crText = ''message is required'', crStructured = None\<rparr>, ())"
proof -
  obtain srv where srv: "buildMCPServer echo_io no_engine ''1'' echo_service () = (Ok srv, ())"
    using build_Ok [of echo_service "()"] by (simp add: echo_service_def docs_store_def)
  have "toolRegistry echo_service = NewRegistry [Some EchoTool]" by (simp add: echo_service_def)
  from server_runs_tools [OF srv this, where name = "''echo''" and args = None and ?w2.0 = "()"]
  show ?thesis using srv by (simp add: NewRegistry_def RegistryGet_def Register_def EchoTool_def tool_input_def EchoExecute_def
      inputMessage_def split: option.splits)
qed

text \<open>A registered resource is one of the listed ones, under its URI.\<close>

lemma registered_resource:
  "map_of (msResources (fold (add_server_resource s) ds srv)) uri = Some r \<Longrightarrow>
     (\<exists>d \<in> set ds. \<not> IsTemplate d \<and> rdURI d = uri \<and> mrHandler r = readResource s d) \<or> map_of (msResources srv) uri = Some r"
proof (induction ds arbitrary: srv)
  case (Cons d ds)
  from Cons.IH [of "add_server_resource s d srv"] Cons.prems
  show ?case by (auto simp: add_server_resource_def Let_def split: if_splits)
qed simp

lemma resources_kept:
  "msResources (fold (add_server_prompt engine s) ps srv) = msResources srv" "msResources (fold (add_tool io s) ds srv) = msResources srv"
  by (induction ps arbitrary: srv; simp add: add_server_prompt_def) (induction ds arbitrary: srv; simp add: add_tool_def)

lemma built_resource:
  assumes "buildMCPServer io engine version s w = (Ok srv, w')" and "map_of (msResources srv) uri = Some r"
  obtains ds d where "rsList (resourceStore s) w = (Ok ds, w')" "d \<in> set ds" "\<not> IsTemplate d" "rdURI d = uri"
    "mrHandler r = readResource s d"
proof -
  from assms(1) obtain ds where ds: "rsList (resourceStore s) w = (Ok ds, w')"
    and srv: "srv = fold (add_server_resource s) ds (registerPrompts engine s (registerTools io s (empty_server version)))"
    by (auto simp: buildMCPServer_def registerResources_def ListResources_def split: prod.splits sum.splits)
  have "msResources (registerPrompts engine s (registerTools io s (empty_server version))) = []"
    by (simp add: resources_kept registerPrompts_def registerTools_def empty_server_def)
  with registered_resource [OF assms(2) [unfolded srv]] obtain d where "d \<in> set ds" "\<not> IsTemplate d" "rdURI d = uri"
    "mrHandler r = readResource s d" by auto
  with ds that show ?thesis by blast
qed


definition served_service :: "source_world service" where
  "served_service = \<lparr>toolRegistry = NewRegistry [], promptStore = NewPromptStore [],
     resourceStore = buildResourceStore ''api.yaml'' cached_api\<rparr>"


lemma registered_listed: "d \<in> set ds \<Longrightarrow> \<not> IsTemplate d \<Longrightarrow> map_of (msResources (fold (add_server_resource s) ds srv)) (rdURI d) \<noteq> None"
proof (induction ds arbitrary: srv)
  case (Cons x ds)
  have keep: "map_of (msResources srv) uri \<noteq> None \<Longrightarrow> map_of (msResources (fold (add_server_resource s) ds srv)) uri \<noteq> None" for uri srv
    by (induction ds arbitrary: srv) (auto simp: add_server_resource_def Let_def)
  show ?case
  proof (cases "d = x")
    case True
    with Cons.prems have "map_of (msResources (add_server_resource s x srv)) (rdURI d) \<noteq> None"
      by (simp add: add_server_resource_def Let_def)
    from keep [OF this] show ?thesis by simp
  qed (use Cons in simp)
qed simp

lemma served_published:
  "list_ex (\<lambda>d. \<not> IsTemplate d \<and> rdURI d = ''swagger://schema/Pet'')
     (projr (fst (rsList (buildResourceStore ''api.yaml'' cached_api) served_world)))"
  by code_simp


end
