(* ===== verification/HttpHandlers.thy ===== *)
theory HttpHandlers
  imports Config AuthClaims GoJson
begin

text \<open>
  The HTTP side of the streamable server (\<open>internal/server/streamable/http_handlers.go\<close>): the
  routes, health, metrics, cross-origin headers, correlation and the gate in front of \<open>/mcp\<close>. A
  handler gets the response headers set so far, the context and the request; what the SDK's and
  Prometheus's handlers answer is not modelled, only with what they are reached.
\<close>

section \<open>Requests and answers\<close>

type_synonym headers = "(string \<times> string list) list"

record web_request =
  wrMethod :: string
  wrPath :: string
  wrHeaders :: headers

record web_context =
  wcCorrelation :: "string option"
  wcPrincipal :: "Principal option"

text \<open>The line logged in front of the MCP handler: subject, method, path.\<close>

record mcp_entry =
  meHeaders :: headers
  meContext :: web_context
  meMaxBody :: int
  meLogged :: "(string \<times> string \<times> string) option"

datatype answer = Answer nat headers string | ToMCP mcp_entry | ToMetrics headers | NotRouted headers | Dropped

type_synonym 's handler = "headers \<Rightarrow> web_context \<Rightarrow> web_request \<Rightarrow> 's \<Rightarrow> answer \<times> 's"

text \<open>\<open>http.Error\<close> with the text of the status.\<close>

definition StatusText :: "nat \<Rightarrow> string" where
  "StatusText code = (if code = 401 then ''Unauthorized'' else if code = 403 then ''Forbidden''
     else if code = 405 then ''Method Not Allowed'' else if code = 404 then ''404 page not found'' else [])"

definition http_error :: "headers \<Rightarrow> nat \<Rightarrow> answer" where
  "http_error h code = Answer code (header_set ''X-Content-Type-Options'' ''nosniff''
     (header_set ''Content-Type'' ''text/plain; charset=utf-8'' h)) (StatusText code @ [CHR 10])"

section \<open>The handlers\<close>

text \<open>\<open>authn.Middleware\<close> as a handler.\<close>

definition gated :: "(string \<Rightarrow> 's \<Rightarrow> (access_error, Principal) result \<times> 's) option \<Rightarrow> 's handler \<Rightarrow> 's handler" where
  "gated validator next_handler h ctx r s = (case Middleware validator (header_get ''Authorization'' (wrHeaders r)) s of
     (Status code, s') \<Rightarrow> (http_error h code, s')
   | (Next p, s') \<Rightarrow> next_handler h (ctx\<lparr>wcPrincipal := Some p\<rparr>) r s'
   | (Aborted, s') \<Rightarrow> (Dropped, s'))"

definition health_text :: "string \<Rightarrow> string" where
  "health_text version = compact (JObj [(''status'', JText ''ok''), (''version'', JText version)]) @ [CHR 10]"

definition handleHealthz :: "string \<Rightarrow> 's handler" where
  "handleHealthz version h ctx r s =
     (if wrMethod r \<noteq> ''GET'' then (http_error (header_set ''Allow'' ''GET'' h) 405, s)
      else (Answer 200 (header_set ''Content-Type'' ''application/json'' h)
        (health_text version), s))"

definition metricsHandler :: "bool \<Rightarrow> bool \<Rightarrow> (string \<Rightarrow> 's \<Rightarrow> (access_error, Principal) result \<times> 's) option \<Rightarrow> 's handler" where
  "metricsHandler recorder auth_required validator =
     (let handler = (\<lambda>h ctx r s. (if recorder then ToMetrics h else http_error h 404, s)) in
      if auth_required then gated validator handler else handler)"

text \<open>\<open>withPrincipalLogging\<close> around \<open>http.MaxBytesHandler\<close>: the MCP handler with a limit on the body.\<close>

definition withPrincipalLogging :: "int \<Rightarrow> 's handler" where
  "withPrincipalLogging limit h ctx r s = (ToMCP \<lparr>meHeaders = h, meContext = ctx, meMaxBody = limit,
     meLogged = map_option (\<lambda>p. (Subject p, wrMethod r, wrPath r)) (wcPrincipal ctx)\<rparr>, s)"

definition mux :: "(string \<times> 's handler) list \<Rightarrow> 's handler" where
  "mux routes h ctx r s = (case map_of routes (wrPath r) of Some handler \<Rightarrow> handler h ctx r s | None \<Rightarrow> (NotRouted h, s))"

definition withCorrelationID :: "string \<Rightarrow> string \<Rightarrow> 's handler \<Rightarrow> 's handler" where
  "withCorrelationID configured fresh next_handler h ctx r s =
     (let name = canonical_name (HeaderName configured); given = TrimSpace (header_get name (wrHeaders r));
          cid = (if given = [] then fresh else given) in
      next_handler (header_set name cid h) (ctx\<lparr>wcCorrelation := ContextWithID (wcCorrelation ctx) cid\<rparr>) r s)"

definition appendVary :: "string \<Rightarrow> headers \<Rightarrow> headers" where
  "appendVary v h = (let current = header_get ''Vary'' h in
     if current = [] then header_set ''Vary'' v h
     else if list_ex (\<lambda>part. EqualFold (TrimSpace part) v) (Split current CHR '','') then h
     else header_set ''Vary'' (current @ '', '' @ v) h)"

definition allowed_origins :: "string list \<Rightarrow> string list" where
  "allowed_origins configured = filter (\<lambda>o'. o' \<noteq> [] \<and> o' \<noteq> ''*'') (map TrimSpace configured)"

definition allow_all :: "string list \<Rightarrow> bool" where
  "allow_all configured \<longleftrightarrow> ''*'' \<in> set (map TrimSpace configured)"

definition hasOrigin :: "string list \<Rightarrow> string \<Rightarrow> bool" where
  "hasOrigin allow origin \<longleftrightarrow> origin \<in> set allow"

definition origin_allowed :: "string list \<Rightarrow> string \<Rightarrow> bool" where
  "origin_allowed configured origin \<longleftrightarrow> origin \<noteq> [] \<and> (allow_all configured \<or> hasOrigin (allowed_origins configured) origin)"

definition cors_headers :: "Config \<Rightarrow> string \<Rightarrow> headers \<Rightarrow> headers" where
  "cors_headers cfg origin h =
     header_set ''Access-Control-Allow-Headers''
       (''Authorization,Content-Type,Accept,Mcp-Session-Id,Last-Event-ID,'' @ HeaderName (cfCorrelationIDHeader cfg))
    (header_set ''Access-Control-Allow-Methods'' ''POST,GET,DELETE,OPTIONS''
    (header_set ''Access-Control-Allow-Origin'' (if allow_all (cfCORSAllowedOrigins cfg) then ''*'' else origin)
    (appendVary ''Origin'' h)))"

definition withCORS :: "Config \<Rightarrow> 's handler \<Rightarrow> 's handler" where
  "withCORS cfg next_handler h ctx r s =
     (if allowed_origins (cfCORSAllowedOrigins cfg) = [] \<and> \<not> allow_all (cfCORSAllowedOrigins cfg) then next_handler h ctx r s
      else (let origin = TrimSpace (header_get ''Origin'' (wrHeaders r)); ok = origin_allowed (cfCORSAllowedOrigins cfg) origin;
                h' = (if ok then cors_headers cfg origin h else h) in
        if wrMethod r = ''OPTIONS'' then (if ok then Answer 204 h' [] else http_error h' 403, s)
        else next_handler h' ctx r s))"

definition newHTTPHandler :: "Config \<Rightarrow> bool \<Rightarrow> (string \<Rightarrow> 's \<Rightarrow> (access_error, Principal) result \<times> 's) option \<Rightarrow> string \<Rightarrow> 's handler" where
  "newHTTPHandler cfg recorder validator fresh =
     withCORS cfg (withCorrelationID (cfCorrelationIDHeader cfg) fresh (mux
       [(''/healthz'', handleHealthz (cfVersion cfg)),
        (''/metrics'', metricsHandler recorder (cfMetricsAuthRequired cfg) validator),
        (''/mcp'', gated validator (withPrincipalLogging (cfHTTPMaxBodyBytes cfg)))]))"

section \<open>The gate\<close>

definition no_context :: web_context where
  "no_context = \<lparr>wcCorrelation = None, wcPrincipal = None\<rparr>"

definition serve :: "Config \<Rightarrow> bool \<Rightarrow> (string \<Rightarrow> 's \<Rightarrow> (access_error, Principal) result \<times> 's) option \<Rightarrow> string
    \<Rightarrow> web_request \<Rightarrow> 's \<Rightarrow> answer \<times> 's" where
  "serve cfg recorder validator fresh r s = newHTTPHandler cfg recorder validator fresh [] no_context r s"

text \<open>The validator accepts the bearer token of the request.\<close>

definition admits :: "(string \<Rightarrow> 's \<Rightarrow> (access_error, Principal) result \<times> 's) option \<Rightarrow> web_request \<Rightarrow> 's \<Rightarrow> Principal \<Rightarrow> bool" where
  "admits validator r s p \<longleftrightarrow> (\<exists>validate t s'. validator = Some validate
     \<and> bearerToken (header_get ''Authorization'' (wrHeaders r)) = Ok t \<and> validate t s = (Ok p, s'))"

text \<open>With cross-origin rules, preflight requests are answered at once.\<close>

definition preflight :: "Config \<Rightarrow> web_request \<Rightarrow> bool" where
  "preflight cfg r \<longleftrightarrow> wrMethod r = ''OPTIONS''
     \<and> (allowed_origins (cfCORSAllowedOrigins cfg) \<noteq> [] \<or> allow_all (cfCORSAllowedOrigins cfg))"

text \<open>What the MCP handler is reached with.\<close>

definition request_id :: "Config \<Rightarrow> string \<Rightarrow> web_request \<Rightarrow> string" where
  "request_id cfg fresh r =
     (let given = TrimSpace (header_get (canonical_name (HeaderName (cfCorrelationIDHeader cfg))) (wrHeaders r)) in
      if given = [] then fresh else given)"

definition first_headers :: "Config \<Rightarrow> web_request \<Rightarrow> headers" where
  "first_headers cfg r = (let origin = TrimSpace (header_get ''Origin'' (wrHeaders r)) in
     if origin_allowed (cfCORSAllowedOrigins cfg) origin then cors_headers cfg origin [] else [])"

definition routed_headers :: "Config \<Rightarrow> string \<Rightarrow> web_request \<Rightarrow> headers" where
  "routed_headers cfg fresh r = header_set (canonical_name (HeaderName (cfCorrelationIDHeader cfg))) (request_id cfg fresh r) (first_headers cfg r)"

definition expected_entry :: "Config \<Rightarrow> string \<Rightarrow> web_request \<Rightarrow> Principal \<Rightarrow> mcp_entry" where
  "expected_entry cfg fresh r p = \<lparr>meHeaders = routed_headers cfg fresh r,
     meContext = \<lparr>wcCorrelation = ContextWithID None (request_id cfg fresh r), wcPrincipal = Some p\<rparr>,
     meMaxBody = cfHTTPMaxBodyBytes cfg, meLogged = Some (Subject p, wrMethod r, wrPath r)\<rparr>"

lemma no_origins: "allowed_origins cs = [] \<Longrightarrow> \<not> allow_all cs \<Longrightarrow> \<not> origin_allowed cs x"
  by (simp add: origin_allowed_def hasOrigin_def)

text \<open>A request is a preflight, or goes to its route with the first headers and an identifier.\<close>

lemma serve_routes:
  "serve cfg recorder validator fresh r s =
     (if preflight cfg r then (if origin_allowed (cfCORSAllowedOrigins cfg) (TrimSpace (header_get ''Origin'' (wrHeaders r)))
          then Answer 204 (first_headers cfg r) [] else http_error (first_headers cfg r) 403, s)
      else mux
       [(''/healthz'', handleHealthz (cfVersion cfg)),
        (''/metrics'', metricsHandler recorder (cfMetricsAuthRequired cfg) validator),
        (''/mcp'', gated validator (withPrincipalLogging (cfHTTPMaxBodyBytes cfg)))]
       (routed_headers cfg fresh r) \<lparr>wcCorrelation = ContextWithID None (request_id cfg fresh r), wcPrincipal = None\<rparr> r s)"
  using no_origins [of "cfCORSAllowedOrigins cfg" "TrimSpace (header_get ''Origin'' (wrHeaders r))"]
  by (auto simp: serve_def newHTTPHandler_def withCORS_def withCorrelationID_def preflight_def no_context_def first_headers_def
      routed_headers_def request_id_def Let_def)

lemma gated_reaches:
  "fst (gated validator (withPrincipalLogging n) h ctx r s) = ToMCP e \<longleftrightarrow>
     (\<exists>p. admits validator r s p \<and> e = \<lparr>meHeaders = h, meContext = ctx\<lparr>wcPrincipal := Some p\<rparr>, meMaxBody = n,
        meLogged = Some (Subject p, wrMethod r, wrPath r)\<rparr>)"
proof (cases "Middleware validator (header_get ''Authorization'' (wrHeaders r)) s")
  case (Pair d s')
  then show ?thesis
    by (cases d) (auto simp: gated_def admits_def http_error_def withPrincipalLogging_def Middleware_def
        split: option.splits sum.splits prod.splits if_splits)
qed

lemma gated_passes:
  "(\<exists>h'. fst (gated validator (\<lambda>h ctx r s. (ToMetrics h, s)) h ctx r s) = ToMetrics h') \<longleftrightarrow> (\<exists>p. admits validator r s p)"
proof (cases "Middleware validator (header_get ''Authorization'' (wrHeaders r)) s")
  case (Pair d s')
  then show ?thesis
    by (cases d) (auto simp: gated_def admits_def http_error_def Middleware_def
        split: option.splits sum.splits prod.splits if_splits)
qed

text \<open>Each answer of the routes is one of the four, decided by the path.\<close>

lemma routes_to_mcp:
  "fst (mux [(''/healthz'', handleHealthz v), (''/metrics'', metricsHandler recorder required validator),
      (''/mcp'', gated validator (withPrincipalLogging n))] h ctx r s) = ToMCP e
   \<longleftrightarrow> wrPath r = ''/mcp'' \<and> fst (gated validator (withPrincipalLogging n) h ctx r s) = ToMCP e"
proof -
  have health: "fst (handleHealthz v h ctx r s) \<noteq> ToMCP e" by (simp add: handleHealthz_def http_error_def)
  have "fst (gated validator (\<lambda>h ctx r s. (if recorder then ToMetrics h else http_error h 404, s)) h ctx r s) \<noteq> ToMCP e"
    by (cases "Middleware validator (header_get ''Authorization'' (wrHeaders r)) s")
      (auto simp: gated_def http_error_def split: handled.splits)
  then have "fst (metricsHandler recorder required validator h ctx r s) \<noteq> ToMCP e"
    by (auto simp: metricsHandler_def http_error_def Let_def)
  with health show ?thesis by (auto simp: mux_def)
qed

lemma routes_to_metrics:
  "(\<exists>h'. fst (mux [(''/healthz'', handleHealthz v), (''/metrics'', metricsHandler recorder required validator),
      (''/mcp'', gated validator (withPrincipalLogging n))] h ctx r s) = ToMetrics h')
   \<longleftrightarrow> recorder \<and> wrPath r = ''/metrics'' \<and> (if required then \<exists>p. admits validator r s p else True)"
proof -
  have health: "fst (handleHealthz v h ctx r s) \<noteq> ToMetrics h'" for h' by (simp add: handleHealthz_def http_error_def)
  have mcp: "fst (gated validator (withPrincipalLogging n) h ctx r s) \<noteq> ToMetrics h'" for h'
    by (cases "Middleware validator (header_get ''Authorization'' (wrHeaders r)) s")
      (auto simp: gated_def http_error_def withPrincipalLogging_def split: handled.splits)
  have none: "fst (gated validator (\<lambda>h ctx r s. (http_error h 404, s)) h ctx r s) \<noteq> ToMetrics h'" for h'
    by (cases "Middleware validator (header_get ''Authorization'' (wrHeaders r)) s")
      (auto simp: gated_def http_error_def split: handled.splits)
  have "(\<exists>h'. fst (metricsHandler recorder required validator h ctx r s) = ToMetrics h')
      \<longleftrightarrow> recorder \<and> (if required then \<exists>p. admits validator r s p else True)"
    using gated_passes [of validator h ctx r s] none by (cases recorder) (auto simp: metricsHandler_def http_error_def Let_def)
  with health mcp show ?thesis by (auto simp: mux_def)
qed

text \<open>
  Property C6: the HTTP gate. The MCP handler is reached exactly by requests for \<open>/mcp\<close> that are
  no preflight and whose bearer token the validator accepts, with the principal it gave, the
  body limited as configured and a correlation identifier. The metrics are reached by any request for
  them, or, when the configuration asks for it, by those whose token is accepted.
\<close>

theorem http_gate:
  "(fst (serve cfg recorder validator fresh r s) = ToMCP e \<longleftrightarrow>
      wrPath r = ''/mcp'' \<and> \<not> preflight cfg r \<and> (\<exists>p. admits validator r s p \<and> e = expected_entry cfg fresh r p))
   \<and> ((\<exists>h. fst (serve cfg recorder validator fresh r s) = ToMetrics h) \<longleftrightarrow>
      recorder \<and> wrPath r = ''/metrics'' \<and> \<not> preflight cfg r
      \<and> (if cfMetricsAuthRequired cfg then \<exists>p. admits validator r s p else True))"
proof (cases "preflight cfg r")
  case True
  then show ?thesis by (simp add: serve_routes http_error_def)
next
  case False
  then show ?thesis
    unfolding serve_routes
    by (simp add: routes_to_mcp routes_to_metrics gated_reaches expected_entry_def)
qed

end
