(* ===== verification/Metrics.thy ===== *)
theory Metrics
  imports ToolExecute "HOL-Library.Multiset"
begin

text \<open>
  The metrics (\<open>internal/metrics/prometheus.go\<close>): which operation on which Prometheus series each
  event of a call becomes. The client library is not modelled: a recorder is the list of the
  operations it hands to its registry, and the value of a series is their sum, which is what
  Prometheus documents for counters and gauges.
\<close>

datatype series_op = CounterAdd string "string list" nat | Observe string | GaugeAdd string int

datatype collector = CounterVec string string "string list" | Histogram string string
  | Gauge string string | Counter string string

record PrometheusRecorder =
  rcCollectors :: "collector list"
  rcOps :: "series_op list"

text \<open>Both implementations of the interface.\<close>

datatype recorder = Prometheus "PrometheusRecorder option" | NoopRecorder

definition normalizeLabelValue :: "string \<Rightarrow> string" where
  "normalizeLabelValue v = (let v = TrimSpace v in if v = [] then ''unknown'' else v)"

definition NewPrometheusRecorder :: recorder where
  "NewPrometheusRecorder = Prometheus (Some
     \<lparr>rcCollectors =
        [CounterVec ''mcp_execute_total'' ''Total number of successful upstream execute calls.''
           [''operationId'', ''method'', ''status''],
         CounterVec ''mcp_execute_errors_total'' ''Total number of execute errors grouped by code.'' [''code''],
         Histogram ''mcp_execute_duration_seconds'' ''Duration of swagger.http.execute calls in seconds.'',
         Gauge ''mcp_execute_inflight'' ''Current number of in-flight swagger.http.execute calls.'',
         Counter ''mcp_rate_limited_total'' ''Total number of execute calls rejected by rate limiting.''],
      rcOps = [CounterAdd ''mcp_execute_total'' [''unknown'', ''UNKNOWN'', ''0''] 0,
         CounterAdd ''mcp_execute_errors_total'' [''unknown''] 0]\<rparr>)"

definition NewNoopRecorder :: recorder where
  "NewNoopRecorder = NoopRecorder"

definition recorded_op :: "series_op \<Rightarrow> recorder \<Rightarrow> recorder" where
  "recorded_op x r = (case r of
     Prometheus (Some p) \<Rightarrow> Prometheus (Some (p\<lparr>rcOps := rcOps p @ [x]\<rparr>))
   | Prometheus None \<Rightarrow> r | NoopRecorder \<Rightarrow> r)"

definition IncExecuteTotal :: "string \<Rightarrow> string \<Rightarrow> int \<Rightarrow> recorder \<Rightarrow> recorder" where
  "IncExecuteTotal oid meth status = recorded_op (CounterAdd ''mcp_execute_total''
     [normalizeLabelValue oid, normalizeLabelValue (ToUpper (TrimSpace meth)), Itoa status] 1)"

definition IncExecuteError :: "string \<Rightarrow> recorder \<Rightarrow> recorder" where
  "IncExecuteError code = recorded_op (CounterAdd ''mcp_execute_errors_total'' [normalizeLabelValue code] 1)"

definition ObserveExecuteDuration :: "recorder \<Rightarrow> recorder" where
  "ObserveExecuteDuration = recorded_op (Observe ''mcp_execute_duration_seconds'')"

definition IncExecuteInflight :: "recorder \<Rightarrow> recorder" where
  "IncExecuteInflight = recorded_op (GaugeAdd ''mcp_execute_inflight'' 1)"

definition DecExecuteInflight :: "recorder \<Rightarrow> recorder" where
  "DecExecuteInflight = recorded_op (GaugeAdd ''mcp_execute_inflight'' (- 1))"

definition IncRateLimitedTotal :: "recorder \<Rightarrow> recorder" where
  "IncRateLimitedTotal = recorded_op (CounterAdd ''mcp_rate_limited_total'' [] 1)"

text \<open>The event of a call, as the method it calls.\<close>

definition record_metric :: "metric \<Rightarrow> recorder \<Rightarrow> recorder" where
  "record_metric m = (case m of
     IncInflight \<Rightarrow> IncExecuteInflight | DecInflight \<Rightarrow> DecExecuteInflight
   | ObserveDuration \<Rightarrow> ObserveExecuteDuration | IncError code \<Rightarrow> IncExecuteError code
   | IncRateLimited \<Rightarrow> IncRateLimitedTotal | IncTotal oid meth status \<Rightarrow> IncExecuteTotal oid meth status)"

text \<open>What \<open>/metrics\<close> is served from: a registry of its own, the global one, or nothing.\<close>

datatype metrics_page = OwnRegistry PrometheusRecorder | DefaultRegistry | NotFoundHandler

definition Handler :: "recorder \<Rightarrow> metrics_page" where
  "Handler r = (case r of Prometheus (Some p) \<Rightarrow> OwnRegistry p | Prometheus None \<Rightarrow> DefaultRegistry | NoopRecorder \<Rightarrow> NotFoundHandler)"

section \<open>The value of a series\<close>

definition recorder_ops :: "recorder \<Rightarrow> series_op list" where
  "recorder_ops r = (case r of Prometheus (Some p) \<Rightarrow> rcOps p | Prometheus None \<Rightarrow> [] | NoopRecorder \<Rightarrow> [])"

fun counter_part :: "string \<Rightarrow> (string list \<Rightarrow> bool) \<Rightarrow> series_op \<Rightarrow> nat" where
  "counter_part name P (CounterAdd n ls k) = (if n = name \<and> P ls then k else 0)"
| "counter_part name P (Observe n) = 0"
| "counter_part name P (GaugeAdd n k) = 0"

fun gauge_part :: "string \<Rightarrow> series_op \<Rightarrow> int" where
  "gauge_part name (GaugeAdd n k) = (if n = name then k else 0)"
| "gauge_part name (CounterAdd n ls k) = 0"
| "gauge_part name (Observe n) = 0"

fun observed_part :: "string \<Rightarrow> series_op \<Rightarrow> nat" where
  "observed_part name (Observe n) = (if n = name then 1 else 0)"
| "observed_part name (CounterAdd n ls k) = 0"
| "observed_part name (GaugeAdd n k) = 0"

text \<open>The sum of a counter over the label values chosen, a gauge, the count of a histogram.\<close>

definition counter_value :: "string \<Rightarrow> (string list \<Rightarrow> bool) \<Rightarrow> recorder \<Rightarrow> nat" where
  "counter_value name P r = sum_list (map (counter_part name P) (recorder_ops r))"

definition gauge_value :: "string \<Rightarrow> recorder \<Rightarrow> int" where
  "gauge_value name r = sum_list (map (gauge_part name) (recorder_ops r))"

definition observed :: "string \<Rightarrow> recorder \<Rightarrow> nat" where
  "observed name r = sum_list (map (observed_part name) (recorder_ops r))"

section \<open>What a call counts\<close>

text \<open>How the events grow when a stage fails with a code.\<close>

definition failed_tally :: "string \<Rightarrow> metric list \<Rightarrow> metric list \<Rightarrow> bool" where
  "failed_tally code ms ms' \<longleftrightarrow> ms' = ms \<or> code = ''rate_limited'' \<and> ms' = ms @ [IncRateLimited]"

definition limits :: "'a step \<Rightarrow> bool" where
  "limits f \<longleftrightarrow> (\<forall>s. case f s of (Ok a, s') \<Rightarrow> csMetrics s' = csMetrics s
     | (Err (code, m, d), s') \<Rightarrow> failed_tally code (csMetrics s) (csMetrics s'))"

definition finishes :: "'a step \<Rightarrow> bool" where
  "finishes f \<longleftrightarrow> (\<forall>s. case f s of (Ok a, s') \<Rightarrow> (\<exists>oid meth status. csMetrics s' = csMetrics s @ [IncTotal oid meth status])
     | (Err (code, m, d), s') \<Rightarrow> failed_tally code (csMetrics s) (csMetrics s'))"

lemma finishes_andThen: "limits f \<Longrightarrow> (\<And>a. finishes (g a)) \<Longrightarrow> finishes (andThen f g)"
  unfolding finishes_def limits_def andThen_def
  by (fastforce split: prod.splits sum.splits)

lemma limits_basic [simp]: "limits (fail code m d)" "limits (give a)"
  by (simp_all add: limits_def fail_def give_def failed_tally_def)

lemma limits_stages [simp]: "limits (find_endpoint t input)" "limits (choose_base t inp ep)"
  "limits (build_call t inp ep base)" "limits (check_url t p)" "limits (check_schema t ep p)"
  by (simp_all add: find_endpoint_def choose_base_def build_call_def check_url_def check_schema_def
      split: option.split sum.split)

lemma limits_effects [simp]: "limits (correlate t ctx p)" "limits (use_confirmation ctx inp p reason)"
  "limits (send t ctx p)"
  by (simp_all add: limits_def failed_tally_def correlate_def use_confirmation_def send_def send_failure_def fail_def Let_def
      split: option.split sum.split prod.split doer_error.split)

lemma limits_authorize [simp]: "limits (authorize t ctx inp p)"
  by (simp add: authorize_def split: sum.split)

lemma finishes_respond: "finishes (respond t ctx ep p resp)"
  by (simp add: finishes_def failed_tally_def respond_def fail_def Let_def split: sum.split prod.split)

lemma finishes_run_call: "finishes (run_call t ctx input)"
  unfolding run_call_def
  by (intro finishes_andThen limits_stages limits_effects limits_authorize; simp add: case_prod_beta;
      intro finishes_andThen limits_stages limits_effects limits_authorize finishes_respond)

text \<open>The events of a whole call, and the code it failed with.\<close>

definition call_events :: "SwaggerExecuteTool \<times> call_context \<times> any \<times> MemoryStore option \<Rightarrow> metric list" where
  "call_events c = (case c of (t, ctx, input, store) \<Rightarrow> csMetrics (snd (snd (Execute t ctx input store))))"

lemma call_events_cases:
  obtains (success) oid meth status where "call_events c = [IncInflight, IncTotal oid meth status, ObserveDuration, DecInflight]"
  | (failure) code where "call_events c = [IncInflight, IncError code, ObserveDuration, DecInflight]"
  | (limited) "call_events c = [IncInflight, IncRateLimited, IncError ''rate_limited'', ObserveDuration, DecInflight]"
proof -
  obtain t ctx input store where c: "c = (t, ctx, input, store)" by (cases c) auto
  let ?s0 = "\<lparr>csEntry = first_entry ctx, csConfirmations = store, csSent = [], csMetrics = [IncInflight]\<rparr>"
  obtain r s' where run: "run_call t ctx input ?s0 = (r, s')" by fastforce
  have fin: "case (r, s') of (Ok a, s') \<Rightarrow> (\<exists>oid meth status. csMetrics s' = [IncInflight] @ [IncTotal oid meth status])
     | (Err (code, m, d), s') \<Rightarrow> failed_tally code [IncInflight] (csMetrics s')"
    using finishes_run_call [of t ctx input, unfolded finishes_def, rule_format, of ?s0] run by (auto split: sum.splits)
  show thesis
  proof (cases r)
    case (Inl e)
    obtain code m d where e: "e = (code, m, d)" by (cases e) auto
    with Inl fin have "failed_tally code [IncInflight] (csMetrics s')" by simp
    with Inl e run c failure limited show thesis by (auto simp: call_events_def Execute_def failed_tally_def)
  next
    case (Inr v)
    with fin run c success show thesis by (auto simp: call_events_def Execute_def)
  qed
qed

section \<open>Counting the calls\<close>

text \<open>The operation an event becomes.\<close>

definition op_of :: "metric \<Rightarrow> series_op" where
  "op_of m = (case m of
     IncInflight \<Rightarrow> GaugeAdd ''mcp_execute_inflight'' 1 | DecInflight \<Rightarrow> GaugeAdd ''mcp_execute_inflight'' (- 1)
   | ObserveDuration \<Rightarrow> Observe ''mcp_execute_duration_seconds''
   | IncError code \<Rightarrow> CounterAdd ''mcp_execute_errors_total'' [normalizeLabelValue code] 1
   | IncRateLimited \<Rightarrow> CounterAdd ''mcp_rate_limited_total'' [] 1
   | IncTotal oid meth status \<Rightarrow> CounterAdd ''mcp_execute_total''
       [normalizeLabelValue oid, normalizeLabelValue (ToUpper (TrimSpace meth)), Itoa status] 1)"

lemma recorded_ops: "recorder_ops (fold record_metric es (Prometheus (Some p))) = rcOps p @ map op_of es"
proof (induction es arbitrary: p)
  case (Cons m es)
  have "record_metric m (Prometheus (Some p)) = Prometheus (Some (p\<lparr>rcOps := rcOps p @ [op_of m]\<rparr>))"
    by (cases m) (simp_all add: record_metric_def op_of_def recorded_op_def IncExecuteInflight_def DecExecuteInflight_def
        ObserveExecuteDuration_def IncExecuteError_def IncRateLimitedTotal_def IncExecuteTotal_def)
  with Cons show ?case by simp
qed (simp add: recorder_ops_def)

text \<open>Sums over the events depend only on which calls were made, not on how they were interleaved.\<close>

lemma sum_events:
  fixes f :: "metric \<Rightarrow> 'a :: comm_monoid_add"
  assumes "mset es = sum_list (map (\<lambda>c. mset (call_events c)) calls)"
  shows "sum_list (map f es) = sum_list (map (\<lambda>c. sum_list (map f (call_events c))) calls)"
proof -
  have "sum_list (map f es) = sum_mset (image_mset f (mset es))"
    by (metis mset_map sum_mset_sum_list)
  also have "\<dots> = sum_list (map (\<lambda>c. sum_mset (image_mset f (mset (call_events c)))) calls)"
    unfolding assms by (induction calls) simp_all
  also have "\<dots> = sum_list (map (\<lambda>c. sum_list (map f (call_events c))) calls)"
    by (simp add: sum_mset_sum_list flip: mset_map)
  finally show ?thesis .
qed

lemma label_rate_limited [simp]: "normalizeLabelValue ''rate_limited'' = ''rate_limited''"
  by code_simp

definition recorded :: "metric list \<Rightarrow> recorder" where
  "recorded es = fold record_metric es NewPrometheusRecorder"

lemma recorded_values:
  "counter_value name P (recorded es) = sum_list (map (counter_part name P \<circ> op_of) es)"
  "gauge_value name (recorded es) = sum_list (map (gauge_part name \<circ> op_of) es)"
  "observed name (recorded es) = sum_list (map (observed_part name \<circ> op_of) es)"
  by (simp_all add: counter_value_def gauge_value_def observed_def recorded_def NewPrometheusRecorder_def recorded_ops)

lemma call_counts:
  "sum_list (map (counter_part ''mcp_execute_total'' (\<lambda>ls. True) \<circ> op_of) (call_events c))
     + sum_list (map (counter_part ''mcp_execute_errors_total'' (\<lambda>ls. True) \<circ> op_of) (call_events c)) = 1"
  "sum_list (map (observed_part ''mcp_execute_duration_seconds'' \<circ> op_of) (call_events c)) = 1"
  "sum_list (map (gauge_part ''mcp_execute_inflight'' \<circ> op_of) (call_events c)) = 0"
  "sum_list (map (counter_part ''mcp_rate_limited_total'' (\<lambda>ls. True) \<circ> op_of) (call_events c))
     \<le> sum_list (map (counter_part ''mcp_execute_errors_total'' (\<lambda>ls. ls = [''rate_limited'']) \<circ> op_of) (call_events c))"
  by (cases c rule: call_events_cases; simp add: op_of_def)+

text \<open>
  Property C33: the metrics add up. However the events of any calls are interleaved, once they are all
  recorded the calls counted as successful and those counted as errors are together the calls made, each
  has its duration observed, none is left in flight, and the calls counted as rate limited are among the
  errors with that code.
\<close>

theorem metrics_add_up:
  assumes "mset es = sum_list (map (\<lambda>c. mset (call_events c)) calls)"
  shows "counter_value ''mcp_execute_total'' (\<lambda>ls. True) (recorded es)
       + counter_value ''mcp_execute_errors_total'' (\<lambda>ls. True) (recorded es) = length calls
     \<and> observed ''mcp_execute_duration_seconds'' (recorded es) = length calls
     \<and> gauge_value ''mcp_execute_inflight'' (recorded es) = 0
     \<and> counter_value ''mcp_rate_limited_total'' (\<lambda>ls. True) (recorded es)
        \<le> counter_value ''mcp_execute_errors_total'' (\<lambda>ls. ls = [''rate_limited'']) (recorded es)"
proof -
  let ?ok = "\<lambda>c. sum_list (map (counter_part ''mcp_execute_total'' (\<lambda>ls. True) \<circ> op_of) (call_events c))"
  let ?bad = "\<lambda>c. sum_list (map (counter_part ''mcp_execute_errors_total'' (\<lambda>ls. True) \<circ> op_of) (call_events c))"
  have one: "(\<Sum>c\<leftarrow>calls. 1) = length calls"
    by (induction calls) simp_all
  have "sum_list (map ?ok calls) + sum_list (map ?bad calls) = (\<Sum>c\<leftarrow>calls. ?ok c + ?bad c)"
    by (rule sum_list_addf [symmetric])
  also have "\<dots> = length calls" unfolding call_counts(1) by (rule one)
  finally have both: "sum_list (map ?ok calls) + sum_list (map ?bad calls) = length calls" .
  have durations: "(\<Sum>c\<leftarrow>calls. sum_list (map (observed_part ''mcp_execute_duration_seconds'' \<circ> op_of) (call_events c))) = length calls"
    unfolding call_counts(2) by (rule one)
  show ?thesis
    unfolding recorded_values sum_events [OF assms]
    using both durations by (simp add: call_counts(3,4) sum_list_mono)
qed

definition two_calls :: "(SwaggerExecuteTool \<times> call_context \<times> any \<times> MemoryStore option) list" where
  "two_calls = [(demo_tool, demo_context, demo_input, None), (demo_tool, demo_context, ANil, None)]"

lemma metrics_add_up_witness:
  "gauge_value ''mcp_execute_inflight'' (recorded (concat (map call_events two_calls))) = 0
   \<and> observed ''mcp_execute_duration_seconds'' (recorded (concat (map call_events two_calls))) = 2"
proof -
  have "mset (concat (map call_events two_calls)) = sum_list (map (\<lambda>c. mset (call_events c)) two_calls)"
    by (simp add: two_calls_def)
  from metrics_add_up [OF this] show ?thesis by (simp add: two_calls_def)
qed

end
