(* ===== verification/Wiring.thy ===== *)
theory Wiring
  imports McpServer HttpHandlers Metrics Gateway SwaggerLoader SwaggerParser AuthJwt AuthIntrospection
    UpstreamAuth ToolSearch ToolGenerate HttpCalls Cli
begin

text \<open>
  The assembly of the program (\<open>cmd/mcp-server/main.go\<close>): what each \<open>build\<close> function makes of the
  configuration, the checks at start-up, the eleven tools as the registry gets them, and the
  server as a whole, on one state of the world.
\<close>

section \<open>The outside\<close>

text \<open>
  What the program asks of its surroundings, by the number of the tool call it serves: its
  context and clock, random bytes, the upstream service behind the HTTP client, the token
  endpoint, DNS; and, by the number of the query, the file system and network that
  the specification is loaded from.
\<close>

record surroundings =
  suCodec :: codec
  suDepth :: nat
  suRandom :: "int \<Rightarrow> nat \<Rightarrow> int \<Rightarrow> int"
  suContext :: "nat \<Rightarrow> call_context"
  suNow :: "nat \<Rightarrow> time \<times> time"
  suRandomBytes :: "nat \<Rightarrow> (string, byte list) result"
  suDoer :: "nat \<Rightarrow> string \<Rightarrow> HttpRequest \<Rightarrow> (doer_error, HttpResponse) result"
  suTokens :: "nat \<Rightarrow> transport \<times> json_decoder \<times> time \<times> time"
  suResolver :: "nat \<Rightarrow> resolver"
  suStartResolver :: resolver
  suLoadResolver :: "nat \<Rightarrow> resolver"
  suFiles :: "nat \<Rightarrow> string \<Rightarrow> (string, opened_file) result"
  suNetwork :: "nat \<Rightarrow> network"
  suDecoders :: Decoders
  suLibrary :: OpenAPILib
  suClock :: "nat \<Rightarrow> time"

section \<open>The parts\<close>

datatype startup_error = ConfigInvalid string | TargetBlocked string guard_error | SwaggerUnavailable swagger_error
  | CredentialsInvalid auth_error | ValidatorInvalid string | Unsupported string

definition buildSwaggerGuard :: "Config \<Rightarrow> Guard option" where
  "buildSwaggerGuard cfg = Some (NewGuard \<lparr>AllowedHosts = cfSwaggerAllowedHosts cfg, BlockPrivateNetworks = cfBlockPrivateNetworks cfg\<rparr>)"

definition buildUpstreamGuard :: "Config \<Rightarrow> Guard option" where
  "buildUpstreamGuard cfg = Some (NewGuard \<lparr>AllowedHosts = cfUpstreamAllowedHosts cfg, BlockPrivateNetworks = cfBlockPrivateNetworks cfg\<rparr>)"

text \<open>\<open>guard.ValidateURL\<close> as the function that other parts get: None lets the URL through.\<close>

definition guard_validator :: "Guard \<Rightarrow> resolver \<Rightarrow> url_validator" where
  "guard_validator g resolve url = (case NetGuard.ValidateURL g resolve url of Ok u \<Rightarrow> None | Err e \<Rightarrow> Some (guard_error_text e))"

definition policy_settings :: "Config \<Rightarrow> PolicyConfig" where
  "policy_settings cfg = \<lparr>cfgMode = cfMCPAPIMode cfg, cfgAllowedMethods = cfAllowedMethods cfg,
     cfgDeniedMethods = cfDeniedMethods cfg, cfgAllowedOperationIDs = cfAllowedOperationIDs cfg,
     cfgDeniedOperationIDs = cfDeniedOperationIDs cfg, cfgRequireConfirmationForWrite = cfRequireConfirmationForWrite cfg\<rparr>"

definition buildPolicyEvaluator :: "Config \<Rightarrow> DefaultEvaluator" where
  "buildPolicyEvaluator cfg = NewEvaluator (policy_settings cfg)"

definition buildHTTPDoer :: "Config \<Rightarrow> resolver \<Rightarrow> Guard option \<Rightarrow> Client" where
  "buildHTTPDoer cfg resolve g = NewClient \<lparr>Timeout = cfHTTPTimeout cfg, MaxConcurrent = cfMaxConcurrentCalls cfg,
     MaxCallsPerMinute = cfMaxCallsPerMinute cfg, MaxConcurrentPerKey = cfMaxConcurrentCallsPerPrincipal cfg,
     MaxCallsPerMinutePerKey = cfMaxCallsPerMinutePerPrincipal cfg, MaxRequestBytes = cfMaxRequestBytes cfg,
     ValidateURL = map_option (\<lambda>g. guard_validator g resolve) g\<rparr>"

definition buildAuditLogger :: "Config \<Rightarrow> SlogLogger" where
  "buildAuditLogger cfg = NewLogger (cfAuditLog cfg) (cfRedactHeaders cfg) (cfRedactJSONFields cfg)"

text \<open>The credentials for the upstream service, and what each kind does to a request.\<close>

datatype provider = NoopProvider | BearerProvider StaticBearerProvider | KeyProvider APIKeyProvider | TokenProvider OAuthProvider

definition buildUpstreamAuthProvider :: "Config \<Rightarrow> (startup_error, provider) result" where
  "buildUpstreamAuthProvider cfg =
     (let mode = ToLower (TrimSpace (cfUpstreamAuthMode cfg)) in
      if mode = [] \<or> mode = ''none'' then Ok NoopProvider
      else if mode = ''static_bearer'' then (case NewStaticBearerProvider (cfUpstreamBearerToken cfg) of
          Err e \<Rightarrow> Err (CredentialsInvalid e) | Ok p \<Rightarrow> Ok (BearerProvider p))
      else if mode = ''api_key'' then (case NewAPIKeyProvider (cfUpstreamAPIKeyHeader cfg) (cfUpstreamAPIKeyValue cfg) of
          Err e \<Rightarrow> Err (CredentialsInvalid e) | Ok p \<Rightarrow> Ok (KeyProvider p))
      else if mode = ''oauth_client_credentials'' then (case NewOAuthClientCredentialsProvider
          \<lparr>optTokenURL = cfUpstreamOAuthTokenURL cfg, optClientID = cfUpstreamOAuthClientID cfg,
           optClientSecret = cfUpstreamOAuthClientSecret cfg, optScopes = cfUpstreamOAuthScopes cfg,
           optAudience = cfUpstreamOAuthAudience cfg, optCacheTTL = cfUpstreamOAuthTokenCacheTTL cfg\<rparr> of
          Err e \<Rightarrow> Err (CredentialsInvalid e) | Ok p \<Rightarrow> Ok (TokenProvider p))
      else Err (Unsupported ''unsupported UPSTREAM_AUTH_MODE: use none|oauth_client_credentials|static_bearer|api_key''))"

definition provider_apply :: "transport \<times> json_decoder \<times> time \<times> time \<Rightarrow> provider \<Rightarrow> HttpRequest option
    \<Rightarrow> (string, HttpRequest option) result \<times> provider" where
  "provider_apply tk p req = (case p of
     NoopProvider \<Rightarrow> (case NoopApply req of Ok r \<Rightarrow> (Ok r, p) | Err e \<Rightarrow> (Err [], p))
   | BearerProvider b \<Rightarrow> (Ok (BearerApply b req), p)
   | KeyProvider k \<Rightarrow> (Ok (APIKeyApply k req), p)
   | TokenProvider o' \<Rightarrow> (case tk of (send_token, decode, now, later) \<Rightarrow>
       (case OAuthApply send_token decode now later o' req of (r, o'') \<Rightarrow> (r, TokenProvider o''))))"

text \<open>The validator of inbound tokens.\<close>

datatype inbound = Jwks JWTJWKSValidator | Introspection IntrospectionValidator

definition buildValidator :: "Config \<Rightarrow> (startup_error, inbound) result" where
  "buildValidator cfg =
     (let mode = OAuthMode cfg in
      if mode = ''jwks'' then (case NewJWTJWKSValidator
          \<lparr>jOptIssuer = cfInboundOAuthIssuer cfg, jOptAudience = cfInboundOAuthAudience cfg,
           jOptJWKSURL = cfInboundOAuthJWKSURL cfg, jOptRequiredScopes = cfInboundOAuthRequiredScopes cfg,
           jOptCacheTTL = cfInboundOAuthJWKSCacheTTL cfg\<rparr> of
          Err e \<Rightarrow> Err (ValidatorInvalid e) | Ok v \<Rightarrow> Ok (Jwks v))
      else if mode = ''introspection'' then (case NewIntrospectionValidator
          \<lparr>optIntrospectionURL = cfInboundOAuthIntrospectionURL cfg, optIClientID = cfInboundOAuthClientID cfg,
           optIClientSecret = cfInboundOAuthClientSecret cfg, optIIssuer = cfInboundOAuthIssuer cfg,
           optIAudience = cfInboundOAuthAudience cfg, optIRequiredScopes = cfInboundOAuthRequiredScopes cfg,
           optICacheTTL = cfInboundOAuthIntrospectionCacheTTL cfg\<rparr> of
          Err e \<Rightarrow> Err (ValidatorInvalid e) | Ok v \<Rightarrow> Ok (Introspection v))
      else Err (Unsupported (''streamable transport requires inbound OAuth config ''
        @ ''(set INBOUND_OAUTH_JWKS_URL or INBOUND_OAUTH_INTROSPECTION_URL)'')))"

text \<open>The transport: on stdio no token is ever checked.\<close>

datatype transport_kind = Stdio StdioServer | Streamable StreamableServer inbound

definition buildTransport :: "Config \<Rightarrow> (startup_error, transport_kind) result" where
  "buildTransport cfg =
     (let kind = ToLower (TrimSpace (cfTransport cfg)) in
      if kind = [] \<or> kind = ''stdio'' then Ok (Stdio NewStdio)
      else if kind = ''streamable''
      then (case buildValidator cfg of Err e \<Rightarrow> Err e | Ok v \<Rightarrow> Ok (Streamable NewStreamable v))
      else Err (Unsupported ''unsupported TRANSPORT: use stdio or streamable''))"

datatype log_level = LevelDebug | LevelInfo | LevelWarn | LevelError

definition configureLogger :: "string \<Rightarrow> log_level" where
  "configureLogger level = (let l = ToLower (TrimSpace level) in
     if l = ''debug'' then LevelDebug else if l = ''warn'' then LevelWarn
     else if l = ''error'' then LevelError else LevelInfo)"

section \<open>Checks at start-up\<close>

definition plain_http_url :: "string \<Rightarrow> bool" where
  "plain_http_url source = (let raw = TrimSpace source in
     if raw = [] then False
     else (case parse_url raw of
         Err e \<Rightarrow> False
       | Ok u \<Rightarrow> (let scheme = ToLower (TrimSpace (Scheme u)) in
           if scheme \<noteq> ''http'' \<and> scheme \<noteq> ''https'' then False
           else HasPrefix (ToLower raw) (scheme @ ''://''))))"

definition check_target :: "resolver \<Rightarrow> Guard \<Rightarrow> string \<Rightarrow> string \<Rightarrow> (startup_error, unit) result" where
  "check_target resolve g label url = (case NetGuard.ValidateURL g resolve url of
     Err e \<Rightarrow> Err (TargetBlocked label e) | Ok u \<Rightarrow> Ok ())"

definition check_optional :: "resolver \<Rightarrow> Guard \<Rightarrow> string \<Rightarrow> string \<Rightarrow> (startup_error, unit) result" where
  "check_optional resolve g label url = (if TrimSpace url = [] then Ok () else check_target resolve g label (TrimSpace url))"

definition validateConfiguredTargets :: "resolver \<Rightarrow> Config \<Rightarrow> Guard option \<Rightarrow> Guard option \<Rightarrow> (startup_error, unit) result" where
  "validateConfiguredTargets resolve cfg swaggerGuard upstreamGuard = (case (upstreamGuard, swaggerGuard) of
     (Some ug, Some sg) \<Rightarrow>
      (case check_optional resolve ug ''UPSTREAM_BASE_URL'' (cfUpstreamBaseURL cfg) of Err e \<Rightarrow> Err e | Ok u \<Rightarrow>
      (case check_optional resolve ug ''UPSTREAM_SANDBOX_BASE_URL'' (cfUpstreamSandboxBaseURL cfg) of Err e \<Rightarrow> Err e | Ok u \<Rightarrow>
      (case check_optional resolve ug ''SWAGGER_BASE_URL'' (cfSwaggerBaseURL cfg) of Err e \<Rightarrow> Err e | Ok u \<Rightarrow>
       if plain_http_url (cfSwaggerPath cfg) then check_target resolve sg ''SWAGGER_PATH'' (cfSwaggerPath cfg) else Ok ())))
   | _ \<Rightarrow> Ok ())"

text \<open>The servers an operation names, with their labels; each URL is checked once.\<close>

definition operation_targets :: "ResolvedOperation \<Rightarrow> (string \<times> string) list" where
  "operation_targets ep = map (Pair (''swagger server for operation '' @ OperationID ep)) (Servers ep)
     @ [(''swagger baseURL for operation '' @ OperationID ep, BaseURL ep)]"

fun check_targets :: "resolver \<Rightarrow> Guard \<Rightarrow> string list \<Rightarrow> (string \<times> string) list \<Rightarrow> (startup_error, unit) result" where
  "check_targets resolve g seen [] = Ok ()"
| "check_targets resolve g seen ((label, rawURL) # rest) =
     (let url = TrimSpace rawURL in
      if url = [] \<or> \<not> plain_http_url url \<or> url \<in> set seen then check_targets resolve g seen rest
      else (case check_target resolve g label url of
          Err e \<Rightarrow> Err e | Ok u \<Rightarrow> check_targets resolve g (url # seen) rest))"

definition validateSwaggerTargets :: "resolver \<Rightarrow> Config \<Rightarrow> 'w swagger_api \<Rightarrow> Guard option \<Rightarrow> 'w
    \<Rightarrow> (startup_error, unit) result \<times> 'w" where
  "validateSwaggerTargets resolve cfg api upstreamGuard w = (case upstreamGuard of
     None \<Rightarrow> (Ok (), w)
   | Some g \<Rightarrow>
      if TrimSpace (cfSwaggerPath cfg) = [] then (Ok (), w)
      else (case apListEndpoints api w of
          (Err e, w') \<Rightarrow> (Err (SwaggerUnavailable e), w')
        | (Ok eps, w') \<Rightarrow> (check_targets resolve g [] (concat (map operation_targets eps)), w')))"

text \<open>What the checks mean.\<close>

definition url_passes :: "resolver \<Rightarrow> Guard \<Rightarrow> string \<Rightarrow> bool" where
  "url_passes resolve g url \<longleftrightarrow> NetGuard.ValidateURL g resolve url = Ok ()"

lemma check_target_Ok [simp]: "check_target resolve g label url = Ok () \<longleftrightarrow> url_passes resolve g url"
  by (simp add: check_target_def url_passes_def split: sum.split)

lemma url_passes_trims: "url_passes resolve g (TrimSpace url) = url_passes resolve g url"
  by (simp add: url_passes_def NetGuard.ValidateURL_def)

lemma check_optional_Ok [simp]:
  "check_optional resolve g label url = Ok () \<longleftrightarrow> (TrimSpace url = [] \<or> url_passes resolve g url)"
  by (simp add: check_optional_def url_passes_trims)

lemma plain_trims: "plain_http_url (TrimSpace url) = plain_http_url url"
  by (simp add: plain_http_url_def)

lemma check_targets_Ok:
  "check_targets resolve g seen ts = Ok () \<longleftrightarrow>
     (\<forall>url \<in> snd ` set ts. plain_http_url url \<and> TrimSpace url \<notin> set seen \<longrightarrow> url_passes resolve g url)"
proof (induction resolve g seen ts rule: check_targets.induct)
  case (2 resolve g seen label rawURL rest)
  have blank: "TrimSpace rawURL = [] \<Longrightarrow> \<not> plain_http_url rawURL" by (simp add: plain_http_url_def)
  show ?case
  proof (cases "TrimSpace rawURL = [] \<or> \<not> plain_http_url rawURL \<or> TrimSpace rawURL \<in> set seen")
    case True
    with 2(1) [OF refl] blank show ?thesis by (auto simp: Let_def plain_trims)
  next
    case False
    note more = this
    show ?thesis
    proof (cases "url_passes resolve g rawURL")
      case True
      then have check: "check_target resolve g label (TrimSpace rawURL) = Ok ()" by (simp add: url_passes_trims)
      have same: "url_passes resolve g u" if "TrimSpace u = TrimSpace rawURL" for u
        using True that by (metis url_passes_trims)
      have "check_targets resolve g seen ((label, rawURL) # rest) = check_targets resolve g (TrimSpace rawURL # seen) rest"
        using more check by (simp add: Let_def plain_trims del: check_target_Ok)
      with 2(2) [OF refl _ check] more same True show ?thesis by (auto simp: plain_trims)
    next
      case False
      then have "check_target resolve g label (TrimSpace rawURL) \<noteq> Ok ()" by (simp add: url_passes_trims)
      then obtain e where "check_target resolve g label (TrimSpace rawURL) = Err e"
        by (cases "check_target resolve g label (TrimSpace rawURL)") auto
      with more False show ?thesis by (auto simp: Let_def plain_trims)
    qed
  qed
qed simp

section \<open>The world and the store of operations\<close>

text \<open>
  Everything that changes while the server runs: the cached specification, the confirmations,
  the token of the upstream credentials, the metrics, the audit log, the number of calls, and
  the requests handed to the HTTP client. The model also keeps, newest first, the entries of the calls
  that handed one over, before redaction.
\<close>

record app_world =
  awSource :: source_world
  awConfirmations :: "MemoryStore option"
  awProvider :: provider
  awRecorder :: recorder
  awAudit :: "Entry list"
  awCall :: nat
  awSent :: "HttpRequest list"
  awHistory :: "Entry list"

definition on_source :: "(source_world \<Rightarrow> 'a \<times> source_world) \<Rightarrow> app_world \<Rightarrow> 'a \<times> app_world" where
  "on_source f w = (case f (awSource w) of (r, s) \<Rightarrow> (r, w\<lparr>awSource := s\<rparr>))"

definition loaded_api :: "app_world swagger_api" where
  "loaded_api = \<lparr>apListEndpoints = on_source (apListEndpoints cached_api),
     apListByMethod = (\<lambda>m. on_source (apListByMethod cached_api m)),
     apGetOperation = (\<lambda>i. on_source (apGetOperation cached_api i)),
     apGetSchema = (\<lambda>n. on_source (apGetSchema cached_api n)),
     apLookup = (\<lambda>p. on_source (apLookup cached_api p))\<rparr>"

text \<open>What the loader and the parser make of the source at query \<open>n\<close>.\<close>

definition source_loader :: "surroundings \<Rightarrow> Config \<Rightarrow> Guard option \<Rightarrow> nat \<Rightarrow> SourceLoader" where
  "source_loader su cfg g n = NewSourceLoader (cfSwaggerPath cfg) None
     ([Some (WithHTTPTimeout (cfSwaggerHTTPTimeout cfg)), Some (WithMaxBytes (cfSwaggerMaxBytes cfg)),
       Some (WithUserAgent (cfSwaggerUserAgent cfg))]
      @ (case g of None \<Rightarrow> [] | Some g \<Rightarrow> [Some (WithURLValidator (Some (guard_validator g (suLoadResolver su n))))]))"

definition source_loads :: "surroundings \<Rightarrow> Config \<Rightarrow> Guard option \<Rightarrow> nat \<Rightarrow> (swagger_error, Document option) result" where
  "source_loads su cfg g n = (case fst (SourceLoad (suFiles su n) (suNetwork su n) (Some (source_loader su cfg g n))) of
     Err e \<Rightarrow> Err e
   | Ok raw \<Rightarrow> (case Parse (suDecoders su) (suLibrary su) (NewOpenAPIParser (ResolveSwaggerFormat cfg)) raw of
       Err e \<Rightarrow> Err (ErrOther e) | Ok doc \<Rightarrow> Ok (Some doc)))"

definition buildSwaggerStore :: "surroundings \<Rightarrow> Config \<Rightarrow> Guard option \<Rightarrow> app_world swagger_api \<times> source_world" where
  "buildSwaggerStore su cfg g =
     (if TrimSpace (cfSwaggerPath cfg) = [] then noop_api else loaded_api,
      \<lparr>swStore = NewCachedStore (cfSwaggerBaseURL cfg) (cfSwaggerReload cfg) (cfSwaggerCacheTTL cfg), swStep = 0,
       swLoads = source_loads su cfg g, swClock = suClock su\<rparr>)"

section \<open>The tools\<close>

text \<open>The identifier of a confirmation: sixteen random bytes in hexadecimal.\<close>

definition newID :: "(string, byte list) result \<Rightarrow> (string, string) result" where
  "newID bytes = (case bytes of Err e \<Rightarrow> Err e | Ok buf \<Rightarrow> Ok (hex_encode (take 16 buf)))"

text \<open>The tools with a published schema: one call of \<open>Execute\<close> is one step of the world.\<close>

definition app_tool :: "string \<Rightarrow> string \<Rightarrow> (nat \<Rightarrow> any \<Rightarrow> app_world \<Rightarrow> any \<times> app_world) \<Rightarrow> app_world Tool" where
  "app_tool name description f = \<lparr>tlName = name, tlDescription = description, tlInputSchema = toolInputSchema name,
     tlOutputSchema = toolOutputSchema name,
     tlExecute = (\<lambda>input w. case f (awCall w) input (w\<lparr>awCall := Suc (awCall w)\<rparr>) of (out, w') \<Rightarrow> (Ok out, w'))\<rparr>"

text \<open>A tool that looks up at most one operation, the one its input names once it parses.\<close>

definition lookup_at :: "app_world swagger_api \<Rightarrow> app_world \<Rightarrow> string \<Rightarrow> (swagger_error, ResolvedOperation) result" where
  "lookup_at api w i = fst (apGetOperation api i w)"

definition after_lookup :: "app_world swagger_api \<Rightarrow> (string, string) result \<Rightarrow> app_world \<Rightarrow> app_world" where
  "after_lookup api asked w = (case asked of Ok i \<Rightarrow> snd (apGetOperation api i w) | Err e \<Rightarrow> w)"

definition naming :: "(any \<Rightarrow> (string, 'a) result) \<Rightarrow> ('a \<Rightarrow> string) \<Rightarrow> any \<Rightarrow> (string, string) result" where
  "naming parse name input = (case parse input of Err e \<Rightarrow> Err e | Ok inp \<Rightarrow> Ok (name inp))"

definition RequestConfirmationTool :: "surroundings \<Rightarrow> app_world Tool" where
  "RequestConfirmationTool su = app_tool ''policy.request_confirmation''
     ''Creates a human-in-the-loop confirmation request for a pending API execution''
     (\<lambda>n input w. case RequestConfirmation (fst (suNow su n)) (snd (suNow su n)) (newID (suRandomBytes su n)) input (awConfirmations w) of
        (out, store') \<Rightarrow> (out, w\<lparr>awConfirmations := store'\<rparr>))"

definition ConfirmTool :: "surroundings \<Rightarrow> app_world Tool" where
  "ConfirmTool su = app_tool ''policy.confirm'' ''Approves or rejects a pending confirmation request''
     (\<lambda>n input w. case PolicyConfirm (fst (suNow su n)) (snd (suNow su n)) input (awConfirmations w) of
        (out, store') \<Rightarrow> (out, w\<lparr>awConfirmations := store'\<rparr>))"

definition GeneratePayloadTool :: "surroundings \<Rightarrow> app_world swagger_api \<Rightarrow> app_world Tool" where
  "GeneratePayloadTool su api = app_tool ''swagger.http.generate_payload''
     ''Generates params.body from operation request schema (minimal|example|maximal)''
     (\<lambda>n input w. (GenerateExecute (suRandom su) (Some (lookup_at api w)) input,
        after_lookup api (naming parseGeneratePayloadInput giOperationID input) w))"

definition PrepareRequestTool :: "surroundings \<Rightarrow> app_world swagger_api \<Rightarrow> int \<Rightarrow> string \<Rightarrow> app_world Tool" where
  "PrepareRequestTool su api maxBytes agent = app_tool ''swagger.http.prepare_request''
     ''Builds a concrete HTTP request from swagger operationId and unified params''
     (\<lambda>n input w. (PrepareExecute (suCodec su) maxBytes agent (Some (lookup_at api w)) input,
        after_lookup api (naming parseExecuteInput exOperationID input) w))"

definition ValidateRequestTool :: "surroundings \<Rightarrow> app_world swagger_api \<Rightarrow> app_world Tool" where
  "ValidateRequestTool su api = app_tool ''swagger.http.validate_request''
     ''Validates request shape, params and body against swagger operation schema''
     (\<lambda>n input w. (ValidateRequestExecute (suCodec su) (Some (lookup_at api w)) input,
        after_lookup api (naming parseExecuteInput exOperationID input) w))"

definition ValidateResponseTool :: "surroundings \<Rightarrow> app_world swagger_api \<Rightarrow> app_world Tool" where
  "ValidateResponseTool su api = app_tool ''swagger.http.validate_response''
     ''Strictly validates status/body against swagger operation response schema (no HTTP execution)''
     (\<lambda>n input w. (ValidateResponseExecute (suCodec su) (Some (lookup_at api w)) input,
        after_lookup api (naming parseValidateResponseInput vrOperationID input) w))"

text \<open>Search lists the operations; a plan looks one up, or lists them when no identifier is given.\<close>

definition after_listing :: "app_world swagger_api \<Rightarrow> app_world \<Rightarrow> app_world" where
  "after_listing api w = snd (apListEndpoints api w)"

definition SearchTool :: "app_world swagger_api \<Rightarrow> app_world Tool" where
  "SearchTool api = app_tool ''swagger.search'' ''Searches swagger operations by operationId/path/summary/tags''
     (\<lambda>n input w. (SearchExecute (Some (fst (apListEndpoints api w))) input,
        case parseSearchInput input of Err e \<Rightarrow> w | Ok inp \<Rightarrow> after_listing api w))"

definition PlanCallTool :: "app_world swagger_api \<Rightarrow> app_world Tool" where
  "PlanCallTool api = app_tool ''swagger.plan_call'' ''Builds a step-by-step tool plan to call a swagger operation safely''
     (\<lambda>n input w. (PlanExecute (Some (lookup_at api w, fst (apListEndpoints api w))) input,
        case parsePlanCallInput input of Err e \<Rightarrow> w
        | Ok inp \<Rightarrow> if plOperationID inp \<noteq> [] then after_lookup api (Ok (plOperationID inp)) w else after_listing api w))"

text \<open>The tool that executes, with what \<open>main\<close> gives it.\<close>

definition provider_for_call :: "surroundings \<Rightarrow> nat \<Rightarrow> provider \<Rightarrow> HttpRequest \<Rightarrow> (string, HttpRequest) result" where
  "provider_for_call su n p r = (case fst (provider_apply (suTokens su n) p (Some r)) of
     Err e \<Rightarrow> Err e | Ok (Some r') \<Rightarrow> Ok r' | Ok None \<Rightarrow> Ok r)"

definition execute_dependencies :: "surroundings \<Rightarrow> Config \<Rightarrow> Guard \<Rightarrow> app_world swagger_api \<Rightarrow> nat \<Rightarrow> app_world
    \<Rightarrow> SwaggerExecuteDependencies" where
  "execute_dependencies su cfg upstreamGuard api n w =
     \<lparr>dpStore = Some (lookup_at api w), dpPolicy = Some (Evaluate (buildPolicyEvaluator cfg)),
      dpAuthProvider = Some (provider_for_call su n (awProvider w)), dpHTTPDoer = Some (suDoer su n),
      dpOptions = \<lparr>eoMode = cfMCPAPIMode cfg, eoUpstreamBaseURL = cfUpstreamBaseURL cfg,
        eoSandboxBaseURL = cfUpstreamSandboxBaseURL cfg, eoValidateRequest = cfValidateRequest cfg,
        eoValidateResponse = cfValidateResponse cfg, eoMaxRequestBytes = cfMaxRequestBytes cfg,
        eoMaxResponseBytes = cfMaxResponseBytes cfg, eoUserAgent = cfUserAgent cfg,
        eoCorrelationIDHeader = cfCorrelationIDHeader cfg,
        eoValidateURL = Some (guard_validator upstreamGuard (suResolver su n))\<rparr>\<rparr>"

definition execute_tool :: "surroundings \<Rightarrow> Config \<Rightarrow> Guard \<Rightarrow> app_world swagger_api \<Rightarrow> nat \<Rightarrow> app_world \<Rightarrow> SwaggerExecuteTool" where
  "execute_tool su cfg upstreamGuard api n w = NewSwaggerExecuteTool (suCodec su) (execute_dependencies su cfg upstreamGuard api n w)"

text \<open>A token is fetched, and kept, exactly by a call that gets as far as its request.\<close>

definition after_call :: "surroundings \<Rightarrow> SlogLogger \<Rightarrow> nat \<Rightarrow> Entry \<Rightarrow> call_state \<Rightarrow> app_world \<Rightarrow> app_world" where
  "after_call su logger n entry s w = w\<lparr>awConfirmations := csConfirmations s,
     awProvider := (case csSent s of [] \<Rightarrow> awProvider w
       | r # rs \<Rightarrow> snd (provider_apply (suTokens su n) (awProvider w) (Some r))),
     awRecorder := fold record_metric (csMetrics s) (awRecorder w),
     awAudit := awAudit w @ (case LogCall (suCodec su) (suDepth su) (Some logger) entry of None \<Rightarrow> [] | Some line \<Rightarrow> [line]),
     awSent := awSent w @ csSent s,
     awHistory := (if csSent s = [] then awHistory w else entry # awHistory w)\<rparr>"

definition ExecuteTool :: "surroundings \<Rightarrow> Config \<Rightarrow> Guard \<Rightarrow> app_world swagger_api \<Rightarrow> SlogLogger \<Rightarrow> app_world Tool" where
  "ExecuteTool su cfg upstreamGuard api logger = app_tool ''swagger.http.execute''
     ''Executes a real upstream HTTP call through MCP policy, auth, limits and audit''
     (\<lambda>n input w. case Execute (execute_tool su cfg upstreamGuard api n w) (suContext su n) input (awConfirmations w) of
        (out, entry, s) \<Rightarrow>
          (out, after_call su logger n entry s (after_lookup api (naming parseExecuteInput exOperationID input) w)))"

section \<open>The server\<close>

definition gateway_tools :: "surroundings \<Rightarrow> Config \<Rightarrow> Guard \<Rightarrow> app_world swagger_api \<Rightarrow> app_world Tool option list" where
  "gateway_tools su cfg upstreamGuard api = map Some
     [EchoTool, HealthTool (cfVersion cfg), RequestConfirmationTool su, ConfirmTool su, GeneratePayloadTool su api,
      PrepareRequestTool su api (cfMaxRequestBytes cfg) (cfUserAgent cfg), ValidateRequestTool su api,
      ValidateResponseTool su api, SearchTool api, PlanCallTool api,
      ExecuteTool su cfg upstreamGuard api (buildAuditLogger cfg)]"

definition build_service :: "surroundings \<Rightarrow> Config \<Rightarrow> Guard \<Rightarrow> app_world swagger_api \<Rightarrow> app_world service" where
  "build_service su cfg upstreamGuard api = \<lparr>toolRegistry = NewRegistry (gateway_tools su cfg upstreamGuard api),
     promptStore = NewPromptStore [], resourceStore = buildResourceStore (cfSwaggerPath cfg) api\<rparr>"

definition first_world :: "Config \<Rightarrow> source_world \<Rightarrow> provider \<Rightarrow> app_world" where
  "first_world cfg source p = \<lparr>awSource = source, awConfirmations = Some (NewMemoryStore (cfConfirmationTTL cfg)),
     awProvider = p, awRecorder = NewPrometheusRecorder, awAudit = [], awCall = 0, awSent = [], awHistory = []\<rparr>"

text \<open>\<open>main\<close> up to the start of the transport: the first problem ends the program.\<close>

definition main_start :: "surroundings \<Rightarrow> Config \<Rightarrow> (startup_error, app_world service \<times> transport_kind \<times> app_world) result" where
  "main_start su cfg = (case ValidateConfig cfg (suStartResolver su) of
     Err e \<Rightarrow> Err (ConfigInvalid e)
   | Ok u \<Rightarrow> (case (buildSwaggerGuard cfg, buildUpstreamGuard cfg) of
       (sg, ug) \<Rightarrow> (case validateConfiguredTargets (suStartResolver su) cfg sg ug of
         Err e \<Rightarrow> Err e
       | Ok u \<Rightarrow> (case buildSwaggerStore su cfg sg of
           (api, source) \<Rightarrow> (case validateSwaggerTargets (suStartResolver su) cfg api ug (first_world cfg source NoopProvider) of
             (Err e, w) \<Rightarrow> Err e
           | (Ok u, w) \<Rightarrow> (case buildUpstreamAuthProvider cfg of
               Err e \<Rightarrow> Err e
             | Ok p \<Rightarrow> (case buildTransport cfg of
                 Err e \<Rightarrow> Err e
               | Ok kind \<Rightarrow> Ok (build_service su cfg (the ug) api, kind, w\<lparr>awProvider := p\<rparr>))))))))"

section \<open>Any sequence of requests\<close>

text \<open>What clients can ask of the service: to call a tool, to list the resources, to read one.\<close>

inductive served :: "app_world service \<Rightarrow> app_world \<Rightarrow> app_world \<Rightarrow> bool" for svc w0 where
  served_first: "served svc w0 w0"
| served_tool: "served svc w0 w \<Longrightarrow> CallTool svc name input w = (r, w') \<Longrightarrow> served svc w0 w'"
| served_list: "served svc w0 w \<Longrightarrow> ListResources svc w = (ds, w') \<Longrightarrow> served svc w0 w'"
| served_read: "served svc w0 w \<Longrightarrow> GetResource svc uri w = (item, w') \<Longrightarrow> served svc w0 w'"

text \<open>Steps that touch only the cached specification.\<close>

definition source_only :: "app_world \<Rightarrow> app_world \<Rightarrow> bool" where
  "source_only w w' \<longleftrightarrow> w' = w\<lparr>awSource := awSource w'\<rparr>"

lemma source_only_refl [simp]: "source_only w w"
  by (simp add: source_only_def)

lemma source_only_trans: "source_only w w1 \<Longrightarrow> source_only w1 w2 \<Longrightarrow> source_only w w2"
  unfolding source_only_def by (metis app_world.surjective app_world.update_convs(1))

definition keeps_to_source :: "app_world swagger_api \<Rightarrow> bool" where
  "keeps_to_source api \<longleftrightarrow> (\<forall>w. source_only w (snd (apListEndpoints api w)) \<and> (\<forall>m. source_only w (snd (apListByMethod api m w)))
     \<and> (\<forall>i. source_only w (snd (apGetOperation api i w))) \<and> (\<forall>n. source_only w (snd (apGetSchema api n w)))
     \<and> (\<forall>p. source_only w (snd (apLookup api p w))))"

lemma on_source_only: "source_only w (snd (on_source f w))"
  by (simp add: on_source_def source_only_def split: prod.split)

lemma keeps_to_source_api: "keeps_to_source (fst (buildSwaggerStore su cfg g))"
  by (simp add: keeps_to_source_def buildSwaggerStore_def noop_api_def loaded_api_def on_source_only)

section \<open>What each request does to the world\<close>

text \<open>Steps that are no calls leave everything else alone; counting the call is not noticed either.\<close>

definition aside :: "app_world \<Rightarrow> app_world \<Rightarrow> bool" where
  "aside w w' \<longleftrightarrow> awConfirmations w' = awConfirmations w \<and> awHistory w' = awHistory w \<and> awSent w' = awSent w"

lemma aside_refl [simp]: "aside w w" by (simp add: aside_def)

lemma aside_trans: "aside w w1 \<Longrightarrow> aside w1 w2 \<Longrightarrow> aside w w2" by (simp add: aside_def)

lemma source_only_aside: "source_only w w' \<Longrightarrow> aside w w'"
proof -
  assume "source_only w w'"
  then obtain s where "w' = w\<lparr>awSource := s\<rparr>" unfolding source_only_def by blast
  then show ?thesis by (simp add: aside_def)
qed

lemma aside_counted [simp]: "aside w (w\<lparr>awCall := n\<rparr>)" by (simp add: aside_def)

lemma api_aside:
  assumes "keeps_to_source api"
  shows "aside w (snd (apListEndpoints api w))" "aside w (snd (apListByMethod api m w))"
    "aside w (snd (apGetOperation api i w))" "aside w (snd (apGetSchema api n w))" "aside w (snd (apLookup api p w))"
  using assms by (auto simp: keeps_to_source_def intro: source_only_aside)

lemma after_lookup_aside: "keeps_to_source api \<Longrightarrow> aside w (after_lookup api asked w)"
  by (simp add: after_lookup_def api_aside split: sum.split)

text \<open>The resources only read.\<close>

definition reads_only :: "app_world resource_store \<Rightarrow> bool" where
  "reads_only s \<longleftrightarrow> (\<forall>w. aside w (snd (rsList s w)) \<and> (\<forall>i. aside w (snd (rsGet s i w))))"

lemma reads_only_swagger: "keeps_to_source api \<Longrightarrow> reads_only (swagger_resources (Some api))"
proof -
  assume api: "keeps_to_source api"
  have fetch: "aside w (snd (fst (fetch_resource api k w)))" for k w
    by (simp add: fetch_resource_def Let_def api_aside [OF api] split: swagger_kind.split)
  have "aside w (snd (swagger_list (Some api) w))" for w
    using api_aside(1) [OF api, of w] aside_trans [OF api_aside(1) [OF api, of w] api_aside(5) [OF api]]
    by (auto simp: swagger_list_def split: prod.splits sum.splits) (metis snd_conv)
  moreover have "aside w (snd (swagger_get (Some api) i w))" for i w
  proof (cases "parseSwaggerResourceKey i")
    case (Inr k)
    then show ?thesis using fetch [of w k] by (auto simp: swagger_get_def split: prod.split sum.split)
  qed (simp add: swagger_get_def)
  ultimately show ?thesis by (simp add: reads_only_def swagger_resources_def)
qed

lemma reads_only_fixed: "reads_only docs_store" "reads_only (memory_resources rs)"
  by (simp_all add: reads_only_def docs_store_def memory_resources_def)

lemma reads_only_composite: "\<forall>s \<in> set ss. reads_only s \<Longrightarrow> reads_only (composite ss)"
proof -
  have "\<forall>s \<in> set ss. reads_only s \<Longrightarrow> aside w (snd (composite_list ss out w))" for out w
  proof (induction ss arbitrary: out w)
    case (Cons s ss)
    then have "aside w (snd (rsList s w))" by (simp add: reads_only_def)
    with Cons show ?case by (cases "rsList s w") (auto split: sum.split intro: aside_trans)
  qed simp
  moreover have "\<forall>s \<in> set ss. reads_only s \<Longrightarrow> aside w (snd (composite_get ss i w))" for i w
  proof (induction ss arbitrary: w)
    case (Cons s ss)
    then have "aside w (snd (rsGet s i w))" by (simp add: reads_only_def)
    with Cons show ?case by (cases "rsGet s i w") (auto split: sum.split intro: aside_trans)
  qed simp
  moreover assume "\<forall>s \<in> set ss. reads_only s"
  ultimately show ?thesis by (simp add: reads_only_def composite_def)
qed

lemma reads_only_resources: "keeps_to_source api \<Longrightarrow> reads_only (buildResourceStore path api)"
  unfolding buildResourceStore_def NewCompositeStore_def
  by (intro reads_only_composite) (auto simp: reads_only_swagger reads_only_fixed)

section \<open>Calls follow the policy\<close>

text \<open>The request handed over is the one its entry names, and the guard let its URL through.\<close>

definition handed_over :: "surroundings \<Rightarrow> Guard \<Rightarrow> HttpRequest \<Rightarrow> Entry \<Rightarrow> bool" where
  "handed_over su g q e \<longleftrightarrow> rqMethod q = enMethod e \<and> (\<exists>u. parse_url (enURL e) = Ok u \<and> rqURL q = show_url u)
     \<and> (\<exists>n. NetGuard.ValidateURL g (suResolver su n) (enURL e) = Ok ())"

lemma guard_validator_None: "guard_validator g resolve url = None \<longleftrightarrow> NetGuard.ValidateURL g resolve url = Ok ()"
  by (simp add: guard_validator_def split: sum.split)

lemma base_request_Ok:
  "base_request p = Ok r \<Longrightarrow> rqMethod r = prMethod p \<and> (\<exists>u. parse_url (prURL p) = Ok u \<and> rqURL r = show_url u)"
proof -
  have keep: "rqMethod (fold (\<lambda>(k, v). set_header k v) hs r) = rqMethod r \<and> rqURL (fold (\<lambda>(k, v). set_header k v) hs r) = rqURL r" for hs r
    by (induction hs arbitrary: r) (auto simp: set_header_def)
  assume "base_request p = Ok r"
  then show ?thesis
    by (auto simp: base_request_def NewRequest_def keep split: if_splits sum.splits url_error.splits)
qed

lemma provider_keeps: "provider_for_call su n p r = Ok q \<Longrightarrow> rqMethod q = rqMethod r \<and> rqURL q = rqURL r"
  by (auto simp: provider_for_call_def provider_apply_def NoopApply_def BearerApply_def APIKeyApply_def OAuthApply_def
      set_header_def split: provider.splits sum.splits prod.splits option.splits)

definition server_inv :: "surroundings \<Rightarrow> Guard \<Rightarrow> SwaggerExecuteTool \<Rightarrow> MemoryStore option \<Rightarrow> app_world \<Rightarrow> bool" where
  "server_inv su g t s0 w \<longleftrightarrow> gateway_run t s0 (awHistory w) (awConfirmations w)
     \<and> list_all2 (handed_over su g) (awSent w) (rev (awHistory w))"

lemma inv_aside: "server_inv su g t s0 w \<Longrightarrow> aside w w' \<Longrightarrow> server_inv su g t s0 w'"
  by (simp add: server_inv_def aside_def)

lemma execute_tool_selects [simp]:
  "exPolicy (execute_tool su cfg g api n w) = Evaluate (buildPolicyEvaluator cfg)"
  "exApply (execute_tool su cfg g api n w) = provider_for_call su n (awProvider w)"
  "eoValidateURL (exOptions (execute_tool su cfg g api n w)) = Some (guard_validator g (suResolver su n))"
  by (simp_all add: execute_tool_def NewSwaggerExecuteTool_def execute_dependencies_def)

lemma inv_execute:
  assumes "server_inv su g t s0 w" and "exPolicy t = Evaluate (buildPolicyEvaluator cfg)"
    and "Execute (execute_tool su cfg g api n w) ctx input (awConfirmations w) = (out, entry, s)" and "aside w w1"
  shows "server_inv su g t s0 (after_call su logger n entry s w1)"
proof -
  have run: "gateway_run t s0 (awHistory w) (awConfirmations w)"
    and pairs: "list_all2 (handed_over su g) (awSent w) (rev (awHistory w))" using assms(1) by (simp_all add: server_inv_def)
  from called [OF run _ assms(3)] assms(2)
  have next_run: "gateway_run t s0 (if csSent s = [] then awHistory w else entry # awHistory w) (csConfirmations s)" by simp
  have "csSent s = [] \<or> (\<exists>q. csSent s = [q] \<and> handed_over su g q entry)"
  proof (cases "csSent s = []")
    case False
    from Execute_call [OF assms(3)] obtain b r a where call: "run_call (execute_tool su cfg g api n w) ctx input b = (r, a)"
      and eqs: "csSent b = []" "csSent a = csSent s" "names a = asked_check entry" .
    with sent_as_named [OF call] False obtain p r0 q where q: "csSent s = [q]" "asked_check entry = check_of p"
      "url_blocked (exOptions (execute_tool su cfg g api n w)) (prURL p) = None"
      "base_request p = Ok r0" "exApply (execute_tool su cfg g api n w) r0 = Ok q" by auto
    from q(2) have e: "enMethod entry = prMethod p" "enURL entry = prURL p" by (simp_all add: asked_check_def check_of_def)
    have "handed_over su g q entry"
      using base_request_Ok [OF q(4)] provider_keeps [of su n "awProvider w" r0 q] q(3,5) e
      by (auto simp: handed_over_def url_blocked_def guard_validator_None)
    with q(1) show ?thesis by blast
  qed simp
  with next_run pairs assms(4) show ?thesis
    by (auto simp: server_inv_def after_call_def aside_def intro!: list_all2_appendI)
qed

text \<open>Every tool of the registry keeps the invariant.\<close>

lemma app_tool_inv:
  assumes "\<And>n v. server_inv su g t s0 v \<Longrightarrow> server_inv su g t s0 (snd (f n input v))" and "server_inv su g t s0 w"
  shows "server_inv su g t s0 (snd (tlExecute (app_tool name description f) input w))"
  using assms(1) [OF inv_aside [OF assms(2) aside_counted]] by (simp add: app_tool_def case_prod_beta)

lemma confirmation_tools_inv:
  assumes "server_inv su g t s0 w"
  shows "server_inv su g t s0 (snd (tlExecute (RequestConfirmationTool su) input w))"
    and "server_inv su g t s0 (snd (tlExecute (ConfirmTool su) input w))"
proof -
  show "server_inv su g t s0 (snd (tlExecute (RequestConfirmationTool su) input w))"
    unfolding RequestConfirmationTool_def
    by (rule app_tool_inv [OF _ assms]) (auto simp: server_inv_def split: prod.split intro: asked)
  show "server_inv su g t s0 (snd (tlExecute (ConfirmTool su) input w))"
    unfolding ConfirmTool_def
    by (rule app_tool_inv [OF _ assms]) (auto simp: server_inv_def split: prod.split intro: answered)
qed

lemma looking_tools_inv:
  assumes "keeps_to_source api" and "server_inv su g t s0 w"
  shows "T \<in> {GeneratePayloadTool su api, PrepareRequestTool su api k agent, ValidateRequestTool su api,
      ValidateResponseTool su api, SearchTool api, PlanCallTool api} \<Longrightarrow> server_inv su g t s0 (snd (tlExecute T input w))"
proof -
  have "server_inv su g t s0 v \<Longrightarrow> server_inv su g t s0 (after_lookup api i v)"
    "server_inv su g t s0 v \<Longrightarrow> server_inv su g t s0 (after_listing api v)" for v i
    using inv_aside after_lookup_aside [OF assms(1)] api_aside(1) [OF assms(1)] by (auto simp: after_listing_def)
  then show "T \<in> {GeneratePayloadTool su api, PrepareRequestTool su api k agent, ValidateRequestTool su api,
      ValidateResponseTool su api, SearchTool api, PlanCallTool api} \<Longrightarrow> server_inv su g t s0 (snd (tlExecute T input w))"
    using assms(2)
    by (auto simp: GeneratePayloadTool_def PrepareRequestTool_def ValidateRequestTool_def ValidateResponseTool_def
        SearchTool_def PlanCallTool_def split: sum.split intro!: app_tool_inv [OF _ assms(2)])
qed

lemma execute_tool_inv:
  assumes "keeps_to_source api" and "exPolicy t = Evaluate (buildPolicyEvaluator cfg)" and "server_inv su g t s0 w"
  shows "server_inv su g t s0 (snd (tlExecute (ExecuteTool su cfg g api logger) input w))"
  unfolding ExecuteTool_def
  by (rule app_tool_inv [OF _ assms(3)])
    (auto split: prod.split intro: inv_execute [OF _ assms(2)] after_lookup_aside [OF assms(1)])

lemma registered_tool:
  assumes "RegistryGet (NewRegistry (gateway_tools su cfg g api)) name = Some T"
  shows "Some T \<in> set (gateway_tools su cfg g api)"
proof -
  from assms have "find (\<lambda>t. tlName t = name) (rev (List.map_filter id (gateway_tools su cfg g api))) = Some T"
    by (simp add: NewRegistry_get)
  then have "T \<in> set (List.map_filter id (gateway_tools su cfg g api))" by (auto dest: find_SomeD)
  then show ?thesis by (auto simp: List.map_filter_def split: if_splits)
qed

lemma gateway_tool_inv:
  assumes "Some T \<in> set (gateway_tools su cfg g api)" and "keeps_to_source api"
    and "exPolicy t = Evaluate (buildPolicyEvaluator cfg)" and "server_inv su g t s0 w"
  shows "server_inv su g t s0 (snd (tlExecute T input w))"
proof -
  from assms(1) consider "T = EchoTool" | "T = HealthTool (cfVersion cfg)" | "T = RequestConfirmationTool su" | "T = ConfirmTool su"
    | "T \<in> {GeneratePayloadTool su api, PrepareRequestTool su api (cfMaxRequestBytes cfg) (cfUserAgent cfg), ValidateRequestTool su api,
        ValidateResponseTool su api, SearchTool api, PlanCallTool api}"
    | "T = ExecuteTool su cfg g api (buildAuditLogger cfg)"
    unfolding gateway_tools_def by auto
  then show ?thesis
  proof cases
    case 1
    then show ?thesis using assms(4) by (simp add: EchoTool_def)
  next
    case 2
    then show ?thesis using assms(4) by (simp add: HealthTool_def)
  next
    case 5
    then show ?thesis by (rule looking_tools_inv [OF assms(2,4)])
  next
    case 6
    then show ?thesis using execute_tool_inv [OF assms(2-4)] by simp
  qed (simp_all add: confirmation_tools_inv [OF assms(4)])
qed

lemma served_inv:
  assumes "served svc w0 w" and "svc = build_service su cfg g api" and "keeps_to_source api"
    and "exPolicy t = Evaluate (buildPolicyEvaluator cfg)" and "server_inv su g t s0 w0"
  shows "server_inv su g t s0 w"
  using assms(1)
proof induction
  case served_first
  show ?case by (rule assms(5))
next
  case (served_tool w name input r w')
  show ?case
  proof (cases "RegistryGet (toolRegistry svc) name")
    case (Some T)
    then have "Some T \<in> set (gateway_tools su cfg g api)" using registered_tool assms(2) by (simp add: build_service_def)
    from gateway_tool_inv [OF this assms(3,4) served_tool.IH] served_tool.hyps(2) Some show ?thesis
      by (metis CallTool_def option.simps(5) snd_conv)
  qed (use served_tool in \<open>simp add: CallTool_def\<close>)
next
  case (served_list w ds w')
  have "aside w (snd (rsList (resourceStore svc) w))"
    using reads_only_resources [OF assms(3)] assms(2) by (simp add: build_service_def reads_only_def)
  with served_list show ?case using inv_aside by (simp add: ListResources_def)
next
  case (served_read w uri item w')
  have "aside w (snd (rsGet (resourceStore svc) uri w))"
    using reads_only_resources [OF assms(3)] assms(2) by (simp add: build_service_def reads_only_def)
  with served_read show ?case using inv_aside by (simp add: GetResource_def)
qed

text \<open>What \<open>main\<close> has done when the transport is about to start.\<close>

lemma guards_built: "buildSwaggerGuard cfg = Some (swagger_guard cfg)" "buildUpstreamGuard cfg = Some (upstream_guard cfg)"
  by (simp_all add: buildSwaggerGuard_def buildUpstreamGuard_def swagger_guard_def upstream_guard_def)

lemma main_started:
  assumes "main_start su cfg = Ok (svc, kind, w0)"
  obtains api source w p where "(api, source) = buildSwaggerStore su cfg (Some (swagger_guard cfg))"
    "svc = build_service su cfg (upstream_guard cfg) api" "ValidateConfig cfg (suStartResolver su) = Ok ()"
    "buildTransport cfg = Ok kind" "buildUpstreamAuthProvider cfg = Ok p"
    "validateSwaggerTargets (suStartResolver su) cfg api (Some (upstream_guard cfg)) (first_world cfg source NoopProvider) = (Ok (), w)"
    "w0 = w\<lparr>awProvider := p\<rparr>"
    "validateConfiguredTargets (suStartResolver su) cfg (Some (swagger_guard cfg)) (Some (upstream_guard cfg)) = Ok ()"
proof -
  obtain api source where store: "buildSwaggerStore su cfg (Some (swagger_guard cfg)) = (api, source)" by fastforce
  have "ValidateConfig cfg (suStartResolver su) = Ok ()"
    using assms by (auto simp: main_start_def split: sum.splits)
  moreover have "validateConfiguredTargets (suStartResolver su) cfg (Some (swagger_guard cfg)) (Some (upstream_guard cfg)) = Ok ()"
    using assms by (auto simp: main_start_def guards_built split: sum.splits)
  moreover from assms calculation store obtain w where "validateSwaggerTargets (suStartResolver su) cfg api
      (Some (upstream_guard cfg)) (first_world cfg source NoopProvider) = (Ok (), w)"
    by (auto simp: main_start_def guards_built split: sum.splits prod.splits)
  ultimately show thesis
    using that [of api source _ w] assms store
    by (auto simp: main_start_def guards_built split: sum.splits)
qed

text \<open>Before the first request nothing has been asked of the gateway.\<close>

lemma checks_aside:
  assumes "keeps_to_source api"
  shows "aside w (snd (validateSwaggerTargets resolve cfg api g w))"
  using api_aside(1) [OF assms, of w] by (auto simp: validateSwaggerTargets_def split: option.split prod.split sum.split)

lemma server_starts:
  assumes "main_start su cfg = Ok (svc, kind, w0)"
  obtains api where "keeps_to_source api" "svc = build_service su cfg (upstream_guard cfg) api"
    "awHistory w0 = []" "awSent w0 = []" "awConfirmations w0 = Some (NewMemoryStore (cfConfirmationTTL cfg))"
proof -
  from main_started [OF assms] obtain api source w p where start: "(api, source) = buildSwaggerStore su cfg (Some (swagger_guard cfg))"
    "svc = build_service su cfg (upstream_guard cfg) api" "w0 = w\<lparr>awProvider := p\<rparr>"
    "validateSwaggerTargets (suStartResolver su) cfg api (Some (upstream_guard cfg)) (first_world cfg source NoopProvider) = (Ok (), w)" .
  have keeps: "keeps_to_source api" using keeps_to_source_api [of su cfg "Some (swagger_guard cfg)"] start(1) by (metis fst_conv)
  have "aside (first_world cfg source NoopProvider) w" using checks_aside [OF keeps] start(4) by (metis snd_conv)
  with start(2,3) keeps that show thesis by (simp add: aside_def first_world_def)
qed

lemma served_history:
  assumes "main_start su cfg = Ok (svc, kind, w0)" and "served svc w0 w"
  obtains t where "exPolicy t = Evaluate (NewEvaluator (policy_settings cfg))"
    "gateway_run t (Some (NewMemoryStore (cfConfirmationTTL cfg))) (awHistory w) (awConfirmations w)"
    "list_all2 (handed_over su (upstream_guard cfg)) (awSent w) (rev (awHistory w))"
proof -
  from server_starts [OF assms(1)] obtain api where start: "keeps_to_source api" "svc = build_service su cfg (upstream_guard cfg) api"
    "awHistory w0 = []" "awSent w0 = []" "awConfirmations w0 = Some (NewMemoryStore (cfConfirmationTTL cfg))" .
  let ?t = "execute_tool su cfg (upstream_guard cfg) api 0 w0"
  have "server_inv su (upstream_guard cfg) ?t (awConfirmations w0) w0"
    using start(3,4) opened by (simp add: server_inv_def)
  from served_inv [OF assms(2) start(2,1) _ this] start(5) that [of ?t] show thesis
    by (simp add: server_inv_def buildPolicyEvaluator_def)
qed

text \<open>
  Property C1: the server as started keeps to its configuration. Whatever tools clients call and
  resources they list or read, in any order, each request handed to the HTTP client has the method and the URL of
  its audit entry; the guard for upstream hosts let that URL through; the operation
  and the method pass the configured lists, in a reading mode with a reading method or in a
  writing mode. With the mode plan-only nothing is ever sent.
\<close>

theorem server_keeps_to_configuration:
  assumes "main_start su cfg = Ok (svc, kind, w0)" and "served svc w0 w"
  shows "list_all2 (\<lambda>q e. handed_over su (upstream_guard cfg) q e
       \<and> lists_pass (policy_settings cfg) (enOperationID e) (enMethod e)
       \<and> (reading_mode (policy_settings cfg) \<and> isReadonlyMethod (enMethod e) \<or> writing_mode (policy_settings cfg)))
     (awSent w) (rev (awHistory w))"
proof -
  from served_history [OF assms] obtain t where t: "exPolicy t = Evaluate (NewEvaluator (policy_settings cfg))"
    "gateway_run t (Some (NewMemoryStore (cfConfirmationTTL cfg))) (awHistory w) (awConfirmations w)"
    "list_all2 (handed_over su (upstream_guard cfg)) (awSent w) (rev (awHistory w))" .
  show ?thesis by (rule list.rel_mono_strong [OF t(3)]) (simp add: logged_within_policy [OF t(2,1)])
qed


section \<open>What starting has checked\<close>

text \<open>The URLs that must pass the guard for upstream hosts: those of the configuration, and the absolute ones of the operations.\<close>

definition upstream_targets :: "Config \<Rightarrow> ResolvedOperation list \<Rightarrow> string list" where
  "upstream_targets cfg eps =
     filter (\<lambda>url. TrimSpace url \<noteq> []) [cfUpstreamBaseURL cfg, cfUpstreamSandboxBaseURL cfg, cfSwaggerBaseURL cfg]
     @ filter plain_http_url (concat (map (\<lambda>ep. Servers ep @ [BaseURL ep]) eps))"

lemma operation_urls: "map snd (concat (map operation_targets eps)) = concat (map (\<lambda>ep. Servers ep @ [BaseURL ep]) eps)"
  by (induction eps) (simp_all add: operation_targets_def comp_def)

lemma targets_checked:
  assumes "validateConfiguredTargets resolve cfg (Some sg) (Some ug) = Ok ()"
    and "check_targets resolve ug [] (concat (map operation_targets eps)) = Ok ()"
  shows "list_all (url_passes resolve ug) (upstream_targets cfg eps)"
    and "plain_http_url (cfSwaggerPath cfg) \<longrightarrow> url_passes resolve sg (cfSwaggerPath cfg)"
proof -
  have conf: "check_optional resolve ug ''UPSTREAM_BASE_URL'' (cfUpstreamBaseURL cfg) = Ok ()"
    "check_optional resolve ug ''UPSTREAM_SANDBOX_BASE_URL'' (cfUpstreamSandboxBaseURL cfg) = Ok ()"
    "check_optional resolve ug ''SWAGGER_BASE_URL'' (cfSwaggerBaseURL cfg) = Ok ()"
    "plain_http_url (cfSwaggerPath cfg) \<longrightarrow> check_target resolve sg ''SWAGGER_PATH'' (cfSwaggerPath cfg) = Ok ()"
    using assms(1) by (auto simp: validateConfiguredTargets_def simp del: check_optional_Ok check_target_Ok split: sum.splits if_splits)
  from conf(4) show "plain_http_url (cfSwaggerPath cfg) \<longrightarrow> url_passes resolve sg (cfSwaggerPath cfg)" by simp
  have "\<forall>url \<in> set (concat (map (\<lambda>ep. Servers ep @ [BaseURL ep]) eps)). plain_http_url url \<longrightarrow> url_passes resolve ug url"
    using assms(2) unfolding operation_urls [symmetric] set_map check_targets_Ok by simp
  with conf(1-3) show "list_all (url_passes resolve ug) (upstream_targets cfg eps)"
    unfolding upstream_targets_def list_all_iff by auto
qed


end
