(* ===== verification/ServerRun.thy ===== *)
theory ServerRun
  imports Wiring
begin

text \<open>
  A run of the whole server on concrete surroundings: the program starts, a client asks for a
  confirmation of a write, a human approves it, and the write is sent. It shows that what the theory
  Wiring proves of every run is proved of such runs.
\<close>

section \<open>The surroundings\<close>

definition run_document :: Document where
  "run_document = \<lparr>dSpec = Some \<lparr>spPaths = Some [(''/pets'', Some \<lparr>piParameters = [], piServers = [],
       piOperations = [(''POST'', \<lparr>oaOperationID = ''addPet'', oaSummary = [], oaDescription = [], oaTags = [],
         oaDeprecated = False, oaServers = None, oaSecurity = None, oaParameters = [], oaRequestBody = None,
         oaResponses = None\<rparr>)]\<rparr>)], spServers = [], spSecurity = ANil, spSchemas = None, spHeap = []\<rparr>,
     dRaw = AMap []\<rparr>"

definition run_surroundings :: surroundings where
  "run_surroundings = \<lparr>suCodec = echo_codec, suDepth = 1, suRandom = (\<lambda>a b c. 0), suContext = (\<lambda>n. demo_context),
     suNow = (\<lambda>n. (Time 1, Time 2)), suRandomBytes = (\<lambda>n. Ok (replicate 16 1)),
     suDoer = (\<lambda>n k r. Ok \<lparr>StatusCode = 201, rsHeader = [], rsBody = Ok ''done''\<rparr>),
     suTokens = (\<lambda>n. (\<lambda>r. Err ''down'', \<lambda>s. None, Time 1, Time 1)), suResolver = (\<lambda>n. public_resolver),
     suStartResolver = public_resolver, suLoadResolver = (\<lambda>n. public_resolver),
     suFiles = (\<lambda>n path. Ok \<lparr>fileSize = None, fileContent = Ok ''x''\<rparr>), suNetwork = (\<lambda>n r. Err ''down''),
     suDecoders = \<lparr>decJSON = (\<lambda>raw. Ok (TLeaf (AMap []))), decYAML = (\<lambda>raw. Err ''no'')\<rparr>,
     suLibrary = \<lparr>lib_load = (\<lambda>raw. Ok (the (dSpec run_document))), lib_convertV2 = (\<lambda>v. Err ''no''), lib_validate = (\<lambda>o' s. None)\<rparr>,
     suClock = (\<lambda>n. Time 1)\<rparr>"

definition run_config :: Config where
  "run_config = \<lparr>cfTransport = ''stdio'', cfHTTPAddr = [], cfVersion = ''1'', cfLogLevel = [], cfCorrelationIDHeader = [],
     cfMetricsAuthRequired = False, cfSwaggerPath = ''api.json'', cfSwaggerFormat = ''json'', cfSwaggerBaseURL = [],
     cfSwaggerReload = False, cfSwaggerCacheTTL = 100, cfSwaggerHTTPTimeout = 20, cfSwaggerMaxBytes = 1000,
     cfSwaggerUserAgent = [], cfCORSAllowedOrigins = [], cfInboundOAuthIssuer = [], cfInboundOAuthAudience = [],
     cfInboundOAuthJWKSURL = [], cfInboundOAuthJWKSCacheTTL = 1, cfInboundOAuthIntrospectionURL = [],
     cfInboundOAuthClientID = [], cfInboundOAuthClientSecret = [], cfInboundOAuthRequiredScopes = [],
     cfInboundOAuthIntrospectionCacheTTL = 1, cfHTTPReadTimeout = 1, cfHTTPReadHeaderTimeout = 1,
     cfHTTPWriteTimeout = 1, cfHTTPIdleTimeout = 1, cfHTTPShutdownTimeout = 1, cfHTTPSessionTimeout = 1,
     cfHTTPMaxBodyBytes = 1, cfMCPAPIMode = ''execute_write'', cfUpstreamBaseURL = ''https://api.example.com'',
     cfUpstreamSandboxBaseURL = [], cfAllowedMethods = [''POST''], cfDeniedMethods = [''DELETE''],
     cfAllowedOperationIDs = [], cfDeniedOperationIDs = [], cfRequireConfirmationForWrite = True,
     cfMaxCallsPerMinute = 1, cfMaxConcurrentCalls = 1, cfMaxCallsPerMinutePerPrincipal = 1,
     cfMaxConcurrentCallsPerPrincipal = 1, cfHTTPTimeout = 1, cfMaxRequestBytes = 1000, cfMaxResponseBytes = 1000,
     cfUserAgent = ''gw'', cfAuditLog = False, cfRedactHeaders = [], cfRedactJSONFields = [],
     cfUpstreamAuthMode = ''none'', cfUpstreamBearerToken = [], cfUpstreamAPIKeyHeader = [],
     cfUpstreamAPIKeyValue = [], cfUpstreamOAuthTokenURL = [], cfUpstreamOAuthClientID = [],
     cfUpstreamOAuthClientSecret = [], cfUpstreamOAuthScopes = [], cfUpstreamOAuthAudience = [],
     cfUpstreamOAuthTokenCacheTTL = 1, cfValidateRequest = False, cfValidateResponse = False, cfConfirmationTTL = 100,
     cfUpstreamAllowedHosts = [], cfSwaggerAllowedHosts = [], cfBlockPrivateNetworks = True,
     cfCompatibilityWarnings = []\<rparr>"

lemma run_valid: "ValidateConfig run_config public_resolver = Ok ()"
  by code_simp

section \<open>Starting\<close>

lemma run_loads: "source_loads run_surroundings run_config (Some (swagger_guard run_config)) n = Ok (Some run_document)"
proof -
  have "fst (SourceLoad (suFiles run_surroundings n) (suNetwork run_surroundings n)
      (Some (source_loader run_surroundings run_config (Some (swagger_guard run_config)) n))) = Ok ''x''" by code_simp
  moreover have "Parse (suDecoders run_surroundings) (suLibrary run_surroundings) (NewOpenAPIParser (ResolveSwaggerFormat run_config)) ''x''
      = Ok run_document" by code_simp
  ultimately show ?thesis by (simp add: source_loads_def)
qed

definition run_store :: CachedStore where
  "run_store = NewCachedStore [] False 100"

definition run_state :: cacheState where
  "run_state = projr (buildState run_store (Ok (Some run_document)) (Time 1))"

lemma run_built: "buildState run_store (Ok (Some run_document)) (Time 1) = Ok run_state"
proof -
  have "\<not> isl (buildState run_store (Ok (Some run_document)) (Time 1))" by code_simp
  then show ?thesis by (auto simp: run_state_def)
qed

lemma run_clock: "suClock run_surroundings n = Time 1"
  by (simp add: run_surroundings_def)

definition run_source :: source_world where
  "run_source = \<lparr>swStore = run_store, swStep = 0, swLoads = source_loads run_surroundings run_config (Some (swagger_guard run_config)),
     swClock = suClock run_surroundings\<rparr>"

lemma run_swagger_store: "buildSwaggerStore run_surroundings run_config (Some (swagger_guard run_config)) = (loaded_api, run_source)"
proof -
  have "TrimSpace (cfSwaggerPath run_config) \<noteq> []" by code_simp
  then show ?thesis by (simp add: buildSwaggerStore_def run_source_def run_store_def run_config_def)
qed

definition served_source :: source_world where
  "served_source = run_source\<lparr>swStore := run_store\<lparr>state := Some run_state\<rparr>, swStep := 1\<rparr>"

lemma first_query: "consult run_source = (Ok run_state, served_source)"
proof -
  have "usable run_store t = None" for t by (simp add: usable_def run_store_def NewCachedStore_def)
  then show ?thesis
    using run_built by (simp add: consult_def run_source_def snapshot_def rebuild_def run_loads run_clock served_source_def Let_def)
qed

lemma source_serves: "serving run_state served_source"
proof -
  have "Before (Time 1) (cacheState.expiresAt run_state)" by code_simp
  then show ?thesis by (simp add: serving_def served_source_def run_source_def run_store_def NewCachedStore_def run_clock)
qed

definition run_world :: "source_world \<Rightarrow> app_world" where
  "run_world s = first_world run_config s NoopProvider"

definition run_service :: "app_world service" where
  "run_service = build_service run_surroundings run_config (upstream_guard run_config) loaded_api"

lemma run_targets:
  "validateConfiguredTargets public_resolver run_config (Some (swagger_guard run_config)) (Some (upstream_guard run_config)) = Ok ()"
  by code_simp

lemma run_operations: "check_targets public_resolver (upstream_guard run_config) [] (concat (map operation_targets (endpoints run_state))) = Ok ()"
  by code_simp

lemma run_swagger_targets:
  "validateSwaggerTargets public_resolver run_config loaded_api (Some (upstream_guard run_config)) (run_world run_source)
     = (Ok (), run_world served_source)"
proof -
  have "TrimSpace (cfSwaggerPath run_config) \<noteq> []" by code_simp
  then show ?thesis
    by (simp add: validateSwaggerTargets_def loaded_api_def on_source_def cached_api_def queried_def first_query run_world_def
        first_world_def ListEndpoints_def run_operations)
qed

lemma run_starts: "main_start run_surroundings run_config = Ok (run_service, Stdio NewStdio, run_world served_source)"
proof -
  have "buildUpstreamAuthProvider run_config = Ok NoopProvider" "buildTransport run_config = Ok (Stdio NewStdio)" by code_simp+
  moreover have "suStartResolver run_surroundings = public_resolver" by (simp add: run_surroundings_def)
  moreover have "(run_world s)\<lparr>awProvider := NoopProvider\<rparr> = run_world s" for s by (simp add: run_world_def first_world_def)
  ultimately show ?thesis
    using run_swagger_targets
    by (simp add: main_start_def run_valid guards_built run_targets run_swagger_store run_service_def run_world_def)
qed

section \<open>Asking, answering, sending\<close>

definition run_ask :: any where
  "run_ask = AMap [(''operationId'', AStr ''addPet''), (''method'', AStr ''post''), (''url'', AStr ''https://api.example.com/pets'')]"

definition run_id :: string where
  "run_id = concat (replicate 16 ''01'')"

lemma run_new_id: "newID (Ok (replicate 16 1)) = Ok run_id"
  by code_simp

definition run_answer :: any where
  "run_answer = AMap [(''confirmationId'', AStr run_id), (''approve'', ABool True)]"

definition run_write :: any where
  "run_write = AMap [(''operationId'', AStr ''addPet''), (''confirmationId'', AStr run_id)]"

definition run_asked :: "MemoryStore option" where
  "run_asked = snd (RequestConfirmation (Time 1) (Time 2) (Ok run_id) run_ask (Some (NewMemoryStore 100)))"

definition run_answered :: "MemoryStore option" where
  "run_answered = snd (PolicyConfirm (Time 1) (Time 2) run_answer run_asked)"

text \<open>The execute tool as it is when the snapshot is there.\<close>

definition run_endpoint :: ResolvedOperation where
  "run_endpoint = \<lparr>Method = ''POST'', BaseURL = [], PathTemplate = ''/pets'', URLTemplate = [], ExampleURL = [],
     OperationID = ''addPet'', Summary = [], Description = [], Tags = [], Deprecated = False, PathParams = [],
     QueryParams = [], HeaderParams = [], CookieParams = [],
     ApiRequest = \<lparr>rqContentTypes = [], rqBodySchema = ANil, rqExamples = ANil\<rparr>,
     Responses = \<lparr>rgSuccess = [], rgErrors = []\<rparr>, Security = ANil, Servers = []\<rparr>"

definition run_lookup :: "string \<Rightarrow> (swagger_error, ResolvedOperation) result" where
  "run_lookup i = (if TrimSpace i = ''addPet'' then Ok run_endpoint else Err swagger_error.ErrNotFound)"

lemma run_index: "endpointByOpID run_state = [(''addPet'', run_endpoint)]"
  by code_simp

lemma run_lookup: "GetEndpointByOperationID (Ok run_state) = run_lookup"
  by (simp add: fun_eq_iff GetEndpointByOperationID_def run_index run_lookup_def)

definition run_tool :: SwaggerExecuteTool where
  "run_tool = \<lparr>exStore = Some run_lookup, exPolicy = Evaluate (buildPolicyEvaluator run_config),
     exApply = provider_for_call run_surroundings 2 NoopProvider, exDoer = Some (suDoer run_surroundings 2),
     exOptions = \<lparr>eoMode = ''execute_write'', eoUpstreamBaseURL = ''https://api.example.com'', eoSandboxBaseURL = [],
       eoValidateRequest = False, eoValidateResponse = False, eoMaxRequestBytes = 1000, eoMaxResponseBytes = 1000,
       eoUserAgent = ''gw'', eoCorrelationIDHeader = [],
       eoValidateURL = Some (guard_validator (upstream_guard run_config) public_resolver)\<rparr>,
     exCodec = echo_codec\<rparr>"

definition run_sent :: "any \<times> Entry \<times> call_state" where
  "run_sent = Execute run_tool demo_context run_write run_answered"

lemma run_sends: "map rqURL (csSent (snd (snd run_sent))) = [''https://api.example.com/pets'']"
  by code_simp

lemma tool_names [simp]:
  "tlName EchoTool = ''echo''" "tlName (HealthTool v) = ''health''" "tlName (ConfirmTool su) = ''policy.confirm''"
  "tlName (RequestConfirmationTool su) = ''policy.request_confirmation''"
  "tlName (ExecuteTool su cfg g api l) = ''swagger.http.execute''"
  "tlName (GeneratePayloadTool su api) = ''swagger.http.generate_payload''"
  "tlName (PrepareRequestTool su api k ua) = ''swagger.http.prepare_request''"
  "tlName (ValidateRequestTool su api) = ''swagger.http.validate_request''"
  "tlName (ValidateResponseTool su api) = ''swagger.http.validate_response''"
  "tlName (SearchTool api) = ''swagger.search''" "tlName (PlanCallTool api) = ''swagger.plan_call''"
  by (simp_all add: EchoTool_def HealthTool_def ConfirmTool_def RequestConfirmationTool_def ExecuteTool_def GeneratePayloadTool_def
      PrepareRequestTool_def ValidateRequestTool_def ValidateResponseTool_def SearchTool_def PlanCallTool_def app_tool_def)

lemma run_tools:
  "input \<noteq> ANil \<Longrightarrow> CallTool run_service ''policy.request_confirmation'' input w = tlExecute (RequestConfirmationTool run_surroundings) input w"
  "input \<noteq> ANil \<Longrightarrow> CallTool run_service ''policy.confirm'' input w = tlExecute (ConfirmTool run_surroundings) input w"
  "input \<noteq> ANil \<Longrightarrow> CallTool run_service ''swagger.http.execute'' input w = tlExecute (ExecuteTool run_surroundings run_config
     (upstream_guard run_config) loaded_api (buildAuditLogger run_config)) input w"
  by (simp_all add: CallTool_def run_service_def build_service_def NewRegistry_get gateway_tools_def List.map_filter_def)

definition asked_world :: app_world where
  "asked_world = (run_world served_source)\<lparr>awCall := 1, awConfirmations := run_asked\<rparr>"

definition answered_world :: app_world where
  "answered_world = (run_world served_source)\<lparr>awCall := 2, awConfirmations := run_answered\<rparr>"

lemma run_first: "\<exists>r. CallTool run_service ''policy.request_confirmation'' run_ask (run_world served_source) = (r, asked_world)"
  by (simp add: run_tools run_ask_def RequestConfirmationTool_def app_tool_def run_world_def first_world_def asked_world_def
      run_asked_def run_new_id run_surroundings_def run_config_def split: prod.split)

lemma run_second: "\<exists>r. CallTool run_service ''policy.confirm'' run_answer asked_world = (r, answered_world)"
  by (simp add: run_tools run_answer_def ConfirmTool_def app_tool_def run_world_def first_world_def asked_world_def answered_world_def
      run_answered_def run_surroundings_def split: prod.split)

lemma looks_up_served: "awSource w = served_source \<Longrightarrow> lookup_at loaded_api w = run_lookup"
  by (simp add: fun_eq_iff lookup_at_def loaded_api_def on_source_def cached_api_def queried_serving [OF source_serves] run_lookup)

lemma run_execute_tool:
  "execute_tool run_surroundings run_config (upstream_guard run_config) loaded_api 2 (answered_world\<lparr>awCall := n\<rparr>) = run_tool"
proof -
  have world: "awSource (answered_world\<lparr>awCall := n\<rparr>) = served_source" "awProvider (answered_world\<lparr>awCall := n\<rparr>) = NoopProvider"
    by (simp_all add: answered_world_def run_world_def first_world_def)
  have su: "suCodec run_surroundings = echo_codec" "suResolver run_surroundings 2 = public_resolver"
    by (simp_all add: run_surroundings_def)
  have cfg: "cfMCPAPIMode run_config = ''execute_write''" "cfUpstreamBaseURL run_config = ''https://api.example.com''"
    "cfUpstreamSandboxBaseURL run_config = []" "\<not> cfValidateRequest run_config" "\<not> cfValidateResponse run_config"
    "cfMaxRequestBytes run_config = 1000" "cfMaxResponseBytes run_config = 1000" "cfUserAgent run_config = ''gw''"
    "cfCorrelationIDHeader run_config = []"
    by (simp_all add: run_config_def)
  show ?thesis
    by (simp add: execute_tool_def NewSwaggerExecuteTool_def execute_dependencies_def looks_up_served [OF world(1)] world(2) su cfg run_tool_def)
qed

lemma run_third:
  "\<exists>r w. CallTool run_service ''swagger.http.execute'' run_write answered_world = (r, w) \<and> awSent w = csSent (snd (snd run_sent))"
proof -
  let ?w = "answered_world\<lparr>awCall := 3\<rparr>"
  have counted: "awCall answered_world = 2" and store: "awConfirmations answered_world = run_answered"
    by (simp_all add: answered_world_def)
  have given: "run_write \<noteq> ANil" by (simp add: run_write_def)
  have at_call: "suContext run_surroundings 2 = demo_context" by (simp add: run_surroundings_def)
  have "aside ?w (after_lookup loaded_api (naming parseExecuteInput exOperationID run_write) ?w)"
    using after_lookup_aside keeps_to_source_api [of run_surroundings run_config "Some (swagger_guard run_config)"]
    by (simp add: run_swagger_store)
  then have "awSent (after_lookup loaded_api (naming parseExecuteInput exOperationID run_write) ?w) = []"
    by (simp add: aside_def answered_world_def run_world_def first_world_def)
  moreover obtain out entry s where "Execute run_tool demo_context run_write run_answered = (out, entry, s)" by (metis prod_cases3)
  ultimately show ?thesis
    using run_execute_tool [of 3]
    by (simp add: run_tools(3) given ExecuteTool_def app_tool_def counted store at_call
        run_sent_def after_call_def)
qed

lemma run_served:
  "\<exists>w. served run_service (run_world served_source) w \<and> map rqURL (awSent w) = [''https://api.example.com/pets'']"
proof -
  from run_first obtain r1 where first: "CallTool run_service ''policy.request_confirmation'' run_ask (run_world served_source) = (r1, asked_world)" ..
  from run_second obtain r2 where second: "CallTool run_service ''policy.confirm'' run_answer asked_world = (r2, answered_world)" ..
  from run_third obtain r3 w where third: "CallTool run_service ''swagger.http.execute'' run_write answered_world = (r3, w)"
    "awSent w = csSent (snd (snd run_sent))" by blast
  have "served run_service (run_world served_source) w"
    using served_tool [OF served_tool [OF served_tool [OF served_first first] second] third(1)] .
  with third(2) run_sends show ?thesis by auto
qed

section \<open>The guarantees on this run\<close>

lemma server_keeps_to_configuration_witness:
  "\<exists>w e. served run_service (run_world served_source) w \<and> map rqURL (awSent w) = [''https://api.example.com/pets'']
     \<and> awHistory w = [e] \<and> lists_pass (policy_settings run_config) (enOperationID e) (enMethod e) \<and> writing_mode (policy_settings run_config)"
proof -
  from run_served obtain w where w: "served run_service (run_world served_source) w"
    "map rqURL (awSent w) = [''https://api.example.com/pets'']" by (elim exE conjE)
  from w(2) obtain q where q: "awSent w = [q]" by auto
  have mode: "\<not> reading_mode (policy_settings run_config)" by code_simp
  from server_keeps_to_configuration [OF run_starts w(1)] q mode obtain e where e: "awHistory w = [e]"
    "lists_pass (policy_settings run_config) (enOperationID e) (enMethod e)" "writing_mode (policy_settings run_config)"
    by (auto simp: list_all2_Cons1)
  show ?thesis by (intro exI conjI) (rule w e)+
qed



end
