(* ===== verification/Spec2Isabelle.thy ===== *)
theory Spec2Isabelle
  imports GoPrelude GoTime GoAny Policy Confirmation ConfirmationRuns HttpClient HttpCalls GoUrl GoNetip
    NetGuard TtlCache GoHttp UpstreamAuth AuthClaims AuthIntrospection AuthJwt Pointer SwaggerModel
    SwaggerResolver SwaggerStore SwaggerLoader SwaggerParser ToolValues ToolSchema ToolBody
    ToolRequest Correlation AuditLog ToolExecute ToolPolicy ToolCalls ToolSearch GoFloat ToolGenerate
    PublishedSchemas Gateway GoDuration Config Cli GoJson Resources Service McpServer HttpHandlers Metrics
    Wiring ServerRun
begin

text \<open>
  A model of the MCP gateway for Swagger and OpenAPI services: a server that offers the operations
  of an API document to a language model as tools, checks and records each call, and lets a
  human confirm the calls that write. The theories translate the Go code of the repository
  definition by definition; names of definitions are the names of the code where Isabelle allows it.

  \<^bold>\<open>The program and its parts\<close>

  \<open>cmd/mcp-server/main.go\<close> reads the configuration, builds the parts and starts one of two
  transports. A transport (\<open>internal/server\<close>) registers tools, prompts and resources of the use-case
  service (\<open>internal/usecase\<close>) with the MCP SDK; the streamable one puts a chain of HTTP handlers in
  front, with token checks (\<open>internal/auth\<close>). The tools (\<open>internal/tool\<close>) find an operation in the
  cached specification (\<open>internal/swagger\<close>), prepare a request, and in the execute tool ask the
  guard (\<open>internal/netguard\<close>), the policy (\<open>internal/policy\<close>), the store of confirmations
  (\<open>internal/confirmation\<close>), the credentials (\<open>internal/upstreamauth\<close>) and the HTTP client
  (\<open>internal/httpclient\<close>), and write an audit entry (\<open>internal/audit\<close>) and metrics
  (\<open>internal/metrics\<close>).

  \<^bold>\<open>The standard library\<close>

  \<^item> GoPrelude: package \<open>strings\<close>, Go maps as association lists, results, and the two collections
    \<open>go_string\<close> and \<open>go_map\<close> every component uses. GoTime: instants, an instance of \<open>linorder\<close>.
  \<^item> GoAny: dynamic values and their conversions. GoFloat: doubles and their decimal texts.
    GoDuration: durations and booleans read from text. GoJson: JSON printed by \<open>encoding/json\<close>.
  \<^item> GoUrl: parsing, escaping and printing of URLs. GoNetip: IP addresses as words of 32 and 128
    bits. GoHttp: messages and header names.

  \<^bold>\<open>What guards a call\<close>

  \<^item> Policy (\<open>policy.go\<close>): \<open>NewEvaluator\<close> and the six rules of \<open>Evaluate\<close>. The locale
    \<open>policy_evaluator\<close> holds what the gateway asks of a policy; \<open>policy_outcome\<close> is its
    declarative reading.
  \<^item> Confirmation (\<open>memory_store.go\<close>): the store as a map from identifiers to records, with the
    contract \<open>confirmation_store\<close>; ConfirmationRuns: its histories as a step relation. No record
    is consumed twice, and each consumption follows an approval of a matching record.
  \<^item> NetGuard (\<open>guard.go\<close>): the exact set of URLs let through, and the blocked IPv4 ranges.
  \<^item> HttpClient and HttpCalls (\<open>client.go\<close>): rate windows and slots, and \<open>Do\<close> as a step relation
    on goroutines; tokens of semaphores are accounted for in every interleaving.
  \<^item> TtlCache: the contract of the caches, a locale, interpreted for upstream tokens (UpstreamAuth),
    introspection results (AuthIntrospection) and key sets (AuthJwt).
  \<^item> AuthClaims, AuthIntrospection, AuthJwt (\<open>middleware.go\<close>, \<open>introspection.go\<close>, \<open>jwt_jwks.go\<close>):
    what an accepted token had to satisfy, and the middleware.
  \<^item> AuditLog (\<open>logger.go\<close>) and Correlation (\<open>internal/correlation\<close>): what is written of a call.

  \<^bold>\<open>The specification\<close>

  \<^item> SwaggerModel: the records of \<open>contract.go\<close> and the part of a \<open>kin-openapi\<close> document the code
    reads, with schemas in a heap by address. SwaggerLoader (\<open>loader.go\<close>), SwaggerParser
    (\<open>parser.go\<close>), SwaggerResolver (\<open>resolver.go\<close>), Pointer and SwaggerStore (\<open>store.go\<close>): from
    the bytes of a source to the indexed snapshot and its queries; the locale \<open>swagger_store\<close> is
    interpreted on the cached store and on the one without a source.

  \<^bold>\<open>The tools\<close>

  \<^item> ToolValues, ToolSchema, ToolBody, ToolRequest: \<open>swagger_http_common.go\<close>, that is inputs, schema
    validation, bodies, and building and validating a request.
  \<^item> ToolCalls, ToolPolicy, ToolSearch, ToolGenerate, ToolExecute: one or two tools each.
    ToolExecute threads the audit entry, the confirmations, the requests sent and the metrics
    through the stages of a call; \<open>sent_request_cleared\<close> and \<open>call_outcome\<close> describe every path.
  \<^item> PublishedSchemas (\<open>schemas.go\<close>): the schemas tools publish, and that results keep to them.
  \<^item> Gateway: the three tools around the confirmation store, called in any order, refine the
    histories of ConfirmationRuns.

  \<^bold>\<open>The server\<close>

  \<^item> Config (\<open>config/\<close>) and Cli (\<open>cli.go\<close>): the environment, defaults, checks and assignments.
  \<^item> Resources (\<open>internal/resouce\<close>): four stores behind the locale \<open>resource_source\<close>: what is
    listed can be read and answers with its address. Service: use cases, registry, prompts, with
    the locale \<open>tool_registry\<close>.
  \<^item> McpServer (\<open>internal/server\<close>): what both servers register with the SDK, the handlers of tools,
    prompts and resources, and the life cycle. HttpHandlers: the routes and who reaches them.
    Metrics: what each event of a call does to the registry.
  \<^item> Wiring (\<open>main.go\<close>): every \<open>build\<close> function, the checks at start-up and the eleven tools
    over one state of the world. Its theorems state the guarantees of the parts for the server that
    \<open>main_start\<close> returns, under every sequence of calls; ServerRun carries out one such run.

  \<^bold>\<open>Arguments and hypotheses\<close>

  Code outside the repository is an argument: the JSON text codec (\<open>codec\<close>), the YAML decoder
  and \<open>kin-openapi\<close> (\<open>Decoders\<close>, \<open>OpenAPILib\<close>), the JWT parser and the curve check, DNS
  (\<open>resolver\<close>), the file system and the network, the clock and random numbers. Wiring collects
  them in the record \<open>surroundings\<close>, by the number of the call or query they serve. Where a
  theorem needs a law of one of them it is a named hypothesis, as \<open>jwt_sound\<close> (the parser accepts a
  token only under a signature the key function's key verifies) and \<open>shortening\<close> (texts inside a
  JSON text are shorter than it), and the witness instantiates it. The guarantees of the confirmation store are stated
  for histories whose issued identifiers are distinct.

  \<^bold>\<open>Bounds\<close>

  \<^item> \<open>redirect_fuel\<close>, one more than the redirects allowed: \<open>do_get_more_fuel\<close> shows that more
    changes nothing, since the policy of the loader has stopped by then.
  \<^item> The depth of \<open>redactNode\<close>, for texts inside JSON texts: \<open>redactNode_enough\<close> shows that the
    length of the longest text is enough. It is \<open>suDepth\<close> in Wiring.
  \<^item> The 34 rounds of \<open>generate\<close>: the code stops at depth 32, and \<open>generate_unfold\<close> derives its
    recursion without a bound. The eight rounds of \<open>v6_loop\<close> are those of the source.
  \<^item> Waiting on a rate limiter reads a script of clock values, and None is a script that ended
    before the wait did. All other recursions end by a measure.

  \<^bold>\<open>Not modelled\<close>

  The SDK (framing, sessions, dispatch of messages to handlers), the exposition format of
  Prometheus and its panics on labels that are not UTF-8, what \<open>net/http\<close> does with a
  request it is given and how its mux answers paths without a route, signals and the exit of the
  process, the usage text of the command line and log lines other than the audit log. Deadlines
  and cancellation are outcomes of the blocking operations (steps of their own in HttpCalls, answers
  of the network elsewhere), not clocks that run. Interleavings of threads are modelled where
  the code can be interrupted between two effects on shared state (HttpCalls, Metrics, the caches);
  operations under one mutex are one step. A Go map is a list in the order the runtime may pick;
  a theorem about every list is one about every order. Case mapping is that of ASCII. Templates with more than plain fields go
  to an argument.
\<close>

end
